(* ===== verification/Prelude.thy ===== *)
theory Prelude
  imports Main "HOL-Library.AList" "HOL-Library.Sublist"
begin

section \<open>Shared vocabulary: errors, results, string maps, named slots\<close>

text \<open>
  What every component of the development uses: Go's \<open>error\<close> values, the result of
  a fallible function, the string-keyed maps of Kubernetes metadata, and the generic
  lemmas on lists and maps that the component proofs share.

  A Go \<open>(T, error)\<close> pair is a \<open>go_error + 'a\<close>: \<open>Inl\<close> is a return with a non-nil
  error, \<open>Inr\<close> a return with a nil error.  Code that calls the outside (the Kubernetes
  API, the Azure SDKs) takes the call as a parameter which maps a state of the outside
  world to a result and the next state.
\<close>

named_theorems go_simps "unfolding rules of the small definitions every proof may open"
named_theorems frame_simps "what an operation leaves unchanged"
named_theorems idem_simps "operations that, applied again, change nothing"

subsection \<open>Errors\<close>

text \<open>
  The error values that the program distinguishes.  \<open>GoError\<close> is \<open>errors.New\<close> and
  \<open>errors.Errorf\<close>, \<open>WrapError\<close> is \<open>errors.Wrap\<close> (and \<open>fmt.Errorf\<close> with
  \<open>%w\<close> at the end), \<open>NumError\<close> is what \<open>strconv\<close> returns,
  \<open>GraphError\<close> is the type of \<open>pkg/cloud/errors.go\<close>, \<open>GoPanic\<close> is a call that
  panics (the nil dereference of a client that was never obtained); the others
  are the error types of the libraries which the program tests for.
\<close>

datatype num_err = ErrSyntax | ErrRange

datatype go_error =
    GoError string
  | WrapError string go_error
  | NumError string num_err
  | GraphError (graphErrorCode: string) (graphErrorMessage: string)
  | ODataError string string
  | ResponseError int string
  | StatusError string string
  | GoPanic string

type_synonym 'a result = "go_error + 'a"

text \<open>
  Calls of the outside world: the state of the outside before the call, and the result
  with the state after it.
\<close>

type_synonym ('w, 'a) io = "'w \<Rightarrow> 'a result \<times> 'w"

subsection \<open>String maps\<close>

text \<open>
  A Go \<open>map[string]string\<close> is an association list with distinct keys, so that its
  size and its lookups compute.  Reading an absent key gives the empty string.
\<close>

type_synonym strmap = "(string \<times> string) list"

definition smap_has :: "strmap \<Rightarrow> string \<Rightarrow> bool" where
  "smap_has m k = (map_of m k \<noteq> None)"

definition smap_get :: "strmap \<Rightarrow> string \<Rightarrow> string" where
  "smap_get m k = (case map_of m k of None \<Rightarrow> [] | Some v \<Rightarrow> v)"

definition smap_set :: "strmap \<Rightarrow> string \<Rightarrow> string \<Rightarrow> strmap" where
  "smap_set m k v = AList.update k v m"

lemma smap_get_nil [simp]: "smap_get [] k = []"
  by (simp add: smap_get_def)

lemma smap_has_nil [simp]: "\<not> smap_has [] k"
  by (simp add: smap_has_def)

lemma smap_get_set [simp]:
  "smap_get (smap_set m k v) k' = (if k' = k then v else smap_get m k')"
  by (simp add: smap_get_def smap_set_def update_conv')

lemma smap_has_set [simp]: "smap_has (smap_set m k v) k' = (k' = k \<or> smap_has m k')"
  by (simp add: smap_has_def smap_set_def update_conv')

lemma smap_set_distinct [simp]:
  "distinct (map fst m) \<Longrightarrow> distinct (map fst (smap_set m k v))"
  by (simp add: smap_set_def distinct_update)

lemma smap_get_nonempty_has: "smap_get m k \<noteq> [] \<Longrightarrow> smap_has m k"
  by (auto simp: smap_get_def smap_has_def split: option.splits)

subsection \<open>Replace the first element with a given key, or append\<close>

text \<open>
  The loop that \<open>addProjectedVolumeMount\<close> and \<open>addProjectedVolume\<close> both contain
  keeps a list in which one slot is looked up by name.  The interface below is what
  their callers rely on: \<open>upd\<close> stores an element under its key, in place when the key
  occurs, at the end otherwise.
\<close>

locale keyed_slot =
  fixes key :: "'a \<Rightarrow> string"
    and upd :: "'a \<Rightarrow> 'a list \<Rightarrow> 'a list"
  assumes upd_absent: "key x \<notin> key ` set xs \<Longrightarrow> upd x xs = xs @ [x]"
    and upd_present:
      "key y = key x \<Longrightarrow> key x \<notin> key ` set xs \<Longrightarrow> upd x (xs @ y # ys) = xs @ x # ys"
begin

lemma upd_split:
  obtains (absent) "key x \<notin> key ` set xs" "upd x xs = xs @ [x]"
    | (present) as y bs where "xs = as @ y # bs" "key y = key x"
        "key x \<notin> key ` set as" "upd x xs = as @ x # bs"
proof (cases "key x \<in> key ` set xs")
  case False
  then show ?thesis using absent upd_absent by blast
next
  case True
  then have "\<exists>y \<in> set xs. key y = key x" by auto
  then obtain as y bs where "xs = as @ y # bs" "key y = key x" "\<forall>z \<in> set as. key z \<noteq> key x"
    using split_list_first_prop [of xs "\<lambda>y. key y = key x"] by blast
  moreover from this have "key x \<notin> key ` set as" by force
  ultimately show ?thesis
    using present [of as y bs] upd_present [of y x as bs] by blast
qed

lemma upd_idem: "upd x (upd x xs) = upd x xs"
  by (cases rule: upd_split [where x = x and xs = xs])
    (auto simp: upd_present)

lemma upd_member: "x \<in> set (upd x xs)"
  by (cases rule: upd_split [where x = x and xs = xs]) auto

lemma upd_keeps_others: "key z \<noteq> key x \<Longrightarrow> z \<in> set (upd x xs) \<longleftrightarrow> z \<in> set xs"
  by (cases rule: upd_split [where x = x and xs = xs]) auto

lemma upd_filter_others:
  "filter (\<lambda>z. key z \<noteq> key x) (upd x xs) = filter (\<lambda>z. key z \<noteq> key x) xs"
  by (cases rule: upd_split [where x = x and xs = xs]) auto

lemma upd_find: "find (\<lambda>z. key z = key x) (upd x xs) = Some x"
proof -
  have skip: "find (\<lambda>z. key z = key x) (as @ x # bs) = Some x"
    if "key x \<notin> key ` set as" for as bs
    using that by (induction as) auto
  show ?thesis
    by (cases rule: upd_split [where x = x and xs = xs]) (auto simp: skip)
qed

lemma upd_keys: "map key (upd x xs) = (if key x \<in> key ` set xs then map key xs else map key xs @ [key x])"
  by (cases rule: upd_split [where x = x and xs = xs]) auto

lemma upd_length: "length xs \<le> length (upd x xs) \<and> length (upd x xs) \<le> Suc (length xs)"
  by (cases rule: upd_split [where x = x and xs = xs]) auto

end

subsection \<open>Lists\<close>

lemma list_map_idem: "(\<And>x. x \<in> set xs \<Longrightarrow> f (f x) = f x) \<Longrightarrow> map f (map f xs) = map f xs"
  by simp

lemma ex_in_map: "(\<exists>y \<in> set (map f xs). P y) \<longleftrightarrow> (\<exists>x \<in> set xs. P (f x))"
  by simp

lemma find_Some_member: "find P xs = Some x \<Longrightarrow> x \<in> set xs \<and> P x"
  by (auto simp: find_Some_iff)

end
