(* ===== verification/Go_Strings.thy ===== *)
theory Go_Strings
  imports Prelude
begin

section \<open>The parts of Go's strings, strconv and path/filepath packages that the program uses\<close>

text \<open>
  A Go string is a sequence of bytes, as an Isabelle \<open>string\<close> is.  The functions
  below are the library functions the program calls, on every input: white space and case
  folding include the multi-byte encodings that Go treats as such.
\<close>

subsection \<open>strings\<close>

fun strContains :: "string \<Rightarrow> string \<Rightarrow> bool" where
  "strContains [] sub = (sub = [])"
| "strContains (c # s) sub = (prefix sub (c # s) \<or> strContains s sub)"

lemma strContains_iff: "strContains s sub \<longleftrightarrow> sublist sub s"
  by (induction s) (auto simp: sublist_Cons_right)

text \<open>\<open>strings.Split\<close> with a one-byte separator.\<close>

fun strSplit :: "char \<Rightarrow> string \<Rightarrow> string list" where
  "strSplit sep [] = [[]]"
| "strSplit sep (c # s) =
     (if c = sep then [] # strSplit sep s
      else case strSplit sep s of [] \<Rightarrow> [[c]] | w # ws \<Rightarrow> (c # w) # ws)"

fun strJoin :: "string \<Rightarrow> string list \<Rightarrow> string" where
  "strJoin sep [] = []"
| "strJoin sep [w] = w"
| "strJoin sep (w # ws) = w @ sep @ strJoin sep ws"

lemma strSplit_nonempty [simp]: "strSplit sep s \<noteq> []"
  by (induction s) (auto split: list.splits)

lemma strJoin_split: "strJoin [sep] (strSplit sep s) = s"
proof (induction s)
  case Nil
  then show ?case by simp
next
  case (Cons c s)
  obtain w ws where w: "strSplit sep s = w # ws"
    by (meson list.exhaust strSplit_nonempty)
  with Cons show ?case by (cases ws) auto
qed

lemma strSplit_no_sep: "w \<in> set (strSplit sep s) \<Longrightarrow> sep \<notin> set w"
proof (induction s arbitrary: w)
  case Nil
  then show ?case by simp
next
  case (Cons c s)
  obtain v vs where "strSplit sep s = v # vs"
    by (meson list.exhaust strSplit_nonempty)
  with Cons show ?case by (auto split: if_splits)
qed

lemma strSplit_word: "sep \<notin> set w \<Longrightarrow> strSplit sep w = [w]"
  by (induction w) auto

lemma strSplit_append: "sep \<notin> set w \<Longrightarrow> strSplit sep (w @ sep # s) = w # strSplit sep s"
  by (induction w) auto

lemma strSplit_join:
  "ws \<noteq> [] \<Longrightarrow> \<forall>w \<in> set ws. sep \<notin> set w \<Longrightarrow> strSplit sep (strJoin [sep] ws) = ws"
  by (induction "[sep]" ws rule: strJoin.induct) (auto simp: strSplit_word strSplit_append)

text \<open>
  \<open>strings.TrimSpace\<close>: the encodings of the code points with Unicode's White\_Space
  property, the ASCII ones first.
\<close>

definition wsRunes :: "string list" where
  "wsRunes =
     [[CHR 0x09], [CHR 0x0A], [CHR 0x0B], [CHR 0x0C], [CHR 0x0D], [CHR 0x20],
      [CHR 0xC2, CHR 0x85], [CHR 0xC2, CHR 0xA0], [CHR 0xE1, CHR 0x9A, CHR 0x80],
      [CHR 0xE2, CHR 0x80, CHR 0x80], [CHR 0xE2, CHR 0x80, CHR 0x81],
      [CHR 0xE2, CHR 0x80, CHR 0x82], [CHR 0xE2, CHR 0x80, CHR 0x83],
      [CHR 0xE2, CHR 0x80, CHR 0x84], [CHR 0xE2, CHR 0x80, CHR 0x85],
      [CHR 0xE2, CHR 0x80, CHR 0x86], [CHR 0xE2, CHR 0x80, CHR 0x87],
      [CHR 0xE2, CHR 0x80, CHR 0x88], [CHR 0xE2, CHR 0x80, CHR 0x89],
      [CHR 0xE2, CHR 0x80, CHR 0x8A], [CHR 0xE2, CHR 0x80, CHR 0xA8],
      [CHR 0xE2, CHR 0x80, CHR 0xA9], [CHR 0xE2, CHR 0x80, CHR 0xAF],
      [CHR 0xE2, CHR 0x81, CHR 0x9F], [CHR 0xE3, CHR 0x80, CHR 0x80]]"

lemma wsRunes_nonempty: "r \<in> set wsRunes \<Longrightarrow> r \<noteq> []"
  by (auto simp: wsRunes_def)

function trimRunes :: "string list \<Rightarrow> string \<Rightarrow> string" where
  "trimRunes rs s =
     (case find (\<lambda>r. r \<noteq> [] \<and> prefix r s) rs of
        None \<Rightarrow> s
      | Some r \<Rightarrow> trimRunes rs (drop (length r) s))"
  by pat_completeness auto
termination
proof (relation "measure (\<lambda>(rs, s). length s)")
  show "wf (measure (\<lambda>(rs :: string list, s :: string). length s))" by simp
next
  fix rs :: "string list" and s r :: string
  assume "find (\<lambda>r. r \<noteq> [] \<and> prefix r s) rs = Some r"
  then have "r \<noteq> [] \<and> prefix r s" using find_Some_member by fastforce
  then show "((rs, drop (length r) s), (rs, s)) \<in> measure (\<lambda>(rs, s). length s)"
    by (auto simp: prefix_def)
qed

declare trimRunes.simps [simp del]

definition strTrimSpace :: "string \<Rightarrow> string" where
  "strTrimSpace s = rev (trimRunes (map rev wsRunes) (rev (trimRunes wsRunes s)))"

text \<open>A string that neither starts nor ends with a white-space rune is left alone.\<close>

lemma trimRunes_id:
  "\<forall>r \<in> set rs. r = [] \<or> \<not> prefix r s \<Longrightarrow> trimRunes rs s = s"
  by (subst trimRunes.simps) (auto split: option.splits dest: find_Some_member)

lemma strTrimSpace_id:
  "\<forall>r \<in> set wsRunes. \<not> prefix r s \<and> \<not> suffix r s \<Longrightarrow> strTrimSpace s = s"
  by (auto simp: strTrimSpace_def trimRunes_id suffix_to_prefix)

text \<open>
  \<open>strings.EqualFold\<close> against a string of ASCII bytes: simple case folding maps, beside
  the letters, the Kelvin sign to k and the long s to s.
\<close>

definition asciiLower :: "char \<Rightarrow> char" where
  "asciiLower c = (if 65 \<le> (of_char c :: nat) \<and> (of_char c :: nat) \<le> 90
                   then char_of ((of_char c :: nat) + 32) else c)"

fun foldNorm :: "string \<Rightarrow> string" where
  "foldNorm [] = []"
| "foldNorm [a] = [asciiLower a]"
| "foldNorm [a, b] =
     (if a = CHR 0xC5 \<and> b = CHR 0xBF then ''s'' else asciiLower a # foldNorm [b])"
| "foldNorm (a # b # c # s) =
     (if a = CHR 0xC5 \<and> b = CHR 0xBF then CHR ''s'' # foldNorm (c # s)
      else if a = CHR 0xE2 \<and> b = CHR 0x84 \<and> c = CHR 0xAA then CHR ''k'' # foldNorm s
      else asciiLower a # foldNorm (b # c # s))"

definition strEqualFold :: "string \<Rightarrow> string \<Rightarrow> bool" where
  "strEqualFold s t = (foldNorm s = foldNorm t)"

lemma strEqualFold_refl [simp]: "strEqualFold s s"
  by (simp add: strEqualFold_def)

text \<open>
  \<open>strings.ToLower\<close> on ASCII bytes; the bytes of longer encodings are kept.  Its results
  only reach \<open>validation.IsQualifiedName\<close>, which accepts ASCII names only, and the
  comparison with an ASCII name.
\<close>

definition strToLower :: "string \<Rightarrow> string" where
  "strToLower s = map asciiLower s"

subsection \<open>strconv\<close>

definition digitChar :: "nat \<Rightarrow> char" where
  "digitChar d = char_of (48 + d)"

definition digitVal :: "char \<Rightarrow> nat option" where
  "digitVal c = (if 48 \<le> (of_char c :: nat) \<and> (of_char c :: nat) \<le> 57
                 then Some (of_char c - 48) else None)"

fun showNat :: "nat \<Rightarrow> string" where
  "showNat n = (if n < 10 then [digitChar n] else showNat (n div 10) @ [digitChar (n mod 10)])"

declare showNat.simps [simp del]

text \<open>\<open>strconv.FormatInt(i, 10)\<close>, and the verb \<open>%d\<close>.\<close>

definition formatInt :: "int \<Rightarrow> string" where
  "formatInt i = (if i < 0 then CHR ''-'' # showNat (nat (- i)) else showNat (nat i))"

text \<open>The verb \<open>%q\<close>, for a string without characters that Go would escape.\<close>

definition quoted :: "string \<Rightarrow> string" where
  "quoted s = [CHR 0x22] @ s @ [CHR 0x22]"

text \<open>
  \<open>strconv.ParseUint\<close> in base 10: the digits are read from the left and the range is
  checked after each one, so a range error may be found before a later syntax error.
\<close>

fun parseDigits :: "nat \<Rightarrow> string \<Rightarrow> nat \<Rightarrow> num_err + nat" where
  "parseDigits maxVal [] n = Inr n"
| "parseDigits maxVal (c # cs) n =
     (case digitVal c of
        None \<Rightarrow> Inl ErrSyntax
      | Some d \<Rightarrow> if maxVal < 10 * n + d then Inl ErrRange
                  else parseDigits maxVal cs (10 * n + d))"

definition parseUint :: "string \<Rightarrow> nat \<Rightarrow> num_err + nat" where
  "parseUint s bitSize = (if s = [] then Inl ErrSyntax else parseDigits (2 ^ bitSize - 1) s 0)"

definition stripSign :: "string \<Rightarrow> bool \<times> string" where
  "stripSign s = (case s of
     [] \<Rightarrow> (False, [])
   | c # cs \<Rightarrow> if c = CHR ''+'' then (False, cs) else if c = CHR ''-'' then (True, cs) else (False, s))"

text \<open>\<open>strconv.ParseInt(s, 10, bitSize)\<close>.\<close>

definition parseInt :: "string \<Rightarrow> nat \<Rightarrow> int result" where
  "parseInt s bitSize =
     (let (neg, t) = stripSign s; cutoff = 2 ^ (bitSize - 1) in
      case parseUint t bitSize of
        Inl e \<Rightarrow> Inl (NumError s e)
      | Inr un \<Rightarrow>
          if \<not> neg \<and> cutoff \<le> un then Inl (NumError s ErrRange)
          else if neg \<and> cutoff < un then Inl (NumError s ErrRange)
          else Inr (if neg then - int un else int un))"

subsection \<open>Printing and parsing agree\<close>

lemma digitVal_digitChar: "d < 10 \<Longrightarrow> digitVal (digitChar d) = Some d"
  by (simp add: digitVal_def digitChar_def)

lemma digitVal_bound: "digitVal c = Some d \<Longrightarrow> d < 10"
  by (auto simp: digitVal_def split: if_splits)

lemma showNat_small: "n < 10 \<Longrightarrow> showNat n = [digitChar n]"
  by (simp add: showNat.simps)

lemma showNat_step: "10 \<le> n \<Longrightarrow> showNat n = showNat (n div 10) @ [digitChar (n mod 10)]"
  by (simp add: showNat.simps [of n])

lemma showNat_nonempty [simp]: "showNat n \<noteq> []"
  by (subst showNat.simps) simp

lemma showNat_digits: "c \<in> set (showNat n) \<Longrightarrow> \<exists>d < 10. c = digitChar d"
proof (induction n arbitrary: c rule: showNat.induct)
  case (1 n)
  show ?case
  proof (cases "n < 10")
    case True
    with 1 show ?thesis by (auto simp: showNat_small)
  next
    case False
    with 1 show ?thesis
      by (auto simp: showNat_step intro: exI [of _ "n mod 10"])
  qed
qed

lemma digitChar_no_sign: "d < 10 \<Longrightarrow> digitChar d \<noteq> CHR ''+'' \<and> digitChar d \<noteq> CHR ''-''"
  using digitVal_digitChar [of d] by (auto simp: digitVal_def)

lemma parseDigits_append:
  "parseDigits maxVal (xs @ ys) k =
     (case parseDigits maxVal xs k of Inl e \<Rightarrow> Inl e | Inr m \<Rightarrow> parseDigits maxVal ys m)"
  by (induction maxVal xs k rule: parseDigits.induct) (auto split: option.splits)

lemma parseDigits_showNat: "n \<le> maxVal \<Longrightarrow> parseDigits maxVal (showNat n) 0 = Inr n"
proof (induction n rule: showNat.induct)
  case (1 n)
  show ?case
  proof (cases "n < 10")
    case True
    with 1 show ?thesis by (simp add: showNat_small digitVal_digitChar)
  next
    case False
    with 1 have "parseDigits maxVal (showNat (n div 10)) 0 = Inr (n div 10)" by simp
    with False 1 show ?thesis
      by (simp add: showNat_step parseDigits_append digitVal_digitChar)
  qed
qed

lemma parseUint_showNat: "n < 2 ^ bits \<Longrightarrow> parseUint (showNat n) bits = Inr n"
  by (simp add: parseUint_def parseDigits_showNat)

lemma stripSign_showNat: "stripSign (showNat n) = (False, showNat n)"
proof -
  obtain c cs where c: "showNat n = c # cs" by (meson list.exhaust showNat_nonempty)
  then obtain d where "d < 10" "c = digitChar d" using showNat_digits [of c n] by auto
  with c show ?thesis by (auto simp: stripSign_def dest: digitChar_no_sign)
qed

lemma parseInt_formatInt:
  assumes "0 < bits" and "- (2 ^ (bits - 1)) \<le> i" and "i < 2 ^ (bits - 1)"
  shows "parseInt (formatInt i) bits = Inr i"
proof -
  have two: "(2 :: nat) ^ (bits - 1) < 2 ^ bits" using assms(1) by (simp add: power_strict_increasing)
  have lt: "nat i < 2 ^ (bits - 1)" if "0 \<le> i"
    using that assms(3) by (simp add: nat_less_iff)
  have le: "nat (- i) \<le> 2 ^ (bits - 1)" if "i < 0"
    using that assms(2) by (simp add: nat_le_iff)
  show ?thesis
  proof (cases "i < 0")
    case True
    then have "parseUint (showNat (nat (- i))) bits = Inr (nat (- i))"
      using le two by (intro parseUint_showNat) linarith
    then show ?thesis
      using True le by (simp add: parseInt_def formatInt_def stripSign_def Let_def not_less)
  next
    case False
    then have "parseUint (showNat (nat i)) bits = Inr (nat i)"
      using lt two by (intro parseUint_showNat) linarith
    then show ?thesis
      using False lt by (simp add: parseInt_def formatInt_def stripSign_showNat Let_def not_le)
  qed
qed

lemma parseInt_range:
  assumes "parseInt s bits = Inr i"
  shows "- (2 ^ (bits - 1)) \<le> i \<and> i < 2 ^ (bits - 1)"
proof -
  obtain neg t un where st: "stripSign s = (neg, t)" and un: "parseUint t bits = Inr un"
    and b: "neg \<longrightarrow> un \<le> 2 ^ (bits - 1)" "\<not> neg \<longrightarrow> un < 2 ^ (bits - 1)"
    and i: "i = (if neg then - int un else int un)"
    using assms
    by (auto simp: parseInt_def Let_def not_le not_less split: prod.splits sum.splits if_splits)
  have "neg \<longrightarrow> int un \<le> int (2 ^ (bits - 1))" and "\<not> neg \<longrightarrow> int un < int (2 ^ (bits - 1))"
    using b by (simp_all only: of_nat_le_iff of_nat_less_iff)
  then have "neg \<longrightarrow> int un \<le> 2 ^ (bits - 1)" and "\<not> neg \<longrightarrow> int un < 2 ^ (bits - 1)"
    by simp_all
  moreover have "(0 :: int) < 2 ^ (bits - 1)" and "0 \<le> int un" by simp_all
  ultimately show ?thesis using i by (cases neg; simp only: if_True if_False; linarith)
qed

subsection \<open>path/filepath on Unix\<close>

text \<open>
  \<open>filepath.Clean\<close>: the elements of the path are pushed on a stack, \<open>.\<close> and empty
  elements are dropped and \<open>..\<close> pops; the stack is kept reversed.
\<close>

fun cleanStep :: "bool \<Rightarrow> string list \<Rightarrow> string list \<Rightarrow> string list" where
  "cleanStep rooted [] st = rev st"
| "cleanStep rooted (w # ws) st =
     (if w = [] \<or> w = ''.'' then cleanStep rooted ws st
      else if w = ''..'' then
        (case st of
           [] \<Rightarrow> if rooted then cleanStep rooted ws [] else cleanStep rooted ws [''..'']
         | t # ts \<Rightarrow> if t = ''..'' then cleanStep rooted ws (''..'' # st) else cleanStep rooted ws ts)
      else cleanStep rooted ws (w # st))"

definition filepathClean :: "string \<Rightarrow> string" where
  "filepathClean p =
     (let rooted = prefix ''/'' p;
          ws = cleanStep rooted (strSplit (CHR ''/'') p) [];
          q = (if rooted then ''/'' else []) @ strJoin ''/'' ws
      in if q = [] then ''.'' else q)"

text \<open>\<open>filepath.Join\<close>: the leading empty elements are dropped, the rest is joined and cleaned.\<close>

definition filepathJoin :: "string list \<Rightarrow> string" where
  "filepathJoin elems =
     (case dropWhile (\<lambda>e. e = []) elems of
        [] \<Rightarrow> []
      | es \<Rightarrow> filepathClean (strJoin ''/'' es))"

end
