(* ===== verification/Go_Crypto.thy ===== *)
theory Go_Crypto
  imports Go_Strings "HOL-Library.Word"
begin

section \<open>crypto/sha256, encoding/base64 and the verb \<open>%x\<close>\<close>

text \<open>
  The program derives names from SHA-256 digests: the name of the projected volume, the
  hash of an issuer URL, the name of a federated credential and the key id of a JSON web
  key.  SHA-256 is written out here after FIPS 180-4, so that statements about lengths
  and alphabets of these names need no assumption.
\<close>

unbundle bit_operations_syntax

subsection \<open>SHA-256\<close>

type_synonym u32 = "32 word"

text \<open>
  The constants are the first 32 bits of the fractional parts of roots of the first primes: of
  the cube roots of 64 primes for the rounds, of the square roots of 8 primes for the initial
  state.  \<open>iroot k n\<close> is the integer part of the \<open>k\<close>-th root, bit by bit.
\<close>

definition iroot :: "nat \<Rightarrow> nat \<Rightarrow> nat" where
  "iroot k n = foldl (\<lambda>x b. if (x + 2 ^ b) ^ k \<le> n then x + 2 ^ b else x) 0 (rev [0..<40])"

definition rootFraction :: "nat \<Rightarrow> nat \<Rightarrow> u32" where
  "rootFraction k p = word_of_nat (iroot k (p * 2 ^ (32 * k)))"

definition firstPrimes :: "nat list" where
  "firstPrimes =
   [2, 3, 5, 7, 11, 13, 17, 19, 23, 29, 31, 37, 41, 43, 47, 53, 59, 61, 67, 71, 73, 79,
    83, 89, 97, 101, 103, 107, 109, 113, 127, 131, 137, 139, 149, 151, 157, 163, 167, 173, 179, 181, 191, 193,
    197, 199, 211, 223, 227, 229, 233, 239, 241, 251, 257, 263, 269, 271, 277, 281, 283, 293, 307, 311]"

definition sha256K :: "u32 list" where
  "sha256K = map (rootFraction 3) firstPrimes"

definition sha256H0 :: "u32 list" where
  "sha256H0 = map (rootFraction 2) (take 8 firstPrimes)"

definition rotr32 :: "nat \<Rightarrow> u32 \<Rightarrow> u32" where
  "rotr32 n w = drop_bit n w OR push_bit (32 - n) w"

definition smallSigma0 :: "u32 \<Rightarrow> u32" where
  "smallSigma0 x = rotr32 7 x XOR rotr32 18 x XOR drop_bit 3 x"

definition smallSigma1 :: "u32 \<Rightarrow> u32" where
  "smallSigma1 x = rotr32 17 x XOR rotr32 19 x XOR drop_bit 10 x"

definition bigSigma0 :: "u32 \<Rightarrow> u32" where
  "bigSigma0 x = rotr32 2 x XOR rotr32 13 x XOR rotr32 22 x"

definition bigSigma1 :: "u32 \<Rightarrow> u32" where
  "bigSigma1 x = rotr32 6 x XOR rotr32 11 x XOR rotr32 25 x"

definition shaCh :: "u32 \<Rightarrow> u32 \<Rightarrow> u32 \<Rightarrow> u32" where
  "shaCh x y z = (x AND y) XOR (NOT x AND z)"

definition shaMaj :: "u32 \<Rightarrow> u32 \<Rightarrow> u32 \<Rightarrow> u32" where
  "shaMaj x y z = (x AND y) XOR (x AND z) XOR (y AND z)"

text \<open>Bytes and big-endian words.\<close>

definition byteOf :: "nat \<Rightarrow> char" where
  "byteOf n = char_of (n mod 256)"

fun natBytes :: "nat \<Rightarrow> nat \<Rightarrow> string" where
  "natBytes 0 n = []"
| "natBytes (Suc k) n = natBytes k (n div 256) @ [byteOf n]"

fun wordsOfBytes :: "string \<Rightarrow> u32 list" where
  "wordsOfBytes (a # b # c # d # s) =
     word_of_nat (((of_char a * 256 + of_char b) * 256 + of_char c) * 256 + of_char d) # wordsOfBytes s"
| "wordsOfBytes s = []"

definition shaPad :: "string \<Rightarrow> string" where
  "shaPad m =
     (let l = length m in
      m @ [CHR 0x80] @ replicate ((119 - l mod 64) mod 64) (CHR 0x00) @ natBytes 8 (8 * l))"

fun shaSchedule :: "nat \<Rightarrow> u32 list \<Rightarrow> u32 list" where
  "shaSchedule 0 ws = ws"
| "shaSchedule (Suc n) ws =
     (let t = length ws in
      shaSchedule n
        (ws @ [smallSigma1 (ws ! (t - 2)) + ws ! (t - 7) + smallSigma0 (ws ! (t - 15)) + ws ! (t - 16)]))"

fun shaRound :: "u32 list \<Rightarrow> u32 \<times> u32 \<Rightarrow> u32 list" where
  "shaRound [a, b, c, d, e, f, g, h] (k, w) =
     (let t1 = h + bigSigma1 e + shaCh e f g + k + w;
          t2 = bigSigma0 a + shaMaj a b c
      in [t1 + t2, a, b, c, d + t1, e, f, g])"
| "shaRound st kw = st"

definition shaBlock :: "u32 list \<Rightarrow> u32 list \<Rightarrow> u32 list" where
  "shaBlock h block =
     map2 (+) h (foldl shaRound h (zip sha256K (shaSchedule 48 block)))"

fun shaBlocks :: "nat \<Rightarrow> u32 list \<Rightarrow> u32 list \<Rightarrow> u32 list" where
  "shaBlocks 0 h ws = h"
| "shaBlocks (Suc n) h ws = shaBlocks n (shaBlock h (take 16 ws)) (drop 16 ws)"

definition sha256 :: "string \<Rightarrow> string" where
  "sha256 m =
     (let p = shaPad m in
      concat (map (\<lambda>w. natBytes 4 (unat w)) (shaBlocks (length p div 64) sha256H0 (wordsOfBytes p))))"

lemma length_natBytes [simp]: "length (natBytes k n) = k"
  by (induction k arbitrary: n) auto

lemma length_shaRound [simp]: "length (shaRound h kw) = length h"
  by (induction h kw rule: shaRound.induct) (auto simp: Let_def)

lemma length_foldl_shaRound [simp]: "length (foldl shaRound h kws) = length h"
  by (induction kws arbitrary: h) auto

lemma length_shaBlocks [simp]: "length (shaBlocks n h ws) = length h"
  by (induction n arbitrary: h ws) (auto simp: shaBlock_def)

lemma length_concat_const: "(\<And>x. length (f x) = k) \<Longrightarrow> length (concat (map f xs)) = k * length xs"
  by (induction xs) auto

lemma length_sha256 [simp]: "length (sha256 m) = 32"
  by (simp add: sha256_def Let_def length_concat_const [of _ 4] sha256H0_def firstPrimes_def)

text \<open>The padded message is a whole number of 64-byte blocks.\<close>

lemma length_shaPad: "length (shaPad m) mod 64 = 0"
proof -
  define l r where "l = length m" and "r = l mod 64"
  have r: "r < 64" and l: "l = 64 * (l div 64) + r" by (simp_all add: r_def)
  have "(119 - r) mod 64 = (if r \<le> 55 then 55 - r else 119 - r)"
  proof (cases "r \<le> 55")
    case True
    then have e: "119 - r = (55 - r) + 64" by simp
    have "((55 - r) + 64) mod 64 = 55 - r" by simp
    with True show ?thesis by (simp only: e if_True)
  next
    case False
    with r show ?thesis by simp
  qed
  with r have "r + 1 + (119 - r) mod 64 + 8 \<in> {64, 128}" by auto
  then obtain k where "r + 1 + (119 - r) mod 64 + 8 = 64 * k"
    by (metis insertE mult.right_neutral numeral_Bit0 mult_2_right singletonD)
  then have "l + 1 + (119 - r) mod 64 + 8 = 64 * (l div 64 + k)"
    using l by simp
  then have "(l + 1 + (119 - r) mod 64 + 8) mod 64 = 0" by simp
  then show ?thesis by (simp add: shaPad_def Let_def l_def r_def add.commute add.left_commute)
qed

subsection \<open>Hexadecimal\<close>

definition hexDigits :: string where
  "hexDigits = ''0123456789abcdef''"

definition hexByte :: "char \<Rightarrow> string" where
  "hexByte c = [hexDigits ! (of_char c div 16), hexDigits ! (of_char c mod 16)]"

text \<open>\<open>fmt.Sprintf("%x", bytes)\<close>.\<close>

definition hexString :: "string \<Rightarrow> string" where
  "hexString s = concat (map hexByte s)"

lemma length_hexString [simp]: "length (hexString s) = 2 * length s"
  by (simp add: hexString_def hexByte_def length_concat_const [of _ 2])

lemma of_char_less: "(of_char c :: nat) < 256"
  by (metis char_of_mod_256 mod_less_divisor of_char_mod_256 zero_less_numeral)

lemma hexString_chars: "set (hexString s) \<subseteq> set hexDigits"
proof -
  have "hexDigits ! (of_char c div 16) \<in> set hexDigits" for c
  proof (rule nth_mem)
    have "(of_char c :: nat) div 16 < 16" using of_char_less [of c] by linarith
    then show "of_char c div 16 < length hexDigits" by (simp only: hexDigits_def) simp
  qed
  moreover have "hexDigits ! (of_char c mod 16) \<in> set hexDigits" for c
    by (intro nth_mem) (simp add: hexDigits_def)
  ultimately show ?thesis
    unfolding hexString_def hexByte_def by auto
qed

subsection \<open>base64 with the URL alphabet\<close>

definition b64Alphabet :: string where
  "b64Alphabet = ''ABCDEFGHIJKLMNOPQRSTUVWXYZabcdefghijklmnopqrstuvwxyz0123456789-_''"

definition b64Char :: "nat \<Rightarrow> char" where
  "b64Char n = b64Alphabet ! (n mod 64)"

text \<open>\<open>RawURLEncoding\<close> when the flag is off, \<open>URLEncoding\<close> (padded) when it is on.\<close>

fun b64Encode :: "bool \<Rightarrow> string \<Rightarrow> string" where
  "b64Encode pad (a # b # c # s) =
     (let n = (of_char a * 256 + of_char b) * 256 + of_char c :: nat
      in b64Char (n div 262144) # b64Char (n div 4096) # b64Char (n div 64) # b64Char n # b64Encode pad s)"
| "b64Encode pad [a, b] =
     (let n = (of_char a * 256 + of_char b) * 256 :: nat
      in [b64Char (n div 262144), b64Char (n div 4096), b64Char (n div 64)] @ (if pad then ''='' else []))"
| "b64Encode pad [a] =
     (let n = of_char a * 65536 :: nat
      in [b64Char (n div 262144), b64Char (n div 4096)] @ (if pad then ''=='' else []))"
| "b64Encode pad [] = []"

lemma length_b64Encode_pad: "length (b64Encode True s) = 4 * ((length s + 2) div 3)"
proof (induction True s rule: b64Encode.induct)
  case (1 a b c s)
  have "(5 + length s) div 3 = Suc ((2 + length s) div 3)" by linarith
  with 1 show ?case by (simp add: Let_def)
qed (simp_all add: Let_def)

lemma b64Encode_chars: "set (b64Encode pad s) \<subseteq> set b64Alphabet \<union> {CHR ''=''}"
proof -
  have "b64Char n \<in> set b64Alphabet" for n
    unfolding b64Char_def by (rule nth_mem) (simp add: b64Alphabet_def)
  then show ?thesis by (induction pad s rule: b64Encode.induct) (auto simp: Let_def)
qed

end
