(* ===== verification/Kube_Types.thy ===== *)
theory Kube_Types
  imports Go_Strings
begin

section \<open>The Kubernetes objects the program reads and writes\<close>

text \<open>
  The structs of \<open>k8s.io/api\<close> restricted to the fields that some function of the
  program reads or sets.  What remains of a struct is one opaque field (its name ends in
  \<open>_rest\<close>), so that statements can say that it is left alone; \<open>None\<close> is the zero
  value of that remainder.  A pointer field is an \<open>option\<close>.
\<close>

record env_var =
  ev_name :: string
  ev_value :: string
  ev_rest :: "string option"

record volume_mount =
  vm_name :: string
  vm_mountPath :: string
  vm_readOnly :: bool
  vm_rest :: "string option"

record capabilities =
  cap_add :: "string list"
  cap_drop :: "string list"

record security_context =
  sc_allowPrivilegeEscalation :: "bool option"
  sc_capabilities :: "capabilities option"
  sc_privileged :: "bool option"
  sc_readOnlyRootFilesystem :: "bool option"
  sc_runAsNonRoot :: "bool option"
  sc_runAsUser :: "int option"
  sc_rest :: "string option"

datatype lifecycle = PostStartExec "string list" | OtherLifecycle string

record container_port =
  cp_containerPort :: int
  cp_rest :: "string option"

record container =
  ct_name :: string
  ct_image :: string
  ct_imagePullPolicy :: string
  ct_args :: "string list"
  ct_ports :: "container_port list"
  ct_env :: "env_var list"
  ct_volumeMounts :: "volume_mount list"
  ct_lifecycle :: "lifecycle option"
  ct_securityContext :: "security_context option"
  ct_restartPolicy :: "string option"
  ct_rest :: "string option"

definition emptyContainer :: container where
  "emptyContainer = \<lparr> ct_name = [], ct_image = [], ct_imagePullPolicy = [], ct_args = [], ct_ports = [],
     ct_env = [], ct_volumeMounts = [], ct_lifecycle = None, ct_securityContext = None,
     ct_restartPolicy = None, ct_rest = None \<rparr>"

definition emptySecurityContext :: security_context where
  "emptySecurityContext = \<lparr> sc_allowPrivilegeEscalation = None, sc_capabilities = None,
     sc_privileged = None, sc_readOnlyRootFilesystem = None, sc_runAsNonRoot = None,
     sc_runAsUser = None, sc_rest = None \<rparr>"

text \<open>
  Sources of a projected volume.  The last two arguments of a \<open>ConfigMapProjection\<close> are
  its key-to-path items and the \<open>Optional\<close> pointer.
\<close>

datatype volume_projection =
    ServiceAccountTokenProjection (satPath: string) (satExpirationSeconds: int) (satAudience: string)
  | ConfigMapProjection string "(string \<times> string) list" "bool option"
  | ClusterTrustBundleProjection "string option" "string option" string "bool option"
  | OtherProjection string

datatype volume_source = Projected "volume_projection list" | OtherSource string

record volume =
  vol_name :: string
  vol_source :: volume_source

record owner_reference =
  or_kind :: string
  or_name :: string
  or_controller :: "bool option"
  or_rest :: string

record object_meta =
  om_name :: string
  om_generateName :: string
  om_namespace :: string
  om_annotations :: strmap
  om_ownerReferences :: "owner_reference list"
  om_resourceVersion :: string
  om_uid :: string
  om_creationTimestamp :: "string option"
  om_selfLink :: string
  om_generation :: int
  om_managedFields :: "string list"
  om_rest :: "string option"

definition emptyMeta :: object_meta where
  "emptyMeta = \<lparr> om_name = [], om_generateName = [], om_namespace = [], om_annotations = [],
     om_ownerReferences = [], om_resourceVersion = [], om_uid = [], om_creationTimestamp = None,
     om_selfLink = [], om_generation = 0, om_managedFields = [], om_rest = None \<rparr>"

record pod_spec =
  ps_serviceAccountName :: string
  ps_hostNetwork :: bool
  ps_initContainers :: "container list"
  ps_containers :: "container list"
  ps_volumes :: "volume list"
  ps_rest :: "string option"

record pod =
  pod_meta :: object_meta
  pod_spec :: pod_spec
  pod_status :: "string option"

record service_account =
  sa_meta :: object_meta
  sa_gvk :: "string \<times> string \<times> string"
  sa_rest :: "string option"

definition emptyServiceAccount :: service_account where
  "emptyServiceAccount = \<lparr> sa_meta = emptyMeta, sa_gvk = ([], [], []), sa_rest = None \<rparr>"

abbreviation pod_annotations :: "pod \<Rightarrow> strmap" where
  "pod_annotations p \<equiv> om_annotations (pod_meta p)"

abbreviation sa_annotations :: "service_account \<Rightarrow> strmap" where
  "sa_annotations s \<equiv> om_annotations (sa_meta s)"

subsection \<open>The error kinds of the API machinery\<close>

text \<open>\<open>apierrors.IsNotFound\<close> and \<open>IsAlreadyExists\<close>: the reason of the status error found by unwrapping.\<close>

fun statusReason :: "go_error \<Rightarrow> string" where
  "statusReason (StatusError r m) = r"
| "statusReason (WrapError w e) = statusReason e"
| "statusReason e = []"

definition apiIsNotFound :: "go_error \<Rightarrow> bool" where
  "apiIsNotFound e = (statusReason e = ''NotFound'')"

definition apiIsAlreadyExists :: "go_error \<Rightarrow> bool" where
  "apiIsAlreadyExists e = (statusReason e = ''AlreadyExists'')"

end
