(* ===== verification/Config.thy ===== *)
theory Config
  imports Go_Strings
begin

section \<open>The configuration of the webhook (pkg/config)\<close>

text \<open>
  \<open>config.go\<close>: the configuration record that is read from environment variables,
  its validation, and the decoder of the label selector.  Reading the variables into
  the struct is \<open>envconfig.Process\<close>, a library call, hence a parameter.
\<close>

record config =
  Cloud :: string
  TenantID :: string
  ProxyImage :: string
  ProxyInitImage :: string
  AzureKubernetesTokenProxy :: string
  AzureKubernetesSNIName :: string
  AzureKubernetesCAData :: string
  AzureKubernetesCAConfigMapName :: string
  AzureKubernetesCACTBSignerName :: string
  AzureKubernetesCACTBLabelSelector :: "string option"

definition errTenantRequired :: go_error where
  "errTenantRequired = GoError ''AZURE_TENANT_ID is required''"

definition errOneCASource :: go_error where
  "errOneCASource = GoError ''only one of AZURE_KUBERNETES_CA_DATA, AZURE_KUBERNETES_CA_CONFIGMAP_NAME or AZURE_KUBERNETES_CA_CTB_SIGNER_NAME can be set''"

definition errSelectorWithoutSigner :: go_error where
  "errSelectorWithoutSigner = GoError ''AZURE_KUBERNETES_CA_CTB_SIGNER_NAME needs to be set when AZURE_KUBERNETES_CA_CTB_LABEL_SELECTOR is set''"

text \<open>The loop that counts the values that are set.\<close>

fun countSet :: "string list \<Rightarrow> nat \<Rightarrow> nat" where
  "countSet [] setCount = setCount"
| "countSet (v # vs) setCount = countSet vs (if 0 < length v then Suc setCount else setCount)"

text \<open>\<open>validateConfig\<close>: \<open>None\<close> is the nil error.\<close>

definition validateConfig :: "config \<Rightarrow> go_error option" where
  "validateConfig c =
     (if length (TenantID c) = 0 then Some errTenantRequired
      else
        (let values = [AzureKubernetesCAData c, AzureKubernetesCAConfigMapName c,
                       AzureKubernetesCACTBSignerName c];
             setCount = countSet values 0
         in if 1 < setCount then Some errOneCASource
            else if AzureKubernetesCACTBLabelSelector c \<noteq> None
                    \<and> length (AzureKubernetesCACTBSignerName c) = 0
                 then Some errSelectorWithoutSigner
            else None))"

definition ParseConfig :: "config result \<Rightarrow> config result" where
  "ParseConfig processed =
     (case processed of
        Inl e \<Rightarrow> Inl e
      | Inr c \<Rightarrow> (case validateConfig c of Some e \<Rightarrow> Inl e | None \<Rightarrow> Inr c))"

text \<open>
  \<open>LabelSelectorPtr.Decode\<close>; \<open>unmarshal\<close> is \<open>json.Unmarshal\<close> into a
  \<open>metav1.LabelSelector\<close>.
\<close>

definition decodeLabelSelector :: "(string \<Rightarrow> string result) \<Rightarrow> string \<Rightarrow> string option result" where
  "decodeLabelSelector unmarshal value =
     (if strTrimSpace value = [] then Inr None
      else case unmarshal value of
        Inl e \<Rightarrow> Inl (WrapError ''failed to decode LabelSelector'' e)
      | Inr sel \<Rightarrow> Inr (Some sel))"

subsection \<open>What a validated configuration guarantees\<close>

lemma countSet_eq: "countSet vs n = n + length (filter (\<lambda>v. v \<noteq> []) vs)"
  by (induction vs n rule: countSet.induct) auto

definition validConfig :: "config \<Rightarrow> bool" where
  "validConfig c \<longleftrightarrow>
     TenantID c \<noteq> [] \<and>
     (AzureKubernetesCAData c = [] \<or> AzureKubernetesCAConfigMapName c = []) \<and>
     (AzureKubernetesCAData c = [] \<or> AzureKubernetesCACTBSignerName c = []) \<and>
     (AzureKubernetesCAConfigMapName c = [] \<or> AzureKubernetesCACTBSignerName c = []) \<and>
     (AzureKubernetesCACTBLabelSelector c = None \<or> AzureKubernetesCACTBSignerName c \<noteq> [])"

lemma validateConfig_None_iff: "validateConfig c = None \<longleftrightarrow> validConfig c"
  by (auto simp: validateConfig_def validConfig_def countSet_eq Let_def)

lemma ParseConfig_Inr: "ParseConfig p = Inr c \<Longrightarrow> p = Inr c \<and> validConfig c"
  by (auto simp: ParseConfig_def validateConfig_None_iff split: sum.splits option.splits)

end
