(* ===== verification/Webhook_Annotations.thy ===== *)
theory Webhook_Annotations
  imports Go_Crypto Kube_Types Config
begin

section \<open>Constants of the webhook and what it reads from annotations (pkg/webhook)\<close>

text \<open>
  The constants of \<open>consts.go\<close> and the functions of \<open>webhook.go\<close> that read the
  annotations of a pod and of its service account: which containers to skip, whether to
  inject the proxy and on which port, the expiration of the projected token, the client
  and tenant ids, and the name of the projected volume.
\<close>

subsection \<open>Constants\<close>

definition ClientIDAnnotation :: string where
  "ClientIDAnnotation = ''azure.workload.identity/client-id''"

definition TenantIDAnnotation :: string where
  "TenantIDAnnotation = ''azure.workload.identity/tenant-id''"

definition ServiceAccountTokenExpiryAnnotation :: string where
  "ServiceAccountTokenExpiryAnnotation = ''azure.workload.identity/service-account-token-expiration''"

definition SkipContainersAnnotation :: string where
  "SkipContainersAnnotation = ''azure.workload.identity/skip-containers''"

definition InjectProxySidecarAnnotation :: string where
  "InjectProxySidecarAnnotation = ''azure.workload.identity/inject-proxy-sidecar''"

definition ProxySidecarPortAnnotation :: string where
  "ProxySidecarPortAnnotation = ''azure.workload.identity/proxy-sidecar-port''"

definition MinServiceAccountTokenExpiration :: int where
  "MinServiceAccountTokenExpiration = 3600"

definition MaxServiceAccountTokenExpiration :: int where
  "MaxServiceAccountTokenExpiration = 86400"

definition DefaultServiceAccountTokenExpiration :: int where
  "DefaultServiceAccountTokenExpiration = 3600"

definition DefaultProxySidecarPort :: int where
  "DefaultProxySidecarPort = 8000"

definition ProxyInitContainerName :: string where
  "ProxyInitContainerName = ''azwi-proxy-init''"

definition ProxySidecarContainerName :: string where
  "ProxySidecarContainerName = ''azwi-proxy''"

definition ProxyInitImageName :: string where
  "ProxyInitImageName = ''proxy-init''"

definition ProxySidecarImageName :: string where
  "ProxySidecarImageName = ''proxy''"

definition ProxyPortEnvVar :: string where
  "ProxyPortEnvVar = ''PROXY_PORT''"

definition AzureClientIDEnvVar :: string where
  "AzureClientIDEnvVar = ''AZURE_CLIENT_ID''"

definition AzureTenantIDEnvVar :: string where
  "AzureTenantIDEnvVar = ''AZURE_TENANT_ID''"

definition AzureFederatedTokenFileEnvVar :: string where
  "AzureFederatedTokenFileEnvVar = ''AZURE_FEDERATED_TOKEN_FILE''"

definition AzureAuthorityHostEnvVar :: string where
  "AzureAuthorityHostEnvVar = ''AZURE_AUTHORITY_HOST''"

definition ProjectedVolumeNamePrefix :: string where
  "ProjectedVolumeNamePrefix = ''azure-workload-identity-reserved-''"

definition TokenFilePath :: string where
  "TokenFilePath = ''token/azure-identity-token''"

definition VolumeMountPath :: string where
  "VolumeMountPath = ''/var/run/secrets/azure/wi''"

definition DefaultAudience :: string where
  "DefaultAudience = ''api://AzureADTokenExchange''"

definition AzureKubernetesCADataEnvVar :: string where
  "AzureKubernetesCADataEnvVar = ''AZURE_KUBERNETES_CA_DATA''"

definition AzureKubernetesCAFileEnvVar :: string where
  "AzureKubernetesCAFileEnvVar = ''AZURE_KUBERNETES_CA_FILE''"

definition AzureKubernetesSNINameEnvVar :: string where
  "AzureKubernetesSNINameEnvVar = ''AZURE_KUBERNETES_SNI_NAME''"

definition AzureKubernetesTokenProxyEnvVar :: string where
  "AzureKubernetesTokenProxyEnvVar = ''AZURE_KUBERNETES_TOKEN_PROXY''"

definition CAFilePath :: string where
  "CAFilePath = ''ca-cert/ca.crt''"

lemmas annotation_names =
  ClientIDAnnotation_def TenantIDAnnotation_def ServiceAccountTokenExpiryAnnotation_def
  SkipContainersAnnotation_def InjectProxySidecarAnnotation_def ProxySidecarPortAnnotation_def

lemmas expiration_bounds =
  MinServiceAccountTokenExpiration_def MaxServiceAccountTokenExpiration_def
  DefaultServiceAccountTokenExpiration_def

lemmas env_var_names =
  AzureClientIDEnvVar_def AzureTenantIDEnvVar_def AzureFederatedTokenFileEnvVar_def
  AzureAuthorityHostEnvVar_def AzureKubernetesCADataEnvVar_def AzureKubernetesCAFileEnvVar_def
  AzureKubernetesSNINameEnvVar_def AzureKubernetesTokenProxyEnvVar_def

subsection \<open>Reading the annotations\<close>

text \<open>The loop over the split list inserts each trimmed name into a set.\<close>

fun insertTrimmed :: "string list \<Rightarrow> string set \<Rightarrow> string set" where
  "insertTrimmed [] sc = sc"
| "insertTrimmed (w # ws) sc = insertTrimmed ws (insert (strTrimSpace w) sc)"

definition getSkipContainers :: "pod \<Rightarrow> string set" where
  "getSkipContainers p =
     (let skipContainers = smap_get (pod_annotations p) SkipContainersAnnotation in
      if length skipContainers = 0 then {}
      else insertTrimmed (strSplit (CHR '';'') skipContainers) {})"

definition shouldInjectProxySidecar :: "pod \<Rightarrow> bool" where
  "shouldInjectProxySidecar p =
     (if length (pod_annotations p) = 0 then False
      else smap_has (pod_annotations p) InjectProxySidecarAnnotation)"

definition validServiceAccountTokenExpiry :: "int \<Rightarrow> bool" where
  "validServiceAccountTokenExpiry tokenExpiry =
     (tokenExpiry \<le> MaxServiceAccountTokenExpiration \<and> MinServiceAccountTokenExpiration \<le> tokenExpiry)"

definition errTokenExpiration :: "int \<Rightarrow> go_error" where
  "errTokenExpiration e =
     GoError (''token expiration '' @ formatInt e @ '' not valid. Expected value to be between 3600 and 86400'')"

definition getServiceAccountTokenExpiration :: "pod \<Rightarrow> service_account \<Rightarrow> int result" where
  "getServiceAccountTokenExpiration p sa =
     (let parsed =
        (if smap_get (pod_annotations p) ServiceAccountTokenExpiryAnnotation \<noteq> []
         then parseInt (smap_get (pod_annotations p) ServiceAccountTokenExpiryAnnotation) 64
         else if smap_get (sa_annotations sa) ServiceAccountTokenExpiryAnnotation \<noteq> []
         then parseInt (smap_get (sa_annotations sa) ServiceAccountTokenExpiryAnnotation) 64
         else Inr DefaultServiceAccountTokenExpiration)
      in case parsed of
           Inl e \<Rightarrow> Inl e
         | Inr expiration \<Rightarrow>
             if \<not> validServiceAccountTokenExpiry expiration then Inl (errTokenExpiration expiration)
             else Inr expiration)"

text \<open>The conversion \<open>int32(x)\<close> of a wider integer keeps the low 32 bits.\<close>

definition toInt32 :: "int \<Rightarrow> int" where
  "toInt32 x = sint (word_of_int x :: 32 word)"

definition getProxyPort :: "pod \<Rightarrow> int result" where
  "getProxyPort p =
     (if length (pod_annotations p) = 0 then Inr DefaultProxySidecarPort
      else case map_of (pod_annotations p) ProxySidecarPortAnnotation of
        None \<Rightarrow> Inr DefaultProxySidecarPort
      | Some proxyPort \<Rightarrow>
          (case parseInt proxyPort 32 of
             Inl e \<Rightarrow> Inl (WrapError ''failed to parse proxy sidecar port'' e)
           | Inr parsed \<Rightarrow> Inr (toInt32 parsed)))"

definition getClientID :: "service_account \<Rightarrow> string" where
  "getClientID sa = smap_get (sa_annotations sa) ClientIDAnnotation"

definition getTenantID :: "service_account \<Rightarrow> config \<Rightarrow> string" where
  "getTenantID sa c =
     (case map_of (sa_annotations sa) TenantIDAnnotation of
        Some tenantID \<Rightarrow> tenantID
      | None \<Rightarrow> TenantID c)"

definition buildVolumeName :: "string \<Rightarrow> string" where
  "buildVolumeName podName =
     (let truncatedHash = take (63 - length ProjectedVolumeNamePrefix) (hexString (sha256 podName))
      in ProjectedVolumeNamePrefix @ truncatedHash)"

subsection \<open>Facts about the readers\<close>

lemma insertTrimmed_eq: "insertTrimmed ws sc = sc \<union> strTrimSpace ` set ws"
  by (induction ws sc rule: insertTrimmed.induct) auto

lemma shouldInject_iff:
  "shouldInjectProxySidecar p \<longleftrightarrow> smap_has (pod_annotations p) InjectProxySidecarAnnotation"
  by (auto simp: shouldInjectProxySidecar_def)

lemma validExpiry_iff: "validServiceAccountTokenExpiry e \<longleftrightarrow> 3600 \<le> e \<and> e \<le> 86400"
  by (auto simp: validServiceAccountTokenExpiry_def expiration_bounds)

lemma expiration_Inr_range:
  "getServiceAccountTokenExpiration p sa = Inr e \<Longrightarrow> 3600 \<le> e \<and> e \<le> 86400"
  by (auto simp: getServiceAccountTokenExpiration_def Let_def validExpiry_iff
      split: sum.splits if_splits)

lemma toInt32_id: "- (2 ^ 31) \<le> i \<Longrightarrow> i < 2 ^ 31 \<Longrightarrow> toInt32 i = i"
  by (simp add: toInt32_def sint_sbintrunc' signed_take_bit_int_eq_self)

lemma getProxyPort_cases:
  "getProxyPort p =
     (case map_of (pod_annotations p) ProxySidecarPortAnnotation of
        None \<Rightarrow> Inr 8000
      | Some s \<Rightarrow>
          (case parseInt s 32 of
             Inl e \<Rightarrow> Inl (WrapError ''failed to parse proxy sidecar port'' e)
           | Inr i \<Rightarrow> Inr i))"
proof -
  have "toInt32 i = i" if "parseInt s 32 = Inr i" for s i
    using parseInt_range [OF that] by (simp add: toInt32_id)
  then show ?thesis
    by (auto simp: getProxyPort_def DefaultProxySidecarPort_def split: option.splits sum.splits)
qed

lemma length_buildVolumeName: "length (buildVolumeName n) = 63"
  by (simp add: buildVolumeName_def Let_def ProjectedVolumeNamePrefix_def)

definition dnsLabelChars :: string where
  "dnsLabelChars = ''abcdefghijklmnopqrstuvwxyz0123456789-''"

lemma volumePrefix_chars: "set ProjectedVolumeNamePrefix \<subseteq> set dnsLabelChars"
  by code_simp

lemma hexDigits_chars: "set hexDigits \<subseteq> set dnsLabelChars"
  by code_simp

lemma buildVolumeName_chars: "set (buildVolumeName n) \<subseteq> set dnsLabelChars"
proof -
  have "set (take k (hexString s)) \<subseteq> set dnsLabelChars" for k s
    using set_take_subset [of k "hexString s"] hexString_chars [of s] hexDigits_chars by blast
  then show ?thesis
    using volumePrefix_chars by (simp add: buildVolumeName_def Let_def)
qed

end
