(* ===== verification/Webhook_Pod.thy ===== *)
theory Webhook_Pod
  imports Webhook_Annotations
begin

section \<open>The mutation of a pod (pkg/webhook/webhook.go)\<close>

text \<open>
  The mutator's configuration and its operations on containers and volumes: injection of
  the proxy containers, of the environment variables, of the volume mount and of the
  projected volume.
\<close>

subsection \<open>State of the mutator\<close>

record custom_token_endpoint =
  cte_enabled :: bool
  cte_annotation :: string
  cte_audience :: string

text \<open>
  The fields \<open>client\<close>, \<open>reader\<close> and \<open>decoder\<close> of the struct are the
  parameters of the handler.
\<close>

record podMutator =
  pm_config :: config
  pm_audience :: string
  pm_azureAuthorityHost :: string
  pm_proxyImage :: string
  pm_proxyInitImage :: string
  pm_useNativeSidecar :: bool
  pm_customTokenEndpoint :: custom_token_endpoint

definition isUsingCustomTokenEndpoint :: "podMutator \<Rightarrow> pod \<Rightarrow> bool" where
  "isUsingCustomTokenEndpoint m p =
     (if \<not> cte_enabled (pm_customTokenEndpoint m) then False
      else if length (pod_annotations p) = 0 then False
      else case map_of (pod_annotations p) (cte_annotation (pm_customTokenEndpoint m)) of
        Some val \<Rightarrow> strEqualFold val ''true''
      | None \<Rightarrow> False)"

subsection \<open>Proxy containers\<close>

definition netAdmin :: string where "netAdmin = ''NET_ADMIN''"
definition capAll :: string where "capAll = ''ALL''"
definition PullIfNotPresent :: string where "PullIfNotPresent = ''IfNotPresent''"
definition ContainerRestartPolicyAlways :: string where "ContainerRestartPolicyAlways = ''Always''"

definition proxyInitContainer :: "podMutator \<Rightarrow> int \<Rightarrow> container" where
  "proxyInitContainer m proxyPort = emptyContainer \<lparr>
     ct_name := ProxyInitContainerName,
     ct_image := pm_proxyInitImage m,
     ct_imagePullPolicy := PullIfNotPresent,
     ct_securityContext := Some (emptySecurityContext \<lparr>
       sc_capabilities := Some \<lparr> cap_add = [netAdmin], cap_drop = [capAll] \<rparr>,
       sc_privileged := Some True,
       sc_runAsNonRoot := Some False,
       sc_runAsUser := Some 0 \<rparr>),
     ct_env := [\<lparr> ev_name = ProxyPortEnvVar, ev_value = formatInt proxyPort, ev_rest = None \<rparr>] \<rparr>"

definition injectProxyInitContainer :: "podMutator \<Rightarrow> container list \<Rightarrow> int \<Rightarrow> container list" where
  "injectProxyInitContainer m containers proxyPort =
     (if list_ex (\<lambda>c. ct_name c = ProxyInitContainerName) containers then containers
      else containers @ [proxyInitContainer m proxyPort])"

definition proxySidecarContainer ::
  "podMutator \<Rightarrow> string \<Rightarrow> int \<Rightarrow> string option \<Rightarrow> container" where
  "proxySidecarContainer m logLevel proxyPort restartPolicy = emptyContainer \<lparr>
     ct_name := ProxySidecarContainerName,
     ct_image := pm_proxyImage m,
     ct_imagePullPolicy := PullIfNotPresent,
     ct_args := [''--proxy-port='' @ formatInt proxyPort, ''--log-level='' @ logLevel],
     ct_ports := [\<lparr> cp_containerPort = proxyPort, cp_rest = None \<rparr>],
     ct_lifecycle := Some (PostStartExec
       [''/proxy'', ''--proxy-port='' @ formatInt proxyPort, ''--probe'', ''--log-level='' @ logLevel]),
     ct_securityContext := Some (emptySecurityContext \<lparr>
       sc_allowPrivilegeEscalation := Some False,
       sc_capabilities := Some \<lparr> cap_add = [], cap_drop = [capAll] \<rparr>,
       sc_privileged := Some False,
       sc_readOnlyRootFilesystem := Some True,
       sc_runAsNonRoot := Some True \<rparr>),
     ct_restartPolicy := restartPolicy \<rparr>"

definition injectProxySidecarContainer ::
  "podMutator \<Rightarrow> string \<Rightarrow> container list \<Rightarrow> int \<Rightarrow> string option \<Rightarrow> container list" where
  "injectProxySidecarContainer m logLevel containers proxyPort restartPolicy =
     (if list_ex (\<lambda>c. ct_name c = ProxySidecarContainerName) containers then containers
      else proxySidecarContainer m logLevel proxyPort restartPolicy # containers)"

subsection \<open>Environment variables\<close>

text \<open>The map \<open>envs\<close> from the names the container already has.\<close>

definition existingEnvs :: "env_var list \<Rightarrow> strmap" where
  "existingEnvs es = foldl (\<lambda>m e. smap_set m (ev_name e) (ev_value e)) [] es"

definition envVar :: "string \<Rightarrow> string \<Rightarrow> env_var" where
  "envVar n v = \<lparr> ev_name = n, ev_value = v, ev_rest = None \<rparr>"

definition desiredEnvs :: "podMutator \<Rightarrow> string \<Rightarrow> string \<Rightarrow> string \<Rightarrow> bool \<Rightarrow> env_var list" where
  "desiredEnvs m clientID tenantID azureAuthorityHost podUsingCustomTokenEndpoint =
     [envVar AzureClientIDEnvVar clientID,
      envVar AzureTenantIDEnvVar tenantID,
      envVar AzureFederatedTokenFileEnvVar (filepathJoin [VolumeMountPath, TokenFilePath]),
      envVar AzureAuthorityHostEnvVar azureAuthorityHost]
     @ (if podUsingCustomTokenEndpoint
        then [envVar AzureKubernetesTokenProxyEnvVar (AzureKubernetesTokenProxy (pm_config m)),
              envVar AzureKubernetesSNINameEnvVar (AzureKubernetesSNIName (pm_config m)),
              envVar AzureKubernetesCAFileEnvVar (filepathJoin [VolumeMountPath, CAFilePath]),
              envVar AzureKubernetesCADataEnvVar (AzureKubernetesCAData (pm_config m))]
        else [])"

text \<open>The loop that appends the desired variables which are absent and not empty.\<close>

fun appendMissing :: "strmap \<Rightarrow> env_var list \<Rightarrow> env_var list \<Rightarrow> env_var list" where
  "appendMissing envs [] env = env"
| "appendMissing envs (d # ds) env =
     appendMissing envs ds
       (if \<not> smap_has envs (ev_name d) \<and> 0 < length (ev_value d) then env @ [d] else env)"

definition addEnvironmentVariables ::
  "podMutator \<Rightarrow> container \<Rightarrow> string \<Rightarrow> string \<Rightarrow> string \<Rightarrow> bool \<Rightarrow> container" where
  "addEnvironmentVariables m c clientID tenantID azureAuthorityHost podUsingCustomTokenEndpoint =
     c \<lparr> ct_env := appendMissing (existingEnvs (ct_env c))
           (desiredEnvs m clientID tenantID azureAuthorityHost podUsingCustomTokenEndpoint) (ct_env c) \<rparr>"

subsection \<open>Volume mount and projected volume\<close>

text \<open>
  The loop shared by the two functions: the first element with the name of the new one
  is overwritten; without such an element the new one is appended.
\<close>

fun replaceNamed :: "('a \<Rightarrow> string) \<Rightarrow> 'a \<Rightarrow> 'a list \<Rightarrow> 'a list" where
  "replaceNamed name x [] = [x]"
| "replaceNamed name x (y # ys) = (if name y = name x then x # ys else y # replaceNamed name x ys)"

definition projectedMount :: "string \<Rightarrow> volume_mount" where
  "projectedMount volumeName =
     \<lparr> vm_name = volumeName, vm_mountPath = VolumeMountPath, vm_readOnly = True, vm_rest = None \<rparr>"

definition addProjectedVolumeMount :: "container \<Rightarrow> string \<Rightarrow> container" where
  "addProjectedVolumeMount c volumeName =
     c \<lparr> ct_volumeMounts := replaceNamed vm_name (projectedMount volumeName) (ct_volumeMounts c) \<rparr>"

definition projectedSources :: "podMutator \<Rightarrow> int \<Rightarrow> bool \<Rightarrow> volume_projection list" where
  "projectedSources m serviceAccountTokenExpiration podUsingCustomTokenEndpoint =
     (let aud = (if podUsingCustomTokenEndpoint then cte_audience (pm_customTokenEndpoint m)
                 else pm_audience m) in
      [ServiceAccountTokenProjection TokenFilePath serviceAccountTokenExpiration aud]
      @ (if podUsingCustomTokenEndpoint then
           (if 0 < length (AzureKubernetesCAConfigMapName (pm_config m))
            then [ConfigMapProjection (AzureKubernetesCAConfigMapName (pm_config m))
                    [(''ca.crt'', CAFilePath)] (Some False)]
            else [])
           @ (if 0 < length (AzureKubernetesCACTBSignerName (pm_config m))
              then [ClusterTrustBundleProjection (Some (AzureKubernetesCACTBSignerName (pm_config m)))
                      (AzureKubernetesCACTBLabelSelector (pm_config m)) CAFilePath (Some False)]
              else [])
         else []))"

definition projectedVolume :: "podMutator \<Rightarrow> int \<Rightarrow> string \<Rightarrow> bool \<Rightarrow> volume" where
  "projectedVolume m serviceAccountTokenExpiration volumeName podUsingCustomTokenEndpoint =
     \<lparr> vol_name = volumeName,
       vol_source = Projected (projectedSources m serviceAccountTokenExpiration podUsingCustomTokenEndpoint) \<rparr>"

definition addProjectedVolume :: "podMutator \<Rightarrow> pod \<Rightarrow> int \<Rightarrow> string \<Rightarrow> bool \<Rightarrow> pod" where
  "addProjectedVolume m p serviceAccountTokenExpiration volumeName podUsingCustomTokenEndpoint =
     p \<lparr> pod_spec := (pod_spec p) \<lparr> ps_volumes :=
           replaceNamed vol_name
             (projectedVolume m serviceAccountTokenExpiration volumeName podUsingCustomTokenEndpoint)
             (ps_volumes (pod_spec p)) \<rparr> \<rparr>"

definition mutateContainer ::
  "podMutator \<Rightarrow> string \<Rightarrow> string \<Rightarrow> string set \<Rightarrow> bool \<Rightarrow> string \<Rightarrow> container \<Rightarrow> container" where
  "mutateContainer m clientID tenantID skipContainers podUsingCustomTokenEndpoint volumeName c =
     (if ct_name c \<in> skipContainers then c
      else addProjectedVolumeMount
             (addEnvironmentVariables m c clientID tenantID (pm_azureAuthorityHost m)
                podUsingCustomTokenEndpoint)
             volumeName)"

definition mutateContainers ::
  "podMutator \<Rightarrow> container list \<Rightarrow> string \<Rightarrow> string \<Rightarrow> string set \<Rightarrow> bool \<Rightarrow> string \<Rightarrow> container list" where
  "mutateContainers m containers clientID tenantID skipContainers podUsingCustomTokenEndpoint volumeName =
     map (mutateContainer m clientID tenantID skipContainers podUsingCustomTokenEndpoint volumeName) containers"

subsection \<open>The named slots\<close>

lemma replaceNamed_absent: "name x \<notin> name ` set xs \<Longrightarrow> replaceNamed name x xs = xs @ [x]"
  by (induction xs) auto

lemma replaceNamed_present:
  "name y = name x \<Longrightarrow> name x \<notin> name ` set xs \<Longrightarrow> replaceNamed name x (xs @ y # ys) = xs @ x # ys"
  by (induction xs) auto

interpretation mounts: keyed_slot vm_name "replaceNamed vm_name"
  by unfold_locales (simp_all add: replaceNamed_absent replaceNamed_present)

interpretation volumes: keyed_slot vol_name "replaceNamed vol_name"
  by unfold_locales (simp_all add: replaceNamed_absent replaceNamed_present)

subsection \<open>Environment variables\<close>

lemma smap_has_foldl_envs:
  "smap_has (foldl (\<lambda>m e. smap_set m (ev_name e) (ev_value e)) m es) n
     \<longleftrightarrow> smap_has m n \<or> n \<in> ev_name ` set es"
  by (induction es arbitrary: m) auto

lemma smap_has_existingEnvs [simp]: "smap_has (existingEnvs es) n \<longleftrightarrow> n \<in> ev_name ` set es"
  by (simp add: existingEnvs_def smap_has_foldl_envs)

lemma appendMissing_eq:
  "appendMissing envs ds env =
     env @ filter (\<lambda>d. \<not> smap_has envs (ev_name d) \<and> ev_value d \<noteq> []) ds"
  by (induction envs ds env rule: appendMissing.induct) auto

lemma addEnvironmentVariables_env:
  "ct_env (addEnvironmentVariables m c cid tid host cte) =
     ct_env c @ filter (\<lambda>d. ev_name d \<notin> ev_name ` set (ct_env c) \<and> ev_value d \<noteq> [])
                  (desiredEnvs m cid tid host cte)"
  by (simp add: addEnvironmentVariables_def appendMissing_eq)

lemma addEnvironmentVariables_idem [idem_simps]:
  "addEnvironmentVariables m (addEnvironmentVariables m c cid tid host cte) cid tid host cte =
     addEnvironmentVariables m c cid tid host cte"
proof -
  let ?ds = "desiredEnvs m cid tid host cte"
  let ?new = "filter (\<lambda>d. ev_name d \<notin> ev_name ` set (ct_env c) \<and> ev_value d \<noteq> []) ?ds"
  have "filter (\<lambda>d. ev_name d \<notin> ev_name ` set (ct_env c @ ?new) \<and> ev_value d \<noteq> []) ?ds = []"
    by (auto simp: filter_empty_conv)
  then show ?thesis
    by (simp add: addEnvironmentVariables_def appendMissing_eq)
qed

lemma desiredEnvs_distinct: "distinct (map ev_name (desiredEnvs m cid tid host cte))"
  by (cases cte) (simp_all add: desiredEnvs_def envVar_def env_var_names)

lemma addEnvironmentVariables_distinct:
  "distinct (map ev_name (ct_env c)) \<Longrightarrow>
   distinct (map ev_name (ct_env (addEnvironmentVariables m c cid tid host cte)))"
  using distinct_map_filter [OF desiredEnvs_distinct, of "\<lambda>d. ev_name d \<notin> ev_name ` set (ct_env c) \<and> ev_value d \<noteq> []"]
  by (simp add: addEnvironmentVariables_env) (blast intro: sym image_eqI)

subsection \<open>What the operations on one container leave alone\<close>

lemma addEnvironmentVariables_frame [frame_simps]:
  "ct_name (addEnvironmentVariables m c cid tid host cte) = ct_name c"
  "ct_image (addEnvironmentVariables m c cid tid host cte) = ct_image c"
  "ct_args (addEnvironmentVariables m c cid tid host cte) = ct_args c"
  "ct_volumeMounts (addEnvironmentVariables m c cid tid host cte) = ct_volumeMounts c"
  by (simp_all add: addEnvironmentVariables_def)

lemma addProjectedVolumeMount_frame [frame_simps]:
  "ct_name (addProjectedVolumeMount c v) = ct_name c"
  "ct_image (addProjectedVolumeMount c v) = ct_image c"
  "ct_args (addProjectedVolumeMount c v) = ct_args c"
  "ct_env (addProjectedVolumeMount c v) = ct_env c"
  by (simp_all add: addProjectedVolumeMount_def)

lemma addEnv_addMount_commute:
  "addEnvironmentVariables m (addProjectedVolumeMount c v) cid tid host cte =
     addProjectedVolumeMount (addEnvironmentVariables m c cid tid host cte) v"
  by (simp add: addEnvironmentVariables_def addProjectedVolumeMount_def)

lemma addProjectedVolumeMount_idem [idem_simps]:
  "addProjectedVolumeMount (addProjectedVolumeMount c v) v = addProjectedVolumeMount c v"
  by (simp add: addProjectedVolumeMount_def mounts.upd_idem)

lemma mutateContainer_name [simp]: "ct_name (mutateContainer m cid tid skip cte v c) = ct_name c"
  by (simp add: mutateContainer_def frame_simps)

lemma mutateContainer_idem [idem_simps]:
  "mutateContainer m cid tid skip cte v (mutateContainer m cid tid skip cte v c) =
     mutateContainer m cid tid skip cte v c"
  by (simp add: mutateContainer_def frame_simps idem_simps addEnv_addMount_commute)

lemma mutateContainers_idem [idem_simps]:
  "mutateContainers m (mutateContainers m cs cid tid skip cte v) cid tid skip cte v =
     mutateContainers m cs cid tid skip cte v"
  by (simp add: mutateContainers_def mutateContainer_idem)

lemma mutateContainers_has_name [simp]:
  "list_ex (\<lambda>c. ct_name c = n) (mutateContainers m cs cid tid skip cte v)
     \<longleftrightarrow> list_ex (\<lambda>c. ct_name c = n) cs"
  by (simp add: mutateContainers_def list_ex_iff)

subsection \<open>Injection\<close>

lemma injectProxyInit_has [simp]:
  "list_ex (\<lambda>c. ct_name c = ProxyInitContainerName) (injectProxyInitContainer m cs port)"
  by (auto simp: injectProxyInitContainer_def proxyInitContainer_def)

lemma injectProxySidecar_has [simp]:
  "list_ex (\<lambda>c. ct_name c = ProxySidecarContainerName) (injectProxySidecarContainer m lvl cs port rp)"
  by (auto simp: injectProxySidecarContainer_def proxySidecarContainer_def)

lemma injectProxySidecar_keeps [simp]:
  "list_ex (\<lambda>c. ct_name c = ProxyInitContainerName) (injectProxySidecarContainer m lvl cs port rp)
     \<longleftrightarrow> list_ex (\<lambda>c. ct_name c = ProxyInitContainerName) cs"
  by (auto simp: injectProxySidecarContainer_def proxySidecarContainer_def
      ProxyInitContainerName_def ProxySidecarContainerName_def)

lemma injectProxyInit_present:
  "list_ex (\<lambda>c. ct_name c = ProxyInitContainerName) cs \<Longrightarrow> injectProxyInitContainer m cs port = cs"
  by (simp add: injectProxyInitContainer_def)

lemma injectProxySidecar_present:
  "list_ex (\<lambda>c. ct_name c = ProxySidecarContainerName) cs \<Longrightarrow>
   injectProxySidecarContainer m lvl cs port rp = cs"
  by (simp add: injectProxySidecarContainer_def)

end
