(* ===== verification/Webhook.thy ===== *)
theory Webhook
  imports Webhook_Pod
begin

section \<open>The admission handler (pkg/webhook/webhook.go)\<close>

text \<open>
  \<open>NewPodMutator\<close>, which checks the flags of the custom token endpoint and builds the
  mutator, and \<open>Handle\<close>, the admission handler: it decodes the pod, finds its
  service account, injects the proxy where the pod asks for it, mutates the containers
  and volumes, and answers with a patch.  The Kubernetes clients, the decoder and the
  marshaller are parameters.
\<close>

subsection \<open>Log level handed to the sidecar\<close>

datatype log_level = LevelWarning | LevelInfo | LevelDebug | LevelTrace | LevelAll

fun logLevelString :: "log_level \<Rightarrow> string" where
  "logLevelString LevelWarning = []"
| "logLevelString LevelInfo = ''info''"
| "logLevelString LevelDebug = ''debug''"
| "logLevelString LevelTrace = ''trace''"
| "logLevelString LevelAll = ''all''"

fun logLevelRank :: "log_level \<Rightarrow> nat" where
  "logLevelRank LevelWarning = 0"
| "logLevelRank LevelInfo = 1"
| "logLevelRank LevelDebug = 2"
| "logLevelRank LevelTrace = 3"
| "logLevelRank LevelAll = 4"

text \<open>Levels are ordered by increasing verbosity.\<close>

instantiation log_level :: linorder
begin

definition less_eq_log_level :: "log_level \<Rightarrow> log_level \<Rightarrow> bool" where
  "less_eq_log_level a b = (logLevelRank a \<le> logLevelRank b)"

definition less_log_level :: "log_level \<Rightarrow> log_level \<Rightarrow> bool" where
  "less_log_level a b = (logLevelRank a < logLevelRank b)"

instance
proof
  fix a b c :: log_level
  show "a < b \<longleftrightarrow> a \<le> b \<and> \<not> b \<le> a"
    by (auto simp: less_eq_log_level_def less_log_level_def)
  show "a \<le> a"
    by (simp add: less_eq_log_level_def)
  show "a \<le> b \<Longrightarrow> b \<le> c \<Longrightarrow> a \<le> c"
    by (simp add: less_eq_log_level_def)
  show "a \<le> b \<Longrightarrow> b \<le> a \<Longrightarrow> a = b"
    by (cases a; cases b; simp add: less_eq_log_level_def)
  show "a \<le> b \<or> b \<le> a"
    by (auto simp: less_eq_log_level_def)
qed

end

text \<open>\<open>enabled\<close> is \<open>mlog.Enabled\<close>.\<close>

definition currentLogLevel :: "(log_level \<Rightarrow> bool) \<Rightarrow> string" where
  "currentLogLevel enabled =
     (case find enabled [LevelAll, LevelTrace, LevelDebug, LevelInfo, LevelWarning] of
        Some level \<Rightarrow> logLevelString level
      | None \<Rightarrow> [])"

lemma currentLogLevel_threshold: "currentLogLevel (\<lambda>l. l \<le> cur) = logLevelString cur"
  by (cases cur) (simp_all add: currentLogLevel_def less_eq_log_level_def)

subsection \<open>Building the mutator\<close>

text \<open>\<open>environmentFromName\<close> is \<open>azure.EnvironmentFromName\<close> followed by the field \<open>ActiveDirectoryEndpoint\<close>; \<open>publicEndpoint\<close> is that field of \<open>azure.PublicCloud\<close>.\<close>

definition getAzureAuthorityHost :: "string \<Rightarrow> (string \<Rightarrow> string result) \<Rightarrow> config \<Rightarrow> string result" where
  "getAzureAuthorityHost publicEndpoint environmentFromName c =
     (if Cloud c = [] then Inr publicEndpoint else environmentFromName (Cloud c))"

text \<open>
  \<open>serverVersion\<close> is the answer of the discovery client, \<open>parseSemantic\<close> and
  \<open>verAtLeast\<close> are those of the version package.
\<close>

definition serverVersionGTE ::
  "string result \<Rightarrow> (string \<Rightarrow> 'v result) \<Rightarrow> ('v \<Rightarrow> 'v \<Rightarrow> bool) \<Rightarrow> 'v \<Rightarrow> bool result" where
  "serverVersionGTE serverVersion parseSemantic verAtLeast v =
     (case serverVersion of
        Inl e \<Rightarrow> Inl e
      | Inr gitVersion \<Rightarrow>
          (case parseSemantic gitVersion of
             Inl e \<Rightarrow> Inl e
           | Inr sv \<Rightarrow> Inr (verAtLeast sv v)))"

definition errSuffixEmpty :: go_error where
  "errSuffixEmpty = GoError ''custom token endpoint annotation suffix cannot be empty when audience is set''"

definition errCTEAudienceEmpty :: go_error where
  "errCTEAudienceEmpty = GoError ''custom token endpoint audience cannot be empty when annotation suffix is set''"

definition errCTEAudienceDefault :: go_error where
  "errCTEAudienceDefault =
     GoError (''custom token endpoint audience cannot be equal to default audience '' @ quoted DefaultAudience)"

definition errAnnotationKey :: "string \<Rightarrow> string list \<Rightarrow> go_error" where
  "errAnnotationKey k errs =
     GoError (''custom token endpoint annotation key '' @ quoted k @ '' is not valid: '' @ strJoin '', '' errs)"

definition disabledCTE :: custom_token_endpoint where
  "disabledCTE = \<lparr> cte_enabled = False, cte_annotation = [], cte_audience = [] \<rparr>"

definition cteAnnotationPrefix :: string where
  "cteAnnotationPrefix = ''azure.workload.identity/use-''"

text \<open>The part of \<open>NewPodMutator\<close> that checks the two flags; \<open>isQualifiedName\<close> is the validation of the API machinery.\<close>

definition newCustomTokenEndpoint ::
  "(string \<Rightarrow> string list) \<Rightarrow> string \<Rightarrow> string \<Rightarrow> custom_token_endpoint result" where
  "newCustomTokenEndpoint isQualifiedName annSuffix cteAudience =
     (if \<not> (0 < length annSuffix \<or> 0 < length cteAudience) then Inr disabledCTE
      else if length annSuffix = 0 then Inl errSuffixEmpty
      else if length cteAudience = 0 then Inl errCTEAudienceEmpty
      else if strEqualFold cteAudience DefaultAudience then Inl errCTEAudienceDefault
      else
        (let annotationKey = cteAnnotationPrefix @ annSuffix;
             errs = isQualifiedName (strToLower annotationKey)
         in if 0 < length errs then Inl (errAnnotationKey annotationKey errs)
            else Inr \<lparr> cte_enabled = True, cte_annotation = annotationKey, cte_audience = cteAudience \<rparr>))"

definition imageOr :: "string \<Rightarrow> string \<Rightarrow> string \<Rightarrow> string \<Rightarrow> string" where
  "imageOr configured registry name version =
     (if length configured = 0 then registry @ ''/'' @ name @ '':'' @ version else configured)"

text \<open>
  The results of the calls that \<open>NewPodMutator\<close> makes to libraries, in the order it makes
  them: parsing the configuration from the environment, creating the discovery client,
  asking for the server version, looking up the Azure environment, registering the
  metrics.
\<close>

record 'v mutator_env =
  me_config :: "config result"
  me_isQualifiedName :: "string \<Rightarrow> string list"
  me_discoveryClient :: "unit result"
  me_serverVersion :: "string result"
  me_parseSemantic :: "string \<Rightarrow> 'v result"
  me_atLeast :: "'v \<Rightarrow> 'v \<Rightarrow> bool"
  me_majorMinor132 :: 'v
  me_publicEndpoint :: string
  me_environmentFromName :: "string \<Rightarrow> string result"
  me_registerMetrics :: "unit result"
  me_imageRegistry :: string
  me_imageVersion :: string

definition NewPodMutator :: "'v mutator_env \<Rightarrow> string \<Rightarrow> string \<Rightarrow> string \<Rightarrow> podMutator result" where
  "NewPodMutator env audience annSuffix cteAudience =
     (case ParseConfig (me_config env) of Inl e \<Rightarrow> Inl e | Inr c \<Rightarrow>
      (let audience = (if audience = [] then DefaultAudience else audience) in
      case newCustomTokenEndpoint (me_isQualifiedName env) annSuffix cteAudience of Inl e \<Rightarrow> Inl e | Inr cte \<Rightarrow>
      (case me_discoveryClient env of Inl e \<Rightarrow> Inl (WrapError ''failed to create discovery client'' e) | Inr _ \<Rightarrow>
      (case serverVersionGTE (me_serverVersion env) (me_parseSemantic env) (me_atLeast env) (me_majorMinor132 env) of
         Inl e \<Rightarrow> Inl (WrapError ''failed to check kubernetes version'' e) | Inr useNativeSidecar \<Rightarrow>
      (case getAzureAuthorityHost (me_publicEndpoint env) (me_environmentFromName env) c of
         Inl e \<Rightarrow> Inl (WrapError ''failed to get AAD endpoint'' e) | Inr azureAuthorityHost \<Rightarrow>
      (let proxyImage = imageOr (ProxyImage c) (me_imageRegistry env) ProxySidecarImageName (me_imageVersion env);
           proxyInitImage = imageOr (ProxyInitImage c) (me_imageRegistry env) ProxyInitImageName (me_imageVersion env) in
      case me_registerMetrics env of Inl e \<Rightarrow> Inl (WrapError ''failed to register metrics'' e) | Inr _ \<Rightarrow>
      Inr \<lparr> pm_config = c, pm_audience = audience, pm_azureAuthorityHost = azureAuthorityHost,
            pm_proxyImage = proxyImage, pm_proxyInitImage = proxyInitImage,
            pm_useNativeSidecar = useNativeSidecar, pm_customTokenEndpoint = cte \<rparr>))))))"

subsection \<open>Handling a request\<close>

record admission_request =
  rq_namespace :: string
  rq_object :: string

datatype admission_response =
    Errored int go_error
  | PatchResponse string string

definition errHostNetwork :: go_error where
  "errHostNetwork = GoError ''hostNetwork is set to true, cannot inject proxy sidecar''"

definition podNameOf :: "pod \<Rightarrow> string" where
  "podNameOf p = (if om_name (pod_meta p) = [] then om_generateName (pod_meta p) @ '' (prefix)''
                  else om_name (pod_meta p))"

definition serviceAccountNameOf :: "pod \<Rightarrow> string" where
  "serviceAccountNameOf p =
     (if ps_serviceAccountName (pod_spec p) = [] then ''default'' else ps_serviceAccountName (pod_spec p))"

text \<open>
  The service account: from the cache of the client, and from the API server when, and
  only when, the cache answers that it does not exist.
\<close>

definition getServiceAccountOf ::
  "(string \<Rightarrow> string \<Rightarrow> service_account result) \<Rightarrow> (string \<Rightarrow> string \<Rightarrow> service_account result)
     \<Rightarrow> string \<Rightarrow> string \<Rightarrow> service_account result" where
  "getServiceAccountOf clientGet readerGet ns name =
     (case clientGet ns name of
        Inr sa \<Rightarrow> Inr sa
      | Inl e \<Rightarrow> if \<not> apiIsNotFound e then Inl e else readerGet ns name)"

text \<open>The injection of the proxy, which a pod asks for with an annotation.\<close>

definition injectProxy :: "podMutator \<Rightarrow> string \<Rightarrow> pod \<Rightarrow> pod result" where
  "injectProxy m logLevel p =
     (if shouldInjectProxySidecar p then
        if ps_hostNetwork (pod_spec p) then Inl errHostNetwork
        else case getProxyPort p of
          Inl e \<Rightarrow> Inl e
        | Inr proxyPort \<Rightarrow>
            (let inits = injectProxyInitContainer m (ps_initContainers (pod_spec p)) proxyPort in
             if pm_useNativeSidecar m
             then Inr (p \<lparr> pod_spec := (pod_spec p) \<lparr> ps_initContainers :=
                    injectProxySidecarContainer m logLevel inits proxyPort
                      (Some ContainerRestartPolicyAlways) \<rparr> \<rparr>)
             else Inr (p \<lparr> pod_spec := (pod_spec p) \<lparr> ps_initContainers := inits,
                    ps_containers :=
                      injectProxySidecarContainer m logLevel (ps_containers (pod_spec p)) proxyPort None \<rparr> \<rparr>))
      else Inr p)"

text \<open>From the decoded pod, with its namespace set, to the pod that is marshalled.\<close>

definition mutatePod :: "podMutator \<Rightarrow> string \<Rightarrow> service_account \<Rightarrow> pod \<Rightarrow> pod result" where
  "mutatePod m logLevel sa p0 =
     (case injectProxy m logLevel p0 of Inl e \<Rightarrow> Inl e | Inr p \<Rightarrow>
      (case getServiceAccountTokenExpiration p sa of Inl e \<Rightarrow> Inl e | Inr expiration \<Rightarrow>
      (let clientID = getClientID sa;
           tenantID = getTenantID sa (pm_config m);
           skipContainers = getSkipContainers p;
           podUsingCustomTokenEndpoint = isUsingCustomTokenEndpoint m p;
           volumeName = buildVolumeName (podNameOf p);
           mut = (\<lambda>cs. mutateContainers m cs clientID tenantID skipContainers
                          podUsingCustomTokenEndpoint volumeName);
           p1 = p \<lparr> pod_spec := (pod_spec p) \<lparr>
                  ps_initContainers := mut (ps_initContainers (pod_spec p)),
                  ps_containers := mut (ps_containers (pod_spec p)) \<rparr> \<rparr>
       in Inr (addProjectedVolume m p1 expiration volumeName podUsingCustomTokenEndpoint))))"

text \<open>
  \<open>Handle\<close>: the response, and the namespaces reported to the metrics by the deferred
  \<open>ReportRequest\<close>.
\<close>

definition Handle ::
  "podMutator \<Rightarrow> (string \<Rightarrow> pod result) \<Rightarrow> (string \<Rightarrow> string \<Rightarrow> service_account result)
     \<Rightarrow> (string \<Rightarrow> string \<Rightarrow> service_account result) \<Rightarrow> (pod \<Rightarrow> string result)
     \<Rightarrow> (log_level \<Rightarrow> bool) \<Rightarrow> admission_request \<Rightarrow> admission_response \<times> string list" where
  "Handle m decode clientGet readerGet marshal enabled req =
     (let response =
        (case decode (rq_object req) of Inl e \<Rightarrow> Errored 400 e | Inr decoded \<Rightarrow>
         (let p = decoded \<lparr> pod_meta := (pod_meta decoded) \<lparr> om_namespace := rq_namespace req \<rparr> \<rparr> in
          case getServiceAccountOf clientGet readerGet (rq_namespace req) (serviceAccountNameOf p) of
            Inl e \<Rightarrow> Errored 400 e
          | Inr sa \<Rightarrow>
             (case mutatePod m (currentLogLevel enabled) sa p of
                Inl e \<Rightarrow> Errored 400 e
              | Inr p' \<Rightarrow>
                 (case marshal p' of
                    Inl e \<Rightarrow> Errored 500 e
                  | Inr raw \<Rightarrow> PatchResponse (rq_object req) raw))))
      in (response, [rq_namespace req]))"

end
