(* ===== verification/Webhook_Correct.thy ===== *)
theory Webhook_Correct
  imports Webhook
begin

section \<open>Correctness of the admission handler\<close>

text \<open>
  The properties of the pod mutation as a whole: a second admission of a mutated pod
  changes nothing, every container that is not skipped can reach the projected token,
  what the user wrote stays, and which error answers which pod.
\<close>

subsection \<open>Injection\<close>

lemma injectProxy_frame:
  assumes "injectProxy m lvl p = Inr q"
  shows "pod_meta q = pod_meta p" "ps_hostNetwork (pod_spec q) = ps_hostNetwork (pod_spec p)"
    "ps_volumes (pod_spec q) = ps_volumes (pod_spec p)"
    "ps_serviceAccountName (pod_spec q) = ps_serviceAccountName (pod_spec p)"
  using assms by (auto simp: injectProxy_def Let_def split: if_splits sum.splits)

lemma injectProxy_error_iff:
  "injectProxy m lvl p = Inl e \<longleftrightarrow>
     shouldInjectProxySidecar p \<and>
     (if ps_hostNetwork (pod_spec p) then e = errHostNetwork else getProxyPort p = Inl e)"
  by (auto simp: injectProxy_def Let_def split: if_splits sum.splits)

text \<open>A pod in which both proxy containers are already in place is not injected again.\<close>

definition proxyInPlace :: "podMutator \<Rightarrow> pod \<Rightarrow> bool" where
  "proxyInPlace m p =
     (list_ex (\<lambda>c. ct_name c = ProxyInitContainerName) (ps_initContainers (pod_spec p)) \<and>
      list_ex (\<lambda>c. ct_name c = ProxySidecarContainerName)
        (if pm_useNativeSidecar m then ps_initContainers (pod_spec p) else ps_containers (pod_spec p)))"

lemma injectProxy_places:
  "injectProxy m lvl p = Inr q \<Longrightarrow> shouldInjectProxySidecar p \<Longrightarrow> proxyInPlace m q"
  by (auto simp: injectProxy_def Let_def proxyInPlace_def split: if_splits sum.splits)

lemma injectProxy_fixed:
  assumes "shouldInjectProxySidecar p \<Longrightarrow>
      \<not> ps_hostNetwork (pod_spec p) \<and> (\<exists>port. getProxyPort p = Inr port) \<and> proxyInPlace m p"
  shows "injectProxy m lvl p = Inr p"
  using assms
  by (auto simp: injectProxy_def Let_def proxyInPlace_def injectProxyInit_present injectProxySidecar_present)

lemma injectInit_shape:
  "\<exists>bs. injectProxyInitContainer m cs port = cs @ bs \<and> set (map ct_name bs) \<subseteq> {ProxyInitContainerName}"
  by (simp add: injectProxyInitContainer_def proxyInitContainer_def)

lemma injectSidecar_shape:
  "\<exists>as. injectProxySidecarContainer m lvl cs port rp = as @ cs \<and>
     set (map ct_name as) \<subseteq> {ProxySidecarContainerName}"
  by (auto simp: injectProxySidecarContainer_def proxySidecarContainer_def
      intro: exI [of _ "[]"] exI [of _ "[x]" for x])

lemma injectProxy_inits:
  assumes "injectProxy m lvl p = Inr q"
  shows "\<exists>as bs. ps_initContainers (pod_spec q) = as @ ps_initContainers (pod_spec p) @ bs \<and>
           set (map ct_name as) \<subseteq> {ProxySidecarContainerName} \<and> set (map ct_name bs) \<subseteq> {ProxyInitContainerName}"
proof (cases "shouldInjectProxySidecar p")
  case False
  with assms show ?thesis
    by (auto simp: injectProxy_def intro: exI [of _ "[]"])
next
  case True
  with assms have "\<exists>port. ps_initContainers (pod_spec q) = injectProxyInitContainer m (ps_initContainers (pod_spec p)) port \<or>
      ps_initContainers (pod_spec q) = injectProxySidecarContainer m lvl
       (injectProxyInitContainer m (ps_initContainers (pod_spec p)) port) port (Some ContainerRestartPolicyAlways)"
    by (auto simp: injectProxy_def Let_def split: if_splits sum.splits)
  then obtain port where
    "ps_initContainers (pod_spec q) = injectProxyInitContainer m (ps_initContainers (pod_spec p)) port \<or>
     ps_initContainers (pod_spec q) = injectProxySidecarContainer m lvl
       (injectProxyInitContainer m (ps_initContainers (pod_spec p)) port) port (Some ContainerRestartPolicyAlways)" ..
  moreover obtain bs where "injectProxyInitContainer m (ps_initContainers (pod_spec p)) port
      = ps_initContainers (pod_spec p) @ bs" "set (map ct_name bs) \<subseteq> {ProxyInitContainerName}"
    using injectInit_shape by blast
  ultimately show ?thesis
    using injectSidecar_shape [of m lvl "ps_initContainers (pod_spec p) @ bs" port "Some ContainerRestartPolicyAlways"]
    by (metis append.assoc append_Nil empty_subsetI list.map(1) list.set(1))
qed

lemma injectProxy_containers:
  assumes "injectProxy m lvl p = Inr q"
  shows "\<exists>as. ps_containers (pod_spec q) = as @ ps_containers (pod_spec p) \<and>
           set (map ct_name as) \<subseteq> {ProxySidecarContainerName}"
proof -
  from assms have "ps_containers (pod_spec q) = [] @ ps_containers (pod_spec p) \<or>
      (\<exists>port. ps_containers (pod_spec q) =
         injectProxySidecarContainer m lvl (ps_containers (pod_spec p)) port None)"
    by (auto simp: injectProxy_def Let_def split: if_splits sum.splits)
  then show ?thesis
    using injectSidecar_shape [of m lvl "ps_containers (pod_spec p)"] by (metis empty_subsetI list.map(1) list.set(1))
qed

subsection \<open>The whole mutation\<close>

text \<open>The pod after \<open>mutatePod\<close>, in terms of the injected pod \<open>q\<close> and the expiration \<open>e\<close>.\<close>

abbreviation volumeOf :: "pod \<Rightarrow> string" where
  "volumeOf p \<equiv> buildVolumeName (podNameOf p)"

definition mutatedContainers :: "podMutator \<Rightarrow> service_account \<Rightarrow> pod \<Rightarrow> container list \<Rightarrow> container list" where
  "mutatedContainers m sa p cs =
     mutateContainers m cs (getClientID sa) (getTenantID sa (pm_config m)) (getSkipContainers p)
       (isUsingCustomTokenEndpoint m p) (volumeOf p)"

definition finishPod :: "podMutator \<Rightarrow> service_account \<Rightarrow> int \<Rightarrow> pod \<Rightarrow> pod" where
  "finishPod m sa e q =
     addProjectedVolume m
       (q \<lparr> pod_spec := (pod_spec q) \<lparr>
              ps_initContainers := mutatedContainers m sa q (ps_initContainers (pod_spec q)),
              ps_containers := mutatedContainers m sa q (ps_containers (pod_spec q)) \<rparr> \<rparr>)
       e (volumeOf q) (isUsingCustomTokenEndpoint m q)"

lemma mutatePod_eq:
  "mutatePod m lvl sa p =
     (case injectProxy m lvl p of Inl e \<Rightarrow> Inl e | Inr q \<Rightarrow>
      (case getServiceAccountTokenExpiration q sa of Inl e \<Rightarrow> Inl e
       | Inr e \<Rightarrow> Inr (finishPod m sa e q)))"
  by (auto simp: mutatePod_def finishPod_def mutatedContainers_def Let_def split: sum.split)

lemma mutatePod_InrE:
  assumes "mutatePod m lvl sa p = Inr p'"
  obtains q e where "injectProxy m lvl p = Inr q"
    "getServiceAccountTokenExpiration q sa = Inr e" "p' = finishPod m sa e q"
  using assms by (auto simp: mutatePod_eq split: sum.splits)

text \<open>Everything the mutation reads from the pod's metadata stays the same.\<close>

lemma same_meta_reads:
  assumes "pod_meta q = pod_meta p"
  shows "getSkipContainers q = getSkipContainers p"
    "shouldInjectProxySidecar q = shouldInjectProxySidecar p"
    "getProxyPort q = getProxyPort p"
    "getServiceAccountTokenExpiration q sa = getServiceAccountTokenExpiration p sa"
    "isUsingCustomTokenEndpoint m q = isUsingCustomTokenEndpoint m p"
    "podNameOf q = podNameOf p"
  using assms
  by (simp_all add: getSkipContainers_def shouldInjectProxySidecar_def getProxyPort_def
      getServiceAccountTokenExpiration_def isUsingCustomTokenEndpoint_def podNameOf_def)

lemma finishPod_spec:
  "pod_meta (finishPod m sa e q) = pod_meta q"
  "ps_hostNetwork (pod_spec (finishPod m sa e q)) = ps_hostNetwork (pod_spec q)"
  "ps_initContainers (pod_spec (finishPod m sa e q)) =
     mutatedContainers m sa q (ps_initContainers (pod_spec q))"
  "ps_containers (pod_spec (finishPod m sa e q)) =
     mutatedContainers m sa q (ps_containers (pod_spec q))"
  "ps_volumes (pod_spec (finishPod m sa e q)) =
     replaceNamed vol_name (projectedVolume m e (volumeOf q) (isUsingCustomTokenEndpoint m q))
       (ps_volumes (pod_spec q))"
  "ps_serviceAccountName (pod_spec (finishPod m sa e q)) = ps_serviceAccountName (pod_spec q)"
  "ps_rest (pod_spec (finishPod m sa e q)) = ps_rest (pod_spec q)"
  "pod_status (finishPod m sa e q) = pod_status q"
  by (simp_all add: finishPod_def addProjectedVolume_def)

lemma mutatedContainers_has [simp]:
  "list_ex (\<lambda>c. ct_name c = n) (mutatedContainers m sa q cs) = list_ex (\<lambda>c. ct_name c = n) cs"
  by (simp add: mutatedContainers_def)

lemma finishPod_inPlace: "proxyInPlace m (finishPod m sa e q) = proxyInPlace m q"
  by (simp add: proxyInPlace_def finishPod_spec)

lemma finishPod_idem: "finishPod m sa e (finishPod m sa e q) = finishPod m sa e q"
proof -
  have same: "pod_meta (finishPod m sa e q) = pod_meta q" by (simp add: finishPod_spec)
  have mut: "mutatedContainers m sa (finishPod m sa e q) cs = mutatedContainers m sa q cs" for cs
    by (simp add: mutatedContainers_def same_meta_reads [OF same])
  have idem: "mutatedContainers m sa q (mutatedContainers m sa q cs) = mutatedContainers m sa q cs" for cs
    by (simp add: mutatedContainers_def idem_simps)
  show ?thesis
    by (intro pod.equality pod_spec.equality)
      (simp_all add: same_meta_reads [OF same] finishPod_spec mut idem volumes.upd_idem)
qed

subsection \<open>A concrete admission\<close>

text \<open>A pod that asks for the proxy, its service account and a mutator, for the witnesses.\<close>

definition demoConfig :: config where
  "demoConfig = \<lparr> Cloud = [], TenantID = ''tenant'', ProxyImage = [], ProxyInitImage = [],
     AzureKubernetesTokenProxy = [], AzureKubernetesSNIName = [], AzureKubernetesCAData = [],
     AzureKubernetesCAConfigMapName = ''ca'', AzureKubernetesCACTBSignerName = [],
     AzureKubernetesCACTBLabelSelector = None \<rparr>"

definition demoMutator :: podMutator where
  "demoMutator = \<lparr> pm_config = demoConfig, pm_audience = DefaultAudience,
     pm_azureAuthorityHost = ''https://login.microsoftonline.com/'',
     pm_proxyImage = ''r/proxy:v1'', pm_proxyInitImage = ''r/proxy-init:v1'',
     pm_useNativeSidecar = True, pm_customTokenEndpoint = disabledCTE \<rparr>"

definition demoContainer :: container where
  "demoContainer = emptyContainer \<lparr> ct_name := ''app'', ct_image := ''app:v1'',
     ct_env := [envVar AzureClientIDEnvVar ''mine''] \<rparr>"

definition demoPod :: pod where
  "demoPod = \<lparr> pod_meta = emptyMeta \<lparr> om_name := ''demo'', om_annotations :=
       [(InjectProxySidecarAnnotation, ''true''), (ProxySidecarPortAnnotation, ''8080'')] \<rparr>,
     pod_spec = \<lparr> ps_serviceAccountName = ''sa'', ps_hostNetwork = False, ps_initContainers = [],
       ps_containers = [demoContainer], ps_volumes = [], ps_rest = None \<rparr>,
     pod_status = None \<rparr>"

definition demoSA :: service_account where
  "demoSA = emptyServiceAccount \<lparr> sa_meta := emptyMeta \<lparr> om_name := ''sa'', om_annotations :=
     [(ClientIDAnnotation, ''client''), (ServiceAccountTokenExpiryAnnotation, ''7200'')] \<rparr> \<rparr>"

lemma parse_8080: "parseInt ''8080'' 32 = Inr 8080"
  by (simp add: parseInt_def parseUint_def stripSign_def digitVal_def)

lemma parse_7200: "parseInt ''7200'' 64 = Inr 7200"
  by (simp add: parseInt_def parseUint_def stripSign_def digitVal_def)

lemma demo_reads:
  "shouldInjectProxySidecar demoPod" "getProxyPort demoPod = Inr 8080"
  "\<not> ps_hostNetwork (pod_spec demoPod)"
  by (simp_all add: shouldInject_iff smap_has_def demoPod_def getProxyPort_cases annotation_names
      parse_8080 emptyMeta_def)

lemma demo_expiration: "getServiceAccountTokenExpiration demoPod demoSA = Inr 7200"
  by (simp add: getServiceAccountTokenExpiration_def demoPod_def demoSA_def emptyMeta_def
      emptyServiceAccount_def annotation_names smap_get_def parse_7200 validExpiry_iff)

lemma demo_injects: "\<exists>q. injectProxy demoMutator [] demoPod = Inr q"
  by (simp add: injectProxy_def demo_reads Let_def)

lemma demo_mutates: "\<exists>p'. mutatePod demoMutator [] demoSA demoPod = Inr p'"
proof -
  obtain q where q: "injectProxy demoMutator [] demoPod = Inr q" using demo_injects by blast
  then have "getServiceAccountTokenExpiration q demoSA = Inr 7200"
    using same_meta_reads(4) [OF injectProxy_frame(1) [OF q]] demo_expiration by simp
  with q show ?thesis by (simp add: mutatePod_eq)
qed

subsection \<open>Reinvocation\<close>

text \<open>
  C1: Admission is idempotent.  The webhook is registered with
  \<open>reinvocationPolicy=IfNeeded\<close>, so the API server may send it a pod it has mutated
  already: if the mutation of a pod succeeds, mutating the result again succeeds and
  returns it unchanged (no container, variable, mount or volume is added twice).
\<close>

theorem reinvocation_idempotent:
  assumes "mutatePod m lvl sa p = Inr p'"
  shows "mutatePod m lvl sa p' = Inr p'"
proof -
  from assms obtain q e where q: "injectProxy m lvl p = Inr q"
    and e: "getServiceAccountTokenExpiration q sa = Inr e" and p': "p' = finishPod m sa e q"
    by (rule mutatePod_InrE)
  note frame = injectProxy_frame [OF q]
  have meta: "pod_meta p' = pod_meta q" by (simp add: p' finishPod_spec)
  note reads = same_meta_reads [OF meta] same_meta_reads [OF frame(1)]
  have "injectProxy m lvl p' = Inr p'"
  proof (rule injectProxy_fixed)
    assume "shouldInjectProxySidecar p'"
    then have inj: "shouldInjectProxySidecar p" by (simp only: reads)
    then have "\<not> ps_hostNetwork (pod_spec p)" "\<exists>port. getProxyPort p = Inr port"
      using q by (auto simp: injectProxy_def split: if_splits sum.splits)
    moreover have "proxyInPlace m p'"
      using injectProxy_places [OF q inj] by (simp add: p' finishPod_inPlace)
    ultimately show "\<not> ps_hostNetwork (pod_spec p') \<and> (\<exists>port. getProxyPort p' = Inr port) \<and> proxyInPlace m p'"
      using frame(2) by (simp add: reads) (simp add: p' finishPod_spec)
  qed
  moreover have "getServiceAccountTokenExpiration p' sa = Inr e"
    using e by (simp only: reads)
  ultimately show ?thesis by (simp add: mutatePod_eq p' finishPod_idem)
qed

theorem reinvocation_idempotent_witness:
  "\<exists>p'. mutatePod demoMutator [] demoSA demoPod = Inr p' \<and>
        mutatePod demoMutator [] demoSA p' = Inr p'"
  using demo_mutates reinvocation_idempotent by blast

subsection \<open>The token can be reached\<close>

lemma tokenFile_nonempty: "filepathJoin [VolumeMountPath, TokenFilePath] \<noteq> []"
  by (simp add: VolumeMountPath_def TokenFilePath_def filepathJoin_def filepathClean_def)

lemma mutateContainer_reaches:
  assumes "ct_name c \<notin> skip"
  shows "find (\<lambda>v. vm_name v = vol) (ct_volumeMounts (mutateContainer m cid tid skip cte vol c))
           = Some (projectedMount vol)"
    and "AzureFederatedTokenFileEnvVar \<in> ev_name ` set (ct_env (mutateContainer m cid tid skip cte vol c))"
proof -
  have key: "vm_name (projectedMount vol) = vol" by (simp add: projectedMount_def)
  show "find (\<lambda>v. vm_name v = vol) (ct_volumeMounts (mutateContainer m cid tid skip cte vol c))
          = Some (projectedMount vol)"
    using assms mounts.upd_find [of "projectedMount vol"]
    by (simp add: mutateContainer_def addProjectedVolumeMount_def key)
  let ?d = "envVar AzureFederatedTokenFileEnvVar (filepathJoin [VolumeMountPath, TokenFilePath])"
  have "AzureFederatedTokenFileEnvVar \<in> ev_name ` set (ct_env (addEnvironmentVariables m c cid tid host cte))"
    for host
  proof (cases "AzureFederatedTokenFileEnvVar \<in> ev_name ` set (ct_env c)")
    case True
    then show ?thesis by (auto simp: addEnvironmentVariables_env)
  next
    case False
    then have "?d \<in> set (ct_env (addEnvironmentVariables m c cid tid host cte))"
      by (simp add: addEnvironmentVariables_env desiredEnvs_def envVar_def tokenFile_nonempty)
    then show ?thesis by (rule rev_image_eqI) (simp add: envVar_def)
  qed
  then show "AzureFederatedTokenFileEnvVar \<in> ev_name ` set (ct_env (mutateContainer m cid tid skip cte vol c))"
    using assms by (simp add: mutateContainer_def frame_simps)
qed

lemma projectedSources_token:
  "\<exists>cas. projectedSources m e cte =
     ServiceAccountTokenProjection TokenFilePath e
       (if cte then cte_audience (pm_customTokenEndpoint m) else pm_audience m) # cas"
  by (simp add: projectedSources_def)

lemma mutated_volume:
  assumes "mutatePod m lvl sa p = Inr p'"
  shows "\<exists>e cas. 3600 \<le> e \<and> e \<le> 86400 \<and> getServiceAccountTokenExpiration p sa = Inr e \<and>
    find (\<lambda>v. vol_name v = volumeOf p) (ps_volumes (pod_spec p')) =
      Some \<lparr> vol_name = volumeOf p, vol_source = Projected
        (ServiceAccountTokenProjection TokenFilePath e
           (if isUsingCustomTokenEndpoint m p then cte_audience (pm_customTokenEndpoint m)
            else pm_audience m) # cas) \<rparr>"
proof -
  from assms obtain q e where q: "injectProxy m lvl p = Inr q"
    and e: "getServiceAccountTokenExpiration q sa = Inr e" and p': "p' = finishPod m sa e q"
    by (rule mutatePod_InrE)
  note reads = same_meta_reads [OF injectProxy_frame(1) [OF q]]
  have "volumeOf q = volumeOf p" by (simp only: reads)
  then have "find (\<lambda>v. vol_name v = volumeOf p) (ps_volumes (pod_spec p'))
      = Some (projectedVolume m e (volumeOf p) (isUsingCustomTokenEndpoint m p))"
    using volumes.upd_find [of "projectedVolume m e (volumeOf q) (isUsingCustomTokenEndpoint m q)"]
    by (simp add: p' finishPod_spec projectedVolume_def reads)
  then have "\<exists>cas. find (\<lambda>v. vol_name v = volumeOf p) (ps_volumes (pod_spec p')) =
      Some \<lparr> vol_name = volumeOf p, vol_source = Projected
        (ServiceAccountTokenProjection TokenFilePath e
           (if isUsingCustomTokenEndpoint m p then cte_audience (pm_customTokenEndpoint m)
            else pm_audience m) # cas) \<rparr>"
    using projectedSources_token [of m e "isUsingCustomTokenEndpoint m p"]
    by (auto simp: projectedVolume_def)
  moreover have "getServiceAccountTokenExpiration p sa = Inr e" using e by (simp only: reads)
  moreover note expiration_Inr_range [OF this]
  ultimately show ?thesis by blast
qed

text \<open>
  C14: Every container of a mutated pod, init containers and the injected proxy included,
  that the skip annotation does not name has the read-only mount of the projected volume
  as its (only effective) mount of that name, and a variable that names the token file;
  the pod has the volume; its first source projects a service account token with the
  audience that belongs to the pod and an expiration between 3600 and 86400 seconds.
\<close>

theorem token_reachable:
  assumes "mutatePod m lvl sa p = Inr p'"
  shows "(\<forall>c \<in> set (ps_initContainers (pod_spec p')) \<union> set (ps_containers (pod_spec p')).
            ct_name c \<notin> getSkipContainers p \<longrightarrow>
              find (\<lambda>v. vm_name v = volumeOf p) (ct_volumeMounts c) = Some (projectedMount (volumeOf p)) \<and>
              AzureFederatedTokenFileEnvVar \<in> ev_name ` set (ct_env c)) \<and>
         (\<exists>e cas. 3600 \<le> e \<and> e \<le> 86400 \<and> getServiceAccountTokenExpiration p sa = Inr e \<and>
            find (\<lambda>v. vol_name v = volumeOf p) (ps_volumes (pod_spec p')) =
              Some \<lparr> vol_name = volumeOf p, vol_source = Projected
                (ServiceAccountTokenProjection TokenFilePath e
                   (if isUsingCustomTokenEndpoint m p then cte_audience (pm_customTokenEndpoint m)
                    else pm_audience m) # cas) \<rparr>)"
proof -
  from assms obtain q e where q: "injectProxy m lvl p = Inr q" and p': "p' = finishPod m sa e q"
    by (rule mutatePod_InrE)
  note reads = same_meta_reads [OF injectProxy_frame(1) [OF q]]
  have containers:
    "find (\<lambda>v. vm_name v = volumeOf p) (ct_volumeMounts c) = Some (projectedMount (volumeOf p)) \<and>
     AzureFederatedTokenFileEnvVar \<in> ev_name ` set (ct_env c)"
    if "c \<in> set (mutatedContainers m sa q cs)" "ct_name c \<notin> getSkipContainers p" for c cs
    using that mutateContainer_reaches
    by (auto simp: mutatedContainers_def mutateContainers_def reads)
  show ?thesis
    using containers mutated_volume [OF assms] by (auto simp: p' finishPod_spec)
qed

theorem token_reachable_witness:
  "\<exists>p' c. mutatePod demoMutator [] demoSA demoPod = Inr p' \<and> c \<in> set (ps_containers (pod_spec p')) \<and>
     find (\<lambda>v. vm_name v = volumeOf demoPod) (ct_volumeMounts c) = Some (projectedMount (volumeOf demoPod))"
proof -
  obtain p' where p': "mutatePod demoMutator [] demoSA demoPod = Inr p'" using demo_mutates by blast
  then obtain q e where q: "injectProxy demoMutator [] demoPod = Inr q"
    and "p' = finishPod demoMutator demoSA e q" by (rule mutatePod_InrE)
  moreover have "ps_containers (pod_spec q) \<noteq> []"
    using injectProxy_containers [OF q] by (auto simp: demoPod_def)
  ultimately have "ps_containers (pod_spec p') \<noteq> []"
    by (simp add: finishPod_spec mutatedContainers_def mutateContainers_def)
  then obtain c where c: "c \<in> set (ps_containers (pod_spec p'))" by fastforce
  moreover have "getSkipContainers demoPod = {}"
    by (simp add: getSkipContainers_def demoPod_def emptyMeta_def smap_get_def annotation_names)
  ultimately show ?thesis using token_reachable [OF p'] p' by auto
qed

subsection \<open>What the user wrote stays\<close>

text \<open>\<open>c'\<close> is \<open>c\<close> with variables appended and only the mount named \<open>vol\<close> added or replaced.\<close>

definition containerExtends :: "string \<Rightarrow> container \<Rightarrow> container \<Rightarrow> bool" where
  "containerExtends vol c c' \<longleftrightarrow>
     c' = c \<lparr> ct_env := ct_env c', ct_volumeMounts := ct_volumeMounts c' \<rparr> \<and>
     prefix (ct_env c) (ct_env c') \<and>
     (\<forall>d \<in> set (drop (length (ct_env c)) (ct_env c')). ev_name d \<notin> ev_name ` set (ct_env c)) \<and>
     filter (\<lambda>v. vm_name v \<noteq> vol) (ct_volumeMounts c') = filter (\<lambda>v. vm_name v \<noteq> vol) (ct_volumeMounts c)"

lemma mutateContainer_extends:
  "containerExtends vol c (mutateContainer m cid tid skip cte vol c)"
proof -
  have "filter (\<lambda>v. vm_name v \<noteq> vol) (replaceNamed vm_name (projectedMount vol) vs)
          = filter (\<lambda>v. vm_name v \<noteq> vol) vs" for vs
    using mounts.upd_filter_others [of "projectedMount vol" vs] by (simp add: projectedMount_def)
  then show ?thesis
    by (auto simp: containerExtends_def mutateContainer_def addProjectedVolumeMount_def
        addEnvironmentVariables_def appendMissing_eq)
qed

lemma mutatedContainers_extend:
  "list_all2 (\<lambda>c c'. containerExtends (volumeOf q) c c' \<and> (ct_name c \<in> getSkipContainers q \<longrightarrow> c' = c))
     cs (mutatedContainers m sa q cs)"
  using mutateContainer_extends
  by (auto simp: mutatedContainers_def mutateContainers_def list_all2_conv_all_nth mutateContainer_def)

text \<open>
  C16: The mutation only adds.  The containers and init containers of the user are kept, in
  their order, between at most the injected sidecar (in front) and the injected init
  container (behind the init containers); each is unchanged if the skip annotation names
  it, and otherwise differs only by appended variables with names it did not have and by
  the mount of the projected volume; every volume with another name is kept.
\<close>

theorem user_content_preserved:
  assumes "mutatePod m lvl sa p = Inr p'"
  shows "pod_meta p' = pod_meta p \<and>
    (\<exists>as mid bs. ps_initContainers (pod_spec p') = as @ mid @ bs \<and>
       set (map ct_name as) \<subseteq> {ProxySidecarContainerName} \<and> set (map ct_name bs) \<subseteq> {ProxyInitContainerName} \<and>
       list_all2 (\<lambda>c c'. containerExtends (volumeOf p) c c' \<and> (ct_name c \<in> getSkipContainers p \<longrightarrow> c' = c))
         (ps_initContainers (pod_spec p)) mid) \<and>
    (\<exists>as mid. ps_containers (pod_spec p') = as @ mid \<and> set (map ct_name as) \<subseteq> {ProxySidecarContainerName} \<and>
       list_all2 (\<lambda>c c'. containerExtends (volumeOf p) c c' \<and> (ct_name c \<in> getSkipContainers p \<longrightarrow> c' = c))
         (ps_containers (pod_spec p)) mid) \<and>
    filter (\<lambda>v. vol_name v \<noteq> volumeOf p) (ps_volumes (pod_spec p')) =
      filter (\<lambda>v. vol_name v \<noteq> volumeOf p) (ps_volumes (pod_spec p))"
proof -
  from assms obtain q e where q: "injectProxy m lvl p = Inr q" and p': "p' = finishPod m sa e q"
    by (rule mutatePod_InrE)
  note reads = same_meta_reads [OF injectProxy_frame(1) [OF q]]
  have ext: "list_all2 (\<lambda>c c'. containerExtends (volumeOf p) c c' \<and> (ct_name c \<in> getSkipContainers p \<longrightarrow> c' = c))
      cs (mutatedContainers m sa q cs)" for cs
    using mutatedContainers_extend [of q cs m sa] by (simp only: reads)
  have app: "mutatedContainers m sa q (xs @ ys) = mutatedContainers m sa q xs @ mutatedContainers m sa q ys"
    and names: "map ct_name (mutatedContainers m sa q xs) = map ct_name xs" for xs ys
    by (simp_all add: mutatedContainers_def mutateContainers_def comp_def)
  obtain as bs where "ps_initContainers (pod_spec q) = as @ ps_initContainers (pod_spec p) @ bs"
    "set (map ct_name as) \<subseteq> {ProxySidecarContainerName}" "set (map ct_name bs) \<subseteq> {ProxyInitContainerName}"
    using injectProxy_inits [OF q] by blast
  moreover obtain as' where "ps_containers (pod_spec q) = as' @ ps_containers (pod_spec p)"
    "set (map ct_name as') \<subseteq> {ProxySidecarContainerName}"
    using injectProxy_containers [OF q] by blast
  moreover have "filter (\<lambda>v. vol_name v \<noteq> volumeOf p) (ps_volumes (pod_spec p')) =
      filter (\<lambda>v. vol_name v \<noteq> volumeOf p) (ps_volumes (pod_spec p))"
    using volumes.upd_filter_others
        [of "projectedVolume m e (volumeOf q) (isUsingCustomTokenEndpoint m q)" "ps_volumes (pod_spec q)"]
    by (simp add: p' finishPod_spec projectedVolume_def reads injectProxy_frame(3) [OF q])
  moreover have "pod_meta p' = pod_meta p"
    using injectProxy_frame(1) [OF q] by (simp add: p' finishPod_spec)
  moreover have "ps_initContainers (pod_spec p') = mutatedContainers m sa q (ps_initContainers (pod_spec q))"
    and "ps_containers (pod_spec p') = mutatedContainers m sa q (ps_containers (pod_spec q))"
    by (simp_all only: p' finishPod_spec)
  ultimately show ?thesis
    using ext
    by (intro conjI exI [of _ "mutatedContainers m sa q as"] exI [of _ "mutatedContainers m sa q bs"]
          exI [of _ "mutatedContainers m sa q as'"]
          exI [of _ "mutatedContainers m sa q (ps_initContainers (pod_spec p))"]
          exI [of _ "mutatedContainers m sa q (ps_containers (pod_spec p))"])
      (simp_all only: app names)
qed

theorem user_content_preserved_witness:
  "\<exists>p' as mid. mutatePod demoMutator [] demoSA demoPod = Inr p' \<and>
     ps_containers (pod_spec p') = as @ mid \<and>
     list_all2 (containerExtends (volumeOf demoPod)) [demoContainer] mid"
proof -
  obtain p' where p': "mutatePod demoMutator [] demoSA demoPod = Inr p'" using demo_mutates by blast
  have "ps_containers (pod_spec demoPod) = [demoContainer]" by (simp add: demoPod_def)
  with user_content_preserved [OF p'] obtain as mid where "ps_containers (pod_spec p') = as @ mid"
    and "list_all2 (\<lambda>c c'. containerExtends (volumeOf demoPod) c c' \<and> (ct_name c \<in> getSkipContainers demoPod \<longrightarrow> c' = c))
         [demoContainer] mid" by metis
  moreover from this(2) have "list_all2 (containerExtends (volumeOf demoPod)) [demoContainer] mid"
    by (rule list_all2_mono) simp
  ultimately show ?thesis using p' by blast
qed

subsection \<open>Errors and answers\<close>

lemma mutatePod_refuses:
  "mutatePod m lvl sa p = Inl err \<longleftrightarrow>
     (if shouldInjectProxySidecar p \<and> ps_hostNetwork (pod_spec p) then err = errHostNetwork
      else if shouldInjectProxySidecar p \<and> (\<exists>e. getProxyPort p = Inl e) then getProxyPort p = Inl err
      else getServiceAccountTokenExpiration p sa = Inl err)"
proof (cases "injectProxy m lvl p")
  case (Inl e)
  then have "mutatePod m lvl sa p = Inl e" by (simp add: mutatePod_eq)
  with Inl show ?thesis using injectProxy_error_iff [of m lvl p e]
    by (auto split: if_splits)
next
  case (Inr q)
  then have "mutatePod m lvl sa p = Inl err \<longleftrightarrow> getServiceAccountTokenExpiration p sa = Inl err"
    by (auto simp: mutatePod_eq same_meta_reads(4) [OF injectProxy_frame(1) [OF Inr]] split: sum.splits)
  moreover have "shouldInjectProxySidecar p \<Longrightarrow>
      \<not> ps_hostNetwork (pod_spec p) \<and> (\<nexists>e. getProxyPort p = Inl e)"
    using Inr by (auto simp: injectProxy_def split: if_splits sum.splits)
  ultimately show ?thesis by auto
qed


text \<open>
  What the pod that is admitted asks of the kubelet: the expirations of the tokens that
  are projected into the volume of the webhook.  The account with another expiry
  annotation, all else being the same.
\<close>

fun tokenExpirationsOf :: "volume_projection list \<Rightarrow> int list" where
  "tokenExpirationsOf [] = []"
| "tokenExpirationsOf (ServiceAccountTokenProjection path e aud # srcs) = e # tokenExpirationsOf srcs"
| "tokenExpirationsOf (_ # srcs) = tokenExpirationsOf srcs"

definition projectedExpirations :: "pod \<Rightarrow> int list" where
  "projectedExpirations p =
     (case find (\<lambda>v. vol_name v = volumeOf p) (ps_volumes (pod_spec p)) of
        Some v \<Rightarrow> (case vol_source v of Projected srcs \<Rightarrow> tokenExpirationsOf srcs | OtherSource _ \<Rightarrow> [])
      | None \<Rightarrow> [])"

definition withExpiry :: "string \<Rightarrow> service_account \<Rightarrow> service_account" where
  "withExpiry x sa = sa \<lparr> sa_meta := (sa_meta sa) \<lparr> om_annotations :=
     smap_set (sa_annotations sa) ServiceAccountTokenExpiryAnnotation x \<rparr> \<rparr>"

lemma withExpiry_ids:
  "getClientID (withExpiry x sa) = getClientID sa" "getTenantID (withExpiry x sa) c = getTenantID sa c"
  by (simp_all add: withExpiry_def getClientID_def getTenantID_def annotation_names smap_get_def smap_set_def
      update_conv')

lemma finishPod_account:
  assumes "getClientID sa' = getClientID sa" and "getTenantID sa' (pm_config m) = getTenantID sa (pm_config m)"
  shows "finishPod m sa' e q = finishPod m sa e q"
  by (simp add: finishPod_def mutatedContainers_def assms)

lemma mutatePod_account:
  assumes "getClientID sa' = getClientID sa" and "getTenantID sa' (pm_config m) = getTenantID sa (pm_config m)"
    and "getServiceAccountTokenExpiration p sa' = getServiceAccountTokenExpiration p sa"
  shows "mutatePod m lvl sa' p = mutatePod m lvl sa p"
  using assms(3) same_meta_reads(4) [OF injectProxy_frame(1)]
  by (auto simp: mutatePod_eq finishPod_account [OF assms(1,2)] split: sum.splits)

lemma projected_sources_expiration: "tokenExpirationsOf (projectedSources m e cte) = [e]"
  by (simp add: projectedSources_def)

lemma mutatePod_given_expiration:
  assumes "injectProxy m lvl p = Inr q"
  shows "case getServiceAccountTokenExpiration p sa of
      Inl err \<Rightarrow> mutatePod m lvl sa p = Inl err
    | Inr e \<Rightarrow> \<exists>p'. mutatePod m lvl sa p = Inr p' \<and> projectedExpirations p' = [e]"
proof (cases "getServiceAccountTokenExpiration p sa")
  case (Inl err)
  then show ?thesis using assms by (simp add: mutatePod_eq same_meta_reads [OF injectProxy_frame(1)])
next
  case (Inr e)
  let ?v = "projectedVolume m e (volumeOf q) (isUsingCustomTokenEndpoint m q)"
  have "mutatePod m lvl sa p = Inr (finishPod m sa e q)"
    using assms Inr by (simp add: mutatePod_eq same_meta_reads [OF injectProxy_frame(1)])
  moreover have "volumeOf (finishPod m sa e q) = volumeOf q"
    by (simp add: same_meta_reads [OF finishPod_spec(1)])
  moreover have "find (\<lambda>v. vol_name v = volumeOf q) (ps_volumes (pod_spec (finishPod m sa e q))) = Some ?v"
    using volumes.upd_find [of ?v] by (simp add: finishPod_spec projectedVolume_def)
  ultimately show ?thesis
    using Inr by (simp add: projectedExpirations_def projected_sources_expiration) (simp add: projectedVolume_def
        projected_sources_expiration)
qed

lemma expiration_of_decimal:
  assumes "- (2 ^ 63) \<le> n" and "n < 2 ^ 63"
    and "smap_get (pod_annotations p) ServiceAccountTokenExpiryAnnotation = formatInt n \<or>
      smap_get (pod_annotations p) ServiceAccountTokenExpiryAnnotation = [] \<and>
      smap_get (sa_annotations sa) ServiceAccountTokenExpiryAnnotation = formatInt n"
  shows "getServiceAccountTokenExpiration p sa =
    (if 3600 \<le> n \<and> n \<le> 86400 then Inr n else Inl (errTokenExpiration n))"
proof -
  have "parseInt (formatInt n) 64 = Inr n" using assms(1,2) by (intro parseInt_formatInt) simp_all
  moreover have "formatInt n \<noteq> []" by (simp add: formatInt_def)
  ultimately show ?thesis using assms(3) by (auto simp: getServiceAccountTokenExpiration_def validExpiry_iff)
qed

text \<open>
  C22: How long the token lives that the kubelet projects into an admitted pod.  Let the
  injection of the proxy not refuse the pod.  A number of seconds, printed in decimal into
  the annotation of the pod, or into that of the service account when the pod has none or
  an empty one, is the expiration of the projected token of the admitted pod when it is
  between 3600 and 86400, and refuses the pod otherwise; without either annotation it is
  3600; and whatever the annotations are, every pod that is admitted has one projected token,
  of an expiration in that range.  An annotation of the pod that is not empty makes the
  one of the account irrelevant, also when it is invalid: any other value in the account
  gives the same answer.
\<close>

theorem projected_expiration:
  assumes "injectProxy m lvl p = Inr q" and "- (2 ^ 63) \<le> n" and "n < 2 ^ 63"
  shows "let a = smap_get (pod_annotations p) ServiceAccountTokenExpiryAnnotation;
             b = smap_get (sa_annotations sa) ServiceAccountTokenExpiryAnnotation
    in (a = formatInt n \<or> a = [] \<and> b = formatInt n \<longrightarrow>
         (if 3600 \<le> n \<and> n \<le> 86400
          then \<exists>p'. mutatePod m lvl sa p = Inr p' \<and> projectedExpirations p' = [n]
          else mutatePod m lvl sa p = Inl (errTokenExpiration n))) \<and>
       (a = [] \<and> b = [] \<longrightarrow> (\<exists>p'. mutatePod m lvl sa p = Inr p' \<and> projectedExpirations p' = [3600])) \<and>
       (\<forall>p'. mutatePod m lvl sa p = Inr p' \<longrightarrow>
          (\<exists>e. projectedExpirations p' = [e] \<and> 3600 \<le> e \<and> e \<le> 86400)) \<and>
       (a \<noteq> [] \<longrightarrow> (\<forall>x. mutatePod m lvl (withExpiry x sa) p = mutatePod m lvl sa p))"
proof -
  let ?a = "smap_get (pod_annotations p) ServiceAccountTokenExpiryAnnotation"
  let ?b = "smap_get (sa_annotations sa) ServiceAccountTokenExpiryAnnotation"
  note out = mutatePod_given_expiration [OF assms(1), of sa]
  have "?a = formatInt n \<or> ?a = [] \<and> ?b = formatInt n \<longrightarrow>
         (if 3600 \<le> n \<and> n \<le> 86400
          then \<exists>p'. mutatePod m lvl sa p = Inr p' \<and> projectedExpirations p' = [n]
          else mutatePod m lvl sa p = Inl (errTokenExpiration n))"
    using out expiration_of_decimal [OF assms(2,3), of p sa] by auto
  moreover have "?a = [] \<and> ?b = [] \<longrightarrow> (\<exists>p'. mutatePod m lvl sa p = Inr p' \<and> projectedExpirations p' = [3600])"
    using out by (auto simp: getServiceAccountTokenExpiration_def validExpiry_iff DefaultServiceAccountTokenExpiration_def)
  moreover have "\<exists>e. projectedExpirations p' = [e] \<and> 3600 \<le> e \<and> e \<le> 86400"
    if "mutatePod m lvl sa p = Inr p'" for p'
    using out that expiration_Inr_range [of p sa] by (auto split: sum.splits)
  moreover have "mutatePod m lvl (withExpiry x sa) p = mutatePod m lvl sa p" if "?a \<noteq> []" for x
    using that by (intro mutatePod_account withExpiry_ids) (simp add: getServiceAccountTokenExpiration_def)
  ultimately show ?thesis by (simp only: Let_def) blast
qed

theorem projected_expiration_witness:
  "\<exists>p'. mutatePod demoMutator [] demoSA demoPod = Inr p' \<and> projectedExpirations p' = [7200]"
proof -
  obtain q where q: "injectProxy demoMutator [] demoPod = Inr q" using demo_injects by blast
  have n: "formatInt 7200 = ''7200''" by (simp add: formatInt_def showNat.simps digitChar_def char_of_def bit_iff_odd)
  have "smap_get (pod_annotations demoPod) ServiceAccountTokenExpiryAnnotation = []"
    "smap_get (sa_annotations demoSA) ServiceAccountTokenExpiryAnnotation = ''7200''"
    by (simp_all add: demoPod_def demoSA_def emptyServiceAccount_def emptyMeta_def annotation_names smap_get_def)
  moreover have "- (2 ^ 63) \<le> (7200 :: int)" "(7200 :: int) < 2 ^ 63" by simp_all
  note projected_expiration [OF q this, of demoSA, unfolded Let_def, THEN conjunct1]
  ultimately show ?thesis by (simp add: n)
qed

text \<open>
  The account of a pod as the two clients together know it: the cache has it, or the cache
  says that it does not exist and the API server has it; and how the search for it fails.
\<close>

definition accountFound ::
  "(string \<Rightarrow> string \<Rightarrow> service_account result) \<Rightarrow> (string \<Rightarrow> string \<Rightarrow> service_account result)
     \<Rightarrow> string \<Rightarrow> string \<Rightarrow> service_account \<Rightarrow> bool" where
  "accountFound clientGet readerGet ns n sa \<longleftrightarrow>
     clientGet ns n = Inr sa \<or>
     (\<exists>e. clientGet ns n = Inl e \<and> apiIsNotFound e \<and> readerGet ns n = Inr sa)"

definition accountFails ::
  "(string \<Rightarrow> string \<Rightarrow> service_account result) \<Rightarrow> (string \<Rightarrow> string \<Rightarrow> service_account result)
     \<Rightarrow> string \<Rightarrow> string \<Rightarrow> go_error \<Rightarrow> bool" where
  "accountFails clientGet readerGet ns n e \<longleftrightarrow>
     clientGet ns n = Inl e \<and> \<not> apiIsNotFound e \<or>
     (\<exists>e0. clientGet ns n = Inl e0 \<and> apiIsNotFound e0 \<and> readerGet ns n = Inl e)"

definition inNamespace :: "string \<Rightarrow> pod \<Rightarrow> pod" where
  "inNamespace ns p = p \<lparr> pod_meta := (pod_meta p) \<lparr> om_namespace := ns \<rparr> \<rparr>"

lemma account_iff:
  "getServiceAccountOf clientGet readerGet ns n = Inr sa \<longleftrightarrow> accountFound clientGet readerGet ns n sa"
  "getServiceAccountOf clientGet readerGet ns n = Inl e \<longleftrightarrow> accountFails clientGet readerGet ns n e"
  by (auto simp: getServiceAccountOf_def accountFound_def accountFails_def split: sum.split)

lemma inNamespace_reads:
  "serviceAccountNameOf (inNamespace ns p) = serviceAccountNameOf p"
  "pod_spec (inNamespace ns p) = pod_spec p"
  "shouldInjectProxySidecar (inNamespace ns p) = shouldInjectProxySidecar p"
  "getProxyPort (inNamespace ns p) = getProxyPort p"
  "getServiceAccountTokenExpiration (inNamespace ns p) sa = getServiceAccountTokenExpiration p sa"
  by (simp_all add: inNamespace_def serviceAccountNameOf_def shouldInjectProxySidecar_def getProxyPort_def
      getServiceAccountTokenExpiration_def)

lemma Handle_eq:
  "Handle m decode clientGet readerGet marshal enabled req =
     ((case decode (rq_object req) of Inl e \<Rightarrow> Errored 400 e | Inr d \<Rightarrow>
       (case getServiceAccountOf clientGet readerGet (rq_namespace req) (serviceAccountNameOf d) of
          Inl e \<Rightarrow> Errored 400 e
        | Inr sa \<Rightarrow>
           (case mutatePod m (currentLogLevel enabled) sa (inNamespace (rq_namespace req) d) of
              Inl e \<Rightarrow> Errored 400 e
            | Inr p' \<Rightarrow>
               (case marshal p' of
                  Inl e \<Rightarrow> Errored 500 e
                | Inr raw \<Rightarrow> PatchResponse (rq_object req) raw)))), [rq_namespace req])"
proof -
  have "serviceAccountNameOf (d \<lparr> pod_meta := x \<rparr>) = serviceAccountNameOf d" for d x
    by (simp add: serviceAccountNameOf_def)
  then show ?thesis by (simp only: Handle_def Let_def inNamespace_def)
qed

text \<open>
  C27: Which answer the handler gives, exactly.  Every request is reported to the metrics
  once, under its namespace, whatever the outcome.  A patch is given exactly when the
  object decodes, the account of the pod is found, in the cache or, if the cache says that
  it does not exist, at the API server, the decoded pod in the namespace of the request is
  mutated and the mutated pod is marshalled; it is the patch from the object as it was
  received to that text.  Status 500 is given exactly when all of that succeeds but
  marshalling the mutated pod, with the error of the latter.  Status 400 is given exactly when the
  object does not decode, or the account cannot be had (any error of the cache but not
  found, or the error of the API server after a not found of the cache), or the pod asks for
  the proxy on the host network, or asks for it with a port that does not parse, or its expiration
  cannot be determined, in this order and with the error of the first.  No other status is
  given.
\<close>

theorem Handle_outcomes:
  "let ns = rq_namespace req; obj = rq_object req;
       found = (\<lambda>d sa. decode obj = Inr d \<and> accountFound clientGet readerGet ns (serviceAccountNameOf d) sa);
       mutated = (\<lambda>d sa. mutatePod m (currentLogLevel enabled) sa (inNamespace ns d));
       answer = fst (Handle m decode clientGet readerGet marshal enabled req)
   in snd (Handle m decode clientGet readerGet marshal enabled req) = [ns] \<and>
      (\<forall>orig raw. answer = PatchResponse orig raw \<longleftrightarrow>
         orig = obj \<and> (\<exists>d sa p'. found d sa \<and> mutated d sa = Inr p' \<and> marshal p' = Inr raw)) \<and>
      (\<forall>code e. answer = Errored code e \<longleftrightarrow>
         code = 500 \<and> (\<exists>d sa p'. found d sa \<and> mutated d sa = Inr p' \<and> marshal p' = Inl e) \<or>
         code = 400 \<and>
           (decode obj = Inl e \<or>
            (\<exists>d. decode obj = Inr d \<and> accountFails clientGet readerGet ns (serviceAccountNameOf d) e) \<or>
            (\<exists>d sa. found d sa \<and>
               (if shouldInjectProxySidecar d \<and> ps_hostNetwork (pod_spec d) then e = errHostNetwork
                else if shouldInjectProxySidecar d \<and> (\<exists>e'. getProxyPort d = Inl e') then getProxyPort d = Inl e
                else getServiceAccountTokenExpiration d sa = Inl e))))"
proof (cases "decode (rq_object req)")
  case (Inl e)
  then show ?thesis by (auto simp: Handle_eq Let_def)
next
  case d: (Inr d)
  let ?p = "inNamespace (rq_namespace req) d"
  note refuses = mutatePod_refuses [of m "currentLogLevel enabled" _ ?p, unfolded inNamespace_reads]
  show ?thesis
  proof (cases "getServiceAccountOf clientGet readerGet (rq_namespace req) (serviceAccountNameOf d)")
    case (Inl e)
    moreover have "\<not> accountFound clientGet readerGet (rq_namespace req) (serviceAccountNameOf d) sa" for sa
      using Inl by (simp flip: account_iff)
    ultimately show ?thesis using d by (auto simp: Handle_eq Let_def simp flip: account_iff)
  next
    case sa: (Inr sa)
    show ?thesis
      using d sa
      by (cases "mutatePod m (currentLogLevel enabled) sa ?p"; simp add: Handle_eq Let_def refuses [symmetric] flip: account_iff)
        (auto split: sum.splits)
  qed
qed

text \<open>
  The API server is asked for the service account only when the cache says that it does
  not exist: if the cache has any other answer, an error included, then the response
  does not depend on what the API server would say.
\<close>

theorem reader_only_on_not_found:
  assumes "decode (rq_object req) = Inr d"
    and "\<not> (\<exists>e. clientGet (rq_namespace req) (serviceAccountNameOf d) = Inl e \<and> apiIsNotFound e)"
  shows "Handle m decode clientGet reader1 marshal enabled req =
         Handle m decode clientGet reader2 marshal enabled req"
proof -
  have "serviceAccountNameOf (d \<lparr> pod_meta := x \<rparr>) = serviceAccountNameOf d" for x
    by (simp add: serviceAccountNameOf_def)
  moreover have "getServiceAccountOf clientGet reader1 (rq_namespace req) (serviceAccountNameOf d) =
      getServiceAccountOf clientGet reader2 (rq_namespace req) (serviceAccountNameOf d)"
    using assms(2) by (auto simp: getServiceAccountOf_def split: sum.splits)
  ultimately show ?thesis using assms(1) by (simp add: Handle_def)
qed

theorem reader_only_on_not_found_witness:
  "Handle demoMutator (\<lambda>_. Inr demoPod) (\<lambda>_ _. Inr demoSA) (\<lambda>_ _. Inl errHostNetwork) (\<lambda>_. Inr ''patched'')
       (\<lambda>_. False) \<lparr> rq_namespace = ''ns'', rq_object = ''raw'' \<rparr> =
   Handle demoMutator (\<lambda>_. Inr demoPod) (\<lambda>_ _. Inr demoSA) (\<lambda>_ _. Inr emptyServiceAccount) (\<lambda>_. Inr ''patched'')
       (\<lambda>_. False) \<lparr> rq_namespace = ''ns'', rq_object = ''raw'' \<rparr>"
  by (rule reader_only_on_not_found [of _ _ demoPod]) simp_all

subsection \<open>The proxy's port\<close>

text \<open>
  The port of the proxy survives its way through strings.  When neither proxy container
  is there yet, the injected init container has the variable \<open>PROXY_PORT\<close> whose value
  parses back to the port that was read from the pod, within 32 bits; the sidecar
  listens on and publishes the same port, probes it, and sits among the init containers
  with restart policy \<open>Always\<close> when sidecars are native, among the containers otherwise.
\<close>

theorem injected_port_agrees:
  assumes "injectProxy m lvl p = Inr q" and "shouldInjectProxySidecar p"
    and "\<forall>c \<in> set (ps_initContainers (pod_spec p)) \<union> set (ps_containers (pod_spec p)).
           ct_name c \<notin> {ProxyInitContainerName, ProxySidecarContainerName}"
  shows "\<exists>port s c i. getProxyPort p = Inr port \<and> - (2 ^ 31) \<le> port \<and> port < 2 ^ 31 \<and>
    i \<in> set (ps_initContainers (pod_spec q)) \<and> ct_name i = ProxyInitContainerName \<and>
    ct_env i = [envVar ProxyPortEnvVar s] \<and> parseInt s 32 = Inr port \<and>
    c \<in> set (if pm_useNativeSidecar m then ps_initContainers (pod_spec q) else ps_containers (pod_spec q)) \<and>
    ct_name c = ProxySidecarContainerName \<and> map cp_containerPort (ct_ports c) = [port] \<and>
    hd (ct_args c) = ''--proxy-port='' @ s \<and>
    ct_lifecycle c = Some (PostStartExec [''/proxy'', ''--proxy-port='' @ s, ''--probe'', ''--log-level='' @ lvl]) \<and>
    ct_restartPolicy c = (if pm_useNativeSidecar m then Some ContainerRestartPolicyAlways else None)"
proof -
  from assms(1,2) obtain port where port: "getProxyPort p = Inr port"
    and host: "\<not> ps_hostNetwork (pod_spec p)"
    by (auto simp: injectProxy_def split: if_splits sum.splits)
  have range: "- (2 ^ 31) \<le> port \<and> port < 2 ^ 31"
    using port by (auto simp: getProxyPort_cases dest: parseInt_range split: option.splits sum.splits)
  then have parse: "parseInt (formatInt port) 32 = Inr port"
    using parseInt_formatInt [of 32 port] by simp
  let ?i = "proxyInitContainer m port"
  let ?rp = "if pm_useNativeSidecar m then Some ContainerRestartPolicyAlways else None"
  let ?c = "proxySidecarContainer m lvl port ?rp"
  have inits: "injectProxyInitContainer m (ps_initContainers (pod_spec p)) port = ps_initContainers (pod_spec p) @ [?i]"
    using assms(3) by (auto simp: injectProxyInitContainer_def list_ex_iff)
  have side: "injectProxySidecarContainer m lvl cs port rp = proxySidecarContainer m lvl port rp # cs"
    if "\<forall>c \<in> set cs. ct_name c \<noteq> ProxySidecarContainerName" for cs rp
    using that by (auto simp: injectProxySidecarContainer_def list_ex_iff)
  have iname: "ct_name ?i = ProxyInitContainerName" by (simp add: proxyInitContainer_def)
  have "?i \<in> set (ps_initContainers (pod_spec q)) \<and>
      ?c \<in> set (if pm_useNativeSidecar m then ps_initContainers (pod_spec q) else ps_containers (pod_spec q))"
    using assms inits side iname port host
    by (auto simp: injectProxy_def Let_def ProxyInitContainerName_def ProxySidecarContainerName_def
        split: if_splits)
  then show ?thesis
    using port range parse
    by (intro exI [of _ port] exI [of _ "formatInt port"] exI [of _ ?c] exI [of _ ?i])
      (simp add: proxyInitContainer_def proxySidecarContainer_def envVar_def)
qed

theorem injected_port_agrees_witness:
  "\<exists>q i s. injectProxy demoMutator [] demoPod = Inr q \<and> i \<in> set (ps_initContainers (pod_spec q)) \<and>
     ct_env i = [envVar ProxyPortEnvVar s] \<and> parseInt s 32 = Inr 8080"
proof -
  obtain q where q: "injectProxy demoMutator [] demoPod = Inr q" using demo_injects by blast
  have "\<forall>c \<in> set (ps_initContainers (pod_spec demoPod)) \<union> set (ps_containers (pod_spec demoPod)).
      ct_name c \<notin> {ProxyInitContainerName, ProxySidecarContainerName}"
    by (simp add: demoPod_def demoContainer_def ProxyInitContainerName_def ProxySidecarContainerName_def)
  from injected_port_agrees [OF q demo_reads(1) this] show ?thesis
    using q demo_reads(2) by auto
qed

subsection \<open>The mutator that NewPodMutator builds\<close>

lemma newCustomTokenEndpoint_Inr:
  assumes "newCustomTokenEndpoint qual annSuffix cteAud = Inr cte"
  shows "if cte_enabled cte
         then annSuffix \<noteq> [] \<and> cteAud \<noteq> [] \<and> cte_audience cte = cteAud \<and>
              cte_annotation cte = cteAnnotationPrefix @ annSuffix \<and>
              \<not> strEqualFold cteAud DefaultAudience \<and> qual (strToLower (cte_annotation cte)) = []
         else annSuffix = [] \<and> cteAud = []"
  using assms
  by (auto simp: newCustomTokenEndpoint_def disabledCTE_def Let_def split: if_splits)

lemma NewPodMutator_InrE:
  assumes "NewPodMutator env aud annSuffix cteAud = Inr m"
  obtains c cte native host where "ParseConfig (me_config env) = Inr c"
    "newCustomTokenEndpoint (me_isQualifiedName env) annSuffix cteAud = Inr cte"
    "getAzureAuthorityHost (me_publicEndpoint env) (me_environmentFromName env) c = Inr host"
    "m = \<lparr> pm_config = c, pm_audience = (if aud = [] then DefaultAudience else aud),
           pm_azureAuthorityHost = host,
           pm_proxyImage = imageOr (ProxyImage c) (me_imageRegistry env) ProxySidecarImageName (me_imageVersion env),
           pm_proxyInitImage = imageOr (ProxyInitImage c) (me_imageRegistry env) ProxyInitImageName (me_imageVersion env),
           pm_useNativeSidecar = native, pm_customTokenEndpoint = cte \<rparr>"
  using assms by (auto simp: NewPodMutator_def Let_def split: sum.splits)

definition demoEnv :: "unit mutator_env" where
  "demoEnv = \<lparr> me_config = Inr demoConfig, me_isQualifiedName = (\<lambda>_. []), me_discoveryClient = Inr (),
     me_serverVersion = Inr ''v1.32.0'', me_parseSemantic = (\<lambda>_. Inr ()), me_atLeast = (\<lambda>_ _. True),
     me_majorMinor132 = (), me_publicEndpoint = ''https://login.microsoftonline.com/'',
     me_environmentFromName = (\<lambda>_. Inl errHostNetwork), me_registerMetrics = Inr (),
     me_imageRegistry = ''r'', me_imageVersion = ''v1'' \<rparr>"

lemma demo_builds_with:
  assumes "newCustomTokenEndpoint (me_isQualifiedName demoEnv) annSuffix cteAud = Inr cte"
  shows "\<exists>m. NewPodMutator demoEnv aud annSuffix cteAud = Inr m"
proof -
  have "ParseConfig (me_config demoEnv) = Inr demoConfig"
    by (simp add: ParseConfig_def demoEnv_def demoConfig_def validateConfig_def countSet_eq)
  moreover have "serverVersionGTE (me_serverVersion demoEnv) (me_parseSemantic demoEnv) (me_atLeast demoEnv)
      (me_majorMinor132 demoEnv) = Inr True"
    by (simp add: serverVersionGTE_def demoEnv_def)
  moreover have "getAzureAuthorityHost (me_publicEndpoint demoEnv) (me_environmentFromName demoEnv) demoConfig =
      Inr ''https://login.microsoftonline.com/''"
    by (simp add: getAzureAuthorityHost_def demoEnv_def demoConfig_def)
  moreover have "me_discoveryClient demoEnv = Inr ()" and "me_registerMetrics demoEnv = Inr ()"
    by (simp_all add: demoEnv_def)
  ultimately show ?thesis using assms by (simp add: NewPodMutator_def Let_def)
qed

lemma demo_NewPodMutator: "\<exists>m. NewPodMutator demoEnv [] ''ep'' ''aud'' = Inr m"
proof -
  have "\<not> strEqualFold ''aud'' DefaultAudience"
    by code_simp
  then have "newCustomTokenEndpoint (me_isQualifiedName demoEnv) ''ep'' ''aud'' =
      Inr \<lparr> cte_enabled = True, cte_annotation = cteAnnotationPrefix @ ''ep'', cte_audience = ''aud'' \<rparr>"
    by (simp add: newCustomTokenEndpoint_def demoEnv_def Let_def)
  then show ?thesis by (rule demo_builds_with)
qed

text \<open>
  What a successfully built mutator guarantees.  Its configuration is valid; its
  audience is the flag or, without one, the default one, hence never empty; the custom
  token endpoint is on exactly when both of its flags are set (one alone is an error),
  and then its audience is the flag's, differs from the default audience under case
  folding, and its annotation key passed the validation of qualified names; the images
  of the proxy are not empty.
\<close>

theorem NewPodMutator_guarantees:
  assumes "NewPodMutator env aud annSuffix cteAud = Inr m"
  shows "validConfig (pm_config m) \<and>
    pm_audience m = (if aud = [] then DefaultAudience else aud) \<and> pm_audience m \<noteq> [] \<and>
    (let cte = pm_customTokenEndpoint m in
       (cte_enabled cte \<longleftrightarrow> annSuffix \<noteq> [] \<or> cteAud \<noteq> []) \<and>
       (cte_enabled cte \<longrightarrow> annSuffix \<noteq> [] \<and> cteAud \<noteq> [] \<and> cte_audience cte = cteAud \<and>
          \<not> strEqualFold (cte_audience cte) DefaultAudience \<and>
          cte_annotation cte = cteAnnotationPrefix @ annSuffix \<and>
          me_isQualifiedName env (strToLower (cte_annotation cte)) = [])) \<and>
    pm_proxyImage m \<noteq> [] \<and> pm_proxyInitImage m \<noteq> []"
proof -
  from assms obtain c cte native host where c: "ParseConfig (me_config env) = Inr c"
    and cte: "newCustomTokenEndpoint (me_isQualifiedName env) annSuffix cteAud = Inr cte"
    and m: "m = \<lparr> pm_config = c, pm_audience = (if aud = [] then DefaultAudience else aud),
           pm_azureAuthorityHost = host,
           pm_proxyImage = imageOr (ProxyImage c) (me_imageRegistry env) ProxySidecarImageName (me_imageVersion env),
           pm_proxyInitImage = imageOr (ProxyInitImage c) (me_imageRegistry env) ProxyInitImageName (me_imageVersion env),
           pm_useNativeSidecar = native, pm_customTokenEndpoint = cte \<rparr>"
    by (rule NewPodMutator_InrE)
  have "imageOr a b n v \<noteq> []" for a b n v by (simp add: imageOr_def)
  moreover have "DefaultAudience \<noteq> []" by (simp add: DefaultAudience_def)
  ultimately show ?thesis
    using ParseConfig_Inr [OF c] newCustomTokenEndpoint_Inr [OF cte]
    by (cases "cte_enabled cte") (auto simp: m Let_def)
qed

theorem NewPodMutator_guarantees_witness:
  "\<exists>m. NewPodMutator demoEnv [] ''ep'' ''aud'' = Inr m \<and> cte_enabled (pm_customTokenEndpoint m)"
proof -
  obtain m where m: "NewPodMutator demoEnv [] ''ep'' ''aud'' = Inr m" using demo_NewPodMutator by blast
  with NewPodMutator_guarantees [OF m] show ?thesis by (simp add: Let_def)
qed

text \<open>
  At most one source of the certificate authority is mounted.  For every mutator that
  \<open>NewPodMutator\<close> builds, the projected volume has the token, and beside it at most
  one source, which puts the CA at \<open>CAFilePath\<close>, only for pods that use the
  custom endpoint, and never when the CA is handed over in a variable.
\<close>

theorem at_most_one_ca_source:
  assumes "NewPodMutator env aud annSuffix cteAud = Inr m"
  shows "\<exists>cas. projectedSources m e cte =
      ServiceAccountTokenProjection TokenFilePath e
        (if cte then cte_audience (pm_customTokenEndpoint m) else pm_audience m) # cas \<and>
    (cas = [] \<or>
     cte \<and> AzureKubernetesCAData (pm_config m) = [] \<and>
     (cas = [ConfigMapProjection (AzureKubernetesCAConfigMapName (pm_config m)) [(''ca.crt'', CAFilePath)] (Some False)] \<or>
      cas = [ClusterTrustBundleProjection (Some (AzureKubernetesCACTBSignerName (pm_config m)))
               (AzureKubernetesCACTBLabelSelector (pm_config m)) CAFilePath (Some False)]))"
proof -
  from assms obtain c where "ParseConfig (me_config env) = Inr c" and "pm_config m = c"
    by (rule NewPodMutator_InrE) simp
  then have "validConfig (pm_config m)" using ParseConfig_Inr by blast
  then show ?thesis by (auto simp: projectedSources_def Let_def validConfig_def)
qed

theorem at_most_one_ca_source_witness:
  "\<exists>m cas. NewPodMutator demoEnv [] ''ep'' ''aud'' = Inr m \<and>
     projectedSources m 3600 True =
       ServiceAccountTokenProjection TokenFilePath 3600 (cte_audience (pm_customTokenEndpoint m)) # cas \<and>
     length cas \<le> 1"
proof -
  obtain m where m: "NewPodMutator demoEnv [] ''ep'' ''aud'' = Inr m" using demo_NewPodMutator by blast
  from at_most_one_ca_source [OF m, of 3600 True] show ?thesis using m by auto
qed

end
