(* ===== verification/Webhook_Valid.thy ===== *)
theory Webhook_Valid
  imports Webhook_Correct
begin

section \<open>Admission keeps pods valid\<close>

text \<open>
  The API server validates a pod after the webhook has mutated it: container names are unique
  over both lists, volume names are unique, the mounts of a container have different paths and
  name volumes of the pod.  \<open>validPod\<close> is this part of the validation, which is the part
  the mutation could break, and \<open>admissible\<close> the pods for which it is kept.
\<close>

definition podContainers :: "pod \<Rightarrow> container list" where
  "podContainers p = ps_initContainers (pod_spec p) @ ps_containers (pod_spec p)"

definition containerNames :: "pod \<Rightarrow> string list" where
  "containerNames p = map ct_name (podContainers p)"

definition volumeNames :: "pod \<Rightarrow> string list" where
  "volumeNames p = map vol_name (ps_volumes (pod_spec p))"

definition validMounts :: "string list \<Rightarrow> container \<Rightarrow> bool" where
  "validMounts vols c =
     (distinct (map vm_mountPath (ct_volumeMounts c)) \<and>
      list_all (\<lambda>v. vm_name v \<in> set vols) (ct_volumeMounts c))"

definition validPod :: "pod \<Rightarrow> bool" where
  "validPod p =
     (distinct (containerNames p) \<and> distinct (volumeNames p) \<and>
      list_all (validMounts (volumeNames p)) (podContainers p))"

text \<open>
  The names of the proxy containers are not taken in the list that the injection does not look
  at.
\<close>

definition proxyNamesFree :: "podMutator \<Rightarrow> pod \<Rightarrow> bool" where
  "proxyNamesFree m p =
     (let inits = map ct_name (ps_initContainers (pod_spec p));
          cs = map ct_name (ps_containers (pod_spec p))
      in ProxyInitContainerName \<notin> set cs \<and>
         ProxySidecarContainerName \<notin> set (if pm_useNativeSidecar m then cs else inits))"

text \<open>
  The path of the token is used for the projected volume alone, in the containers that get
  its mount.
\<close>

definition tokenPathFree :: "string \<Rightarrow> container \<Rightarrow> bool" where
  "tokenPathFree vol c =
     list_all (\<lambda>v. (vm_name v = vol) = (vm_mountPath v = VolumeMountPath)) (ct_volumeMounts c)"

definition admissible :: "podMutator \<Rightarrow> pod \<Rightarrow> bool" where
  "admissible m p =
     (validPod p \<and> (shouldInjectProxySidecar p \<longrightarrow> proxyNamesFree m p) \<and>
      list_all (\<lambda>c. ct_name c \<in> getSkipContainers p \<or> tokenPathFree (volumeOf p) c) (podContainers p))"

lemmas valid_pod_defs = podContainers_def containerNames_def volumeNames_def validPod_def proxyNamesFree_def

subsection \<open>Names\<close>

lemma mutatedContainers_names [simp]: "map ct_name (mutatedContainers m sa q cs) = map ct_name cs"
  by (simp add: mutatedContainers_def mutateContainers_def)

lemma list_ex_name: "list_ex (\<lambda>c. ct_name c = n) cs \<longleftrightarrow> n \<in> set (map ct_name cs)"
  by (auto simp: list_ex_iff)

lemma injectInit_names:
  "map ct_name (injectProxyInitContainer m cs port) =
     map ct_name cs @ (if ProxyInitContainerName \<in> set (map ct_name cs) then [] else [ProxyInitContainerName])"
  by (simp only: injectProxyInitContainer_def list_ex_name) (simp add: proxyInitContainer_def)

lemma injectSidecar_names:
  "map ct_name (injectProxySidecarContainer m lvl cs port rp) =
     (if ProxySidecarContainerName \<in> set (map ct_name cs) then [] else [ProxySidecarContainerName]) @ map ct_name cs"
  by (simp only: injectProxySidecarContainer_def list_ex_name) (simp add: proxySidecarContainer_def)

lemma proxy_names_differ: "ProxySidecarContainerName \<noteq> ProxyInitContainerName"
  by (simp add: ProxyInitContainerName_def ProxySidecarContainerName_def)

text \<open>The names after the injection, list by list.\<close>

lemma injectProxy_names:
  assumes "injectProxy m lvl p = Inr q" and "shouldInjectProxySidecar p"
  defines "inits \<equiv> map ct_name (ps_initContainers (pod_spec p))"
    and "cs \<equiv> map ct_name (ps_containers (pod_spec p))"
  defines "side xs \<equiv> (if ProxySidecarContainerName \<in> set xs then [] else [ProxySidecarContainerName])"
    and "init \<equiv> (if ProxyInitContainerName \<in> set inits then [] else [ProxyInitContainerName])"
  shows "map ct_name (ps_initContainers (pod_spec q)) =
           (if pm_useNativeSidecar m then side inits else []) @ inits @ init \<and>
         map ct_name (ps_containers (pod_spec q)) =
           (if pm_useNativeSidecar m then [] else side cs) @ cs"
proof -
  obtain port where port: "getProxyPort p = Inr port" and host: "\<not> ps_hostNetwork (pod_spec p)"
    using assms(1,2) by (auto simp: injectProxy_def split: if_splits sum.splits)
  define i1 where "i1 = injectProxyInitContainer m (ps_initContainers (pod_spec p)) port"
  have i1: "map ct_name i1 = inits @ init"
    by (simp only: i1_def injectInit_names inits_def init_def)
  have side: "ProxySidecarContainerName \<in> set (map ct_name i1) \<longleftrightarrow> ProxySidecarContainerName \<in> set inits"
    using proxy_names_differ by (simp add: i1 init_def)
  show ?thesis
  proof (cases "pm_useNativeSidecar m")
    case True
    then have "q = p \<lparr> pod_spec := (pod_spec p) \<lparr> ps_initContainers :=
        injectProxySidecarContainer m lvl i1 port (Some ContainerRestartPolicyAlways) \<rparr> \<rparr>"
      using assms(1,2) port host by (simp add: injectProxy_def i1_def)
    then show ?thesis
      using True side i1 injectSidecar_names [of m lvl i1 port "Some ContainerRestartPolicyAlways"]
      by (simp add: side_def cs_def)
  next
    case False
    then have "q = p \<lparr> pod_spec := (pod_spec p) \<lparr> ps_initContainers := i1,
        ps_containers := injectProxySidecarContainer m lvl (ps_containers (pod_spec p)) port None \<rparr> \<rparr>"
      using assms(1,2) port host by (simp add: injectProxy_def i1_def)
    then show ?thesis
      using False i1 injectSidecar_names [of m lvl "ps_containers (pod_spec p)" port None]
      by (simp add: side_def cs_def)
  qed
qed

lemma finishPod_names: "containerNames (finishPod m sa e q) = containerNames q"
  by (simp add: valid_pod_defs finishPod_spec)

lemma injectProxy_distinct:
  assumes "injectProxy m lvl p = Inr q"
  shows "distinct (containerNames q) \<longleftrightarrow>
    distinct (containerNames p) \<and> (shouldInjectProxySidecar p \<longrightarrow> proxyNamesFree m p)"
proof (cases "shouldInjectProxySidecar p")
  case False
  with assms show ?thesis by (simp add: injectProxy_def)
next
  case True
  show ?thesis
    using injectProxy_names [OF assms True] True proxy_names_differ
    by (simp add: valid_pod_defs Let_def del: set_map) auto
qed

lemma mutatePod_distinct:
  assumes "mutatePod m lvl sa p = Inr p'"
  shows "distinct (containerNames p') \<longleftrightarrow>
    distinct (containerNames p) \<and> (shouldInjectProxySidecar p \<longrightarrow> proxyNamesFree m p)"
  using assms
proof (rule mutatePod_InrE)
  fix q e
  assume q: "injectProxy m lvl p = Inr q" and "p' = finishPod m sa e q"
  then show ?thesis by (simp only: finishPod_names injectProxy_distinct [OF q])
qed

text \<open>The names that the injection does not look at stay free.\<close>

lemma injectProxy_free:
  assumes "injectProxy m lvl p = Inr q" and "shouldInjectProxySidecar p" and "proxyNamesFree m p"
  shows "proxyNamesFree m q"
  using injectProxy_names [OF assms(1,2)] assms(3) proxy_names_differ
  by (simp add: proxyNamesFree_def Let_def del: set_map) auto

lemma finishPod_free: "proxyNamesFree m (finishPod m sa e q) = proxyNamesFree m q"
  by (simp add: proxyNamesFree_def finishPod_spec del: set_map)

text \<open>
  Names stay unique exactly when they can.  After a successful mutation the container names
  of the pod are pairwise different, over init containers and containers together, if and
  only if they were before and, for a pod that asks for the proxy, the name of the injected
  init container is not taken by a container and the name of the sidecar is not taken in
  the list it is not injected into.
\<close>

theorem names_unique_iff:
  assumes "mutatePod m lvl sa p = Inr p'"
  shows "distinct (containerNames p') \<longleftrightarrow>
    distinct (containerNames p) \<and> (shouldInjectProxySidecar p \<longrightarrow> proxyNamesFree m p)"
  using assms by (rule mutatePod_distinct)

text \<open>
  A pod that runs the proxy as a container, as migrated workloads do, and also asks for the
  injection: with native sidecars the sidecar is injected a second time under the same name.
\<close>

definition demoMigratedPod :: pod where
  "demoMigratedPod = demoPod \<lparr> pod_spec := (pod_spec demoPod) \<lparr>
     ps_containers := [demoContainer, emptyContainer \<lparr> ct_name := ProxySidecarContainerName \<rparr>] \<rparr> \<rparr>"

theorem names_unique_iff_witness:
  "\<exists>p'. mutatePod demoMutator [] demoSA demoMigratedPod = Inr p' \<and>
     distinct (containerNames demoMigratedPod) \<and> \<not> distinct (containerNames p')"
proof -
  have same: "pod_meta demoMigratedPod = pod_meta demoPod" by (simp add: demoMigratedPod_def)
  have host: "\<not> ps_hostNetwork (pod_spec demoMigratedPod)"
    using demo_reads(3) by (simp add: demoMigratedPod_def)
  note reads = same_meta_reads [OF same] demo_reads demo_expiration
  obtain q where q: "injectProxy demoMutator [] demoMigratedPod = Inr q"
    by (simp add: injectProxy_def reads host Let_def demoMutator_def)
  then have "getServiceAccountTokenExpiration q demoSA = Inr 7200"
    using same_meta_reads(4) [OF injectProxy_frame(1) [OF q]] by (simp add: reads)
  with q obtain p' where p': "mutatePod demoMutator [] demoSA demoMigratedPod = Inr p'" by (simp add: mutatePod_eq)
  have "distinct (containerNames demoMigratedPod)" "\<not> proxyNamesFree demoMutator demoMigratedPod"
    by (simp_all add: containerNames_def podContainers_def proxyNamesFree_def demoMigratedPod_def demoPod_def
        demoMutator_def demoContainer_def emptyContainer_def ProxySidecarContainerName_def)
  with names_unique_iff [OF p'] p' show ?thesis by (simp add: reads)
qed

subsection \<open>Mounts\<close>

lemma addMount_valid:
  assumes "validMounts vols c" and "tokenPathFree vol c" and "vol \<in> set vols"
  shows "validMounts vols (addProjectedVolumeMount c vol)" and "tokenPathFree vol (addProjectedVolumeMount c vol)"
proof -
  let ?x = "projectedMount vol"
  have x: "vm_name ?x = vol" "vm_mountPath ?x = VolumeMountPath" by (simp_all add: projectedMount_def)
  have "validMounts vols (addProjectedVolumeMount c vol) \<and> tokenPathFree vol (addProjectedVolumeMount c vol)"
  proof (cases rule: mounts.upd_split [where x = ?x and xs = "ct_volumeMounts c"])
    case absent
    then have "VolumeMountPath \<notin> vm_mountPath ` set (ct_volumeMounts c)"
      using assms(2) by (force simp: tokenPathFree_def list_all_iff x)
    with absent assms show ?thesis
      by (simp add: addProjectedVolumeMount_def validMounts_def tokenPathFree_def x)
  next
    case (present as y bs)
    then have "vm_mountPath y = VolumeMountPath"
      using assms(2) by (simp add: tokenPathFree_def x)
    with present assms show ?thesis
      by (simp add: addProjectedVolumeMount_def validMounts_def tokenPathFree_def x)
  qed
  then show "validMounts vols (addProjectedVolumeMount c vol)" "tokenPathFree vol (addProjectedVolumeMount c vol)"
    by simp_all
qed

lemma validMounts_more: "validMounts vols c \<Longrightarrow> set vols \<subseteq> set vols' \<Longrightarrow> validMounts vols' c"
  by (auto simp: validMounts_def list_all_iff)

lemma mutateContainer_valid:
  assumes "validMounts vols c" and "ct_name c \<in> skip \<or> tokenPathFree vol c" and "vol \<in> set vols"
  shows "validMounts vols (mutateContainer m cid tid skip cte vol c) \<and>
    (ct_name c \<in> skip \<or> tokenPathFree vol (mutateContainer m cid tid skip cte vol c))"
proof (cases "ct_name c \<in> skip")
  case True
  with assms show ?thesis by (simp add: mutateContainer_def)
next
  case False
  let ?c = "addEnvironmentVariables m c cid tid (pm_azureAuthorityHost m) cte"
  have "validMounts vols ?c" "tokenPathFree vol ?c"
    using assms False by (simp_all add: validMounts_def tokenPathFree_def frame_simps)
  with addMount_valid [OF this assms(3)] False show ?thesis by (simp add: mutateContainer_def)
qed

text \<open>An injected container has no mounts.\<close>

lemma injectProxy_members:
  assumes "injectProxy m lvl p = Inr q" and "c \<in> set (podContainers q)"
  shows "c \<in> set (podContainers p) \<or> ct_volumeMounts c = []"
proof -
  have init: "c \<in> set (injectProxyInitContainer m cs port) \<Longrightarrow> c \<in> set cs \<or> ct_volumeMounts c = []" for cs port
    by (auto simp: injectProxyInitContainer_def proxyInitContainer_def emptyContainer_def split: if_splits)
  have side: "c \<in> set (injectProxySidecarContainer m lvl cs port rp) \<Longrightarrow> c \<in> set cs \<or> ct_volumeMounts c = []"
    for cs port rp
    by (auto simp: injectProxySidecarContainer_def proxySidecarContainer_def emptyContainer_def split: if_splits)
  show ?thesis
    using assms by (auto simp: injectProxy_def podContainers_def Let_def dest!: init side split: if_splits sum.splits)
qed

lemma finishPod_containers: "podContainers (finishPod m sa e q) = mutatedContainers m sa q (podContainers q)"
  by (simp add: podContainers_def finishPod_spec mutatedContainers_def mutateContainers_def)

lemma finishPod_volumes:
  "volumeNames (finishPod m sa e q) =
     (if volumeOf q \<in> set (volumeNames q) then volumeNames q else volumeNames q @ [volumeOf q])"
  using volumes.upd_keys [of "projectedVolume m e (volumeOf q) (isUsingCustomTokenEndpoint m q)"]
  by (simp add: volumeNames_def finishPod_spec projectedVolume_def)

text \<open>
  C23: Admission keeps pods valid.  A pod that is valid, whose containers use the token's path
  for the projected volume only, and in which the names of the proxy are free where the
  injection does not look, is mutated to a pod with the same three properties: container
  names and volume names are unique, every container has different mount paths, and every
  mount names a volume of the pod.  So the result can be admitted, and mutated, again.
\<close>

theorem mutated_pod_admissible:
  assumes "admissible m p" and "mutatePod m lvl sa p = Inr p'"
  shows "admissible m p'"
proof -
  obtain q e where q: "injectProxy m lvl p = Inr q" and p': "p' = finishPod m sa e q"
    using assms(2) by (rule mutatePod_InrE)
  note frame = injectProxy_frame [OF q]
  have meta: "pod_meta p' = pod_meta q" by (simp add: p' finishPod_spec)
  note reads = same_meta_reads [OF meta] same_meta_reads [OF frame(1)]
  have vols_q: "volumeNames q = volumeNames p" by (simp add: volumeNames_def frame)
  have vols: "distinct (volumeNames p')" "set (volumeNames p) \<subseteq> set (volumeNames p')"
    "volumeOf p \<in> set (volumeNames p')"
    using assms(1) finishPod_volumes [of m sa e q]
    by (auto simp: p' vols_q admissible_def validPod_def same_meta_reads [OF frame(1)])
  have names: "distinct (containerNames p')"
    using mutatePod_distinct [OF assms(2)] assms(1) by (simp add: admissible_def validPod_def)
  have free: "shouldInjectProxySidecar p' \<Longrightarrow> proxyNamesFree m p'"
    using injectProxy_free [OF q] assms(1) by (simp add: p' finishPod_free reads [unfolded p'] admissible_def)
  have "validMounts (volumeNames p') c' \<and> (ct_name c' \<in> getSkipContainers p' \<or> tokenPathFree (volumeOf p') c')"
    if "c' \<in> set (podContainers p')" for c'
  proof -
    have "c' \<in> set (mutatedContainers m sa q (podContainers q))"
      using that by (simp only: p' finishPod_containers)
    then obtain c where c: "c \<in> set (podContainers q)" and c': "c' = mutateContainer m (getClientID sa)
        (getTenantID sa (pm_config m)) (getSkipContainers p) (isUsingCustomTokenEndpoint m p) (volumeOf p) c"
      by (auto simp: mutatedContainers_def mutateContainers_def same_meta_reads [OF frame(1)])
    have "validMounts (volumeNames p') c \<and> (ct_name c \<in> getSkipContainers p \<or> tokenPathFree (volumeOf p) c)"
      using injectProxy_members [OF q c]
    proof
      assume "c \<in> set (podContainers p)"
      with assms(1) show ?thesis
        using validMounts_more [OF _ vols(2)] by (auto simp: admissible_def validPod_def list_all_iff)
    next
      assume "ct_volumeMounts c = []"
      then show ?thesis by (simp add: validMounts_def tokenPathFree_def)
    qed
    then show ?thesis
      using mutateContainer_valid [OF _ _ vols(3)] by (simp add: c' reads)
  qed
  with names free vols(1) show ?thesis
    by (simp add: admissible_def validPod_def list_all_iff)
qed

theorem mutated_pod_admissible_witness:
  "\<exists>p'. mutatePod demoMutator [] demoSA demoPod = Inr p' \<and> validPod p'"
proof -
  obtain p' where p': "mutatePod demoMutator [] demoSA demoPod = Inr p'" using demo_mutates by blast
  have "admissible demoMutator demoPod"
    by (simp add: admissible_def valid_pod_defs validMounts_def tokenPathFree_def demoPod_def demoMutator_def
        demoContainer_def emptyContainer_def ProxySidecarContainerName_def ProxyInitContainerName_def)
  with mutated_pod_admissible [OF this p'] p' show ?thesis by (simp add: admissible_def)
qed

end
