(* ===== verification/Go_Flag.thy ===== *)
theory Go_Flag
  imports Go_Strings
begin

section \<open>The flag package\<close>

text \<open>
  What the two servers use of Go's \<open>flag\<close> package: string, boolean and integer flags and
  the parser of the command line.  A set of flags is an association list from names to
  current values; the kind of a flag is the kind of its value.  A parse error exits the
  process, so it is a value here.
\<close>

subsection \<open>Integers in base 0\<close>

text \<open>The value of a digit in any base: letters count from ten.\<close>

definition anyDigit :: "char \<Rightarrow> nat option" where
  "anyDigit c =
     (let n = of_char c :: nat in
      if 48 \<le> n \<and> n \<le> 57 then Some (n - 48)
      else if 97 \<le> n \<and> n \<le> 122 then Some (n - 87)
      else if 65 \<le> n \<and> n \<le> 90 then Some (n - 55)
      else None)"

text \<open>The loop of \<open>ParseUint\<close>; underscores are skipped and checked afterwards.\<close>

fun parseBase :: "nat \<Rightarrow> nat \<Rightarrow> string \<Rightarrow> nat \<Rightarrow> num_err + nat" where
  "parseBase base maxVal [] n = Inr n"
| "parseBase base maxVal (c # cs) n =
     (if c = CHR ''_'' then parseBase base maxVal cs n
      else case anyDigit c of
        None \<Rightarrow> Inl ErrSyntax
      | Some d \<Rightarrow>
          if base \<le> d then Inl ErrSyntax
          else if maxVal < base * n + d then Inl ErrRange
          else parseBase base maxVal cs (base * n + d))"

text \<open>The base that the prefix of a number selects, and the rest of the number.\<close>

fun basePrefix :: "string \<Rightarrow> nat \<times> string" where
  "basePrefix (z # b # d # s) =
     (if z \<noteq> CHR ''0'' then (10, z # b # d # s)
      else if asciiLower b = CHR ''b'' then (2, d # s)
      else if asciiLower b = CHR ''o'' then (8, d # s)
      else if asciiLower b = CHR ''x'' then (16, d # s)
      else (8, b # d # s))"
| "basePrefix (z # s) = (if z \<noteq> CHR ''0'' then (10, z # s) else (8, s))"
| "basePrefix [] = (10, [])"

text \<open>
  \<open>underscoreOK\<close>: underscores only between digits, a base prefix counting as a digit.
  The last character seen is \<open>BeforeNumber\<close>, a digit, an underscore or another one.
\<close>

datatype seen = BeforeNumber | SeenDigit | SeenUnderscore | SeenOther

fun underscoreLoop :: "bool \<Rightarrow> seen \<Rightarrow> string \<Rightarrow> bool" where
  "underscoreLoop hex i [] = (i \<noteq> SeenUnderscore)"
| "underscoreLoop hex i (c # s) =
     (if digitVal c \<noteq> None \<or> hex \<and> (case anyDigit c of None \<Rightarrow> False | Some d \<Rightarrow> 10 \<le> d \<and> d \<le> 15)
      then underscoreLoop hex SeenDigit s
      else if c = CHR ''_'' then (if i \<noteq> SeenDigit then False else underscoreLoop hex SeenUnderscore s)
      else if i = SeenUnderscore then False
      else underscoreLoop hex SeenOther s)"

fun underscoreNumber :: "string \<Rightarrow> bool" where
  "underscoreNumber (z # b # s) =
     (if z = CHR ''0'' \<and> asciiLower b \<in> {CHR ''b'', CHR ''o'', CHR ''x''}
      then underscoreLoop (asciiLower b = CHR ''x'') SeenDigit s
      else underscoreLoop False BeforeNumber (z # b # s))"
| "underscoreNumber s = underscoreLoop False BeforeNumber s"

definition underscoreOK :: "string \<Rightarrow> bool" where
  "underscoreOK s = underscoreNumber (snd (stripSign s))"

definition parseUint0 :: "string \<Rightarrow> nat \<Rightarrow> num_err + nat" where
  "parseUint0 s bitSize =
     (if s = [] then Inl ErrSyntax
      else
        (let (base, t) = basePrefix s in
         case parseBase base (2 ^ bitSize - 1) t 0 of
           Inl e \<Rightarrow> Inl e
         | Inr n \<Rightarrow> if CHR ''_'' \<in> set t \<and> \<not> underscoreOK s then Inl ErrSyntax else Inr n))"

text \<open>\<open>strconv.ParseInt(s, 0, bitSize)\<close>, with \<open>None\<close> for its errors.\<close>

definition parseInt0 :: "string \<Rightarrow> nat \<Rightarrow> int option" where
  "parseInt0 s bitSize =
     (let (neg, t) = stripSign s; cutoff = 2 ^ (bitSize - 1) in
      case parseUint0 t bitSize of
        Inl e \<Rightarrow> None
      | Inr un \<Rightarrow>
          if \<not> neg \<and> cutoff \<le> un then None
          else if neg \<and> cutoff < un then None
          else Some (if neg then - int un else int un))"

text \<open>\<open>strconv.ParseBool\<close>.\<close>

definition parseBool :: "string \<Rightarrow> bool option" where
  "parseBool s =
     (if s \<in> {''1'', ''t'', ''T'', ''TRUE'', ''true'', ''True''} then Some True
      else if s \<in> {''0'', ''f'', ''F'', ''FALSE'', ''false'', ''False''} then Some False
      else None)"

subsection \<open>Flags\<close>

datatype flag_value = StringVal string | BoolVal bool | IntVal int

type_synonym flags = "(string \<times> flag_value) list"

datatype flag_error =
    BadFlagSyntax string
  | FlagNotDefined string
  | FlagNeedsArgument string
  | FlagInvalidValue string string
  | ErrHelp

text \<open>\<open>Value.Set\<close>: the value read as the kind of the current one.\<close>

fun flagSet :: "flag_value \<Rightarrow> string \<Rightarrow> flag_value option" where
  "flagSet (StringVal _) s = Some (StringVal s)"
| "flagSet (BoolVal _) s = map_option BoolVal (parseBool s)"
| "flagSet (IntVal _) s = map_option IntVal (parseInt0 s 64)"

text \<open>A name and its value, if there is an equals sign behind the first character.\<close>

definition cutFlag :: "string \<Rightarrow> string \<times> string option" where
  "cutFlag name =
     (case name of
        [] \<Rightarrow> ([], None)
      | c # s \<Rightarrow>
          (c # takeWhile (\<lambda>x. x \<noteq> CHR ''='') s,
           case dropWhile (\<lambda>x. x \<noteq> CHR ''='') s of [] \<Rightarrow> None | _ # v \<Rightarrow> Some v))"

definition storeFlag :: "flags \<Rightarrow> string \<Rightarrow> flag_value \<Rightarrow> string \<Rightarrow> flag_error + flags" where
  "storeFlag fs name old s =
     (case flagSet old s of
        None \<Rightarrow> Inl (FlagInvalidValue s name)
      | Some v \<Rightarrow> Inr (AList.update name v fs))"

text \<open>
  \<open>FlagSet.Parse\<close>: the flags with their new values, and the arguments from the first one
  that is not a flag.
\<close>

fun parseFlags :: "flags \<Rightarrow> string list \<Rightarrow> flag_error + (flags \<times> string list)" where
  "parseFlags fs [] = Inr (fs, [])"
| "parseFlags fs (s # args) =
     (if length s < 2 \<or> hd s \<noteq> CHR ''-'' then Inr (fs, s # args)
      else if s = ''--'' then Inr (fs, args)
      else
        (let name = drop (if s ! 1 = CHR ''-'' then 2 else 1) s in
         if hd name = CHR ''-'' \<or> hd name = CHR ''='' then Inl (BadFlagSyntax s)
         else
           (case cutFlag name of (n, value) \<Rightarrow>
            (case map_of fs n of
               None \<Rightarrow> Inl (if n = ''help'' \<or> n = ''h'' then ErrHelp else FlagNotDefined n)
             | Some old \<Rightarrow>
                (case value of
                   Some v \<Rightarrow>
                     (case storeFlag fs n old v of Inl e \<Rightarrow> Inl e | Inr fs' \<Rightarrow> parseFlags fs' args)
                 | None \<Rightarrow>
                     (case old of
                        BoolVal _ \<Rightarrow> parseFlags (AList.update n (BoolVal True) fs) args
                      | _ \<Rightarrow>
                          (case args of
                             [] \<Rightarrow> Inl (FlagNeedsArgument n)
                           | v # args' \<Rightarrow>
                               (case storeFlag fs n old v of
                                  Inl e \<Rightarrow> Inl e
                                | Inr fs' \<Rightarrow> parseFlags fs' args'))))))))"

declare parseFlags.simps(2) [simp del]

definition stringFlag :: "flags \<Rightarrow> string \<Rightarrow> string" where
  "stringFlag fs n = (case map_of fs n of Some (StringVal s) \<Rightarrow> s | _ \<Rightarrow> [])"

definition boolFlag :: "flags \<Rightarrow> string \<Rightarrow> bool" where
  "boolFlag fs n = (case map_of fs n of Some (BoolVal b) \<Rightarrow> b | _ \<Rightarrow> False)"

definition intFlag :: "flags \<Rightarrow> string \<Rightarrow> int" where
  "intFlag fs n = (case map_of fs n of Some (IntVal i) \<Rightarrow> i | _ \<Rightarrow> 0)"

subsection \<open>Decimal numbers\<close>

lemma anyDigit_decimal: "digitVal c = Some d \<Longrightarrow> anyDigit c = Some d \<and> d < 10 \<and> c \<noteq> CHR ''_''"
  by (auto simp: digitVal_def anyDigit_def split: if_splits)

lemma parseBase_decimal:
  "\<forall>c \<in> set s. digitVal c \<noteq> None \<Longrightarrow> parseBase 10 maxVal s n = parseDigits maxVal s n"
proof (induction s arbitrary: n)
  case (Cons c s)
  then obtain d where d: "digitVal c = Some d" by auto
  with Cons anyDigit_decimal [OF d] show ?case by simp
qed simp

lemma showNat_decimal: "c \<in> set (showNat n) \<Longrightarrow> digitVal c \<noteq> None"
  using showNat_digits digitVal_digitChar by fastforce

lemma showNat_no_zero: "0 < n \<Longrightarrow> hd (showNat n) \<noteq> CHR ''0''"
proof (induction n rule: showNat.induct)
  case (1 n)
  show ?case
  proof (cases "n < 10")
    case True
    have "digitVal (digitChar n) = Some n" using True by (rule digitVal_digitChar)
    with 1 have "digitChar n \<noteq> CHR ''0''" by (auto simp: digitVal_def)
    with True show ?thesis by (simp add: showNat_small)
  next
    case False
    with 1 have "hd (showNat (n div 10)) \<noteq> CHR ''0''" by simp
    with False show ?thesis by (simp add: showNat_step)
  qed
qed

lemma basePrefix_decimal: "s \<noteq> [] \<Longrightarrow> hd s \<noteq> CHR ''0'' \<Longrightarrow> basePrefix s = (10, s)"
  by (induction s rule: basePrefix.induct) auto

lemma parseUint0_showNat: "n < 2 ^ bits \<Longrightarrow> parseUint0 (showNat n) bits = Inr n"
proof (cases "n = 0")
  case True
  have "digitChar 0 = CHR ''0''" by code_simp
  with True show ?thesis by (simp add: parseUint0_def showNat_small)
next
  case False
  assume n: "n < 2 ^ bits"
  have "CHR ''_'' \<notin> set (showNat n)"
    using showNat_decimal [of "CHR ''_''" n] by (auto simp: digitVal_def)
  moreover have "parseBase 10 (2 ^ bits - 1) (showNat n) 0 = Inr n"
    using n showNat_decimal by (subst parseBase_decimal) (auto simp: parseDigits_showNat)
  ultimately show ?thesis
    using False basePrefix_decimal [OF showNat_nonempty showNat_no_zero, of n]
    by (simp add: parseUint0_def)
qed

text \<open>A formatted integer is read back in base 0.\<close>

lemma parseInt0_formatInt:
  assumes "0 < bits" and "- (2 ^ (bits - 1)) \<le> i" and "i < 2 ^ (bits - 1)"
  shows "parseInt0 (formatInt i) bits = Some i"
proof -
  have two: "(2 :: nat) ^ (bits - 1) < 2 ^ bits" using assms(1) by (simp add: power_strict_increasing)
  have lt: "nat i < 2 ^ (bits - 1)" if "0 \<le> i"
    using that assms(3) by (simp add: nat_less_iff)
  have le: "nat (- i) \<le> 2 ^ (bits - 1)" if "i < 0"
    using that assms(2) by (simp add: nat_le_iff)
  show ?thesis
  proof (cases "i < 0")
    case True
    then have "parseUint0 (showNat (nat (- i))) bits = Inr (nat (- i))"
      using le two by (intro parseUint0_showNat) linarith
    then show ?thesis
      using True le by (simp add: parseInt0_def formatInt_def stripSign_def Let_def not_less)
  next
    case False
    then have "parseUint0 (showNat (nat i)) bits = Inr (nat i)"
      using lt two by (intro parseUint0_showNat) linarith
    then show ?thesis
      using False lt by (simp add: parseInt0_def formatInt_def stripSign_showNat Let_def not_le)
  qed
qed

end
