(* ===== verification/Process_Info.thy ===== *)
theory Process_Info
  imports Go_Strings
begin

section \<open>Version, namespace and metrics of a process (pkg/version, pkg/util, pkg/metrics)\<close>

text \<open>
  What the processes say about themselves: the build's version in the user agent and on
  standard output, the namespace of the webhook, the choice of the metrics exporter and
  the attributes of a reported request.  Variables set at build time and
  \<open>runtime\<close> constants are the record \<open>build_info\<close>.
\<close>

record build_info =
  bi_vcs :: string
  bi_buildTime :: string
  bi_buildVersion :: string
  bi_goVersion :: string
  bi_goos :: string
  bi_goarch :: string

definition GetUserAgent :: "build_info \<Rightarrow> string \<Rightarrow> string" where
  "GetUserAgent b component =
     ''azure-workload-identity/'' @ component @ ''/'' @ bi_buildVersion b @ '' ('' @ bi_goos b @ ''/'' @
     bi_goarch b @ '') '' @ bi_vcs b @ ''/'' @ bi_buildTime b"

text \<open>The fields of the printed struct, by their JSON names, in the order of the struct.\<close>

definition versionFields :: "build_info \<Rightarrow> (string \<times> string) list" where
  "versionFields b =
     [(''buildVersion'', bi_buildVersion b), (''gitCommit'', bi_vcs b), (''buildDate'', bi_buildTime b),
      (''goVersion'', bi_goVersion b), (''platform'', bi_goos b @ ''/'' @ bi_goarch b)]"

text \<open>\<open>marshal\<close> is \<open>json.Marshal\<close>, \<open>writeTo\<close> writes to the given writer.\<close>

definition printVersion ::
  "build_info \<Rightarrow> ((string \<times> string) list \<Rightarrow> string result) \<Rightarrow> (string \<Rightarrow> ('w, unit) io) \<Rightarrow> ('w, unit) io" where
  "printVersion b marshal writeTo w =
     (case marshal (versionFields b) of
        Inl e \<Rightarrow> (Inl e, w)
      | Inr res \<Rightarrow> writeTo (res @ [CHR 0x0A]) w)"

definition getVersion :: "build_info \<Rightarrow> string" where
  "getVersion b = ''Version: '' @ bi_buildVersion b @ [CHR 0x0A] @ ''GitCommit: '' @ bi_vcs b"

text \<open>\<open>os.LookupEnv\<close>: a variable that is set to the empty string is found.\<close>

definition GetNamespace :: "(string \<Rightarrow> string option) \<Rightarrow> string" where
  "GetNamespace lookupEnv =
     (case lookupEnv ''POD_NAMESPACE'' of None \<Rightarrow> ''azure-workload-identity-system'' | Some ns \<Rightarrow> ns)"

subsection \<open>Metrics\<close>

definition exporterName :: string where "exporterName = ''prometheus''"

definition errUnsupportedBackend :: "string \<Rightarrow> go_error" where
  "errUnsupportedBackend backend = GoError (''unsupported metrics backend: '' @ backend)"

text \<open>\<open>newExporter\<close> is \<open>prometheus.New\<close>, \<open>setProvider\<close> is \<open>otel.SetMeterProvider\<close> of the provider over it.\<close>

definition InitExporter :: "('w, 'x) io \<Rightarrow> ('x \<Rightarrow> 'w \<Rightarrow> 'w) \<Rightarrow> ('w, unit) io" where
  "InitExporter newExporter setProvider w =
     (case newExporter w of
        (Inl e, w1) \<Rightarrow> (Inl e, w1)
      | (Inr x, w1) \<Rightarrow> (Inr (), setProvider x w1))"

definition InitMetricsExporter :: "('w, unit) io \<Rightarrow> string \<Rightarrow> ('w, unit) io" where
  "InitMetricsExporter initExporter backend w =
     (if strToLower backend = exporterName then initExporter w
      else (Inl (errUnsupportedBackend backend), w))"

text \<open>
  \<open>registerMetrics\<close> makes the histogram; \<open>ReportRequest\<close> records a duration in seconds
  with two attributes, the service and the namespace.
\<close>

definition requestDurationMetricName :: string where
  "requestDurationMetricName = ''azwi_mutation_request''"

definition metricLabels :: "(string \<times> string) list" where
  "metricLabels = [(''service.name'', ''webhook'')]"

definition namespaceKey :: string where "namespaceKey = ''namespace''"

definition ReportRequest ::
  "(int \<Rightarrow> (string \<times> string) list \<Rightarrow> 'w \<Rightarrow> 'w) \<Rightarrow> string \<Rightarrow> int \<Rightarrow> 'w \<Rightarrow> 'w" where
  "ReportRequest histogram namespace duration w =
     histogram duration (metricLabels @ [(namespaceKey, namespace)]) w"

end
