(* ===== verification/Workflow.thy ===== *)
theory Workflow
  imports Go_Strings
begin

section \<open>The phase runner (pkg/cmd/serviceaccount/phases/workflow)\<close>

text \<open>
  \<open>phase.go\<close> and \<open>runner.go\<close>: a command is a list of phases, each with a check
  (\<open>PreRun\<close>) and an action (\<open>Run\<close>).  The data passed to the phases and the
  world they act on are the state \<open>'w\<close>; \<open>None\<close> is the nil error.
\<close>

record 'w phase =
  ph_name :: string
  ph_aliases :: "string list"
  ph_description :: string
  ph_preRun :: "'w \<Rightarrow> go_error option \<times> 'w"
  ph_run :: "'w \<Rightarrow> go_error option \<times> 'w"
  ph_flags :: "string list"

record 'w runner =
  rn_skipPhases :: "string list"
  rn_phases :: "'w phase list"

definition NewPhaseRunner :: "'w runner" where
  "NewPhaseRunner = \<lparr> rn_skipPhases = [], rn_phases = [] \<rparr>"

definition AppendPhases :: "'w runner \<Rightarrow> 'w phase list \<Rightarrow> 'w runner" where
  "AppendPhases r phases = r \<lparr> rn_phases := rn_phases r @ phases \<rparr>"

fun AppendSkipPhases :: "'w runner \<Rightarrow> 'w phase list \<Rightarrow> 'w runner" where
  "AppendSkipPhases r [] = r"
| "AppendSkipPhases r (p # ps) =
     AppendSkipPhases (r \<lparr> rn_skipPhases := rn_skipPhases r @ [ph_name p] \<rparr>) ps"

fun isPhaseActiveLoop :: "string list \<Rightarrow> string \<Rightarrow> bool" where
  "isPhaseActiveLoop [] name = True"
| "isPhaseActiveLoop (skip # skips) name = (if skip = name then False else isPhaseActiveLoop skips name)"

definition IsPhaseActive :: "'w runner \<Rightarrow> 'w phase \<Rightarrow> bool" where
  "IsPhaseActive r p = isPhaseActiveLoop (rn_skipPhases r) (ph_name p)"

text \<open>\<open>computeSkipPhases\<close>: the names to skip, or an error for a name that is no phase.\<close>

definition errUnknownPhase :: "string \<Rightarrow> string list \<Rightarrow> go_error" where
  "errUnknownPhase p valid =
     GoError (''phase '' @ [CHR 0x27] @ p @ [CHR 0x27] @ '' not found. Valid phases are: ['' @ strJoin '' '' valid @ '']'')"

fun computeSkipLoop :: "string list \<Rightarrow> string list \<Rightarrow> string set \<Rightarrow> string set result" where
  "computeSkipLoop names [] skip = Inr skip"
| "computeSkipLoop names (p # ps) skip =
     (if p \<notin> set names then Inl (errUnknownPhase p names)
      else computeSkipLoop names ps (insert p skip))"

definition computeSkipPhases :: "'w runner \<Rightarrow> string set result" where
  "computeSkipPhases r = computeSkipLoop (map ph_name (rn_phases r)) (rn_skipPhases r) {}"

text \<open>The two loops over the phases that are left; the first error stops the command.\<close>

fun preRunAll :: "'w phase list \<Rightarrow> 'w \<Rightarrow> go_error option \<times> 'w" where
  "preRunAll [] w = (None, w)"
| "preRunAll (p # ps) w =
     (case ph_preRun p w of
        (Some e, w1) \<Rightarrow> (Some (WrapError (''failed to run pre-run for phase '' @ ph_name p) e), w1)
      | (None, w1) \<Rightarrow> preRunAll ps w1)"

fun runAll :: "'w phase list \<Rightarrow> 'w \<Rightarrow> go_error option \<times> 'w" where
  "runAll [] w = (None, w)"
| "runAll (p # ps) w =
     (case ph_run p w of
        (Some e, w1) \<Rightarrow> (Some (WrapError (''failed to run phase '' @ ph_name p) e), w1)
      | (None, w1) \<Rightarrow> runAll ps w1)"

definition activePhases :: "string set \<Rightarrow> 'w phase list \<Rightarrow> 'w phase list" where
  "activePhases skip phases = filter (\<lambda>p. ph_name p \<notin> skip) phases"

definition Run :: "'w runner \<Rightarrow> 'w \<Rightarrow> go_error option \<times> 'w" where
  "Run r w =
     (case computeSkipPhases r of
        Inl e \<Rightarrow> (Some (WrapError ''failed to compute skip phases'' e), w)
      | Inr skip \<Rightarrow>
          (let filtered = activePhases skip (rn_phases r) in
           case preRunAll filtered w of
             (Some e, w1) \<Rightarrow> (Some e, w1)
           | (None, w1) \<Rightarrow> runAll filtered w1))"

text \<open>
  \<open>BindToCommand\<close>: the help text, the reset of the skip list by the flag's default, and
  for each phase a subcommand which runs that phase alone.
\<close>

definition longestName :: "'w phase list \<Rightarrow> nat" where
  "longestName phases =
     foldl (\<lambda>longest p. if longest < length (ph_name p) then length (ph_name p) else longest) 0 phases"

definition bindLong :: "string \<Rightarrow> string \<Rightarrow> 'w phase list \<Rightarrow> string" where
  "bindLong use long phases =
     (if long = [] then
        ''The '' @ [CHR 0x22] @ use @ [CHR 0x22] @ '' command executes the following phases in order:'' @
        concat (map (\<lambda>p. [CHR 0x0A] @ ph_name p @
          replicate (longestName phases - length (ph_name p)) (CHR '' '') @ ''  '' @ ph_description p) phases)
      else long)"

definition bindSkipFlag :: "'w runner \<Rightarrow> 'w runner" where
  "bindSkipFlag r = r \<lparr> rn_skipPhases := [] \<rparr>"

definition runPhaseCommand :: "'w runner \<Rightarrow> 'w phase \<Rightarrow> 'w \<Rightarrow> go_error option \<times> 'w" where
  "runPhaseCommand r p w = Run (r \<lparr> rn_phases := [p] \<rparr>) w"

definition inheritsFlags :: "string list \<Rightarrow> string list \<Rightarrow> string list" where
  "inheritsFlags sourceFlags cmdFlags = filter (\<lambda>f. f \<in> set cmdFlags) sourceFlags"

text \<open>
  What \<open>BindToCommand\<close> makes of a command: its help, the added flag, and the subcommands of
  \<open>phase\<close>, each with the flags it inherits.
\<close>

record cobra_command =
  cc_use :: string
  cc_aliases :: "string list"
  cc_short :: string
  cc_long :: string
  cc_flags :: "string list"

definition phaseSubcommand :: "string list \<Rightarrow> 'w phase \<Rightarrow> cobra_command" where
  "phaseSubcommand flags p = \<lparr> cc_use = ph_name p, cc_aliases = ph_aliases p, cc_short = ph_description p,
     cc_long = [], cc_flags = inheritsFlags flags (ph_flags p) \<rparr>"

definition BindToCommand :: "'w runner \<Rightarrow> cobra_command \<Rightarrow> 'w runner \<times> cobra_command \<times> cobra_command list" where
  "BindToCommand r cmd =
     (let flags = cc_flags cmd @ [''skip-phases''] in
      (bindSkipFlag r,
       cmd \<lparr> cc_short := (if cc_short cmd = [] then cc_use cmd @ '' a workload identity'' else cc_short cmd),
             cc_long := bindLong (cc_use cmd) (cc_long cmd) (rn_phases r), cc_flags := flags \<rparr>,
       map (phaseSubcommand flags) (rn_phases r)))"

subsection \<open>Which phases run\<close>

lemma isPhaseActiveLoop_iff: "isPhaseActiveLoop skips n \<longleftrightarrow> n \<notin> set skips"
  by (induction skips n rule: isPhaseActiveLoop.induct) auto

lemma IsPhaseActive_iff: "IsPhaseActive r p \<longleftrightarrow> ph_name p \<notin> set (rn_skipPhases r)"
  by (simp add: IsPhaseActive_def isPhaseActiveLoop_iff)

lemma AppendSkipPhases_eq:
  "AppendSkipPhases r ps = r \<lparr> rn_skipPhases := rn_skipPhases r @ map ph_name ps \<rparr>"
  by (induction r ps rule: AppendSkipPhases.induct) simp_all

lemma computeSkipLoop_Inr:
  "set ps \<subseteq> set names \<Longrightarrow> computeSkipLoop names ps skip = Inr (skip \<union> set ps)"
  by (induction names ps skip rule: computeSkipLoop.induct) auto

lemma computeSkipLoop_Inl:
  "\<not> set ps \<subseteq> set names \<Longrightarrow> \<exists>p \<in> set ps - set names. computeSkipLoop names ps skip = Inl (errUnknownPhase p names)"
  by (induction names ps skip rule: computeSkipLoop.induct) auto

lemma Run_skip:
  "set (rn_skipPhases r) \<subseteq> ph_name ` set (rn_phases r) \<Longrightarrow>
   Run r w =
     (let filtered = filter (IsPhaseActive r) (rn_phases r) in
      case preRunAll filtered w of (Some e, w1) \<Rightarrow> (Some e, w1) | (None, w1) \<Rightarrow> runAll filtered w1)"
  by (simp add: Run_def computeSkipPhases_def computeSkipLoop_Inr activePhases_def
        IsPhaseActive_iff [abs_def] Let_def)

subsection \<open>A contract between the runner and its phases\<close>

text \<open>
  What every phase keeps, the runner keeps: the interface through which the create and
  delete commands use the runner.
\<close>

locale phase_contract =
  fixes phases :: "'w phase list"
    and inv :: "'w \<Rightarrow> bool"
  assumes pre_inv: "p \<in> set phases \<Longrightarrow> inv w \<Longrightarrow> inv (snd (ph_preRun p w))"
    and run_inv: "p \<in> set phases \<Longrightarrow> inv w \<Longrightarrow> inv (snd (ph_run p w))"
begin

lemma preRunAll_inv: "set ps \<subseteq> set phases \<Longrightarrow> inv w \<Longrightarrow> inv (snd (preRunAll ps w))"
proof (induction ps arbitrary: w)
  case (Cons p ps)
  have "inv (snd (ph_preRun p w))" using Cons.prems by (intro pre_inv) auto
  then show ?case using Cons by (auto split: prod.splits option.splits)
qed simp

lemma runAll_inv: "set ps \<subseteq> set phases \<Longrightarrow> inv w \<Longrightarrow> inv (snd (runAll ps w))"
proof (induction ps arbitrary: w)
  case (Cons p ps)
  have "inv (snd (ph_run p w))" using Cons.prems by (intro run_inv) auto
  then show ?case using Cons by (auto split: prod.splits option.splits)
qed simp

lemma Run_inv:
  assumes "set (rn_phases r) \<subseteq> set phases" and "inv w"
  shows "inv (snd (Run r w))"
proof -
  have sub: "set (activePhases skip (rn_phases r)) \<subseteq> set phases" for skip
    using assms(1) by (auto simp: activePhases_def)
  show ?thesis
  proof (cases "computeSkipPhases r")
    case (Inr skip)
    have pre: "inv (snd (preRunAll (activePhases skip (rn_phases r)) w))"
      by (rule preRunAll_inv [OF sub assms(2)])
    show ?thesis
      using Inr pre runAll_inv [OF sub]
      by (cases "preRunAll (activePhases skip (rn_phases r)) w")
         (simp add: Run_def Let_def split: option.split)
  qed (simp add: Run_def assms(2))
qed

lemma runPhaseCommand_inv: "p \<in> set phases \<Longrightarrow> inv w \<Longrightarrow> inv (snd (runPhaseCommand r p w))"
  unfolding runPhaseCommand_def by (rule Run_inv) auto

end

text \<open>
  A phase whose action needs what its own check prepares: the runner checks every phase it
  runs before it runs any, so the action never fails for lack of it.
\<close>

locale phase_readiness =
  fixes phases :: "'w phase list"
    and p :: "'w phase"
    and ready :: "'w \<Rightarrow> bool"
    and bad :: go_error
  assumes bad_shape: "bad \<noteq> GoError msg"
    and pre_ready: "fst (ph_preRun p w) = None \<Longrightarrow> ready (snd (ph_preRun p w))"
    and pre_keeps: "q \<in> set phases \<Longrightarrow> ready w \<Longrightarrow> fst (ph_preRun q w) = None \<Longrightarrow>
      ready (snd (ph_preRun q w))"
    and run_keeps: "q \<in> set phases \<Longrightarrow> ready w \<Longrightarrow> ready (snd (ph_run q w))"
    and pre_ok: "q \<in> set phases \<Longrightarrow> fst (ph_preRun q w) \<noteq> Some bad"
    and run_ok: "q \<in> set phases \<Longrightarrow> (q = p \<Longrightarrow> ready w) \<Longrightarrow> fst (ph_run q w) \<noteq> Some bad"
begin

lemma preRunAll_ready:
  "set ps \<subseteq> set phases \<Longrightarrow> p \<in> set ps \<or> ready w \<Longrightarrow> preRunAll ps w = (None, w1) \<Longrightarrow> ready w1"
proof (induction ps arbitrary: w)
  case (Cons q ps)
  then obtain w2 where q: "ph_preRun q w = (None, w2)" and rest: "preRunAll ps w2 = (None, w1)"
    by (auto split: prod.splits option.splits)
  have "p \<in> set ps \<or> ready w2"
    using Cons.prems(1,2) q pre_ready [of w] pre_keeps [of q w] by auto
  with Cons.IH [OF _ _ rest] Cons.prems(1) show ?case by auto
qed simp

lemma preRunAll_ok: "set ps \<subseteq> set phases \<Longrightarrow> fst (preRunAll ps w) \<noteq> Some (WrapError msg bad)"
proof (induction ps arbitrary: w)
  case (Cons q ps)
  then show ?case using pre_ok [of q w] by (auto split: prod.splits option.splits)
qed simp

lemma runAll_ok:
  "set ps \<subseteq> set phases \<Longrightarrow> (p \<in> set ps \<Longrightarrow> ready w) \<Longrightarrow>
   fst (runAll ps w) \<noteq> Some (WrapError msg bad)"
proof (induction ps arbitrary: w)
  case (Cons q ps)
  have here: "fst (ph_run q w) \<noteq> Some bad" using Cons.prems by (intro run_ok) auto
  have "p \<in> set ps \<Longrightarrow> ready (snd (ph_run q w))" using Cons.prems by (intro run_keeps) auto
  with here Cons show ?case by (auto split: prod.splits option.splits)
qed simp

lemma Run_ok:
  assumes "set (rn_phases r) \<subseteq> set phases"
  shows "fst (Run r w) \<noteq> Some (WrapError msg bad)"
proof (cases "computeSkipPhases r")
  case (Inl e)
  then obtain q where "e = errUnknownPhase q (map ph_name (rn_phases r))"
    using computeSkipLoop_Inl computeSkipLoop_Inr unfolding computeSkipPhases_def
    by (metis Inl_inject sum.distinct(1))
  with Inl show ?thesis using bad_shape by (auto simp: Run_def errUnknownPhase_def)
next
  case (Inr skip)
  have sub: "set (activePhases skip (rn_phases r)) \<subseteq> set phases"
    using assms by (auto simp: activePhases_def)
  show ?thesis
    using Inr preRunAll_ok [OF sub] preRunAll_ready [OF sub] runAll_ok [OF sub]
    by (auto simp: Run_def Let_def split: prod.splits option.splits) (metis fst_conv)+
qed

end

subsection \<open>The order of execution\<close>

text \<open>
  Phases that record what the runner calls; \<open>pe\<close> and \<open>re\<close> say which of their checks
  and actions fail.
\<close>

datatype phase_event = EvPre string | EvRun string

definition loggedPhase ::
  "(string \<Rightarrow> go_error option) \<Rightarrow> (string \<Rightarrow> go_error option) \<Rightarrow> string \<Rightarrow> phase_event list phase" where
  "loggedPhase pe re n = \<lparr> ph_name = n, ph_aliases = [], ph_description = [],
     ph_preRun = (\<lambda>w. (pe n, w @ [EvPre n])), ph_run = (\<lambda>w. (re n, w @ [EvRun n])), ph_flags = [] \<rparr>"

definition upToFailure :: "(string \<Rightarrow> go_error option) \<Rightarrow> string list \<Rightarrow> string list" where
  "upToFailure f ns = takeWhile (\<lambda>n. f n = None) ns @ take 1 (dropWhile (\<lambda>n. f n = None) ns)"

lemma preRunAll_logged:
  "preRunAll (map (loggedPhase pe re) ns) w =
     (map_option (\<lambda>n. WrapError (''failed to run pre-run for phase '' @ n) (the (pe n)))
        (find (\<lambda>n. pe n \<noteq> None) ns),
      w @ map EvPre (upToFailure pe ns))"
proof (induction ns arbitrary: w)
  case (Cons n ns)
  then show ?case by (cases "pe n") (simp_all add: loggedPhase_def upToFailure_def)
qed (simp add: upToFailure_def)

lemma runAll_logged:
  "runAll (map (loggedPhase pe re) ns) w =
     (map_option (\<lambda>n. WrapError (''failed to run phase '' @ n) (the (re n)))
        (find (\<lambda>n. re n \<noteq> None) ns),
      w @ map EvRun (upToFailure re ns))"
proof (induction ns arbitrary: w)
  case (Cons n ns)
  then show ?case by (cases "re n") (simp_all add: loggedPhase_def upToFailure_def)
qed (simp add: upToFailure_def)

text \<open>
  C28: The order of a command.  A skip list with a name that is no phase runs nothing and is
  an error.  Otherwise the phases that are not skipped are all checked, in order, up to
  the first check that fails; only if none fails are they run, in order, up to the first
  that fails; the command fails exactly if one of them does, with that phase's error.
\<close>

theorem Run_order:
  "let r = \<lparr> rn_skipPhases = skips, rn_phases = map (loggedPhase pe re) names \<rparr>;
       active = filter (\<lambda>n. n \<notin> set skips) names
   in if \<not> set skips \<subseteq> set names
      then \<exists>p \<in> set skips - set names.
        Run r [] = (Some (WrapError ''failed to compute skip phases'' (errUnknownPhase p names)), [])
      else
        (case find (\<lambda>n. pe n \<noteq> None) active of
           Some n \<Rightarrow> Run r [] =
             (Some (WrapError (''failed to run pre-run for phase '' @ n) (the (pe n))),
              map EvPre (upToFailure pe active))
         | None \<Rightarrow> Run r [] =
             (map_option (\<lambda>n. WrapError (''failed to run phase '' @ n) (the (re n)))
                (find (\<lambda>n. re n \<noteq> None) active),
              map EvPre active @ map EvRun (upToFailure re active)))"
proof -
  let ?r = "\<lparr> rn_skipPhases = skips, rn_phases = map (loggedPhase pe re) names \<rparr>"
  let ?active = "filter (\<lambda>n. n \<notin> set skips) names"
  have name: "ph_name (loggedPhase pe re n) = n" for n by (simp add: loggedPhase_def)
  then have names: "map ph_name (rn_phases ?r) = names" by (simp add: comp_def)
  have active: "activePhases (set skips) (rn_phases ?r) = map (loggedPhase pe re) ?active"
    by (simp add: activePhases_def filter_map comp_def name)
  have all: "upToFailure pe ?active = ?active" if "find (\<lambda>n. pe n \<noteq> None) ?active = None"
  proof -
    have "\<forall>n \<in> set ?active. pe n = None" using that by (auto simp: find_None_iff)
    then show ?thesis
      by (simp only: upToFailure_def takeWhile_eq_all_conv [THEN iffD2] dropWhile_eq_Nil_conv [THEN iffD2]) simp
  qed
  show ?thesis
  proof (cases "set skips \<subseteq> set names")
    case False
    obtain p where p: "p \<in> set skips - set names"
      and "computeSkipLoop names skips {} = Inl (errUnknownPhase p names)"
      using computeSkipLoop_Inl [OF False, of "{}"] by blast
    then have "computeSkipPhases ?r = Inl (errUnknownPhase p names)"
      unfolding computeSkipPhases_def names by simp
    then have "Run ?r [] = (Some (WrapError ''failed to compute skip phases'' (errUnknownPhase p names)), [])"
      by (simp only: Run_def sum.case)
    with p have "\<exists>p \<in> set skips - set names.
        Run ?r [] = (Some (WrapError ''failed to compute skip phases'' (errUnknownPhase p names)), [])"
      by (rule bexI [rotated])
    with False show ?thesis by (simp only: Let_def) simp
  next
    case True
    then have "computeSkipPhases ?r = Inr (set skips)"
      unfolding computeSkipPhases_def names by (simp add: computeSkipLoop_Inr)
    then have "Run ?r [] =
        (case preRunAll (map (loggedPhase pe re) ?active) [] of
           (Some e, w1) \<Rightarrow> (Some e, w1) | (None, w1) \<Rightarrow> runAll (map (loggedPhase pe re) ?active) w1)"
      by (simp only: Run_def active Let_def sum.case)
    then show ?thesis
      using True all
      by (simp only: preRunAll_logged runAll_logged Let_def)
        (auto split: option.splits)
  qed
qed

end
