(* ===== verification/Webhook_Main.thy ===== *)
theory Webhook_Main
  imports Webhook_Correct Go_Flag Process_Info Workflow "HOL-Library.Word"
begin

section \<open>The process of the webhook (cmd/webhook/main.go)\<close>

text \<open>
  The flags of the webhook, the order in which \<open>mainErr\<close> sets up the manager, and what runs
  concurrently afterwards: the rotation of the certificates, the goroutine that registers
  the pod mutator, and the probes of the kubelet.  The manager, the rotator and the webhook
  server are libraries: their calls are parameters.
\<close>

subsection \<open>Flags and TLS\<close>

definition webhookFlags :: flags where
  "webhookFlags =
     [(''audience'', StringVal []), (''webhook-cert-dir'', StringVal ''/certs''),
      (''disable-cert-rotation'', BoolVal False), (''tls-min-version'', StringVal ''1.3''),
      (''health-addr'', StringVal '':9440''), (''metrics-addr'', StringVal '':8095''),
      (''metrics-backend'', StringVal ''prometheus''), (''log-level'', StringVal []),
      (''version'', BoolVal False), (''custom-token-endpoint-annotation-suffix'', StringVal []),
      (''custom-token-endpoint-audience'', StringVal [])]"

definition errTLSVersion :: go_error where
  "errTLSVersion = GoError ''invalid TLS version. Must be one of: 1.0, 1.1, 1.2, 1.3''"

definition parseTLSVersion :: "string \<Rightarrow> go_error + 16 word" where
  "parseTLSVersion tlsVersion =
     (if tlsVersion = ''1.0'' then Inr 0x0301
      else if tlsVersion = ''1.1'' then Inr 0x0302
      else if tlsVersion = ''1.2'' then Inr 0x0303
      else if tlsVersion = ''1.3'' then Inr 0x0304
      else Inl errTLSVersion)"

subsection \<open>Setting up\<close>

definition secretName :: string where "secretName = ''azure-wi-webhook-server-cert''"
definition serviceName :: string where "serviceName = ''azure-wi-webhook-webhook-service''"
definition caName :: string where "caName = ''azure-workload-identity-ca''"
definition caOrganization :: string where "caOrganization = ''azure-workload-identity''"

definition dnsName :: "string \<Rightarrow> string" where
  "dnsName namespace = serviceName @ ''.'' @ namespace @ ''.svc''"

record manager_options =
  mo_userAgent :: string
  mo_certDir :: string
  mo_minVersion :: "16 word"
  mo_healthAddr :: string
  mo_metricsAddr :: string
  mo_leaderElection :: bool

record rotator_options =
  ro_secret :: "string \<times> string"
  ro_certDir :: string
  ro_caName :: string
  ro_caOrganization :: string
  ro_dnsName :: string
  ro_webhooks :: "string list"

text \<open>
  The calls of \<open>mainErr\<close>.  \<open>wc_getConfig\<close> is \<open>ctrl.GetConfigOrDie\<close>, whose failure ends the
  process; \<open>wc_start\<close> returns when the manager stops.
\<close>

record 'w webhook_calls =
  wc_namespace :: string
  wc_build :: build_info
  wc_printVersion :: "('w, unit) io"
  wc_setLogLevel :: "string \<Rightarrow> ('w, unit) io"
  wc_getConfig :: "('w, unit) io"
  wc_initExporter :: "('w, unit) io"
  wc_newManager :: "manager_options \<Rightarrow> ('w, unit) io"
  wc_addRotator :: "rotator_options \<Rightarrow> ('w, unit) io"
  wc_addHealthz :: "string \<Rightarrow> ('w, unit) io"
  wc_addReadyz :: "string \<Rightarrow> ('w, unit) io"
  wc_start :: "('w, unit) io"

datatype main_outcome = MainReturned "go_error option" | MainPanicked go_error | MainDied go_error

definition managerOptions :: "'w webhook_calls \<Rightarrow> flags \<Rightarrow> 16 word \<Rightarrow> manager_options" where
  "managerOptions wc fs tls =
     \<lparr> mo_userAgent = GetUserAgent (wc_build wc) ''webhook'', mo_certDir = stringFlag fs ''webhook-cert-dir'',
       mo_minVersion = tls, mo_healthAddr = stringFlag fs ''health-addr'',
       mo_metricsAddr = stringFlag fs ''metrics-addr'', mo_leaderElection = False \<rparr>"

definition rotatorOptions :: "'w webhook_calls \<Rightarrow> flags \<Rightarrow> rotator_options" where
  "rotatorOptions wc fs =
     \<lparr> ro_secret = (wc_namespace wc, secretName), ro_certDir = stringFlag fs ''webhook-cert-dir'',
       ro_caName = caName, ro_caOrganization = caOrganization, ro_dnsName = dnsName (wc_namespace wc),
       ro_webhooks = [''azure-wi-webhook-mutating-webhook-configuration''] \<rparr>"

definition setupProbeEndpoints :: "'w webhook_calls \<Rightarrow> 'w \<Rightarrow> go_error option \<times> 'w" where
  "setupProbeEndpoints wc w =
     (case wc_addHealthz wc ''healthz'' w of
        (Inl e, w1) \<Rightarrow> (Some (WrapError ''unable to add healthz check'' e), w1)
      | (Inr _, w1) \<Rightarrow>
          (case wc_addReadyz wc ''readyz'' w1 of
             (Inl e, w2) \<Rightarrow> (Some (WrapError ''unable to add readyz check'' e), w2)
           | (Inr _, w2) \<Rightarrow> (None, w2)))"

text \<open>From the created manager on; the goroutine of \<open>setupWebhook\<close> is the step relation below.\<close>

definition runManager :: "'w webhook_calls \<Rightarrow> 'w \<Rightarrow> main_outcome \<times> 'w" where
  "runManager wc w =
     (case setupProbeEndpoints wc w of
        (Some e, w1) \<Rightarrow> (MainPanicked e, w1)
      | (None, w1) \<Rightarrow>
          (case wc_start wc w1 of
             (Inl e, w2) \<Rightarrow> (MainReturned (Some (WrapError ''entrypoint: unable to run manager'' e)), w2)
           | (Inr _, w2) \<Rightarrow> (MainReturned None, w2)))"

definition setupManager :: "'w webhook_calls \<Rightarrow> flags \<Rightarrow> 'w \<Rightarrow> main_outcome \<times> 'w" where
  "setupManager wc fs w =
     (case parseTLSVersion (stringFlag fs ''tls-min-version'') of
        Inl e \<Rightarrow> (MainReturned (Some (WrapError ''entrypoint: unable to parse TLS version'' e)), w)
      | Inr tls \<Rightarrow>
          (case wc_newManager wc (managerOptions wc fs tls) w of
             (Inl e, w1) \<Rightarrow>
               (MainReturned (Some (WrapError ''entrypoint: unable to set up controller manager'' e)), w1)
           | (Inr _, w1) \<Rightarrow>
               if \<not> boolFlag fs ''disable-cert-rotation'' then
                 (case wc_addRotator wc (rotatorOptions wc fs) w1 of
                    (Inl e, w2) \<Rightarrow>
                      (MainReturned (Some (WrapError ''entrypoint: unable to set up cert rotation'' e)), w2)
                  | (Inr _, w2) \<Rightarrow> runManager wc w2)
               else runManager wc w1))"

definition webhookMainErr :: "'w webhook_calls \<Rightarrow> flags \<Rightarrow> 'w \<Rightarrow> main_outcome \<times> 'w" where
  "webhookMainErr wc fs w =
     (if boolFlag fs ''version'' then
        (case wc_printVersion wc w of
           (Inl e, w1) \<Rightarrow> (MainReturned (Some e), w1)
         | (Inr _, w1) \<Rightarrow> (MainReturned None, w1))
      else
        (case wc_setLogLevel wc (stringFlag fs ''log-level'') w of
           (Inl e, w1) \<Rightarrow> (MainReturned (Some (WrapError ''invalid --log-level set'' e)), w1)
         | (Inr _, w1) \<Rightarrow>
             (case wc_getConfig wc w1 of
                (Inl e, w2) \<Rightarrow> (MainDied e, w2)
              | (Inr _, w2) \<Rightarrow>
                  (case InitMetricsExporter (wc_initExporter wc) (stringFlag fs ''metrics-backend'') w2 of
                     (Inl e, w3) \<Rightarrow>
                       (MainReturned (Some (WrapError ''entrypoint: failed to initialize metrics exporter'' e)), w3)
                   | (Inr _, w3) \<Rightarrow> setupManager wc fs w3))))"

text \<open>
  The process: a command line that does not parse ends it before anything is called, and an
  error that \<open>mainErr\<close> returns is fatal.
\<close>

definition webhookMain :: "'w webhook_calls \<Rightarrow> string list \<Rightarrow> 'w \<Rightarrow> (flag_error + main_outcome) \<times> 'w" where
  "webhookMain wc args w =
     (case parseFlags webhookFlags args of
        Inl e \<Rightarrow> (Inl e, w)
      | Inr (fs, rest) \<Rightarrow>
          (case webhookMainErr wc fs w of
             (MainReturned (Some e), w1) \<Rightarrow> (Inr (MainDied e), w1)
           | (r, w1) \<Rightarrow> (Inr r, w1)))"

text \<open>The command line of the chart's deployment, without a custom token endpoint.\<close>

definition chartArgs :: "string \<Rightarrow> string \<Rightarrow> string \<Rightarrow> string list" where
  "chartArgs level metricsAddr backend =
     [''--log-level='' @ level, ''--metrics-addr='' @ metricsAddr, ''--metrics-backend='' @ backend]"

definition chartFlags :: "string \<Rightarrow> string \<Rightarrow> string \<Rightarrow> flags" where
  "chartFlags level metricsAddr backend =
     AList.update ''metrics-backend'' (StringVal backend)
       (AList.update ''metrics-addr'' (StringVal metricsAddr)
          (AList.update ''log-level'' (StringVal level) webhookFlags))"

lemma chart_parses: "parseFlags webhookFlags (chartArgs level metricsAddr backend) = Inr (chartFlags level metricsAddr backend, [])"
  by (simp add: chartArgs_def chartFlags_def webhookFlags_def parseFlags.simps(2) cutFlag_def storeFlag_def)

lemma chartFlags_read:
  "stringFlag (chartFlags level metricsAddr backend) ''audience'' = []"
  "stringFlag (chartFlags level metricsAddr backend) ''custom-token-endpoint-annotation-suffix'' = []"
  "stringFlag (chartFlags level metricsAddr backend) ''custom-token-endpoint-audience'' = []"
  "boolFlag (chartFlags level metricsAddr backend) ''version'' = False"
  "boolFlag (chartFlags level metricsAddr backend) ''disable-cert-rotation'' = False"
  by (simp_all add: chartFlags_def webhookFlags_def stringFlag_def boolFlag_def)

subsection \<open>Registering the webhook and answering the probes\<close>

text \<open>
  The goroutine of \<open>setupWebhook\<close> waits for the channel \<open>setupFinished\<close>, then builds the
  mutator and registers it; an error panics.  \<open>ss_ready\<close> is the closed channel: closed by
  \<open>mainErr\<close> without rotation, by the rotator otherwise.  \<open>ss_server\<close> is what the started
  check of the webhook server says, which may change at any time.
\<close>

datatype hook_state = HookBlocked | HookBuilding | HookRegistered podMutator | HookPanicked go_error

record setup_state =
  ss_ready :: bool
  ss_hook :: hook_state
  ss_server :: "go_error option"

definition errNotStarted :: go_error where
  "errNotStarted = GoError ''webhook server has not been started yet''"

definition initialSetup :: "flags \<Rightarrow> setup_state" where
  "initialSetup fs =
     \<lparr> ss_ready = boolFlag fs ''disable-cert-rotation'', ss_hook = HookBlocked, ss_server = Some errNotStarted \<rparr>"

definition hookPath :: string where "hookPath = ''/mutate-v1-pod''"

definition buildMutator :: "'v mutator_env \<Rightarrow> flags \<Rightarrow> podMutator result" where
  "buildMutator env fs =
     NewPodMutator env (stringFlag fs ''audience'') (stringFlag fs ''custom-token-endpoint-annotation-suffix'')
       (stringFlag fs ''custom-token-endpoint-audience'')"

inductive setup_step :: "'v mutator_env \<Rightarrow> flags \<Rightarrow> setup_state \<Rightarrow> setup_state \<Rightarrow> bool"
  for env :: "'v mutator_env" and fs :: flags where
  rotated: "\<not> boolFlag fs ''disable-cert-rotation'' \<Longrightarrow> \<not> ss_ready s \<Longrightarrow>
    setup_step env fs s (s \<lparr> ss_ready := True \<rparr>)"
| unblock: "ss_hook s = HookBlocked \<Longrightarrow> ss_ready s \<Longrightarrow>
    setup_step env fs s (s \<lparr> ss_hook := HookBuilding \<rparr>)"
| register: "ss_hook s = HookBuilding \<Longrightarrow> buildMutator env fs = Inr m \<Longrightarrow>
    setup_step env fs s (s \<lparr> ss_hook := HookRegistered m \<rparr>)"
| build_failed: "ss_hook s = HookBuilding \<Longrightarrow> buildMutator env fs = Inl e \<Longrightarrow>
    setup_step env fs s (s \<lparr> ss_hook := HookPanicked (WrapError ''unable to set up pod mutator'' e) \<rparr>)"
| server: "setup_step env fs s (s \<lparr> ss_server := r \<rparr>)"

inductive setup_reachable :: "'v mutator_env \<Rightarrow> flags \<Rightarrow> setup_state \<Rightarrow> bool"
  for env :: "'v mutator_env" and fs :: flags where
  start: "setup_reachable env fs (initialSetup fs)"
| step: "setup_reachable env fs s \<Longrightarrow> setup_step env fs s s' \<Longrightarrow> setup_reachable env fs s'"

text \<open>The check behind \<open>/healthz\<close> and \<open>/readyz\<close>.\<close>

definition errCertsNotReady :: go_error where
  "errCertsNotReady = GoError ''certs are not ready yet''"

definition checker :: "setup_state \<Rightarrow> go_error option" where
  "checker s = (if ss_ready s then ss_server s else Some errCertsNotReady)"

text \<open>Whether a pod sent to the webhook server meets the mutator.\<close>

definition hookServes :: "setup_state \<Rightarrow> podMutator \<Rightarrow> bool" where
  "hookServes s m = (ss_hook s = HookRegistered m)"

inductive_simps setup_step_iff: "setup_step env fs s s'"

subsection \<open>The order of the set-up\<close>

text \<open>Calls that record their name; \<open>f\<close> says which of them fail.\<close>

definition loggedCall :: "(string \<Rightarrow> go_error option) \<Rightarrow> string \<Rightarrow> (string list, unit) io" where
  "loggedCall f n w = (case f n of None \<Rightarrow> Inr () | Some e \<Rightarrow> Inl e, w @ [n])"

definition loggedCalls :: "(string \<Rightarrow> go_error option) \<Rightarrow> string \<Rightarrow> build_info \<Rightarrow> string list webhook_calls" where
  "loggedCalls f ns b =
     \<lparr> wc_namespace = ns, wc_build = b, wc_printVersion = loggedCall f ''version'',
       wc_setLogLevel = (\<lambda>_. loggedCall f ''log-level''), wc_getConfig = loggedCall f ''config'',
       wc_initExporter = loggedCall f ''exporter'', wc_newManager = (\<lambda>_. loggedCall f ''manager''),
       wc_addRotator = (\<lambda>_. loggedCall f ''rotator''), wc_addHealthz = (\<lambda>_. loggedCall f ''healthz''),
       wc_addReadyz = (\<lambda>_. loggedCall f ''readyz''), wc_start = loggedCall f ''start'' \<rparr>"

lemma loggedCalls_sel [simp]:
  "wc_setLogLevel (loggedCalls f ns b) l = loggedCall f ''log-level''"
  "wc_getConfig (loggedCalls f ns b) = loggedCall f ''config''"
  "wc_initExporter (loggedCalls f ns b) = loggedCall f ''exporter''"
  "wc_newManager (loggedCalls f ns b) mo = loggedCall f ''manager''"
  "wc_addRotator (loggedCalls f ns b) ro = loggedCall f ''rotator''"
  "wc_addHealthz (loggedCalls f ns b) l = loggedCall f ''healthz''"
  "wc_addReadyz (loggedCalls f ns b) l = loggedCall f ''readyz''"
  "wc_start (loggedCalls f ns b) = loggedCall f ''start''"
  by (simp_all add: loggedCalls_def)

definition supportedTLS :: "string list" where
  "supportedTLS = [''1.0'', ''1.1'', ''1.2'', ''1.3'']"

definition managerSteps :: "flags \<Rightarrow> string list" where
  "managerSteps fs =
     (if stringFlag fs ''tls-min-version'' \<in> set supportedTLS
      then ''manager'' # (if boolFlag fs ''disable-cert-rotation'' then [] else [''rotator'']) @
        [''healthz'', ''readyz'', ''start'']
      else [])"

definition setupSteps :: "flags \<Rightarrow> string list" where
  "setupSteps fs =
     [''log-level'', ''config''] @
     (if strToLower (stringFlag fs ''metrics-backend'') = exporterName then ''exporter'' # managerSteps fs else [])"

lemma upToFailure_Cons:
  "upToFailure f (n # ns) = n # (if f n = None then upToFailure f ns else [])"
  by (simp add: upToFailure_def)

lemma upToFailure_Nil [simp]: "upToFailure f [] = []"
  by (simp add: upToFailure_def)

lemma parseTLSVersion_ok: "(\<exists>v. parseTLSVersion t = Inr v) \<longleftrightarrow> t \<in> set supportedTLS"
  by (simp add: parseTLSVersion_def supportedTLS_def)

lemma runManager_logged:
  "snd (runManager (loggedCalls f ns b) w) = w @ upToFailure f [''healthz'', ''readyz'', ''start''] \<and>
   (fst (runManager (loggedCalls f ns b) w) = MainReturned None \<longleftrightarrow>
      (\<forall>n \<in> set [''healthz'', ''readyz'', ''start'']. f n = None))"
  by (cases "f ''healthz''"; cases "f ''readyz''"; cases "f ''start''")
    (simp_all add: runManager_def setupProbeEndpoints_def loggedCall_def upToFailure_Cons)

lemma setupManager_logged:
  "snd (setupManager (loggedCalls f ns b) fs w) = w @ upToFailure f (managerSteps fs) \<and>
   (fst (setupManager (loggedCalls f ns b) fs w) = MainReturned None \<longleftrightarrow>
      stringFlag fs ''tls-min-version'' \<in> set supportedTLS \<and> (\<forall>n \<in> set (managerSteps fs). f n = None))"
proof (cases "parseTLSVersion (stringFlag fs ''tls-min-version'')")
  case (Inl e)
  then have "stringFlag fs ''tls-min-version'' \<notin> set supportedTLS"
    using parseTLSVersion_ok [of "stringFlag fs ''tls-min-version''"] by auto
  with Inl show ?thesis by (simp add: setupManager_def managerSteps_def)
next
  case (Inr v)
  then have ok: "stringFlag fs ''tls-min-version'' \<in> set supportedTLS"
    using parseTLSVersion_ok by blast
  note calls = runManager_logged [of f ns b]
  show ?thesis
    using Inr ok calls [of "w @ [''manager'']"] calls [of "w @ [''manager'', ''rotator'']"]
    by (cases "f ''manager''"; cases "f ''rotator''")
      (simp_all add: setupManager_def managerSteps_def loggedCall_def upToFailure_Cons)
qed

text \<open>
  The order of the set-up.  The process sets the log level, gets its configuration, starts
  the metrics exporter if the backend is the supported one, and only for one of the four
  TLS versions creates the manager, then the certificate rotator unless it is disabled,
  then the two checks, and starts the manager last; it goes on exactly up to the first call
  that fails, and returns without an error exactly if the backend and the TLS version are
  supported and no call fails.
\<close>

theorem webhook_setup_order:
  "\<not> boolFlag fs ''version'' \<Longrightarrow>
   snd (webhookMainErr (loggedCalls f ns b) fs []) = upToFailure f (setupSteps fs) \<and>
   (fst (webhookMainErr (loggedCalls f ns b) fs []) = MainReturned None \<longleftrightarrow>
      strToLower (stringFlag fs ''metrics-backend'') = exporterName \<and>
      stringFlag fs ''tls-min-version'' \<in> set supportedTLS \<and> (\<forall>n \<in> set (setupSteps fs). f n = None))"
  using setupManager_logged [of f ns b fs "[''log-level'', ''config'', ''exporter'']"]
  by (cases "f ''log-level''"; cases "f ''config''"; cases "f ''exporter''")
    (auto simp: webhookMainErr_def InitMetricsExporter_def setupSteps_def loggedCall_def upToFailure_Cons)

subsection \<open>Registration and readiness\<close>

lemma setup_invariant:
  "setup_reachable env fs s \<Longrightarrow>
     (ss_hook s \<noteq> HookBlocked \<longrightarrow> ss_ready s) \<and>
     (\<forall>m. ss_hook s = HookRegistered m \<longrightarrow> buildMutator env fs = Inr m) \<and>
     (\<forall>e. ss_hook s = HookPanicked e \<longrightarrow> (\<exists>e'. buildMutator env fs = Inl e'))"
proof (induction rule: setup_reachable.induct)
  case start
  then show ?case by (simp add: initialSetup_def)
next
  case (step s s')
  then show ?case by (auto simp: setup_step_iff)
qed

text \<open>Without rotation the channel is closed from the start.\<close>

lemma setup_built: "setup_reachable env fs s \<Longrightarrow> boolFlag fs ''disable-cert-rotation'' \<Longrightarrow> ss_ready s"
  by (induction rule: setup_reachable.induct) (auto simp: initialSetup_def setup_step_iff)

lemma NewPodMutator_valid:
  assumes "NewPodMutator env aud annSuffix cteAud = Inr m"
  shows "validConfig (pm_config m) \<and> pm_audience m \<noteq> []"
proof -
  obtain c where "ParseConfig (me_config env) = Inr c" "pm_config m = c"
    "pm_audience m = (if aud = [] then DefaultAudience else aud)"
    using assms by (rule NewPodMutator_InrE) simp
  then show ?thesis using ParseConfig_Inr by (auto simp: DefaultAudience_def)
qed

text \<open>
  C31: The webhook is registered behind its certificates.  In every state that the set-up can
  reach, the goroutine has passed its wait only if the certificates are ready, the probes
  answer without an error only then, a mutator that serves is the one \<open>NewPodMutator\<close> built
  from the flags, so its configuration is valid and its audience not empty, and a panic
  means that it could not be built.
\<close>

theorem registered_after_certs:
  assumes "setup_reachable env fs s"
  shows "(ss_hook s \<noteq> HookBlocked \<longrightarrow> ss_ready s) \<and> (checker s = None \<longrightarrow> ss_ready s) \<and>
    (\<forall>m. hookServes s m \<longrightarrow> buildMutator env fs = Inr m \<and> validConfig (pm_config m) \<and> pm_audience m \<noteq> []) \<and>
    (\<forall>e. ss_hook s = HookPanicked e \<longrightarrow> (\<exists>e'. buildMutator env fs = Inl e'))"
proof -
  have "validConfig (pm_config m) \<and> pm_audience m \<noteq> []" if "buildMutator env fs = Inr m" for m
    using that NewPodMutator_valid unfolding buildMutator_def by blast
  then show ?thesis
    using setup_invariant [OF assms] by (auto simp: checker_def hookServes_def)
qed

text \<open>
  Readiness does not wait for the registration.  Whatever the environment and the flags,
  the set-up can reach a state in which the probes answer without an error and no mutator
  serves: once the certificates are ready the check only asks whether the server has started.
\<close>

theorem ready_without_webhook:
  "\<exists>s. setup_reachable env fs s \<and> checker s = None \<and> (\<forall>m. \<not> hookServes s m)"
proof -
  let ?s0 = "initialSetup fs"
  let ?s1 = "?s0 \<lparr> ss_ready := True \<rparr>"
  have "setup_reachable env fs ?s1"
  proof (cases "boolFlag fs ''disable-cert-rotation''")
    case True
    then have "?s1 = ?s0" by (simp add: initialSetup_def)
    then show ?thesis by (simp add: setup_reachable.start)
  next
    case False
    then show ?thesis
      by (intro setup_reachable.step [OF setup_reachable.start] setup_step.rotated)
        (simp_all add: initialSetup_def)
  qed
  then have "setup_reachable env fs (?s1 \<lparr> ss_server := None \<rparr>)"
    by (rule setup_reachable.step) (rule setup_step.server)
  then show ?thesis
    by (intro exI [of _ "?s1 \<lparr> ss_server := None \<rparr>"] conjI)
      (simp_all add: checker_def hookServes_def initialSetup_def)
qed

text \<open>
  C32: Registration is always possible and final.  If the mutator can be built, then from every
  state that the set-up can reach it can reach one in which that mutator serves, and no
  step takes a serving mutator away.
\<close>

theorem registration_possible:
  assumes "setup_reachable env fs s" and "buildMutator env fs = Inr m"
  shows "(\<exists>s'. (setup_step env fs)\<^sup>*\<^sup>* s s' \<and> hookServes s' m) \<and>
    (\<forall>s' m'. hookServes s m' \<longrightarrow> setup_step env fs s s' \<longrightarrow> hookServes s' m')"
proof
  note inv = setup_invariant [OF assms(1)] and built = setup_built [OF assms(1)]
  have building: "\<exists>s'. (setup_step env fs)\<^sup>*\<^sup>* t s' \<and> hookServes s' m" if "ss_hook t = HookBuilding" for t
    using setup_step.register [OF that assms(2)] by (auto simp: hookServes_def)
  have ready: "\<exists>s'. (setup_step env fs)\<^sup>*\<^sup>* t s' \<and> hookServes s' m"
    if "ss_hook t = HookBlocked" "ss_ready t" for t
    using setup_step.unblock [OF that] building [of "t \<lparr> ss_hook := HookBuilding \<rparr>"]
    by (auto intro: converse_rtranclp_into_rtranclp)
  show "\<exists>s'. (setup_step env fs)\<^sup>*\<^sup>* s s' \<and> hookServes s' m"
  proof (cases "ss_hook s")
    case HookBlocked
    show ?thesis
    proof (cases "ss_ready s")
      case True
      with HookBlocked ready show ?thesis by blast
    next
      case False
      then have "setup_step env fs s (s \<lparr> ss_ready := True \<rparr>)"
        using built by (intro setup_step.rotated) auto
      with ready [of "s \<lparr> ss_ready := True \<rparr>"] HookBlocked show ?thesis
        by (auto intro: converse_rtranclp_into_rtranclp)
    qed
  next
    case HookBuilding
    then show ?thesis by (rule building)
  next
    case (HookRegistered m')
    with inv assms(2) show ?thesis by (auto simp: hookServes_def)
  next
    case (HookPanicked e)
    with inv assms(2) show ?thesis by simp
  qed
  show "\<forall>s' m'. hookServes s m' \<longrightarrow> setup_step env fs s s' \<longrightarrow> hookServes s' m'"
    by (auto simp: hookServes_def setup_step_iff)
qed

text \<open>The flags of a webhook with a custom token endpoint and its own certificates, for the witnesses.\<close>

definition demoFlags :: flags where
  "demoFlags =
     [(''custom-token-endpoint-annotation-suffix'', StringVal ''ep''),
      (''custom-token-endpoint-audience'', StringVal ''aud''), (''disable-cert-rotation'', BoolVal True),
      (''tls-min-version'', StringVal ''1.2''), (''metrics-backend'', StringVal ''Prometheus'')]"

lemma demo_builds: "\<exists>m. buildMutator demoEnv demoFlags = Inr m"
  using demo_NewPodMutator by (simp add: buildMutator_def stringFlag_def demoFlags_def)

theorem webhook_setup_order_witness:
  "fst (webhookMainErr (loggedCalls (\<lambda>_. None) [] \<lparr> bi_vcs = [], bi_buildTime = [], bi_buildVersion = [],
     bi_goVersion = [], bi_goos = [], bi_goarch = [] \<rparr>) demoFlags []) = MainReturned None"
proof -
  have version: "\<not> boolFlag demoFlags ''version''" by (simp add: boolFlag_def demoFlags_def)
  have "stringFlag demoFlags ''tls-min-version'' \<in> set supportedTLS"
    by (simp add: stringFlag_def demoFlags_def supportedTLS_def)
  moreover have "strToLower (stringFlag demoFlags ''metrics-backend'') = exporterName"
    by code_simp
  ultimately show ?thesis
    using webhook_setup_order [OF version] by simp
qed

lemma demo_registered: "\<exists>s m. setup_reachable demoEnv demoFlags s \<and> hookServes s m"
proof -
  obtain m where m: "buildMutator demoEnv demoFlags = Inr m" using demo_builds by blast
  let ?s0 = "initialSetup demoFlags"
  let ?s1 = "?s0 \<lparr> ss_hook := HookBuilding \<rparr>"
  have "setup_reachable demoEnv demoFlags ?s1"
    by (rule setup_reachable.step [OF setup_reachable.start], rule setup_step.unblock)
      (simp_all add: initialSetup_def boolFlag_def demoFlags_def)
  then have "setup_reachable demoEnv demoFlags (?s1 \<lparr> ss_hook := HookRegistered m \<rparr>)"
    by (rule setup_reachable.step) (rule setup_step.register, simp_all add: m)
  then show ?thesis
    by (intro exI [of _ "?s1 \<lparr> ss_hook := HookRegistered m \<rparr>"] exI [of _ m] conjI)
      (simp_all add: hookServes_def)
qed

theorem registered_after_certs_witness:
  "\<exists>s m. hookServes s m \<and> ss_ready s \<and> buildMutator demoEnv demoFlags = Inr m \<and> validConfig (pm_config m)"
proof -
  obtain s m where reach: "setup_reachable demoEnv demoFlags s" and m: "hookServes s m"
    using demo_registered by blast
  from registered_after_certs [OF reach] m show ?thesis
    by (intro exI [of _ s] exI [of _ m]) (auto simp: hookServes_def)
qed

theorem registration_possible_witness:
  "\<exists>m s'. (setup_step demoEnv demoFlags)\<^sup>*\<^sup>* (initialSetup demoFlags) s' \<and> hookServes s' m"
proof -
  obtain m where "buildMutator demoEnv demoFlags = Inr m" using demo_builds by blast
  from registration_possible [OF setup_reachable.start this] show ?thesis by blast
qed

end
