(* ===== verification/Go_Time.thy ===== *)
theory Go_Time
  imports Go_Strings
begin

section \<open>The parts of Go's time package that the program uses\<close>

text \<open>
  Instants and durations are nanoseconds; a duration is an \<open>int64\<close>, and \<open>time.Until\<close>
  saturates.  Division of integers truncates towards zero.
\<close>

definition second :: int where "second = 1000000000"

definition saturate64 :: "int \<Rightarrow> int" where
  "saturate64 d = max (- (2 ^ 63)) (min (2 ^ 63 - 1) d)"

definition goDiv :: "int \<Rightarrow> int \<Rightarrow> int" where
  "goDiv a b = sgn a * sgn b * (\<bar>a\<bar> div \<bar>b\<bar>)"

definition timeUntil :: "int \<Rightarrow> int \<Rightarrow> int" where
  "timeUntil now t = saturate64 (t - now)"

text \<open>
  \<open>d.Round(time.Second)\<close>: to the nearest multiple, halfway values away from zero, the
  ends of the range where the multiple does not fit.
\<close>

definition roundSecond :: "int \<Rightarrow> int" where
  "roundSecond d =
     saturate64
       (if d < 0
        then (let r = (- d) mod second in if r + r < second then d + r else d - (second - r))
        else (let r = d mod second in if r + r < second then d - r else d + (second - r)))"

text \<open>
  \<open>fmt.Sprintf("%.0f", d.Seconds())\<close> of a rounded duration: the whole seconds, nearest
  for the two ends of the range (the float holds every such number exactly).
\<close>

definition showSeconds :: "int \<Rightarrow> string" where
  "showSeconds d = formatInt ((2 * d + second) div (2 * second))"

text \<open>\<open>d.String()\<close> for a duration of one or more whole seconds.\<close>

definition durationString :: "int \<Rightarrow> string" where
  "durationString d =
     (let secs = nat (d div second); h = secs div 3600; m = secs div 60 mod 60; s = secs mod 60
      in if 0 < h then showNat h @ ''h'' @ showNat m @ ''m'' @ showNat s @ ''s''
         else if 0 < m then showNat m @ ''m'' @ showNat s @ ''s''
         else showNat s @ ''s'')"

lemma showSeconds_whole: "showSeconds (n * second) = formatInt n"
  by (simp add: showSeconds_def second_def)

lemma roundSecond_bounds:
  assumes "lo * second \<le> d" and "d \<le> hi * second" and "0 \<le> lo" and "hi * second < 2 ^ 63"
  obtains n where "roundSecond d = n * second" "lo \<le> n" "n \<le> hi" "\<bar>roundSecond d - d\<bar> * 2 \<le> second"
proof -
  define q where "q = d div second"
  define r where "r = d mod second"
  define n where "n = (if r + r < second then q else q + 1)"
  have d: "d = q * second + r" by (simp add: q_def r_def)
  have r: "0 \<le> r" "r < second" by (simp_all add: r_def second_def)
  have "0 \<le> d" using assms(1,3) by (simp add: second_def)
  then have "roundSecond d = saturate64 (n * second)"
    by (simp add: roundSecond_def Let_def r_def [symmetric] n_def)
       (simp add: d algebra_simps)
  moreover have n: "lo \<le> n" "n \<le> hi"
    using assms(1,2) d r by (auto simp: n_def second_def split: if_splits)
  moreover have "n * second \<le> hi * second" "0 \<le> n * second"
    using n assms(3) by (simp_all add: second_def)
  ultimately have "roundSecond d = n * second"
    using assms(4) by (simp add: saturate64_def)
  moreover have "\<bar>n * second - d\<bar> * 2 \<le> second"
    using d r by (auto simp: n_def second_def)
  ultimately show ?thesis by (intro that [of n] n) simp_all
qed

end
