(* ===== verification/Go_Http.thy ===== *)
theory Go_Http
  imports Go_Strings Go_Time
begin

section \<open>The parts of net/http and net/url that the proxy uses\<close>

subsection \<open>Query strings\<close>

definition hexVal :: "char \<Rightarrow> nat option" where
  "hexVal c =
     (let n = of_char c :: nat in
      if 48 \<le> n \<and> n \<le> 57 then Some (n - 48)
      else if 97 \<le> n \<and> n \<le> 102 then Some (n - 87)
      else if 65 \<le> n \<and> n \<le> 70 then Some (n - 55)
      else None)"

text \<open>\<open>url.QueryUnescape\<close>: \<open>None\<close> is the error for a malformed percent escape.\<close>

fun queryUnescape :: "string \<Rightarrow> string option" where
  "queryUnescape [] = Some []"
| "queryUnescape (c # s) =
     (if c = CHR ''%'' then
        (case s of
           a # b # s' \<Rightarrow>
             (case (hexVal a, hexVal b) of
                (Some x, Some y) \<Rightarrow> map_option (Cons (char_of (16 * x + y))) (queryUnescape s')
              | _ \<Rightarrow> None)
         | _ \<Rightarrow> None)
      else map_option (Cons (if c = CHR ''+'' then CHR '' '' else c)) (queryUnescape s))"

text \<open>\<open>strings.Cut\<close> at a byte.\<close>

definition strCut :: "char \<Rightarrow> string \<Rightarrow> string \<times> string" where
  "strCut sep s = (takeWhile (\<lambda>c. c \<noteq> sep) s, drop 1 (dropWhile (\<lambda>c. c \<noteq> sep) s))"

text \<open>
  One parameter of \<open>url.ParseQuery\<close>: empty ones, those with a semicolon and those that
  cannot be unescaped are dropped.
\<close>

definition queryPair :: "string \<Rightarrow> (string \<times> string) option" where
  "queryPair seg =
     (if CHR '';'' \<in> set seg \<or> seg = [] then None
      else
        (let (k, v) = strCut (CHR ''='') seg in
         case (queryUnescape k, queryUnescape v) of
           (Some k', Some v') \<Rightarrow> Some (k', v')
         | _ \<Rightarrow> None))"

definition parseQuery :: "string \<Rightarrow> (string \<times> string) list" where
  "parseQuery q = List.map_filter queryPair (strSplit (CHR ''&'') q)"

text \<open>\<open>Values.Get\<close>: the first value of the key, or the empty string.\<close>

definition queryGet :: "string \<Rightarrow> string \<Rightarrow> string" where
  "queryGet q k = (case map_of (parseQuery q) k of None \<Rightarrow> [] | Some v \<Rightarrow> v)"

subsection \<open>Headers\<close>

type_synonym headers = "(string \<times> string list) list"

definition headerTokenChar :: "char \<Rightarrow> bool" where
  "headerTokenChar c = (c \<in> set ''!#$%&*+-.^_`|~0123456789abcdefghijklmnopqrstuvwxyzABCDEFGHIJKLMNOPQRSTUVWXYZ'' \<or> c = CHR 0x27)"

definition asciiUpper :: "char \<Rightarrow> char" where
  "asciiUpper c = (if 97 \<le> (of_char c :: nat) \<and> (of_char c :: nat) \<le> 122
                   then char_of ((of_char c :: nat) - 32) else c)"

fun canonicalKey :: "bool \<Rightarrow> string \<Rightarrow> string" where
  "canonicalKey up [] = []"
| "canonicalKey up (c # s) =
     (if up then asciiUpper c else asciiLower c) # canonicalKey (c = CHR ''-'') s"

text \<open>\<open>CanonicalMIMEHeaderKey\<close>: a key with a byte that no header name may have is kept.\<close>

definition canonicalHeaderKey :: "string \<Rightarrow> string" where
  "canonicalHeaderKey k = (if list_all headerTokenChar k then canonicalKey True k else k)"

definition headerValues :: "headers \<Rightarrow> string \<Rightarrow> string list" where
  "headerValues h k = (case map_of h k of None \<Rightarrow> [] | Some vs \<Rightarrow> vs)"

definition headerAdd :: "headers \<Rightarrow> string \<Rightarrow> string \<Rightarrow> headers" where
  "headerAdd h k v =
     (let ck = canonicalHeaderKey k in AList.update ck (headerValues h ck @ [v]) h)"

definition headerSet :: "headers \<Rightarrow> string \<Rightarrow> string \<Rightarrow> headers" where
  "headerSet h k v = AList.update (canonicalHeaderKey k) [v] h"

definition headerDel :: "headers \<Rightarrow> string \<Rightarrow> headers" where
  "headerDel h k = AList.delete (canonicalHeaderKey k) h"

lemma headerValues_add:
  "headerValues (headerAdd h k v) k' =
     (if k' = canonicalHeaderKey k then headerValues h k' @ [v] else headerValues h k')"
  by (simp add: headerAdd_def headerValues_def Let_def update_conv')

lemma headerValues_set:
  "headerValues (headerSet h k v) k' = (if k' = canonicalHeaderKey k then [v] else headerValues h k')"
  by (simp add: headerSet_def headerValues_def update_conv')

subsection \<open>Response writers\<close>

text \<open>
  A response writer: the header map the handler edits, the status line and headers once
  they have been sent, and the body written so far.  Only the first \<open>WriteHeader\<close>
  counts; writing a body sends status 200 if nothing was sent before.
\<close>

record response_writer =
  rw_header :: headers
  rw_sent :: "(int \<times> headers) option"
  rw_body :: string

definition freshWriter :: response_writer where
  "freshWriter = \<lparr> rw_header = [], rw_sent = None, rw_body = [] \<rparr>"

definition writeHeader :: "int \<Rightarrow> response_writer \<Rightarrow> response_writer" where
  "writeHeader code w =
     (case rw_sent w of
        None \<Rightarrow> w \<lparr> rw_sent := Some (code, rw_header w) \<rparr>
      | Some _ \<Rightarrow> w)"

definition writeBody :: "string \<Rightarrow> response_writer \<Rightarrow> response_writer" where
  "writeBody s w = (let w' = writeHeader 200 w in w' \<lparr> rw_body := rw_body w' @ s \<rparr>)"

definition contentType :: string where "contentType = ''Content-Type''"

text \<open>\<open>http.Error\<close>.\<close>

definition httpError :: "string \<Rightarrow> int \<Rightarrow> response_writer \<Rightarrow> response_writer" where
  "httpError msg code w =
     (let h = headerDel (rw_header w) ''Content-Length'';
          h1 = headerSet h contentType ''text/plain; charset=utf-8'';
          h2 = headerSet h1 ''X-Content-Type-Options'' ''nosniff''
      in writeBody (msg @ [CHR 0x0A]) (writeHeader code (w \<lparr> rw_header := h2 \<rparr>)))"

definition statusOf :: "response_writer \<Rightarrow> int option" where
  "statusOf w = map_option fst (rw_sent w)"

lemma statusOf_fresh [simp]: "statusOf freshWriter = None"
  by (simp add: statusOf_def freshWriter_def)

lemma body_fresh [simp]: "rw_body freshWriter = []"
  by (simp add: freshWriter_def)

lemma sent_fresh [simp]: "rw_sent freshWriter = None"
  by (simp add: freshWriter_def)

lemma statusOf_header [simp]: "statusOf (w \<lparr> rw_header := h \<rparr>) = statusOf w"
  by (simp add: statusOf_def)

lemma statusOf_writeHeader [simp]:
  "statusOf (writeHeader code w) = (case statusOf w of None \<Rightarrow> Some code | Some c \<Rightarrow> Some c)"
  by (auto simp: statusOf_def writeHeader_def split: option.splits)

lemma statusOf_writeBody [simp]:
  "statusOf (writeBody s w) = (case statusOf w of None \<Rightarrow> Some 200 | Some c \<Rightarrow> Some c)"
  by (auto simp: writeBody_def Let_def statusOf_def writeHeader_def split: option.splits)

lemma statusOf_httpError [simp]:
  "statusOf (httpError msg code w) = (case statusOf w of None \<Rightarrow> Some code | Some c \<Rightarrow> Some c)"
  by (auto simp: httpError_def Let_def split: option.splits)

lemma body_writeHeader [simp]: "rw_body (writeHeader code w) = rw_body w"
  by (auto simp: writeHeader_def split: option.splits)

lemma body_writeBody [simp]: "rw_body (writeBody s w) = rw_body w @ s"
  by (simp add: writeBody_def Let_def)

lemma body_httpError [simp]: "rw_body (httpError msg code w) = rw_body w @ msg @ [CHR 0x0A]"
  by (simp add: httpError_def Let_def)

lemma header_writeHeader [simp]: "rw_header (writeHeader code w) = rw_header w"
  by (auto simp: writeHeader_def split: option.splits)

end
