(* ===== verification/Proxy.thy ===== *)
theory Proxy
  imports Go_Http Webhook_Annotations
begin

section \<open>The IMDS proxy (pkg/proxy)\<close>

text \<open>
  The sidecar's server: token requests that the workload sends to the instance metadata
  service are answered with a token acquired through the federated credential
  (\<open>msiHandler\<close>), everything else but the readiness probe is forwarded to the metadata
  service (\<open>defaultPathHandler\<close>).  The credential library, the credential cache and
  the HTTP client are parameters; what they hold is in the state \<open>'w\<close>.
\<close>

subsection \<open>Routing and requests\<close>

definition readyzPathPrefix :: string where "readyzPathPrefix = ''/readyz''"
definition metadataIPAddress :: string where "metadataIPAddress = ''169.254.169.254''"
definition metadataPort :: int where "metadataPort = 80"
definition localhost :: string where "localhost = ''localhost''"

text \<open>The pattern \<open>/{type:(?i:metadata)}/identity/oauth2/token\<close>, as a path prefix.\<close>

definition matchesTokenPath :: "string \<Rightarrow> bool" where
  "matchesTokenPath path =
     (prefix ''/'' path \<and> map asciiLower (take 8 (drop 1 path)) = ''metadata'' \<and>
      prefix ''/identity/oauth2/token'' (drop 9 path))"

datatype handler = MsiHandler | ReadyzHandler | DefaultPathHandler | NotFoundHandler

text \<open>The routes in the order in which \<open>Run\<close> registers them; the first match serves.\<close>

definition routeOf :: "string \<Rightarrow> handler" where
  "routeOf path =
     (if matchesTokenPath path then MsiHandler
      else if prefix readyzPathPrefix path then ReadyzHandler
      else if prefix ''/'' path then DefaultPathHandler
      else NotFoundHandler)"

record http_request =
  hr_method :: string
  hr_url :: "(string \<times> string) option"
  hr_headers :: headers
  hr_body :: string

text \<open>\<open>hr_url\<close> is the parsed URL, if any: its path and its raw query.\<close>

definition parseTokenRequest :: "http_request \<Rightarrow> string \<times> string" where
  "parseTokenRequest r =
     (case hr_url r of
        None \<Rightarrow> ([], [])
      | Some (path, query) \<Rightarrow> (queryGet query ''client_id'', queryGet query ''resource''))"

definition defaultScopeSuffix :: string where "defaultScopeSuffix = ''/.default''"

definition getScope :: "string \<Rightarrow> string" where
  "getScope resource =
     (if \<not> suffix defaultScopeSuffix resource then resource @ defaultScopeSuffix else resource)"

subsection \<open>Construction\<close>

record proxy =
  px_port :: int
  px_tenantID :: string

definition NewProxy :: "(string \<Rightarrow> string) \<Rightarrow> int \<Rightarrow> proxy result" where
  "NewProxy getenv port =
     (let tenantID = getenv AzureTenantIDEnvVar in
      if tenantID = [] then Inl (GoError (AzureTenantIDEnvVar @ '' not set''))
      else Inr \<lparr> px_port = port, px_tenantID = tenantID \<rparr>)"

subsection \<open>Credentials\<close>

text \<open>
  \<open>CredCache\<close> wraps the expiring LRU cache; a hit may reorder the cache, so \<open>Get\<close>
  returns the next state too.  The singleflight group runs the function for the caller,
  or hands the caller the result of the call in flight with the same key: \<open>sfDo\<close> takes
  the key and the function.
\<close>

type_synonym cred_key = "string \<times> string"

record ('w, 'c) cred_env =
  ce_get :: "cred_key \<Rightarrow> 'w \<Rightarrow> 'c option \<times> 'w"
  ce_add :: "cred_key \<Rightarrow> 'c \<Rightarrow> 'w \<Rightarrow> 'w"
  ce_new :: "string \<Rightarrow> string \<Rightarrow> ('w, 'c) io"
  ce_do :: "string \<Rightarrow> ('w, 'c) io \<Rightarrow> ('w, 'c) io"

definition sfKey :: "string \<Rightarrow> string \<Rightarrow> string" where
  "sfKey clientID tenantID = clientID @ [CHR 0x00] @ tenantID"

text \<open>The function passed to the group: the second look into the cache, then the creation.\<close>

definition createCred :: "('w, 'c) cred_env \<Rightarrow> string \<Rightarrow> string \<Rightarrow> ('w, 'c) io" where
  "createCred env clientID tenantID w =
     (case ce_get env (clientID, tenantID) w of
        (Some cred, w1) \<Rightarrow> (Inr cred, w1)
      | (None, w1) \<Rightarrow>
          (case ce_new env clientID tenantID w1 of
             (Inl e, w2) \<Rightarrow> (Inl e, w2)
           | (Inr wi, w2) \<Rightarrow> (Inr wi, ce_add env (clientID, tenantID) wi w2)))"

definition getOrCreateCred :: "('w, 'c) cred_env \<Rightarrow> string \<Rightarrow> string \<Rightarrow> ('w, 'c) io" where
  "getOrCreateCred env clientID tenantID w =
     (case ce_get env (clientID, tenantID) w of
        (Some cred, w1) \<Rightarrow> (Inr cred, w1)
      | (None, w1) \<Rightarrow> ce_do env (sfKey clientID tenantID) (createCred env clientID tenantID) w1)"

subsection \<open>Tokens\<close>

record token =
  tk_accessToken :: string
  tk_refreshToken :: string
  tk_expiresIn :: string
  tk_expiresOn :: string
  tk_notBefore :: string
  tk_resource :: string
  tk_type :: string

text \<open>
  \<open>getToken\<close> is the credential's \<open>GetToken\<close>: for a scope the access token and the
  instant of its expiry; \<open>now\<close> is the time at which the result is handled.
\<close>

definition doTokenRequest ::
  "('c \<Rightarrow> string \<Rightarrow> ('w, string \<times> int) io) \<Rightarrow> int \<Rightarrow> string \<Rightarrow> 'c \<Rightarrow> ('w, token) io" where
  "doTokenRequest getToken now resource cred w =
     (case getToken cred (getScope resource) w of
        (Inl e, w1) \<Rightarrow> (Inl e, w1)
      | (Inr (tok, expiresOn), w1) \<Rightarrow>
          (Inr \<lparr> tk_accessToken = tok, tk_refreshToken = [],
                 tk_expiresIn = formatInt (goDiv (timeUntil now expiresOn) second - 10),
                 tk_expiresOn = formatInt (expiresOn div second),
                 tk_notBefore = [], tk_resource = resource, tk_type = ''Bearer'' \<rparr>, w1))"

subsection \<open>The token handler\<close>

definition msgClientID :: string where
  "msgClientID = ''The client_id parameter or AZURE_CLIENT_ID environment variable must be set''"

definition msgResource :: string where
  "msgResource = ''The resource parameter is required.''"

text \<open>
  \<open>errText\<close> gives \<open>err.Error()\<close>; \<open>encode\<close> is the JSON encoder, which writes
  nothing when it fails (the error is only logged).
\<close>

definition msiHandler ::
  "proxy \<Rightarrow> string \<Rightarrow> (string \<Rightarrow> string) \<Rightarrow> ('w, 'c) cred_env \<Rightarrow> ('c \<Rightarrow> string \<Rightarrow> ('w, string \<times> int) io)
     \<Rightarrow> int \<Rightarrow> (token \<Rightarrow> string result) \<Rightarrow> (go_error \<Rightarrow> string) \<Rightarrow> http_request
     \<Rightarrow> response_writer \<Rightarrow> 'w \<Rightarrow> response_writer \<times> 'w" where
  "msiHandler p userAgent getenv env getToken now encode errText r rw w =
     (let rw1 = rw \<lparr> rw_header := headerSet (rw_header rw) ''Server'' userAgent \<rparr>;
          (reqClientID, resource) = parseTokenRequest r;
          clientID = (if reqClientID = [] then getenv AzureClientIDEnvVar else reqClientID)
      in
      if clientID = [] then (httpError msgClientID 400 rw1, w)
      else if resource = [] then (httpError msgResource 400 rw1, w)
      else
        (case getOrCreateCred env clientID (px_tenantID p) w of
           (Inl e, w1) \<Rightarrow> (httpError (errText e) 500 rw1, w1)
         | (Inr cred, w1) \<Rightarrow>
             (case doTokenRequest getToken now resource cred w1 of
                (Inl e, w2) \<Rightarrow> (httpError (errText e) 500 rw1, w2)
              | (Inr tok, w2) \<Rightarrow>
                  (let rw2 = rw1 \<lparr> rw_header := headerSet (rw_header rw1) contentType ''application/json'' \<rparr> in
                   case encode tok of
                     Inl e \<Rightarrow> (rw2, w2)
                   | Inr body \<Rightarrow> (writeBody body rw2, w2)))))"

subsection \<open>Forwarding\<close>

fun addValues :: "headers \<Rightarrow> string \<Rightarrow> string list \<Rightarrow> headers" where
  "addValues dst k [] = dst"
| "addValues dst k (v # vs) = addValues (headerAdd dst k v) k vs"

fun copyHeader :: "headers \<Rightarrow> headers \<Rightarrow> headers" where
  "copyHeader dst [] = dst"
| "copyHeader dst ((k, vv) # src) = copyHeader (addValues dst k vv) src"

record out_request =
  or_method :: string
  or_scheme :: string
  or_host :: string
  or_path :: string
  or_query :: string
  or_headers :: headers
  or_body :: string

text \<open>
  The reply of the metadata service: its status and headers, the part of the body that
  could be read and the error that stopped reading, if any.
\<close>

record imds_reply =
  ir_status :: int
  ir_headers :: headers
  ir_body :: string
  ir_bodyErr :: "go_error option"

text \<open>\<open>newRequestErr\<close> is the error of \<open>http.NewRequest\<close>, \<open>client\<close> is \<open>client.Do\<close>.\<close>

definition imdsHost :: string where
  "imdsHost = metadataIPAddress @ '':'' @ formatInt metadataPort"

definition forwardRequest :: "http_request \<Rightarrow> out_request" where
  "forwardRequest r =
     \<lparr> or_method = hr_method r, or_scheme = ''http'', or_host = imdsHost,
       or_path = (case hr_url r of None \<Rightarrow> [] | Some (path, q) \<Rightarrow> path),
       or_query = (case hr_url r of None \<Rightarrow> [] | Some (path, q) \<Rightarrow> q),
       or_headers = copyHeader [] (hr_headers r), or_body = hr_body r \<rparr>"

definition defaultPathHandler ::
  "go_error option \<Rightarrow> (out_request \<Rightarrow> ('w, imds_reply) io) \<Rightarrow> (go_error \<Rightarrow> string)
     \<Rightarrow> http_request \<Rightarrow> response_writer \<Rightarrow> 'w \<Rightarrow> response_writer \<times> 'w" where
  "defaultPathHandler newRequestErr client errText r rw w =
     (case newRequestErr of
        Some e \<Rightarrow> (httpError (errText e) 500 rw, w)
      | None \<Rightarrow>
          (case client (forwardRequest r) w of
             (Inl e, w1) \<Rightarrow> (httpError (errText e) 500 rw, w1)
           | (Inr resp, w1) \<Rightarrow>
               (let rw1 = (case ir_bodyErr resp of
                             Some e \<Rightarrow> httpError (errText e) 500 rw
                           | None \<Rightarrow> rw);
                    rw2 = rw1 \<lparr> rw_header := copyHeader (rw_header rw1) (ir_headers resp) \<rparr>;
                    rw3 = writeHeader (ir_status resp) rw2
                in (writeBody (ir_body resp) rw3, w1))))"

definition readyzHandler :: "response_writer \<Rightarrow> response_writer" where
  "readyzHandler rw = writeBody ''ok'' rw"

subsection \<open>The probe\<close>

definition retryCount :: nat where "retryCount = 7"

text \<open>
  The loop of \<open>probe\<close> with \<open>n\<close> rounds left: \<open>newRequestErr\<close> as above, \<open>client\<close>
  gives the status code of the reply or the error of \<open>client.Do\<close>; \<open>sleep\<close> is the
  effect of \<open>time.Sleep(waitTime)\<close>.  \<open>None\<close> is the nil error.
\<close>

fun probeLoop ::
  "nat \<Rightarrow> go_error option \<Rightarrow> ('w, int) io \<Rightarrow> ('w \<Rightarrow> 'w) \<Rightarrow> 'w \<Rightarrow> go_error option \<times> 'w" where
  "probeLoop 0 newRequestErr client sleep w = (Some (GoError ''failed to probe proxy''), w)"
| "probeLoop (Suc n) newRequestErr client sleep w =
     (case newRequestErr of
        Some e \<Rightarrow> (Some e, w)
      | None \<Rightarrow>
          (case client w of
             (Inl e, w1) \<Rightarrow> (Some e, w1)
           | (Inr statusCode, w1) \<Rightarrow>
               if statusCode = 200 then (None, w1)
               else probeLoop n newRequestErr client sleep (sleep w1)))"

definition probe :: "go_error option \<Rightarrow> ('w, int) io \<Rightarrow> ('w \<Rightarrow> 'w) \<Rightarrow> 'w \<Rightarrow> go_error option \<times> 'w" where
  "probe newRequestErr client sleep w = probeLoop retryCount newRequestErr client sleep w"

definition probeURL :: "int \<Rightarrow> string" where
  "probeURL port = ''http://'' @ localhost @ '':'' @ formatInt port @ readyzPathPrefix"

end
