(* ===== verification/Proxy_Concurrent.thy ===== *)
theory Proxy_Concurrent
  imports Proxy
begin

section \<open>Concurrent token requests (getOrCreateCred in pkg/proxy/proxy.go)\<close>

text \<open>
  The server runs a handler per request, so \<open>getOrCreateCred\<close> runs concurrently with
  itself over one credential cache and one singleflight group.  The steps below are its
  accesses to the shared state, in program order, interleaved arbitrarily:
  the first look into the cache, the entry into the group (to lead the call of a key, or to
  wait for its leader), the second look, the creation of the credential, the insertion, and
  the end of the call, which hands the result to the waiters.  The cache may drop an entry
  between any two steps (its size and its expiry).  \<open>minted\<close> and \<open>dropped\<close> are
  history: the credentials created and the entries lost, for which no step tests.
\<close>

datatype 'c progress =
    Start
  | Missed
  | Leading
  | Creating
  | Adding 'c
  | Finishing "'c result"
  | Waiting nat
  | Done "'c result"

record 'c cred_sys =
  cs_cache :: "cred_key \<Rightarrow> 'c option"
  cs_group :: "string \<Rightarrow> nat option"
  cs_pc :: "nat \<Rightarrow> 'c progress"
  cs_minted :: "(cred_key \<times> 'c) list"
  cs_dropped :: "cred_key list"

definition initialSys :: "'c cred_sys" where
  "initialSys = \<lparr> cs_cache = (\<lambda>_. None), cs_group = (\<lambda>_. None), cs_pc = (\<lambda>_. Start),
     cs_minted = [], cs_dropped = [] \<rparr>"

definition groupKey :: "cred_key \<Rightarrow> string" where
  "groupKey k = sfKey (fst k) (snd k)"

text \<open>The end of a call: the leader's and its waiters' results.\<close>

definition deliver :: "nat \<Rightarrow> 'c result \<Rightarrow> (nat \<Rightarrow> 'c progress) \<Rightarrow> nat \<Rightarrow> 'c progress" where
  "deliver t r pc u = (if u = t \<or> pc u = Waiting t then Done r else pc u)"

text \<open>\<open>key t\<close> is the cache key of the request \<open>t\<close>: its client id and the proxy's tenant.\<close>

inductive cred_step :: "(nat \<Rightarrow> cred_key) \<Rightarrow> 'c cred_sys \<Rightarrow> 'c cred_sys \<Rightarrow> bool"
  for key :: "nat \<Rightarrow> cred_key" where
  look_hit: "cs_pc s t = Start \<Longrightarrow> cs_cache s (key t) = Some c \<Longrightarrow>
    cred_step key s (s \<lparr> cs_pc := (cs_pc s) (t := Done (Inr c)) \<rparr>)"
| look_miss: "cs_pc s t = Start \<Longrightarrow> cs_cache s (key t) = None \<Longrightarrow>
    cred_step key s (s \<lparr> cs_pc := (cs_pc s) (t := Missed) \<rparr>)"
| lead: "cs_pc s t = Missed \<Longrightarrow> cs_group s (groupKey (key t)) = None \<Longrightarrow>
    cred_step key s (s \<lparr> cs_pc := (cs_pc s) (t := Leading),
      cs_group := (cs_group s) (groupKey (key t) := Some t) \<rparr>)"
| wait: "cs_pc s t = Missed \<Longrightarrow> cs_group s (groupKey (key t)) = Some l \<Longrightarrow>
    cred_step key s (s \<lparr> cs_pc := (cs_pc s) (t := Waiting l) \<rparr>)"
| again_hit: "cs_pc s t = Leading \<Longrightarrow> cs_cache s (key t) = Some c \<Longrightarrow>
    cred_step key s (s \<lparr> cs_pc := (cs_pc s) (t := Finishing (Inr c)) \<rparr>)"
| again_miss: "cs_pc s t = Leading \<Longrightarrow> cs_cache s (key t) = None \<Longrightarrow>
    cred_step key s (s \<lparr> cs_pc := (cs_pc s) (t := Creating) \<rparr>)"
| created: "cs_pc s t = Creating \<Longrightarrow>
    cred_step key s (s \<lparr> cs_pc := (cs_pc s) (t := Adding c), cs_minted := (key t, c) # cs_minted s \<rparr>)"
| failed: "cs_pc s t = Creating \<Longrightarrow>
    cred_step key s (s \<lparr> cs_pc := (cs_pc s) (t := Finishing (Inl e)) \<rparr>)"
| added: "cs_pc s t = Adding c \<Longrightarrow>
    cred_step key s (s \<lparr> cs_pc := (cs_pc s) (t := Finishing (Inr c)),
      cs_cache := (cs_cache s) (key t := Some c) \<rparr>)"
| finish: "cs_pc s t = Finishing r \<Longrightarrow>
    cred_step key s (s \<lparr> cs_pc := deliver t r (cs_pc s),
      cs_group := (cs_group s) (groupKey (key t) := None) \<rparr>)"
| drop: "cs_cache s k \<noteq> None \<Longrightarrow>
    cred_step key s (s \<lparr> cs_cache := (cs_cache s) (k := None), cs_dropped := k # cs_dropped s \<rparr>)"

inductive cred_reachable :: "(nat \<Rightarrow> cred_key) \<Rightarrow> 'c cred_sys \<Rightarrow> bool"
  for key :: "nat \<Rightarrow> cred_key" where
  init: "cred_reachable key initialSys"
| step: "cred_reachable key s \<Longrightarrow> cred_step key s s' \<Longrightarrow> cred_reachable key s'"

text \<open>The requests between the entry into the group and the end of the call they lead.\<close>

fun leads :: "'c progress \<Rightarrow> bool" where
  "leads Leading = True"
| "leads Creating = True"
| "leads (Adding c) = True"
| "leads (Finishing r) = True"
| "leads _ = False"

fun isAdding :: "'c progress \<Rightarrow> bool" where
  "isAdding (Adding c) = True"
| "isAdding _ = False"

subsection \<open>The invariant\<close>

text \<open>The group's key identifies the cache key: the tenant is the proxy's for all requests.\<close>

lemma groupKey_inj: "snd k = snd k' \<Longrightarrow> groupKey k = groupKey k' \<Longrightarrow> k = k'"
  by (cases k; cases k') (simp add: groupKey_def sfKey_def)

definition mintedOf :: "cred_key \<Rightarrow> 'c cred_sys \<Rightarrow> nat" where
  "mintedOf k s = count_list (map fst (cs_minted s)) k"

definition droppedOf :: "cred_key \<Rightarrow> 'c cred_sys \<Rightarrow> nat" where
  "droppedOf k s = count_list (cs_dropped s) k"

text \<open>
  What holds between any two steps: a request leads exactly if the group says so; waiters
  wait for the leader of their own key; while a leader creates, its key is not cached;
  every credential in sight was created for the key it is used for; and the number of
  creations of a key.
\<close>

definition leadInv :: "(nat \<Rightarrow> cred_key) \<Rightarrow> 'c cred_sys \<Rightarrow> bool" where
  "leadInv key s \<longleftrightarrow> (\<forall>t. leads (cs_pc s t) \<longleftrightarrow> cs_group s (groupKey (key t)) = Some t)"

definition waitInv :: "(nat \<Rightarrow> cred_key) \<Rightarrow> 'c cred_sys \<Rightarrow> bool" where
  "waitInv key s \<longleftrightarrow> (\<forall>t l. cs_pc s t = Waiting l \<longrightarrow> key l = key t) \<and>
     (\<forall>g l. cs_group s g = Some l \<longrightarrow> g = groupKey (key l))"

definition missInv :: "(nat \<Rightarrow> cred_key) \<Rightarrow> 'c cred_sys \<Rightarrow> bool" where
  "missInv key s \<longleftrightarrow> (\<forall>t. cs_pc s t = Creating \<longrightarrow> cs_cache s (key t) = None)"

definition ownInv :: "(nat \<Rightarrow> cred_key) \<Rightarrow> 'c cred_sys \<Rightarrow> bool" where
  "ownInv key s \<longleftrightarrow>
     (\<forall>k c. cs_cache s k = Some c \<longrightarrow> (k, c) \<in> set (cs_minted s)) \<and>
     (\<forall>t c. cs_pc s t \<in> {Adding c, Finishing (Inr c), Done (Inr c)} \<longrightarrow> (key t, c) \<in> set (cs_minted s))"

definition countInv :: "(nat \<Rightarrow> cred_key) \<Rightarrow> 'c cred_sys \<Rightarrow> bool" where
  "countInv key s \<longleftrightarrow> (\<forall>k. mintedOf k s \<le> droppedOf k s +
     (if cs_cache s k \<noteq> None \<or> (\<exists>t. key t = k \<and> isAdding (cs_pc s t)) then 1 else 0))"

lemmas invs = leadInv_def waitInv_def missInv_def ownInv_def countInv_def

lemma leader_unique:
  "leadInv key s \<Longrightarrow> leads (cs_pc s t) \<Longrightarrow> leads (cs_pc s u) \<Longrightarrow> key t = key u \<Longrightarrow> t = u"
  unfolding leadInv_def by (metis option.inject)

lemma isAdding_leads: "isAdding x \<Longrightarrow> leads x"
  by (cases x) simp_all

lemma leadInvD: "leadInv key s \<Longrightarrow> leads (cs_pc s u) \<longleftrightarrow> cs_group s (groupKey (key u)) = Some u"
  by (simp only: leadInv_def)

lemma leadInv_frame:
  assumes "leadInv key s" and "cs_group s' = cs_group s" and "\<And>u. leads (cs_pc s' u) = leads (cs_pc s u)"
  shows "leadInv key s'"
  using assms by (simp add: leadInv_def)

lemma step_leadInv:
  assumes "cred_step key s s'" and "leadInv key s"
  shows "leadInv key s'"
  using assms(1)
proof cases
  case (lead t)
  show ?thesis
    unfolding leadInv_def
  proof
    fix u
    show "leads (cs_pc s' u) \<longleftrightarrow> cs_group s' (groupKey (key u)) = Some u"
      unfolding lead(1) using leadInvD [OF assms(2), of u] lead(3)
      by (cases "u = t"; cases "groupKey (key u) = groupKey (key t)") simp_all
  qed
next
  case (finish t r)
  have lead: "cs_group s (groupKey (key t)) = Some t"
    using finish(2) leadInvD [OF assms(2), of t] by simp
  show ?thesis
    unfolding leadInv_def
  proof
    fix u
    have "leads (deliver t r (cs_pc s) u) \<longleftrightarrow> u \<noteq> t \<and> leads (cs_pc s u)"
      by (auto simp: deliver_def)
    then show "leads (cs_pc s' u) \<longleftrightarrow> cs_group s' (groupKey (key u)) = Some u"
      unfolding finish(1) using leadInvD [OF assms(2), of u] lead
      by (cases "u = t"; cases "groupKey (key u) = groupKey (key t)") simp_all
  qed
next
  case (look_hit t c)
  then show ?thesis by (intro leadInv_frame [OF assms(2)]) simp_all
next
  case (look_miss t)
  then show ?thesis by (intro leadInv_frame [OF assms(2)]) simp_all
next
  case (wait t l)
  then show ?thesis by (intro leadInv_frame [OF assms(2)]) simp_all
next
  case (again_hit t c)
  then show ?thesis by (intro leadInv_frame [OF assms(2)]) simp_all
next
  case (again_miss t)
  then show ?thesis by (intro leadInv_frame [OF assms(2)]) simp_all
next
  case (created t c)
  then show ?thesis by (intro leadInv_frame [OF assms(2)]) simp_all
next
  case (failed t e)
  then show ?thesis by (intro leadInv_frame [OF assms(2)]) simp_all
next
  case (added t c)
  then show ?thesis by (intro leadInv_frame [OF assms(2)]) simp_all
next
  case (drop k)
  then show ?thesis by (intro leadInv_frame [OF assms(2)]) simp_all
qed

lemma step_waitInv:
  assumes same: "\<And>t u. snd (key t) = snd (key u)"
    and "cred_step key s s'" and "waitInv key s"
  shows "waitInv key s'"
  using assms(2)
proof cases
  case (wait t l)
  have "key l = key t" using wait assms(3) groupKey_inj [OF same] by (auto simp: waitInv_def)
  then show ?thesis using wait assms(3) by (auto simp: waitInv_def)
next
  case (finish t r)
  then show ?thesis using assms(3) by (auto simp: waitInv_def deliver_def split: if_splits)
qed (use assms(3) in \<open>auto simp: waitInv_def\<close>)

lemma step_missInv:
  assumes "cred_step key s s'" and "leadInv key s" and "missInv key s"
  shows "missInv key s'"
  using assms(1)
proof cases
  case (added t c)
  have "u = t" if "cs_pc s u = Creating" "key u = key t" for u
    using leader_unique [OF assms(2), of u t] that added by simp
  then show ?thesis using added assms(3) by (auto simp: missInv_def)
next
  case (finish t r)
  then show ?thesis using assms(3) by (auto simp: missInv_def deliver_def split: if_splits)
qed (use assms(3) in \<open>auto simp: missInv_def\<close>)

lemma step_ownInv:
  assumes "cred_step key s s'" and "waitInv key s" and "ownInv key s"
  shows "ownInv key s'"
  using assms(1)
proof cases
  case (look_hit t c)
  then have "(key t, c) \<in> set (cs_minted s)" using assms(3) unfolding ownInv_def by blast
  then show ?thesis using look_hit assms(3) by (auto simp: ownInv_def split: if_splits)
next
  case (again_hit t c)
  then have "(key t, c) \<in> set (cs_minted s)" using assms(3) unfolding ownInv_def by blast
  then show ?thesis using again_hit assms(3) by (auto simp: ownInv_def split: if_splits)
next
  case (finish t r)
  have "key u = key t" if "cs_pc s u = Waiting t" for u
    using that assms(2) by (auto simp: waitInv_def)
  then show ?thesis using finish assms(3) by (auto simp: ownInv_def deliver_def split: if_splits)
qed (use assms(3) in \<open>auto simp: ownInv_def split: if_splits\<close>)

text \<open>Whether a key is cached or about to be.\<close>

definition held :: "(nat \<Rightarrow> cred_key) \<Rightarrow> 'c cred_sys \<Rightarrow> cred_key \<Rightarrow> bool" where
  "held key s k \<longleftrightarrow> cs_cache s k \<noteq> None \<or> (\<exists>t. key t = k \<and> isAdding (cs_pc s t))"

lemma countInv_held: "countInv key s \<longleftrightarrow> (\<forall>k. mintedOf k s \<le> droppedOf k s + (if held key s k then 1 else 0))"
  by (simp add: countInv_def held_def)

lemma countInv_le: "countInv key s \<Longrightarrow> mintedOf k s \<le> Suc (droppedOf k s)"
  unfolding countInv_held by (drule spec [of _ k]) (simp split: if_splits)

text \<open>Steps that mint and drop nothing, and let go of no key.\<close>

lemma countInv_frame:
  assumes "countInv key s" and "cs_minted s' = cs_minted s" and "cs_dropped s' = cs_dropped s"
    and "\<And>k. held key s k \<Longrightarrow> held key s' k"
  shows "countInv key s'"
proof -
  have "mintedOf k s' \<le> droppedOf k s' + (if held key s' k then 1 else 0)" for k
    using assms(1) [unfolded countInv_held, rule_format, of k] assms(2-4)
    by (auto simp: mintedOf_def droppedOf_def split: if_splits)
  then show ?thesis by (simp add: countInv_held)
qed

lemma countInv_same:
  assumes "countInv key s" and "cs_minted s' = cs_minted s" and "cs_dropped s' = cs_dropped s"
    and "cs_cache s' = cs_cache s" and "\<And>u. isAdding (cs_pc s u) \<Longrightarrow> isAdding (cs_pc s' u)"
  shows "countInv key s'"
  using assms by (intro countInv_frame [OF assms(1)]) (auto simp: held_def)

lemma step_countInv:
  assumes "cred_step key s s'" and "leadInv key s" and "missInv key s" and "countInv key s"
  shows "countInv key s'"
  using assms(1)
proof cases
  case (created t c)
  have "cs_cache s (key t) = None" using created assms(3) by (simp add: missInv_def)
  moreover have "\<not> isAdding (cs_pc s u)" if "key u = key t" for u
  proof
    assume "isAdding (cs_pc s u)"
    then have "u = t" using leader_unique [OF assms(2), of u t] that created(2)
        isAdding_leads [OF \<open>isAdding (cs_pc s u)\<close>] by simp
    with \<open>isAdding (cs_pc s u)\<close> created(2) show False by simp
  qed
  ultimately have free: "\<not> held key s (key t)" by (auto simp: held_def)
  have "held key s' (key t)" using created(1) by (auto simp: held_def)
  moreover have "held key s' k = held key s k" if "k \<noteq> key t" for k
    using that created(1,2) by (auto simp: held_def)
  ultimately have "mintedOf k s' \<le> droppedOf k s' + (if held key s' k then 1 else 0)" for k
    using assms(4) [unfolded countInv_held, rule_format, of k] free created(1)
    by (cases "k = key t") (auto simp: mintedOf_def droppedOf_def split: if_splits)
  then show ?thesis by (simp add: countInv_held)
next
  case (added t c)
  have "held key s' k" if "held key s k" for k
    using that added(1,2) by (cases "k = key t") (auto simp: held_def intro: exI)
  then show ?thesis using added(1) by (intro countInv_frame [OF assms(4)]) simp_all
next
  case (finish t r)
  have "isAdding (deliver t r (cs_pc s) u)" if "isAdding (cs_pc s u)" for u
    using that finish(2) by (auto simp: deliver_def)
  then show ?thesis using finish(1) by (intro countInv_same [OF assms(4)]) simp_all
next
  case (drop k)
  have "held key s k" using drop(2) by (simp add: held_def)
  moreover have "held key s' j = held key s j" if "j \<noteq> k" for j
    using that drop(1) by (auto simp: held_def)
  ultimately have "mintedOf j s' \<le> droppedOf j s' + (if held key s' j then 1 else 0)" for j
    using assms(4) [unfolded countInv_held, rule_format, of j] drop(1)
    by (cases "j = k") (auto simp: mintedOf_def droppedOf_def split: if_splits)
  then show ?thesis by (simp add: countInv_held)
next
  case (look_hit t c)
  then show ?thesis by (intro countInv_same [OF assms(4)]) (auto split: if_splits)
next
  case (look_miss t)
  then show ?thesis by (intro countInv_same [OF assms(4)]) (auto split: if_splits)
next
  case (lead t)
  then show ?thesis by (intro countInv_same [OF assms(4)]) (auto split: if_splits)
next
  case (wait t l)
  then show ?thesis by (intro countInv_same [OF assms(4)]) (auto split: if_splits)
next
  case (again_hit t c)
  then show ?thesis by (intro countInv_same [OF assms(4)]) (auto split: if_splits)
next
  case (again_miss t)
  then show ?thesis by (intro countInv_same [OF assms(4)]) (auto split: if_splits)
next
  case (failed t e)
  then show ?thesis by (intro countInv_same [OF assms(4)]) (auto split: if_splits)
qed

subsection \<open>Reachable states\<close>

definition credInv :: "(nat \<Rightarrow> cred_key) \<Rightarrow> 'c cred_sys \<Rightarrow> bool" where
  "credInv key s \<longleftrightarrow> leadInv key s \<and> waitInv key s \<and> missInv key s \<and> ownInv key s \<and> countInv key s"

lemma initial_credInv: "credInv key initialSys"
  by (simp add: credInv_def invs initialSys_def mintedOf_def droppedOf_def)

lemma step_credInv:
  "(\<And>t u. snd (key t) = snd (key u)) \<Longrightarrow> cred_step key s s' \<Longrightarrow> credInv key s \<Longrightarrow> credInv key s'"
  unfolding credInv_def
  using step_leadInv step_waitInv step_missInv step_ownInv step_countInv by blast

lemma reachable_credInv:
  assumes "cred_reachable key s" and "\<And>t u. snd (key t) = snd (key u)"
  shows "credInv key s"
  using assms(1) by (induction rule: cred_reachable.induct) (auto simp: initial_credInv intro: step_credInv [OF assms(2)])

text \<open>The requests of one proxy: any client ids, the proxy's tenant.\<close>

definition requestKey :: "(nat \<Rightarrow> string) \<Rightarrow> string \<Rightarrow> nat \<Rightarrow> cred_key" where
  "requestKey client tenantID t = (client t, tenantID)"

lemma requests_credInv: "cred_reachable (requestKey client tenantID) s \<Longrightarrow> credInv (requestKey client tenantID) s"
  by (rule reachable_credInv) (simp_all add: requestKey_def)

text \<open>
  C18: No request gets another client's credential.  Whatever the interleaving, a credential
  that a request returns was created for the request's own client id and the proxy's
  tenant, even when it came out of the cache or from the call of another request, and
  whatever bytes the client ids contain.
\<close>

theorem credential_of_own_client:
  assumes "cred_reachable (requestKey client tenantID) s" and "cs_pc s t = Done (Inr c)"
  shows "((client t, tenantID), c) \<in> set (cs_minted s)"
proof -
  have "ownInv (requestKey client tenantID) s"
    using requests_credInv [OF assms(1)] by (simp add: credInv_def)
  then have "(requestKey client tenantID t, c) \<in> set (cs_minted s)"
    using assms(2) unfolding ownInv_def by blast
  then show ?thesis by (simp add: requestKey_def)
qed

text \<open>
  C19: A credential is created once.  At any moment at most one request creates or inserts a
  credential for a client, and the credentials created for a client outnumber the times
  the cache lost the client's entry by at most one: however many requests come at once,
  one creation serves them until the cache drops it.
\<close>

theorem credential_created_once:
  assumes "cred_reachable (requestKey client tenantID) s"
  shows "mintedOf (i, tenantID) s \<le> Suc (droppedOf (i, tenantID) s) \<and>
    card {t. client t = i \<and> leads (cs_pc s t)} \<le> 1"
proof
  have inv: "leadInv (requestKey client tenantID) s" "countInv (requestKey client tenantID) s"
    using requests_credInv [OF assms] by (simp_all add: credInv_def)
  show "mintedOf (i, tenantID) s \<le> Suc (droppedOf (i, tenantID) s)"
    by (rule countInv_le [OF inv(2)])
  have "t = u" if "client t = i" "leads (cs_pc s t)" "client u = i" "leads (cs_pc s u)" for t u
    using leader_unique [OF inv(1), of t u] that by (simp add: requestKey_def)
  then have "{t. client t = i \<and> leads (cs_pc s t)} \<subseteq> {THE t. client t = i \<and> leads (cs_pc s t)}"
    by (auto intro!: the_equality [symmetric])
  then show "card {t. client t = i \<and> leads (cs_pc s t)} \<le> 1"
    using card_mono [of "{THE t. client t = i \<and> leads (cs_pc s t)}"] by fastforce
qed

subsection \<open>A run of two requests\<close>

text \<open>
  Two requests for one client miss the cache together; the first leads, the second waits,
  one credential is created and both return it.
\<close>

definition demoSys :: "nat option \<Rightarrow> nat option \<Rightarrow> nat progress \<Rightarrow> nat progress \<Rightarrow> nat list \<Rightarrow> nat cred_sys" where
  "demoSys cached leader p0 p1 minted = \<lparr>
     cs_cache = (\<lambda>k. if k = (''client'', ''tenant'') then cached else None),
     cs_group = (\<lambda>g. if g = groupKey (''client'', ''tenant'') then leader else None),
     cs_pc = (\<lambda>t. if t = 0 then p0 else if t = 1 then p1 else Start),
     cs_minted = map (Pair (''client'', ''tenant'')) minted,
     cs_dropped = [] \<rparr>"

abbreviation demoKey :: "nat \<Rightarrow> cred_key" where
  "demoKey \<equiv> requestKey (\<lambda>_. ''client'') ''tenant''"

lemma step_to: "cred_step key s s'' \<Longrightarrow> s'' = s' \<Longrightarrow> cred_step key s s'"
  by simp

lemma demo_steps:
  "cred_step demoKey (demoSys None None Start Start []) (demoSys None None Missed Start [])"
  "cred_step demoKey (demoSys None None Missed Start []) (demoSys None None Missed Missed [])"
  "cred_step demoKey (demoSys None None Missed Missed []) (demoSys None (Some 0) Leading Missed [])"
  "cred_step demoKey (demoSys None (Some 0) Leading Missed []) (demoSys None (Some 0) Leading (Waiting 0) [])"
  "cred_step demoKey (demoSys None (Some 0) Leading (Waiting 0) []) (demoSys None (Some 0) Creating (Waiting 0) [])"
  "cred_step demoKey (demoSys None (Some 0) Creating (Waiting 0) []) (demoSys None (Some 0) (Adding 7) (Waiting 0) [7])"
  "cred_step demoKey (demoSys None (Some 0) (Adding 7) (Waiting 0) [7]) (demoSys (Some 7) (Some 0) (Finishing (Inr 7)) (Waiting 0) [7])"
  "cred_step demoKey (demoSys (Some 7) (Some 0) (Finishing (Inr 7)) (Waiting 0) [7]) (demoSys (Some 7) None (Done (Inr 7)) (Done (Inr 7)) [7])"

  subgoal by (rule step_to [OF cred_step.look_miss [where t = 0]]) (auto simp: demoSys_def requestKey_def deliver_def fun_eq_iff)
  subgoal by (rule step_to [OF cred_step.look_miss [where t = 1]]) (auto simp: demoSys_def requestKey_def deliver_def fun_eq_iff)
  subgoal by (rule step_to [OF cred_step.lead [where t = 0]]) (auto simp: demoSys_def requestKey_def deliver_def fun_eq_iff)
  subgoal by (rule step_to [OF cred_step.wait [where t = 1 and l = 0]]) (auto simp: demoSys_def requestKey_def deliver_def fun_eq_iff)
  subgoal by (rule step_to [OF cred_step.again_miss [where t = 0]]) (auto simp: demoSys_def requestKey_def deliver_def fun_eq_iff)
  subgoal by (rule step_to [OF cred_step.created [where t = 0 and c = 7]]) (auto simp: demoSys_def requestKey_def deliver_def fun_eq_iff)
  subgoal by (rule step_to [OF cred_step.added [where t = 0 and c = 7]]) (auto simp: demoSys_def requestKey_def deliver_def fun_eq_iff)
  subgoal by (rule step_to [OF cred_step.finish [where t = 0 and r = "Inr 7"]]) (auto simp: demoSys_def requestKey_def deliver_def fun_eq_iff)
  done

lemma demo_reachable:
  "cred_reachable demoKey (demoSys (Some 7) None (Done (Inr 7)) (Done (Inr 7)) [7])"
proof -
  have "initialSys = demoSys None None Start Start []"
    by (simp add: initialSys_def demoSys_def fun_eq_iff)
  then have "cred_reachable demoKey (demoSys None None Start Start [])"
    using cred_reachable.init [of demoKey] by metis
  note step1 = cred_reachable.step [OF this demo_steps(1)]
  note step2 = cred_reachable.step [OF step1 demo_steps(2)]
  note step3 = cred_reachable.step [OF step2 demo_steps(3)]
  note step4 = cred_reachable.step [OF step3 demo_steps(4)]
  note step5 = cred_reachable.step [OF step4 demo_steps(5)]
  note step6 = cred_reachable.step [OF step5 demo_steps(6)]
  note step7 = cred_reachable.step [OF step6 demo_steps(7)]
  show ?thesis by (rule cred_reachable.step [OF step7 demo_steps(8)])
qed

theorem credential_of_own_client_witness:
  "((''client'', ''tenant''), 7) \<in> set (cs_minted (demoSys (Some 7) None (Done (Inr 7)) (Done (Inr 7)) [7]))"
  using credential_of_own_client [OF demo_reachable, of 1 7] by (simp add: demoSys_def)

theorem credential_created_once_witness:
  "mintedOf (''client'', ''tenant'') (demoSys (Some 7) None (Done (Inr 7)) (Done (Inr 7)) [7]) \<le>
   Suc (droppedOf (''client'', ''tenant'') (demoSys (Some 7) None (Done (Inr 7)) (Done (Inr 7)) [7]))"
  using credential_created_once [OF demo_reachable, of "''client''"] by blast

end
