(* ===== verification/Proxy_Sequential.thy ===== *)
theory Proxy_Sequential
  imports Proxy_Concurrent
begin

section \<open>One request at a time: the two models of getOrCreateCred agree\<close>

text \<open>
  \<open>getOrCreateCred\<close> is modelled twice: as the function that the handler calls, over a cache
  and a singleflight group that are parameters, and as the steps of interleaved requests.
  Run alone, the steps of a request compute what the function computes over a map as the
  cache and a group that calls its function.
\<close>

definition mapEnv :: "'c result \<Rightarrow> (cred_key \<Rightarrow> 'c option, 'c) cred_env" where
  "mapEnv new = \<lparr> ce_get = (\<lambda>k m. (m k, m)), ce_add = (\<lambda>k c m. m (k := Some c)),
     ce_new = (\<lambda>i t m. (new, m)), ce_do = (\<lambda>g f. f) \<rparr>"

lemma getOrCreateCred_map:
  "getOrCreateCred (mapEnv new) (fst k) (snd k) m =
     (case m k of
        Some c \<Rightarrow> (Inr c, m)
      | None \<Rightarrow> (case new of Inl e \<Rightarrow> (Inl e, m) | Inr c \<Rightarrow> (Inr c, m (k := Some c))))"
  by (simp add: getOrCreateCred_def createCred_def mapEnv_def split: option.split sum.split)

text \<open>A step of the request \<open>t\<close>, with nothing lost from the cache.\<close>

definition soloStep :: "(nat \<Rightarrow> cred_key) \<Rightarrow> nat \<Rightarrow> 'c cred_sys \<Rightarrow> 'c cred_sys \<Rightarrow> bool" where
  "soloStep key t s s' \<longleftrightarrow>
     cred_step key s s' \<and> cs_dropped s' = cs_dropped s \<and> (\<forall>u. u \<noteq> t \<longrightarrow> cs_pc s' u = cs_pc s u)"

definition idle :: "(nat \<Rightarrow> cred_key) \<Rightarrow> nat \<Rightarrow> 'c cred_sys \<Rightarrow> bool" where
  "idle key t s \<longleftrightarrow>
     cs_pc s t = Start \<and> cs_group s (groupKey (key t)) = None \<and> (\<forall>u. cs_pc s u \<noteq> Waiting t)"

definition outcome :: "cred_key \<Rightarrow> (cred_key \<Rightarrow> 'c option) \<Rightarrow> 'c result \<Rightarrow> (cred_key \<Rightarrow> 'c option) \<Rightarrow> bool" where
  "outcome k m r m' \<longleftrightarrow> (\<exists>new. getOrCreateCred (mapEnv new) (fst k) (snd k) m = (r, m'))"

lemma outcome_hit: "m k = Some c \<Longrightarrow> outcome k m r m' \<longleftrightarrow> r = Inr c \<and> m' = m"
  by (auto simp: outcome_def getOrCreateCred_map)

lemma outcome_miss:
  "m k = None \<Longrightarrow> outcome k m r m' \<longleftrightarrow> (case r of Inl e \<Rightarrow> m' = m | Inr c \<Rightarrow> m' = m (k := Some c))"
proof
  assume "m k = None" and "outcome k m r m'"
  then obtain new where "getOrCreateCred (mapEnv new) (fst k) (snd k) m = (r, m')"
    by (auto simp: outcome_def)
  with \<open>m k = None\<close> show "case r of Inl e \<Rightarrow> m' = m | Inr c \<Rightarrow> m' = m (k := Some c)"
    by (cases new) (auto simp: getOrCreateCred_map)
next
  assume "m k = None" and "case r of Inl e \<Rightarrow> m' = m | Inr c \<Rightarrow> m' = m (k := Some c)"
  then have "getOrCreateCred (mapEnv r) (fst k) (snd k) m = (r, m')"
    by (simp add: getOrCreateCred_map split: sum.splits)
  then show "outcome k m r m'" by (auto simp: outcome_def)
qed

text \<open>Where the request is, and what it has done to the cache so far.\<close>

fun soloAt :: "(nat \<Rightarrow> cred_key) \<Rightarrow> nat \<Rightarrow> (cred_key \<Rightarrow> 'c option) \<Rightarrow> 'c cred_sys \<Rightarrow> 'c progress \<Rightarrow> bool" where
  "soloAt key t m s Start = (cs_cache s = m \<and> cs_group s (groupKey (key t)) = None)"
| "soloAt key t m s Missed = (cs_cache s = m \<and> m (key t) = None \<and> cs_group s (groupKey (key t)) = None)"
| "soloAt key t m s Leading = (cs_cache s = m \<and> m (key t) = None)"
| "soloAt key t m s Creating = (cs_cache s = m \<and> m (key t) = None)"
| "soloAt key t m s (Adding c) = (cs_cache s = m \<and> m (key t) = None)"
| "soloAt key t m s (Finishing r) = outcome (key t) m r (cs_cache s)"
| "soloAt key t m s (Waiting l) = False"
| "soloAt key t m s (Done r) = outcome (key t) m r (cs_cache s)"


lemma solo_step:
  assumes "soloStep key t s s'" and "soloAt key t m s (cs_pc s t)"
  shows "soloAt key t m s' (cs_pc s' t)"
proof -
  have alone: "cs_pc s' u = cs_pc s u" if "u \<noteq> t" for u
    using assms(1) that by (simp add: soloStep_def)
  have kept: "cs_dropped s' = cs_dropped s" using assms(1) by (simp add: soloStep_def)
  from assms(1) have "cred_step key s s'" by (simp add: soloStep_def)
  then show ?thesis
  proof cases
    case (look_hit u c)
    then have "u = t" using alone [of u] by auto
    with look_hit assms(2) show ?thesis by (simp add: outcome_hit)
  next
    case (look_miss u)
    then have "u = t" using alone [of u] by auto
    with look_miss assms(2) show ?thesis by simp
  next
    case (lead u)
    then have "u = t" using alone [of u] by auto
    with lead assms(2) show ?thesis by simp
  next
    case (wait u l)
    then have "u = t" using alone [of u] by auto
    with wait assms(2) show ?thesis by simp
  next
    case (again_hit u c)
    then have "u = t" using alone [of u] by auto
    with again_hit assms(2) show ?thesis by simp
  next
    case (again_miss u)
    then have "u = t" using alone [of u] by auto
    with again_miss assms(2) show ?thesis by simp
  next
    case (created u c)
    then have "u = t" using alone [of u] by auto
    with created assms(2) show ?thesis by simp
  next
    case (failed u e)
    then have "u = t" using alone [of u] by auto
    with failed assms(2) show ?thesis by (simp add: outcome_miss)
  next
    case (added u c)
    then have "u = t" using alone [of u] by auto
    with added assms(2) show ?thesis by (simp add: outcome_miss)
  next
    case (finish u r)
    then have "u = t" using alone [of u] by (auto simp: deliver_def)
    with finish assms(2) show ?thesis by (simp add: deliver_def)
  next
    case (drop k)
    with kept show ?thesis by simp
  qed
qed

lemma solo_run:
  assumes "(soloStep key t)\<^sup>*\<^sup>* s s'" and "idle key t s"
  shows "soloAt key t (cs_cache s) s' (cs_pc s' t)"
  using assms by (induction rule: rtranclp_induct) (auto simp: idle_def intro: solo_step)

lemma solo_trans: "(soloStep key t)\<^sup>*\<^sup>* s s1 \<Longrightarrow> soloStep key t s1 s2 \<Longrightarrow> (soloStep key t)\<^sup>*\<^sup>* s s2"
  by (rule rtranclp.rtrancl_into_rtrancl)

text \<open>The run in which the request leads its call and creates, or fails to create, the credential.\<close>

lemma solo_creates:
  assumes "idle key t s" and miss: "cs_cache s (key t) = None" and out: "outcome (key t) (cs_cache s) r m'"
  shows "\<exists>s'. (soloStep key t)\<^sup>*\<^sup>* s s' \<and> cs_pc s' t = Done r \<and> cs_cache s' = m'"
proof -
  let ?g = "groupKey (key t)"
  have start: "cs_pc s t = Start" "cs_group s ?g = None" and nowait: "\<And>u. cs_pc s u \<noteq> Waiting t"
    using assms(1) by (simp_all add: idle_def)
  define s1 where "s1 = s \<lparr> cs_pc := (cs_pc s) (t := Missed) \<rparr>"
  define s2 where "s2 = s1 \<lparr> cs_pc := (cs_pc s1) (t := Leading), cs_group := (cs_group s1) (?g := Some t) \<rparr>"
  define s3 where "s3 = s2 \<lparr> cs_pc := (cs_pc s2) (t := Creating) \<rparr>"
  have "soloStep key t s s1"
    unfolding soloStep_def using cred_step.look_miss [where key = key, OF start(1) miss] by (simp add: s1_def)
  moreover have "soloStep key t s1 s2"
    unfolding soloStep_def using cred_step.lead [where key = key and s = s1 and t = t] start(2) by (simp add: s1_def s2_def)
  moreover have "soloStep key t s2 s3"
    unfolding soloStep_def using cred_step.again_miss [where key = key and s = s2 and t = t] miss
    by (simp add: s1_def s2_def s3_def)
  ultimately have run: "(soloStep key t)\<^sup>*\<^sup>* s s3" by simp
  have "\<exists>s4. (soloStep key t)\<^sup>*\<^sup>* s3 s4 \<and> cs_pc s4 = (cs_pc s3) (t := Finishing r) \<and> cs_cache s4 = m'"
  proof (cases r)
    case (Inl e)
    let ?s4 = "s3 \<lparr> cs_pc := (cs_pc s3) (t := Finishing (Inl e)) \<rparr>"
    have "soloStep key t s3 ?s4"
      unfolding soloStep_def using cred_step.failed [where key = key and s = s3 and t = t and e = e] by (simp add: s3_def)
    moreover have "cs_cache ?s4 = m'" using out miss Inl by (simp add: outcome_miss s1_def s2_def s3_def)
    ultimately show ?thesis using Inl by (intro exI [of _ ?s4]) simp
  next
    case (Inr c)
    define s4 where "s4 = s3 \<lparr> cs_pc := (cs_pc s3) (t := Adding c), cs_minted := (key t, c) # cs_minted s3 \<rparr>"
    define s5 where "s5 = s4 \<lparr> cs_pc := (cs_pc s4) (t := Finishing (Inr c)), cs_cache := (cs_cache s4) (key t := Some c) \<rparr>"
    have "soloStep key t s3 s4"
      unfolding soloStep_def using cred_step.created [where key = key and s = s3 and t = t and c = c]
      by (simp add: s3_def s4_def)
    moreover have "soloStep key t s4 s5"
      unfolding soloStep_def using cred_step.added [where key = key and s = s4 and t = t and c = c]
      by (simp add: s4_def s5_def)
    moreover have "cs_cache s5 = m'" using out miss Inr by (simp add: outcome_miss s1_def s2_def s3_def s4_def s5_def)
    moreover have "cs_pc s5 = (cs_pc s3) (t := Finishing r)" by (simp add: s4_def s5_def Inr)
    ultimately show ?thesis by (intro exI [of _ s5]) simp
  qed
  then obtain s4 where s4: "(soloStep key t)\<^sup>*\<^sup>* s3 s4" "cs_pc s4 = (cs_pc s3) (t := Finishing r)" "cs_cache s4 = m'"
    by blast
  let ?s5 = "s4 \<lparr> cs_pc := deliver t r (cs_pc s4), cs_group := (cs_group s4) (?g := None) \<rparr>"
  have "soloStep key t s4 ?s5"
    unfolding soloStep_def using cred_step.finish [where key = key and s = s4 and t = t and r = r] s4(2) nowait
    by (simp add: deliver_def s1_def s2_def s3_def)
  with run s4(1) have "(soloStep key t)\<^sup>*\<^sup>* s ?s5" by simp
  moreover have "cs_pc ?s5 t = Done r" "cs_cache ?s5 = m'" using s4(3) by (simp_all add: deliver_def)
  ultimately show ?thesis by blast
qed

text \<open>
  C21: Concurrent and sequential code agree.  For a request that has not started, whose group key
  is free, the runs of its own steps alone end with exactly the results and the caches that
  the function \<open>getOrCreateCred\<close> gives for some outcome of creating a credential: the
  cached credential and the same cache, or the new one added to it, or the error and the
  same cache.
\<close>

theorem solo_request_equiv:
  assumes "idle key t s"
  shows "(\<exists>s'. (soloStep key t)\<^sup>*\<^sup>* s s' \<and> cs_pc s' t = Done r \<and> cs_cache s' = m') \<longleftrightarrow>
    (\<exists>new. getOrCreateCred (mapEnv new) (fst (key t)) (snd (key t)) (cs_cache s) = (r, m'))"
proof -
  have "(\<exists>s'. (soloStep key t)\<^sup>*\<^sup>* s s' \<and> cs_pc s' t = Done r \<and> cs_cache s' = m') \<longleftrightarrow>
    outcome (key t) (cs_cache s) r m'"
  proof
    assume "\<exists>s'. (soloStep key t)\<^sup>*\<^sup>* s s' \<and> cs_pc s' t = Done r \<and> cs_cache s' = m'"
    with solo_run [OF _ assms] show "outcome (key t) (cs_cache s) r m'" by fastforce
  next
    assume out: "outcome (key t) (cs_cache s) r m'"
    show "\<exists>s'. (soloStep key t)\<^sup>*\<^sup>* s s' \<and> cs_pc s' t = Done r \<and> cs_cache s' = m'"
    proof (cases "cs_cache s (key t)")
      case None
      with assms out show ?thesis by (intro solo_creates)
    next
      case (Some c)
      let ?s' = "s \<lparr> cs_pc := (cs_pc s) (t := Done (Inr c)) \<rparr>"
      have "soloStep key t s ?s'"
        unfolding soloStep_def using cred_step.look_hit [where key = key and s = s and t = t and c = c] Some assms
        by (simp add: idle_def)
      then have "(soloStep key t)\<^sup>*\<^sup>* s ?s'" by simp
      with out Some show ?thesis by (intro exI [of _ ?s']) (simp add: outcome_hit)
    qed
  qed
  then show ?thesis by (simp only: outcome_def)
qed

theorem solo_request_equiv_witness:
  "\<exists>s'. (soloStep demoKey 0)\<^sup>*\<^sup>* (initialSys :: nat cred_sys) s' \<and> cs_pc s' 0 = Done (Inr 7) \<and>
     cs_cache s' = [(''client'', ''tenant'') \<mapsto> 7]"
proof -
  have "idle demoKey 0 (initialSys :: nat cred_sys)" by (simp add: idle_def initialSys_def)
  moreover have "getOrCreateCred (mapEnv (Inr 7)) (fst (demoKey 0)) (snd (demoKey 0)) (cs_cache (initialSys :: nat cred_sys)) =
      (Inr 7, [(''client'', ''tenant'') \<mapsto> 7])"
    using getOrCreateCred_map [of "Inr (7 :: nat)" "(''client'', ''tenant'')" "\<lambda>_. None"]
    by (simp add: initialSys_def requestKey_def)
  ultimately show ?thesis using solo_request_equiv by blast
qed

end
