(* ===== verification/Proxy_Correct.thy ===== *)
theory Proxy_Correct
  imports Proxy
begin

section \<open>Correctness of the proxy\<close>

subsection \<open>Scopes\<close>

text \<open>What Azure AD takes as the resource of a scope: everything before the last slash.\<close>

definition audienceOfScope :: "string \<Rightarrow> string" where
  "audienceOfScope s = rev (drop 1 (dropWhile (\<lambda>c. c \<noteq> CHR ''/'') (rev s)))"

lemma audienceOfScope_default: "audienceOfScope (r @ defaultScopeSuffix) = r"
  by (simp add: audienceOfScope_def defaultScopeSuffix_def)

lemma getScope_suffix: "suffix defaultScopeSuffix (getScope r)"
  by (simp add: getScope_def suffix_def)

text \<open>
  The scope asks for the resource.  Every scope ends in \<open>/.default\<close>, taking the
  scope of a scope changes nothing, and the resource that Azure AD reads off the scope
  of \<open>r\<close> is \<open>r\<close> itself (with its own trailing slash, if it has one), or \<open>r\<close> without the
  suffix when the client sent a scope.
\<close>

theorem getScope_resource:
  "getScope (getScope r) = getScope r \<and>
   suffix defaultScopeSuffix (getScope r) \<and>
   (if suffix defaultScopeSuffix r
    then audienceOfScope (getScope r) @ defaultScopeSuffix = r
    else audienceOfScope (getScope r) = r)"
proof -
  have "getScope (getScope r) = getScope r"
    using getScope_suffix by (auto simp: getScope_def)
  moreover have "audienceOfScope (getScope r) @ defaultScopeSuffix = r" if "suffix defaultScopeSuffix r"
    using that by (auto simp: getScope_def suffix_def audienceOfScope_default)
  moreover have "audienceOfScope (getScope r) = r" if "\<not> suffix defaultScopeSuffix r"
    using that by (simp add: getScope_def audienceOfScope_default)
  ultimately show ?thesis using getScope_suffix by simp
qed

subsection \<open>Routing\<close>

definition isMetadata :: "string \<Rightarrow> bool" where
  "isMetadata seg = (map asciiLower seg = ''metadata'')"

definition tokenPath :: "string \<Rightarrow> string \<Rightarrow> string" where
  "tokenPath seg rest = ''/'' @ seg @ ''/identity/oauth2/token'' @ rest"

text \<open>
  Token requests never reach the metadata service.  Whatever the case of the word
  \<open>metadata\<close>, a path below \<open>/metadata/identity/oauth2/token\<close> is served by the token
  handler, and the forwarding handler only gets paths that are neither token requests
  nor readiness probes.
\<close>

theorem token_requests_not_forwarded:
  "(\<forall>seg rest. isMetadata seg \<longrightarrow>
      routeOf (tokenPath seg rest) = MsiHandler) \<and>
   (\<forall>path. routeOf path = DefaultPathHandler \<longrightarrow>
      \<not> prefix readyzPathPrefix path \<and>
      \<not> (\<exists>seg rest. isMetadata seg \<and> path = tokenPath seg rest))"
proof -
  have token: "matchesTokenPath (tokenPath seg rest)"
    if "isMetadata seg" for seg rest
  proof -
    have len: "length seg = 8" using arg_cong [OF that [unfolded isMetadata_def], of length] by simp
    then have "take 8 (seg @ x) = seg" and "drop 8 (seg @ x) = x" for x by simp_all
    moreover have "drop 9 (CHR ''/'' # ys) = drop 8 ys" for ys :: string by simp
    ultimately show ?thesis using that by (simp add: matchesTokenPath_def tokenPath_def isMetadata_def)
  qed
  then have "routeOf (tokenPath seg rest) = MsiHandler"
    if "isMetadata seg" for seg rest
    using that unfolding routeOf_def by simp
  moreover have "\<not> matchesTokenPath path \<and> \<not> prefix readyzPathPrefix path"
    if "routeOf path = DefaultPathHandler" for path
    using that by (auto simp: routeOf_def split: if_splits)
  ultimately show ?thesis using token by blast
qed

theorem token_requests_not_forwarded_witness:
  "routeOf ''/MetaData/identity/oauth2/token?x'' = MsiHandler \<and>
   routeOf ''/metadata/instance'' = DefaultPathHandler"
proof -
  have "isMetadata ''MetaData''" by code_simp
  then have "routeOf (tokenPath ''MetaData'' ''?x'') = MsiHandler"
    by (rule token_requests_not_forwarded [THEN conjunct1, rule_format])
  moreover have "routeOf ''/metadata/instance'' = DefaultPathHandler"
    by code_simp
  ultimately show ?thesis by (simp add: tokenPath_def)
qed

subsection \<open>The token handler\<close>

definition effectiveClientID :: "(string \<Rightarrow> string) \<Rightarrow> http_request \<Rightarrow> string" where
  "effectiveClientID getenv r =
     (if fst (parseTokenRequest r) = [] then getenv AzureClientIDEnvVar else fst (parseTokenRequest r))"

text \<open>
  C30: The answers of the token handler.  400, without touching the credentials, exactly
  when no client id is known or no resource is given; 500 when the credential or the
  token cannot be obtained; otherwise 200 with the encoded token, whose resource is the
  requested one (only if the encoder fails is nothing written at all).
\<close>

theorem msiHandler_outcome:
  "let cid = effectiveClientID getenv r; res = snd (parseTokenRequest r);
       out = msiHandler p ua getenv env getToken now encode errText r freshWriter w
   in if cid = [] \<or> res = [] then statusOf (fst out) = Some 400 \<and> snd out = w
      else
        (case getOrCreateCred env cid (px_tenantID p) w of
           (Inl e, w1) \<Rightarrow> statusOf (fst out) = Some 500 \<and> rw_body (fst out) = errText e @ [CHR 0x0A] \<and> snd out = w1
         | (Inr cred, w1) \<Rightarrow>
             (case doTokenRequest getToken now res cred w1 of
                (Inl e, w2) \<Rightarrow> statusOf (fst out) = Some 500 \<and> rw_body (fst out) = errText e @ [CHR 0x0A] \<and> snd out = w2
              | (Inr tok, w2) \<Rightarrow>
                  snd out = w2 \<and> tk_resource tok = res \<and>
                  (case encode tok of
                     Inl e \<Rightarrow> rw_sent (fst out) = None \<and> rw_body (fst out) = []
                   | Inr body \<Rightarrow> statusOf (fst out) = Some 200 \<and> rw_body (fst out) = body)))"
proof -
  have res: "tk_resource tok = res" if "doTokenRequest getToken now res cred w1 = (Inr tok, w2)" for tok res cred w1 w2
    using that by (auto simp: doTokenRequest_def split: prod.splits sum.splits)
  show ?thesis
    unfolding msiHandler_def effectiveClientID_def Let_def
    by (auto simp: res split: prod.splits sum.splits)
qed

subsection \<open>Token lifetimes\<close>

lemma goDiv_second_nonneg: "0 \<le> d \<Longrightarrow> goDiv d second = d div second"
  by (cases "d = 0") (simp_all add: goDiv_def second_def sgn_if)

lemma goDiv_second_bound: "\<bar>d\<bar> \<le> 2 ^ 63 \<Longrightarrow> \<bar>goDiv d second\<bar> \<le> 2 ^ 34"
proof -
  assume "\<bar>d\<bar> \<le> 2 ^ 63"
  then have "\<bar>d\<bar> div second \<le> 2 ^ 63 div second"
    by (intro zdiv_mono1) (simp_all add: second_def)
  moreover have "0 \<le> \<bar>d\<bar> div second" by (simp add: second_def pos_imp_zdiv_nonneg_iff)
  ultimately show ?thesis
    by (auto simp: goDiv_def second_def sgn_if)
qed

lemma timeUntil_bound: "\<bar>timeUntil now t\<bar> \<le> 2 ^ 63"
  by (auto simp: timeUntil_def saturate64_def)

text \<open>
  C38: The client is never told to keep a token past its expiry.  A successful token request
  asks for the scope of the resource and passes the access token on; the two times in
  the reply parse as 64-bit decimals; \<open>expires_in\<close> is the remaining life in whole
  seconds, rounded down, less ten, and \<open>expires_on\<close> is the expiry in whole seconds,
  rounded down.
\<close>

theorem token_lifetime:
  assumes "doTokenRequest getToken now res cred w = (Inr tok, w')"
  shows "\<exists>raw exp n. getToken cred (getScope res) w = (Inr (raw, exp), w') \<and>
     tk_accessToken tok = raw \<and> tk_resource tok = res \<and> tk_type tok = ''Bearer'' \<and>
     tk_expiresOn tok = formatInt (exp div second) \<and> exp div second * second \<le> exp \<and>
     parseInt (tk_expiresIn tok) 64 = Inr n \<and>
     (now \<le> exp \<longrightarrow> exp - now < 2 ^ 63 \<longrightarrow>
        (n + 10) * second \<le> exp - now \<and> exp - now < (n + 11) * second)"
proof -
  from assms obtain raw exp where g: "getToken cred (getScope res) w = (Inr (raw, exp), w')"
    and tok: "tk_accessToken tok = raw" "tk_resource tok = res" "tk_type tok = ''Bearer''"
      "tk_expiresOn tok = formatInt (exp div second)"
      "tk_expiresIn tok = formatInt (goDiv (timeUntil now exp) second - 10)"
    by (auto simp: doTokenRequest_def split: prod.splits sum.splits)
  let ?n = "goDiv (timeUntil now exp) second - 10"
  have "\<bar>goDiv (timeUntil now exp) second\<bar> \<le> 2 ^ 34"
    by (rule goDiv_second_bound [OF timeUntil_bound])
  then have parse: "parseInt (formatInt ?n) 64 = Inr ?n"
    by (intro parseInt_formatInt) auto
  have life: "(?n + 10) * second \<le> exp - now \<and> exp - now < (?n + 11) * second"
    if "now \<le> exp" "exp - now < 2 ^ 63"
  proof -
    have t: "timeUntil now exp = exp - now" using that by (simp add: timeUntil_def saturate64_def)
    define k where "k = (exp - now) div second"
    have k: "?n + 10 = k" using that t by (simp add: goDiv_second_nonneg k_def)
    then have "?n + 11 = k + 1" by simp
    then have "(?n + 10) * second = k * second" "(?n + 11) * second = k * second + second"
      using k by (simp_all only: distrib_right mult_1)
    moreover have "0 \<le> (exp - now) mod second" "(exp - now) mod second < second"
      by (simp_all add: second_def)
    moreover have "k * second + (exp - now) mod second = exp - now"
      unfolding k_def by (rule div_mult_mod_eq)
    ultimately show ?thesis by linarith
  qed
  have "exp div second * second \<le> exp"
    using div_mult_mod_eq [of exp second] pos_mod_sign [of second exp] by (simp add: second_def)
  then show ?thesis using g tok parse life by auto
qed

theorem token_lifetime_witness:
  "\<exists>tok n. doTokenRequest (\<lambda>_ _ w. (Inr (''jwt'', 3600 * second), w)) 0 ''https://vault'' () () = (Inr tok, ()) \<and>
     parseInt (tk_expiresIn tok) 64 = Inr n \<and> (n + 10) * second \<le> 3600 * second"
proof -
  obtain tok where tok: "doTokenRequest (\<lambda>_ _ w. (Inr (''jwt'', 3600 * second), w)) 0 ''https://vault'' () () = (Inr tok, ())"
    by (simp add: doTokenRequest_def)
  from token_lifetime [OF tok] show ?thesis using tok by (auto simp: second_def)
qed

subsection \<open>Credentials are reused\<close>

text \<open>
  A credential is created once and then reused.  For a cache in which a key that was
  just added or just hit is found again, and outside a concurrent call for the same key
  (the group runs the function): once a request for a client got a credential, the next
  request for the same client gets the very same one, whatever the group or the
  creation of a credential would now do.
\<close>

theorem credential_reused:
  assumes hit_again: "\<And>k c w w1. ce_get env k w = (Some c, w1) \<Longrightarrow> \<exists>w2. ce_get env k w1 = (Some c, w2)"
    and add_hits: "\<And>k c w. \<exists>w2. ce_get env k (ce_add env k c w) = (Some c, w2)"
    and runs: "\<And>key f. ce_do env key f = f"
    and first: "getOrCreateCred env cid tid w = (Inr cred, w1)"
  shows "\<exists>w2. getOrCreateCred (env \<lparr> ce_new := new', ce_do := do' \<rparr>) cid tid w1 = (Inr cred, w2)"
proof -
  have "\<exists>w2. ce_get env (cid, tid) w1 = (Some cred, w2)"
    using first hit_again add_hits
    by (force simp: getOrCreateCred_def createCred_def runs split: prod.splits option.splits sum.splits)
  then show ?thesis by (auto simp: getOrCreateCred_def)
qed

text \<open>A cache that never forgets, and credentials numbered as they are created.\<close>

definition demoCredEnv :: "((cred_key \<Rightarrow> nat option) \<times> nat, nat) cred_env" where
  "demoCredEnv = \<lparr> ce_get = (\<lambda>k w. (fst w k, w)), ce_add = (\<lambda>k c w. ((fst w)(k := Some c), snd w)),
     ce_new = (\<lambda>cid tid w. (Inr (snd w), (fst w, Suc (snd w)))), ce_do = (\<lambda>key f. f) \<rparr>"

theorem credential_reused_witness:
  "\<exists>w1 w2. getOrCreateCred demoCredEnv ''c'' ''t'' (\<lambda>_. None, 5) = (Inr 5, w1) \<and>
     getOrCreateCred (demoCredEnv \<lparr> ce_new := (\<lambda>_ _ w. (Inl errTenantRequired, w)), ce_do := (\<lambda>_ f. f) \<rparr>)
       ''c'' ''t'' w1 = (Inr 5, w2)"
proof -
  obtain w1 where w1: "getOrCreateCred demoCredEnv ''c'' ''t'' (\<lambda>_. None, 5) = (Inr 5, w1)"
    by (simp add: getOrCreateCred_def createCred_def demoCredEnv_def)
  have "\<exists>w2. getOrCreateCred (demoCredEnv \<lparr> ce_new := (\<lambda>_ _ w. (Inl errTenantRequired, w)), ce_do := (\<lambda>_ f. f) \<rparr>)
       ''c'' ''t'' w1 = (Inr 5, w2)"
    by (rule credential_reused [OF _ _ _ w1]) (auto simp: demoCredEnv_def)
  then show ?thesis using w1 by blast
qed

subsection \<open>Forwarding\<close>







lemma sent_writeHeader [simp]:
  "rw_sent (writeHeader code w) = (case rw_sent w of None \<Rightarrow> Some (code, rw_header w) | Some x \<Rightarrow> Some x)"
  by (simp add: writeHeader_def split: option.split)

lemma sent_writeBody [simp]:
  "rw_sent (writeBody b w) = (case rw_sent w of None \<Rightarrow> Some (200, rw_header w) | Some x \<Rightarrow> Some x)"
  by (simp add: writeBody_def Let_def split: option.split)

text \<open>The headers with which an error is answered, whatever the handler adds to the map later.\<close>

definition errorHeaders :: headers where
  "errorHeaders = [(contentType, [''text/plain; charset=utf-8'']), (''X-Content-Type-Options'', [''nosniff''])]"

lemma sent_httpError_fresh [simp]:
  "rw_sent (httpError msg code freshWriter) = Some (code, errorHeaders)"
proof -
  have "headerSet (headerSet (headerDel [] ''Content-Length'') contentType ''text/plain; charset=utf-8'')
          ''X-Content-Type-Options'' ''nosniff'' = errorHeaders"
    unfolding errorHeaders_def contentType_def by code_simp
  then show ?thesis by (simp add: httpError_def Let_def freshWriter_def)
qed






subsection \<open>The probe\<close>

text \<open>The replies are numbered, and the state counts the requests that were made.\<close>

lemma probeLoop_spec:
  "probeLoop n None (\<lambda>i. (resp i, Suc i)) (\<lambda>i. i) k =
     (case find (\<lambda>i. \<nexists>s. s \<noteq> 200 \<and> resp i = Inr s) [k..<k + n] of
        None \<Rightarrow> (Some (GoError ''failed to probe proxy''), k + n)
      | Some i \<Rightarrow> (case resp i of Inl e \<Rightarrow> (Some e, Suc i) | Inr s \<Rightarrow> (None, Suc i)))"
proof (induction n arbitrary: k)
  case 0
  then show ?case by simp
next
  case (Suc n)
  have up: "[k..<k + Suc n] = k # [Suc k..<Suc k + n]"
    by (metis add_Suc_right add_Suc_shift less_add_Suc1 upt_conv_Cons)
  show ?case
    unfolding up using Suc.IH [of "Suc k"]
    by (auto split: sum.splits option.split simp del: upt_Suc)
qed

text \<open>
  The probe makes at most seven requests and stops at the first one that does not
  answer with another status: it reports success exactly when that one answers 200, and
  the error of the request at once otherwise (a refused connection is not tried again).
\<close>

theorem probe_spec:
  "probe None (\<lambda>i. (resp i, Suc i)) (\<lambda>i. i) 0 =
     (case find (\<lambda>i. \<nexists>s. s \<noteq> 200 \<and> resp i = Inr s) [0..<7] of
        None \<Rightarrow> (Some (GoError ''failed to probe proxy''), 7)
      | Some i \<Rightarrow> (case resp i of Inl e \<Rightarrow> (Some e, Suc i) | Inr s \<Rightarrow> (None, Suc i)))"
  using probeLoop_spec [of 7 resp 0] unfolding probe_def retryCount_def by (simp only: add_0)

end
