(* ===== verification/Local_Object.thy ===== *)
theory Local_Object
  imports Kube_Types
begin

section \<open>The workload kinds (pkg/cmd/podidentity/k8s)\<close>

text \<open>
  The eight kinds of object that own a pod specification, and the \<open>LocalObject\<close>
  interface through which \<open>detect\<close> reads and edits them: for each kind the place of the
  pod specification (the receiver of \<open>GetContainers\<close>, \<open>SetContainers\<close> and the other
  accessors of its file), its group, version and kind, and the reset of its status.  The
  template of a replication controller is a pointer which the API server's validation
  requires; it is a plain value here.
\<close>

subsection \<open>The objects\<close>

record pod_template =
  pt_spec :: pod_spec
  pt_rest :: "string option"

record pod_object =
  po_meta :: object_meta
  po_gvk :: "string \<times> string \<times> string"
  po_spec :: pod_spec
  po_status :: "string option"

text \<open>
  Deployments, stateful sets, daemon sets, replica sets, replication controllers and jobs
  hold the pod specification in \<open>Spec.Template.Spec\<close>.
\<close>

record template_spec =
  ts_template :: pod_template
  ts_rest :: "string option"

record workload =
  wl_meta :: object_meta
  wl_gvk :: "string \<times> string \<times> string"
  wl_spec :: template_spec
  wl_status :: "string option"

record job_template =
  jt_spec :: template_spec
  jt_rest :: "string option"

record cron_job_spec =
  cs_jobTemplate :: job_template
  cs_rest :: "string option"

record cron_job =
  cj_meta :: object_meta
  cj_gvk :: "string \<times> string \<times> string"
  cj_spec :: cron_job_spec
  cj_status :: "string option"

datatype client_object =
    PodObject pod_object
  | DeploymentObject workload
  | StatefulSetObject workload
  | DaemonSetObject workload
  | ReplicaSetObject workload
  | ReplicationControllerObject workload
  | CronJobObject cron_job
  | JobObject workload

subsection \<open>The accessors of each kind\<close>

text \<open>\<open>pod.go\<close>\<close>

definition podSpecGet :: "pod_object \<Rightarrow> pod_spec" where
  "podSpecGet p = po_spec p"

definition podSpecPut :: "pod_spec \<Rightarrow> pod_object \<Rightarrow> pod_object" where
  "podSpecPut s p = p \<lparr> po_spec := s \<rparr>"

definition podSetGVK :: "pod_object \<Rightarrow> pod_object" where
  "podSetGVK p = p \<lparr> po_gvk := ([], ''v1'', ''Pod'') \<rparr>"

definition podResetStatus :: "pod_object \<Rightarrow> pod_object" where
  "podResetStatus p = p \<lparr> po_status := None \<rparr>"

text \<open>
  \<open>deployment.go\<close>, \<open>statefulset.go\<close>, \<open>daemonset.go\<close>, \<open>replicaset.go\<close>,
  \<open>replicationcontroller.go\<close> and \<open>job.go\<close>.
\<close>

definition deploymentSpecGet :: "workload \<Rightarrow> pod_spec" where
  "deploymentSpecGet d = pt_spec (ts_template (wl_spec d))"

definition deploymentSpecPut :: "pod_spec \<Rightarrow> workload \<Rightarrow> workload" where
  "deploymentSpecPut s d =
     d \<lparr> wl_spec := wl_spec d \<lparr> ts_template := ts_template (wl_spec d) \<lparr> pt_spec := s \<rparr> \<rparr> \<rparr>"

definition deploymentSetGVK :: "workload \<Rightarrow> workload" where
  "deploymentSetGVK d = d \<lparr> wl_gvk := (''apps'', ''v1'', ''Deployment'') \<rparr>"

definition deploymentResetStatus :: "workload \<Rightarrow> workload" where
  "deploymentResetStatus d = d \<lparr> wl_status := None \<rparr>"

definition statefulSetSpecGet :: "workload \<Rightarrow> pod_spec" where
  "statefulSetSpecGet d = pt_spec (ts_template (wl_spec d))"

definition statefulSetSpecPut :: "pod_spec \<Rightarrow> workload \<Rightarrow> workload" where
  "statefulSetSpecPut s d =
     d \<lparr> wl_spec := wl_spec d \<lparr> ts_template := ts_template (wl_spec d) \<lparr> pt_spec := s \<rparr> \<rparr> \<rparr>"

definition statefulSetSetGVK :: "workload \<Rightarrow> workload" where
  "statefulSetSetGVK d = d \<lparr> wl_gvk := (''apps'', ''v1'', ''StatefulSet'') \<rparr>"

definition statefulSetResetStatus :: "workload \<Rightarrow> workload" where
  "statefulSetResetStatus d = d \<lparr> wl_status := None \<rparr>"

definition daemonSetSpecGet :: "workload \<Rightarrow> pod_spec" where
  "daemonSetSpecGet d = pt_spec (ts_template (wl_spec d))"

definition daemonSetSpecPut :: "pod_spec \<Rightarrow> workload \<Rightarrow> workload" where
  "daemonSetSpecPut s d =
     d \<lparr> wl_spec := wl_spec d \<lparr> ts_template := ts_template (wl_spec d) \<lparr> pt_spec := s \<rparr> \<rparr> \<rparr>"

definition daemonSetSetGVK :: "workload \<Rightarrow> workload" where
  "daemonSetSetGVK d = d \<lparr> wl_gvk := (''apps'', ''v1'', ''DaemonSet'') \<rparr>"

definition daemonSetResetStatus :: "workload \<Rightarrow> workload" where
  "daemonSetResetStatus d = d \<lparr> wl_status := None \<rparr>"

definition replicaSetSpecGet :: "workload \<Rightarrow> pod_spec" where
  "replicaSetSpecGet d = pt_spec (ts_template (wl_spec d))"

definition replicaSetSpecPut :: "pod_spec \<Rightarrow> workload \<Rightarrow> workload" where
  "replicaSetSpecPut s d =
     d \<lparr> wl_spec := wl_spec d \<lparr> ts_template := ts_template (wl_spec d) \<lparr> pt_spec := s \<rparr> \<rparr> \<rparr>"

definition replicaSetSetGVK :: "workload \<Rightarrow> workload" where
  "replicaSetSetGVK d = d \<lparr> wl_gvk := (''apps'', ''v1'', ''ReplicaSet'') \<rparr>"

definition replicaSetResetStatus :: "workload \<Rightarrow> workload" where
  "replicaSetResetStatus d = d \<lparr> wl_status := None \<rparr>"

definition replicationControllerSpecGet :: "workload \<Rightarrow> pod_spec" where
  "replicationControllerSpecGet d = pt_spec (ts_template (wl_spec d))"

definition replicationControllerSpecPut :: "pod_spec \<Rightarrow> workload \<Rightarrow> workload" where
  "replicationControllerSpecPut s d =
     d \<lparr> wl_spec := wl_spec d \<lparr> ts_template := ts_template (wl_spec d) \<lparr> pt_spec := s \<rparr> \<rparr> \<rparr>"

definition replicationControllerSetGVK :: "workload \<Rightarrow> workload" where
  "replicationControllerSetGVK d = d \<lparr> wl_gvk := ([], ''v1'', ''ReplicationController'') \<rparr>"

definition replicationControllerResetStatus :: "workload \<Rightarrow> workload" where
  "replicationControllerResetStatus d = d \<lparr> wl_status := None \<rparr>"

definition jobSpecGet :: "workload \<Rightarrow> pod_spec" where
  "jobSpecGet d = pt_spec (ts_template (wl_spec d))"

definition jobSpecPut :: "pod_spec \<Rightarrow> workload \<Rightarrow> workload" where
  "jobSpecPut s d =
     d \<lparr> wl_spec := wl_spec d \<lparr> ts_template := ts_template (wl_spec d) \<lparr> pt_spec := s \<rparr> \<rparr> \<rparr>"

definition jobSetGVK :: "workload \<Rightarrow> workload" where
  "jobSetGVK d = d \<lparr> wl_gvk := (''batch'', ''v1'', ''Job'') \<rparr>"

definition jobResetStatus :: "workload \<Rightarrow> workload" where
  "jobResetStatus d = d \<lparr> wl_status := None \<rparr>"

text \<open>\<open>cronjob.go\<close>: \<open>Spec.JobTemplate.Spec.Template.Spec\<close>\<close>

definition cronJobSpecGet :: "cron_job \<Rightarrow> pod_spec" where
  "cronJobSpecGet c = pt_spec (ts_template (jt_spec (cs_jobTemplate (cj_spec c))))"

definition cronJobSpecPut :: "pod_spec \<Rightarrow> cron_job \<Rightarrow> cron_job" where
  "cronJobSpecPut s c =
     (let jt = cs_jobTemplate (cj_spec c); ts = jt_spec jt
      in c \<lparr> cj_spec := cj_spec c \<lparr> cs_jobTemplate :=
               jt \<lparr> jt_spec := ts \<lparr> ts_template := ts_template ts \<lparr> pt_spec := s \<rparr> \<rparr> \<rparr> \<rparr> \<rparr>)"

definition cronJobSetGVK :: "cron_job \<Rightarrow> cron_job" where
  "cronJobSetGVK c = c \<lparr> cj_gvk := (''batch'', ''v1'', ''CronJob'') \<rparr>"

definition cronJobResetStatus :: "cron_job \<Rightarrow> cron_job" where
  "cronJobResetStatus c = c \<lparr> cj_status := None \<rparr>"

subsection \<open>The interface (localobject.go)\<close>

text \<open>\<open>NewLocalObject\<close> dispatches on the dynamic type of the object.\<close>

fun specOf :: "client_object \<Rightarrow> pod_spec" where
  "specOf (PodObject p) = podSpecGet p"
| "specOf (DeploymentObject d) = deploymentSpecGet d"
| "specOf (StatefulSetObject d) = statefulSetSpecGet d"
| "specOf (DaemonSetObject d) = daemonSetSpecGet d"
| "specOf (ReplicaSetObject d) = replicaSetSpecGet d"
| "specOf (ReplicationControllerObject d) = replicationControllerSpecGet d"
| "specOf (CronJobObject c) = cronJobSpecGet c"
| "specOf (JobObject d) = jobSpecGet d"

fun putSpec :: "pod_spec \<Rightarrow> client_object \<Rightarrow> client_object" where
  "putSpec s (PodObject p) = PodObject (podSpecPut s p)"
| "putSpec s (DeploymentObject d) = DeploymentObject (deploymentSpecPut s d)"
| "putSpec s (StatefulSetObject d) = StatefulSetObject (statefulSetSpecPut s d)"
| "putSpec s (DaemonSetObject d) = DaemonSetObject (daemonSetSpecPut s d)"
| "putSpec s (ReplicaSetObject d) = ReplicaSetObject (replicaSetSpecPut s d)"
| "putSpec s (ReplicationControllerObject d) = ReplicationControllerObject (replicationControllerSpecPut s d)"
| "putSpec s (CronJobObject c) = CronJobObject (cronJobSpecPut s c)"
| "putSpec s (JobObject d) = JobObject (jobSpecPut s d)"

fun SetGVK :: "client_object \<Rightarrow> client_object" where
  "SetGVK (PodObject p) = PodObject (podSetGVK p)"
| "SetGVK (DeploymentObject d) = DeploymentObject (deploymentSetGVK d)"
| "SetGVK (StatefulSetObject d) = StatefulSetObject (statefulSetSetGVK d)"
| "SetGVK (DaemonSetObject d) = DaemonSetObject (daemonSetSetGVK d)"
| "SetGVK (ReplicaSetObject d) = ReplicaSetObject (replicaSetSetGVK d)"
| "SetGVK (ReplicationControllerObject d) = ReplicationControllerObject (replicationControllerSetGVK d)"
| "SetGVK (CronJobObject c) = CronJobObject (cronJobSetGVK c)"
| "SetGVK (JobObject d) = JobObject (jobSetGVK d)"

fun ResetStatus :: "client_object \<Rightarrow> client_object" where
  "ResetStatus (PodObject p) = PodObject (podResetStatus p)"
| "ResetStatus (DeploymentObject d) = DeploymentObject (deploymentResetStatus d)"
| "ResetStatus (StatefulSetObject d) = StatefulSetObject (statefulSetResetStatus d)"
| "ResetStatus (DaemonSetObject d) = DaemonSetObject (daemonSetResetStatus d)"
| "ResetStatus (ReplicaSetObject d) = ReplicaSetObject (replicaSetResetStatus d)"
| "ResetStatus (ReplicationControllerObject d) = ReplicationControllerObject (replicationControllerResetStatus d)"
| "ResetStatus (CronJobObject c) = CronJobObject (cronJobResetStatus c)"
| "ResetStatus (JobObject d) = JobObject (jobResetStatus d)"

text \<open>The embedded \<open>client.Object\<close>: the object's metadata.\<close>

fun metaOf :: "client_object \<Rightarrow> object_meta" where
  "metaOf (PodObject p) = po_meta p"
| "metaOf (DeploymentObject d) = wl_meta d"
| "metaOf (StatefulSetObject d) = wl_meta d"
| "metaOf (DaemonSetObject d) = wl_meta d"
| "metaOf (ReplicaSetObject d) = wl_meta d"
| "metaOf (ReplicationControllerObject d) = wl_meta d"
| "metaOf (CronJobObject c) = cj_meta c"
| "metaOf (JobObject d) = wl_meta d"

fun putMeta :: "object_meta \<Rightarrow> client_object \<Rightarrow> client_object" where
  "putMeta m (PodObject p) = PodObject (p \<lparr> po_meta := m \<rparr>)"
| "putMeta m (DeploymentObject d) = DeploymentObject (d \<lparr> wl_meta := m \<rparr>)"
| "putMeta m (StatefulSetObject d) = StatefulSetObject (d \<lparr> wl_meta := m \<rparr>)"
| "putMeta m (DaemonSetObject d) = DaemonSetObject (d \<lparr> wl_meta := m \<rparr>)"
| "putMeta m (ReplicaSetObject d) = ReplicaSetObject (d \<lparr> wl_meta := m \<rparr>)"
| "putMeta m (ReplicationControllerObject d) = ReplicationControllerObject (d \<lparr> wl_meta := m \<rparr>)"
| "putMeta m (CronJobObject c) = CronJobObject (c \<lparr> cj_meta := m \<rparr>)"
| "putMeta m (JobObject d) = JobObject (d \<lparr> wl_meta := m \<rparr>)"

definition GetServiceAccountName :: "client_object \<Rightarrow> string" where
  "GetServiceAccountName obj = ps_serviceAccountName (specOf obj)"

definition SetServiceAccountName :: "string \<Rightarrow> client_object \<Rightarrow> client_object" where
  "SetServiceAccountName n obj = putSpec (specOf obj \<lparr> ps_serviceAccountName := n \<rparr>) obj"

definition GetContainers :: "client_object \<Rightarrow> container list" where
  "GetContainers obj = ps_containers (specOf obj)"

definition SetContainers :: "container list \<Rightarrow> client_object \<Rightarrow> client_object" where
  "SetContainers cs obj = putSpec (specOf obj \<lparr> ps_containers := cs \<rparr>) obj"

definition GetInitContainers :: "client_object \<Rightarrow> container list" where
  "GetInitContainers obj = ps_initContainers (specOf obj)"

definition SetInitContainers :: "container list \<Rightarrow> client_object \<Rightarrow> client_object" where
  "SetInitContainers cs obj = putSpec (specOf obj \<lparr> ps_initContainers := cs \<rparr>) obj"

subsection \<open>The contract of the interface\<close>

text \<open>
  What \<open>detect\<close> relies on, for any kind of object: the pod specification and the
  metadata can be replaced independently of each other, and neither the group, version and
  kind nor the reset of the status touches them.
\<close>

locale local_object =
  fixes get :: "'o \<Rightarrow> pod_spec"
    and put :: "pod_spec \<Rightarrow> 'o \<Rightarrow> 'o"
    and getMeta :: "'o \<Rightarrow> object_meta"
    and setMeta :: "object_meta \<Rightarrow> 'o \<Rightarrow> 'o"
    and setGVK :: "'o \<Rightarrow> 'o"
    and resetStatus :: "'o \<Rightarrow> 'o"
  assumes get_put [simp]: "get (put s x) = s"
    and put_get [simp]: "put (get x) x = x"
    and put_put [simp]: "put s (put t x) = put s x"
    and getMeta_setMeta [simp]: "getMeta (setMeta m x) = m"
    and setMeta_setMeta [simp]: "setMeta m (setMeta n x) = setMeta m x"
    and get_setMeta [simp]: "get (setMeta m x) = get x"
    and getMeta_put [simp]: "getMeta (put s x) = getMeta x"
    and get_setGVK [simp]: "get (setGVK x) = get x"
    and getMeta_setGVK [simp]: "getMeta (setGVK x) = getMeta x"
    and get_resetStatus [simp]: "get (resetStatus x) = get x"
    and getMeta_resetStatus [simp]: "getMeta (resetStatus x) = getMeta x"
    and put_setMeta: "put s (setMeta m x) = setMeta m (put s x)"
    and put_setGVK: "put s (setGVK x) = setGVK (put s x)"
    and put_resetStatus: "put s (resetStatus x) = resetStatus (put s x)"
begin

text \<open>Edits of two different fields of the specification, in sequence.\<close>

definition edit :: "(pod_spec \<Rightarrow> pod_spec) \<Rightarrow> 'o \<Rightarrow> 'o" where
  "edit f x = put (f (get x)) x"

lemma get_edit [simp]: "get (edit f x) = f (get x)"
  by (simp add: edit_def)

lemma edit_edit: "edit f (edit g x) = edit (f \<circ> g) x"
  by (simp add: edit_def)

lemma edit_id: "f (get x) = get x \<Longrightarrow> edit f x = x"
  by (simp add: edit_def)

lemma getMeta_edit [simp]: "getMeta (edit f x) = getMeta x"
  by (simp add: edit_def)

text \<open>The clean-up before serialization keeps the specification, and metadata is only edited.\<close>

definition cleaned :: "object_meta \<Rightarrow> 'o \<Rightarrow> 'o" where
  "cleaned m x = setGVK (resetStatus (setMeta m x))"

lemma cleaned_keeps [simp]: "get (cleaned m x) = get x" "getMeta (cleaned m x) = m"
  by (simp_all add: cleaned_def)

lemma cleaned_edit: "cleaned m (edit f x) = edit f (cleaned m x)"
  by (simp add: cleaned_def edit_def put_setMeta put_setGVK put_resetStatus)

end

interpretation pods: local_object podSpecGet podSpecPut po_meta "\<lambda>m p. p \<lparr> po_meta := m \<rparr>" podSetGVK podResetStatus
  by unfold_locales (simp_all add: podSpecGet_def podSpecPut_def podSetGVK_def podResetStatus_def)

interpretation deployments: local_object deploymentSpecGet deploymentSpecPut wl_meta
  "\<lambda>m d. d \<lparr> wl_meta := m \<rparr>" deploymentSetGVK deploymentResetStatus
  by unfold_locales (simp_all add: deploymentSpecGet_def deploymentSpecPut_def deploymentSetGVK_def deploymentResetStatus_def)

interpretation statefulSets: local_object statefulSetSpecGet statefulSetSpecPut wl_meta
  "\<lambda>m d. d \<lparr> wl_meta := m \<rparr>" statefulSetSetGVK statefulSetResetStatus
  by unfold_locales (simp_all add: statefulSetSpecGet_def statefulSetSpecPut_def statefulSetSetGVK_def statefulSetResetStatus_def)

interpretation daemonSets: local_object daemonSetSpecGet daemonSetSpecPut wl_meta
  "\<lambda>m d. d \<lparr> wl_meta := m \<rparr>" daemonSetSetGVK daemonSetResetStatus
  by unfold_locales (simp_all add: daemonSetSpecGet_def daemonSetSpecPut_def daemonSetSetGVK_def daemonSetResetStatus_def)

interpretation replicaSets: local_object replicaSetSpecGet replicaSetSpecPut wl_meta
  "\<lambda>m d. d \<lparr> wl_meta := m \<rparr>" replicaSetSetGVK replicaSetResetStatus
  by unfold_locales (simp_all add: replicaSetSpecGet_def replicaSetSpecPut_def replicaSetSetGVK_def replicaSetResetStatus_def)

interpretation replicationControllers: local_object replicationControllerSpecGet replicationControllerSpecPut wl_meta
  "\<lambda>m d. d \<lparr> wl_meta := m \<rparr>" replicationControllerSetGVK replicationControllerResetStatus
  by unfold_locales (simp_all add: replicationControllerSpecGet_def replicationControllerSpecPut_def replicationControllerSetGVK_def replicationControllerResetStatus_def)

interpretation jobs: local_object jobSpecGet jobSpecPut wl_meta
  "\<lambda>m d. d \<lparr> wl_meta := m \<rparr>" jobSetGVK jobResetStatus
  by unfold_locales (simp_all add: jobSpecGet_def jobSpecPut_def jobSetGVK_def jobResetStatus_def)

interpretation cronJobs: local_object cronJobSpecGet cronJobSpecPut cj_meta
  "\<lambda>m c. c \<lparr> cj_meta := m \<rparr>" cronJobSetGVK cronJobResetStatus
  by unfold_locales
    (simp_all add: cronJobSpecGet_def cronJobSpecPut_def cronJobSetGVK_def cronJobResetStatus_def Let_def)

text \<open>The dispatch keeps the laws: a law of every kind is a law of the interface.\<close>

interpretation objects: local_object specOf putSpec metaOf putMeta SetGVK ResetStatus
proof unfold_locales
  fix x s t m n
  show "specOf (putSpec s x) = s" by (cases x) simp_all
  show "putSpec (specOf x) x = x" by (cases x) simp_all
  show "putSpec s (putSpec t x) = putSpec s x" by (cases x) simp_all
  show "metaOf (putMeta m x) = m" by (cases x) simp_all
  show "putMeta m (putMeta n x) = putMeta m x" by (cases x) simp_all
  show "specOf (putMeta m x) = specOf x" by (cases x) simp_all
  show "metaOf (putSpec s x) = metaOf x" by (cases x) simp_all
  show "specOf (SetGVK x) = specOf x" by (cases x) simp_all
  show "metaOf (SetGVK x) = metaOf x" by (cases x) simp_all
  show "specOf (ResetStatus x) = specOf x" by (cases x) simp_all
  show "metaOf (ResetStatus x) = metaOf x" by (cases x) simp_all
  show "putSpec s (putMeta m x) = putMeta m (putSpec s x)"
    by (cases x) (simp_all add: pods.put_setMeta deployments.put_setMeta statefulSets.put_setMeta daemonSets.put_setMeta
      replicaSets.put_setMeta replicationControllers.put_setMeta jobs.put_setMeta cronJobs.put_setMeta)
  show "putSpec s (SetGVK x) = SetGVK (putSpec s x)"
    by (cases x) (simp_all add: pods.put_setGVK deployments.put_setGVK statefulSets.put_setGVK daemonSets.put_setGVK
      replicaSets.put_setGVK replicationControllers.put_setGVK jobs.put_setGVK cronJobs.put_setGVK)
  show "putSpec s (ResetStatus x) = ResetStatus (putSpec s x)"
    by (cases x) (simp_all add: pods.put_resetStatus deployments.put_resetStatus statefulSets.put_resetStatus daemonSets.put_resetStatus
      replicaSets.put_resetStatus replicationControllers.put_resetStatus jobs.put_resetStatus cronJobs.put_resetStatus)
qed

text \<open>The accessors as edits of the specification.\<close>

lemma accessors_edit:
  "SetServiceAccountName n x = objects.edit (\<lambda>s. s \<lparr> ps_serviceAccountName := n \<rparr>) x"
  "SetContainers cs x = objects.edit (\<lambda>s. s \<lparr> ps_containers := cs \<rparr>) x"
  "SetInitContainers cs x = objects.edit (\<lambda>s. s \<lparr> ps_initContainers := cs \<rparr>) x"
  by (simp_all add: SetServiceAccountName_def SetContainers_def SetInitContainers_def objects.edit_def)

lemma accessors_read:
  "GetServiceAccountName (SetServiceAccountName n x) = n"
  "GetContainers (SetContainers cs x) = cs"
  "GetInitContainers (SetInitContainers cs x) = cs"
  "GetContainers (SetInitContainers cs x) = GetContainers x"
  "GetServiceAccountName (SetContainers cs x) = GetServiceAccountName x"
  "GetInitContainers (SetContainers cs x) = GetInitContainers x"
  "GetContainers (SetServiceAccountName n x) = GetContainers x"
  "GetInitContainers (SetServiceAccountName n x) = GetInitContainers x"
  by (simp_all add: GetServiceAccountName_def SetServiceAccountName_def GetContainers_def
    SetContainers_def GetInitContainers_def SetInitContainers_def)

end
