(* ===== verification/Kube_Helper.thy ===== *)
theory Kube_Helper
  imports Local_Object Webhook_Annotations Go_Time "HOL-Library.List_Lexorder"
    "HOL-Library.Char_ord" "HOL-Library.Product_Lexorder" "HOL-Library.Multiset"
begin

section \<open>The Kubernetes helpers (pkg/kuberneteshelper)\<close>

text \<open>
  \<open>serviceaccount.go\<close>, \<open>pod.go\<close>, \<open>azureidentity.go\<close>, \<open>azureidentitybinding.go\<close> and
  \<open>client.go\<close>: the calls of the commands on the API server.  The client is a record of
  the calls (\<open>kube_client\<close>); what it returns, and what it does to the cluster, are its own.
\<close>

datatype identity_type = UserAssignedMSI | OtherIdentityType int

record azure_identity =
  ai_name :: string
  ai_type :: identity_type
  ai_clientID :: string

record azure_identity_binding =
  ab_namespace :: string
  ab_name :: string
  ab_azureIdentity :: string
  ab_selector :: string

text \<open>The types of object that \<open>Get\<close> is asked for.\<close>

datatype object_kind =
  KDeployment | KStatefulSet | KCronJob | KJob | KDaemonSet | KReplicaSet | KReplicationController

record 'w kube_client =
  kc_getServiceAccount :: "string \<Rightarrow> string \<Rightarrow> ('w, service_account) io"
  kc_create :: "service_account \<Rightarrow> ('w, unit) io"
  kc_update :: "service_account \<Rightarrow> ('w, unit) io"
  kc_delete :: "service_account \<Rightarrow> ('w, unit) io"
  kc_listPods :: "string \<Rightarrow> strmap \<Rightarrow> ('w, pod_object list) io"
  kc_listAzureIdentity :: "string \<Rightarrow> ('w, azure_identity list) io"
  kc_listAzureIdentityBinding :: "string \<Rightarrow> ('w, azure_identity_binding list) io"
  kc_getObject :: "object_kind \<Rightarrow> string \<Rightarrow> string \<Rightarrow> ('w, client_object) io"

text \<open>
  \<open>getKubeConfig\<close> is \<open>GetKubeConfig\<close>, which loads the configuration with client-go, and
  \<open>newClient\<close> is \<open>client.New\<close> with the scheme of the package.
\<close>

definition GetKubeClient ::
  "('w, 'cfg) io \<Rightarrow> ('cfg \<Rightarrow> ('w, 'w kube_client) io) \<Rightarrow> ('w, 'w kube_client) io" where
  "GetKubeClient getKubeConfig newClient w =
     (case getKubeConfig w of
        (Inl e, w1) \<Rightarrow> (Inl e, w1)
      | (Inr kubeConfig, w1) \<Rightarrow> newClient kubeConfig w1)"

subsection \<open>Service accounts\<close>

text \<open>The object that \<open>CreateOrUpdateServiceAccount\<close> builds from the command's data.\<close>

definition newServiceAccount :: "string \<Rightarrow> string \<Rightarrow> string \<Rightarrow> string \<Rightarrow> int \<Rightarrow> service_account" where
  "newServiceAccount namespace n clientID tenantID tokenExpiration =
     (let annotations = smap_set (smap_set [] ClientIDAnnotation clientID) TenantIDAnnotation tenantID;
          annotations' =
            (if tokenExpiration \<noteq> DefaultServiceAccountTokenExpiration * second
             then smap_set annotations ServiceAccountTokenExpiryAnnotation
                    (showSeconds (roundSecond tokenExpiration))
             else annotations)
      in emptyServiceAccount \<lparr> sa_meta :=
           emptyMeta \<lparr> om_name := n, om_namespace := namespace, om_annotations := annotations' \<rparr> \<rparr>)"

definition CreateOrUpdateServiceAccount ::
  "'w kube_client \<Rightarrow> string \<Rightarrow> string \<Rightarrow> string \<Rightarrow> string \<Rightarrow> int \<Rightarrow> ('w, unit) io" where
  "CreateOrUpdateServiceAccount kc namespace n clientID tenantID tokenExpiration w =
     (let sa = newServiceAccount namespace n clientID tenantID tokenExpiration in
      case kc_create kc sa w of
        (Inr u, w1) \<Rightarrow> (Inr u, w1)
      | (Inl e, w1) \<Rightarrow> if apiIsAlreadyExists e then kc_update kc sa w1 else (Inl e, w1))"

definition DeleteServiceAccount :: "'w kube_client \<Rightarrow> string \<Rightarrow> string \<Rightarrow> ('w, unit) io" where
  "DeleteServiceAccount kc namespace n w =
     (case kc_getServiceAccount kc namespace n w of
        (Inl e, w1) \<Rightarrow> (Inl e, w1)
      | (Inr sa, w1) \<Rightarrow> kc_delete kc sa w1)"

definition GetServiceAccount :: "'w kube_client \<Rightarrow> string \<Rightarrow> string \<Rightarrow> ('w, service_account) io" where
  "GetServiceAccount kc namespace n = kc_getServiceAccount kc namespace n"

subsection \<open>Pods, identities and bindings\<close>

text \<open>
  The pods, in a Go map by name: an association list, as the order in which a Go map is
  traversed is unspecified and left to the users of the map.
\<close>

fun podMapLoop :: "pod_object list \<Rightarrow> (string \<times> pod_object) list \<Rightarrow> (string \<times> pod_object) list" where
  "podMapLoop [] podMap = podMap"
| "podMapLoop (p # ps) podMap = podMapLoop ps (AList.update (om_name (po_meta p)) p podMap)"

definition ListPods :: "'w kube_client \<Rightarrow> string \<Rightarrow> strmap \<Rightarrow> ('w, (string \<times> pod_object) list) io" where
  "ListPods kc namespace labels w =
     (case kc_listPods kc namespace labels w of
        (Inl e, w1) \<Rightarrow> (Inl e, w1)
      | (Inr items, w1) \<Rightarrow> (Inr (podMapLoop items []), w1))"

definition ListAzureIdentity :: "'w kube_client \<Rightarrow> string \<Rightarrow> ('w, azure_identity list) io" where
  "ListAzureIdentity kc namespace = kc_listAzureIdentity kc namespace"

text \<open>
  \<open>Less\<close> compares namespaces, then names.  \<open>sort.Sort\<close> returns some ordered
  permutation; the key is unique in a listing, so it is the one that \<open>sort_key\<close> gives
  (\<open>sorted_bindings_unique\<close> below).
\<close>

definition bindingLess :: "azure_identity_binding \<Rightarrow> azure_identity_binding \<Rightarrow> bool" where
  "bindingLess a b =
     (if ab_namespace a = ab_namespace b then ab_name a < ab_name b
      else ab_namespace a < ab_namespace b)"

definition bindingKey :: "azure_identity_binding \<Rightarrow> string \<times> string" where
  "bindingKey b = (ab_namespace b, ab_name b)"

definition ListAzureIdentityBinding :: "'w kube_client \<Rightarrow> string \<Rightarrow> ('w, azure_identity_binding list) io" where
  "ListAzureIdentityBinding kc namespace w =
     (case kc_listAzureIdentityBinding kc namespace w of
        (Inl e, w1) \<Rightarrow> (Inl e, w1)
      | (Inr items, w1) \<Rightarrow> (Inr (sort_key bindingKey items), w1))"

definition GetObject :: "'w kube_client \<Rightarrow> string \<Rightarrow> string \<Rightarrow> object_kind \<Rightarrow> ('w, client_object) io" where
  "GetObject kc namespace n k = kc_getObject kc k namespace n"

subsection \<open>The order of the bindings\<close>

lemma bindingLess_key: "bindingLess a b \<longleftrightarrow> bindingKey a < bindingKey b"
  by (auto simp: bindingLess_def bindingKey_def less_prod_def')

lemma sorted_bindings_unique:
  assumes perm: "mset ys = mset xs" and distinct: "distinct (map bindingKey xs)"
    and sorted: "sorted_wrt (\<lambda>a b. \<not> bindingLess b a) ys"
  shows "ys = sort_key bindingKey xs"
proof -
  have "sorted (map bindingKey ys)"
    using sorted by (simp add: sorted_map bindingLess_key not_less)
  moreover have "inj_on bindingKey (set xs)"
    using distinct by (simp add: distinct_map)
  ultimately show ?thesis
    using perm properties_for_sort_key [of ys xs bindingKey]
    by (metis distinct distinct_map mset_eq_setD sort_key_inj_key_eq)
qed

subsection \<open>What the annotations written by the commands mean to the webhook\<close>

lemmas annotation_keys_distinct =
  ClientIDAnnotation_def TenantIDAnnotation_def ServiceAccountTokenExpiryAnnotation_def

text \<open>Reading an annotation that was rendered from a duration in the accepted range.\<close>

lemma rendered_expiration:
  assumes "MinServiceAccountTokenExpiration * second \<le> d" and "d \<le> MaxServiceAccountTokenExpiration * second"
  obtains n where "roundSecond d = n * second" "3600 \<le> n" "n \<le> 86400"
    "showSeconds (roundSecond d) = formatInt n" "parseInt (formatInt n) 64 = Inr n" "formatInt n \<noteq> []"
proof -
  obtain n where n: "roundSecond d = n * second" "3600 \<le> n" "n \<le> 86400"
    using roundSecond_bounds [of 3600 d 86400] assms
    by (auto simp: MinServiceAccountTokenExpiration_def MaxServiceAccountTokenExpiration_def second_def)
  moreover from n have "parseInt (formatInt n) 64 = Inr n"
    by (intro parseInt_formatInt) simp_all
  moreover have "formatInt n \<noteq> []" by (simp add: formatInt_def)
  ultimately show ?thesis by (intro that [of n]) (simp_all add: showSeconds_whole)
qed

end
