(* ===== verification/Detect.thy ===== *)
theory Detect
  imports Kube_Helper Webhook
begin

section \<open>azwi podidentity detect (pkg/cmd/podidentity/detect.go)\<close>

text \<open>
  The command that reads the aad-pod-identity configuration of a namespace and writes, for
  every workload which uses it, a service account and a workload file.  The Kubernetes
  client and the file operations are fields of the command's record.  A Go map is an
  association list; the order in which the code ranges over one is a parameter
  (\<open>detect_order\<close>), which the properties take as any permutation.
\<close>

subsection \<open>Constants\<close>

definition imageRepository :: string where
  "imageRepository = ''mcr.microsoft.com/oss/azure/workload-identity''"

definition imageTag :: string where "imageTag = ''v1.6.0''"
definition proxyInitImageName :: string where "proxyInitImageName = ''proxy-init''"
definition proxyImageName :: string where "proxyImageName = ''proxy''"
definition proxyInitContainerName :: string where "proxyInitContainerName = ''azwi-proxy-init''"
definition proxyContainerName :: string where "proxyContainerName = ''azwi-proxy''"

definition detectProxyInitImage :: string where
  "detectProxyInitImage = imageRepository @ ''/'' @ proxyInitImageName @ '':'' @ imageTag"

definition detectProxyImage :: string where
  "detectProxyImage = imageRepository @ ''/'' @ proxyImageName @ '':'' @ imageTag"

text \<open>\<open>aadpodv1.CRDLabelKey\<close>, the label of the pods that use an identity.\<close>

definition CRDLabelKey :: string where "CRDLabelKey = ''aadpodidbinding''"

subsection \<open>The command\<close>

datatype manifest = SaManifest service_account | ObjectManifest client_object

record 'w detect_cmd =
  dc_namespace :: string
  dc_outputDir :: string
  dc_proxyPort :: int
  dc_tokenExpiration :: int
  dc_tenantID :: string
  dc_kubeClient :: "'w kube_client"
  dc_osCreate :: "string \<Rightarrow> ('w, unit) io"
  dc_encode :: "manifest \<Rightarrow> string \<Rightarrow> ('w, unit) io"

text \<open>
  \<open>prerun\<close>: the bounds of the expiration, the client, and the output directory, which
  is made if \<open>Stat\<close> says that it does not exist (its other errors are ignored).
\<close>

definition errDetectExpirationTooSmall :: go_error where
  "errDetectExpirationTooSmall =
     GoError (''--service-account-token-expiration must be greater than or equal to '' @
       durationString (MinServiceAccountTokenExpiration * second))"

definition errDetectExpirationTooLarge :: go_error where
  "errDetectExpirationTooLarge =
     GoError (''--service-account-token-expiration must be less than or equal to '' @
       durationString (MaxServiceAccountTokenExpiration * second))"

definition detectPrerun ::
  "('w, 'w kube_client) io \<Rightarrow> (string \<Rightarrow> 'w \<Rightarrow> bool) \<Rightarrow> (string \<Rightarrow> ('w, unit) io) \<Rightarrow>
   'w detect_cmd \<Rightarrow> 'w \<Rightarrow> go_error option \<times> 'w detect_cmd \<times> 'w" where
  "detectPrerun getKubeClient notExist mkdirAll dc w =
     (if dc_tokenExpiration dc < MinServiceAccountTokenExpiration * second
      then (Some errDetectExpirationTooSmall, dc, w)
      else if dc_tokenExpiration dc > MaxServiceAccountTokenExpiration * second
      then (Some errDetectExpirationTooLarge, dc, w)
      else case getKubeClient w of
             (Inl e, w1) \<Rightarrow> (Some (WrapError ''failed to get Kubernetes client'' e), dc, w1)
           | (Inr kc, w1) \<Rightarrow>
               (let dc1 = dc \<lparr> dc_kubeClient := kc \<rparr> in
                if notExist (dc_outputDir dc) w1
                then (case mkdirAll (dc_outputDir dc) w1 of
                        (Inl e, w2) \<Rightarrow> (Some e, dc1, w2)
                      | (Inr _, w2) \<Rightarrow> (None, dc1, w2))
                else (None, dc1, w1)))"

subsection \<open>The files\<close>

definition getResourceFileName :: "'w detect_cmd \<Rightarrow> client_object \<Rightarrow> string" where
  "getResourceFileName dc obj = filepathJoin [dc_outputDir dc, om_name (metaOf obj) @ ''.yaml'']"

definition getServiceAccountFileName :: "'w detect_cmd \<Rightarrow> string \<Rightarrow> string" where
  "getServiceAccountFileName dc pfx = filepathJoin [dc_outputDir dc, pfx @ ''-serviceaccount.yaml'']"

text \<open>The edits of \<open>createServiceAccountFile\<close> on the account it found or made.\<close>

definition annotatedServiceAccount :: "'w detect_cmd \<Rightarrow> string \<Rightarrow> service_account \<Rightarrow> service_account" where
  "annotatedServiceAccount dc clientID sa =
     (let a1 = smap_set (sa_annotations sa) ClientIDAnnotation clientID;
          a2 = smap_set a1 ServiceAccountTokenExpiryAnnotation (showSeconds (roundSecond (dc_tokenExpiration dc)));
          a3 = (if dc_tenantID dc \<noteq> [] then smap_set a2 TenantIDAnnotation (dc_tenantID dc) else a2)
      in sa \<lparr> sa_meta := (sa_meta sa) \<lparr> om_annotations := a3, om_resourceVersion := [] \<rparr>,
              sa_gvk := ([], ''v1'', ''ServiceAccount'') \<rparr>)"

definition createServiceAccountFile ::
  "'w detect_cmd \<Rightarrow> string \<Rightarrow> string \<Rightarrow> string \<Rightarrow> ('w, service_account) io" where
  "createServiceAccountFile dc n ownerName clientID w =
     (case (if n = [] \<or> n = ''default''
            then (Inr (emptyServiceAccount \<lparr> sa_meta :=
                    emptyMeta \<lparr> om_name := ownerName, om_namespace := dc_namespace dc \<rparr> \<rparr>), w)
            else GetServiceAccount (dc_kubeClient dc) (dc_namespace dc) n w) of
        (Inl e, w1) \<Rightarrow> (Inl e, w1)
      | (Inr sa, w1) \<Rightarrow>
          (let sa' = annotatedServiceAccount dc clientID sa;
               fileName = filepathJoin [getServiceAccountFileName dc ownerName]
           in case dc_osCreate dc fileName w1 of
                (Inl e, w2) \<Rightarrow> (Inl e, w2)
              | (Inr _, w2) \<Rightarrow>
                  (case dc_encode dc (SaManifest sa') fileName w2 of
                     (Inl e, w3) \<Rightarrow> (Inl e, w3)
                   | (Inr _, w3) \<Rightarrow> (Inr sa', w3))))"

definition detectProxyInitContainer :: "'w detect_cmd \<Rightarrow> container" where
  "detectProxyInitContainer dc = emptyContainer \<lparr>
     ct_name := proxyInitContainerName,
     ct_image := detectProxyInitImage,
     ct_imagePullPolicy := PullIfNotPresent,
     ct_securityContext := Some (emptySecurityContext \<lparr>
       sc_privileged := Some True,
       sc_runAsUser := Some 0,
       sc_capabilities := Some \<lparr> cap_add = [netAdmin], cap_drop = [capAll] \<rparr> \<rparr>),
     ct_env := [\<lparr> ev_name = ''PROXY_PORT'', ev_value = formatInt (dc_proxyPort dc), ev_rest = None \<rparr>] \<rparr>"

definition addProxyInitContainer :: "'w detect_cmd \<Rightarrow> container list \<Rightarrow> container list" where
  "addProxyInitContainer dc initContainers =
     (if list_ex (\<lambda>c. prefix (imageRepository @ ''/'' @ proxyInitImageName) (ct_image c)) initContainers
      then initContainers
      else initContainers @ [detectProxyInitContainer dc])"

definition detectProxyContainer :: "'w detect_cmd \<Rightarrow> container" where
  "detectProxyContainer dc = emptyContainer \<lparr>
     ct_name := proxyContainerName,
     ct_image := detectProxyImage,
     ct_imagePullPolicy := PullIfNotPresent,
     ct_args := [''--proxy-port='' @ formatInt (dc_proxyPort dc), ''--log-level='' @ logLevelString LevelInfo],
     ct_ports := [\<lparr> cp_containerPort = dc_proxyPort dc, cp_rest = None \<rparr>],
     ct_lifecycle := Some (PostStartExec
       [''/proxy'', ''--proxy-port='' @ formatInt (dc_proxyPort dc), ''--probe'',
        ''--log-level='' @ logLevelString LevelInfo]) \<rparr>"

definition addProxyContainer :: "'w detect_cmd \<Rightarrow> container list \<Rightarrow> container list" where
  "addProxyContainer dc containers =
     (if list_ex (\<lambda>c. prefix (imageRepository @ ''/'' @ proxyImageName) (ct_image c)) containers
      then containers
      else containers @ [detectProxyContainer dc])"

text \<open>\<open>createResourceFile\<close>: the object it writes, and the writing.\<close>

definition migratedObject :: "'w detect_cmd \<Rightarrow> service_account \<Rightarrow> client_object \<Rightarrow> client_object" where
  "migratedObject dc sa obj =
     (let o1 = SetInitContainers (addProxyInitContainer dc (GetInitContainers obj)) obj;
          o2 = SetContainers (addProxyContainer dc (GetContainers o1)) o1;
          o3 = SetServiceAccountName (om_name (sa_meta sa)) o2;
          o4 = putMeta ((metaOf o3) \<lparr> om_managedFields := [], om_resourceVersion := [], om_uid := [],
                 om_creationTimestamp := None, om_selfLink := [], om_generation := 0 \<rparr>) o3
      in SetGVK (ResetStatus o4))"

definition createResourceFile ::
  "'w detect_cmd \<Rightarrow> client_object \<Rightarrow> service_account \<Rightarrow> 'w \<Rightarrow> go_error option \<times> 'w" where
  "createResourceFile dc localObject sa w =
     (let obj = migratedObject dc sa localObject; fileName = getResourceFileName dc obj in
      case dc_osCreate dc fileName w of
        (Inl e, w1) \<Rightarrow> (Some e, w1)
      | (Inr _, w1) \<Rightarrow>
          (case dc_encode dc (ObjectManifest obj) fileName w1 of
             (Inl e, w2) \<Rightarrow> (Some e, w2)
           | (Inr _, w2) \<Rightarrow> (None, w2)))"

subsection \<open>Owners\<close>

definition errUnsupportedKind :: "string \<Rightarrow> go_error" where
  "errUnsupportedKind k = GoError (''unsupported owner kind: '' @ k)"

definition ownerKind :: "string \<Rightarrow> object_kind option" where
  "ownerKind k =
     (if k = ''Deployment'' then Some KDeployment
      else if k = ''StatefulSet'' then Some KStatefulSet
      else if k = ''CronJob'' then Some KCronJob
      else if k = ''Job'' then Some KJob
      else if k = ''DaemonSet'' then Some KDaemonSet
      else if k = ''ReplicaSet'' then Some KReplicaSet
      else if k = ''ReplicationController'' then Some KReplicationController
      else None)"

definition getOwnerObject :: "'w detect_cmd \<Rightarrow> owner_reference \<Rightarrow> ('w, client_object) io" where
  "getOwnerObject dc ownerRef w =
     (case ownerKind (or_kind ownerRef) of
        Some k \<Rightarrow> GetObject (dc_kubeClient dc) (dc_namespace dc) (or_name ownerRef) k w
      | None \<Rightarrow> (Inl (errUnsupportedKind (or_kind ownerRef)), w))"

text \<open>The first owner reference that was set by the parent controller.\<close>

definition controllerOf :: "owner_reference list \<Rightarrow> owner_reference option" where
  "controllerOf owners = find (\<lambda>ref. or_controller ref = Some True) owners"

text \<open>
  \<open>getOwner\<close> follows the controllers upwards, with no test for a cycle: \<open>None\<close> is a
  call that does not return.
\<close>

partial_function (option) getOwner ::
  "'w detect_cmd \<Rightarrow> owner_reference \<Rightarrow> 'w \<Rightarrow> (client_object result \<times> 'w) option" where
  "getOwner dc ownerRef w =
     (case getOwnerObject dc ownerRef w of
        (Inl e, w1) \<Rightarrow> Some (Inl e, w1)
      | (Inr obj, w1) \<Rightarrow>
          (case controllerOf (om_ownerReferences (metaOf obj)) of
             Some parent \<Rightarrow> getOwner dc parent w1
           | None \<Rightarrow> Some (Inr obj, w1)))"

subsection \<open>The identities of the bindings\<close>

fun identityMapLoop :: "azure_identity list \<Rightarrow> (string \<times> azure_identity) list \<Rightarrow> (string \<times> azure_identity) list" where
  "identityMapLoop [] m = m"
| "identityMapLoop (i # rest) m =
     identityMapLoop rest (if ai_type i = UserAssignedMSI then AList.update (ai_name i) i m else m)"

fun filterLoop ::
  "azure_identity_binding list \<Rightarrow> (string \<times> azure_identity) list \<Rightarrow>
   (string \<times> azure_identity) list \<Rightarrow> (string \<times> azure_identity) list" where
  "filterLoop [] identities labels = labels"
| "filterLoop (b # bs) identities labels =
     filterLoop bs identities
       (if ab_selector b = [] \<or> ab_azureIdentity b = [] then labels
        else if map_of labels (ab_selector b) \<noteq> None then labels
        else case map_of identities (ab_azureIdentity b) of
               Some i \<Rightarrow> AList.update (ab_selector b) i labels
             | None \<Rightarrow> labels)"

definition filterAzureIdentities ::
  "azure_identity_binding list \<Rightarrow> (string \<times> azure_identity) list \<Rightarrow> (string \<times> azure_identity) list" where
  "filterAzureIdentities bindings identities = filterLoop bindings identities []"

subsection \<open>The run\<close>

record detect_order =
  ord_labels :: "(string \<times> azure_identity) list \<Rightarrow> (string \<times> azure_identity) list"
  ord_pods :: "(string \<times> pod_object) list \<Rightarrow> (string \<times> pod_object) list"
  ord_owners :: "(owner_reference \<times> string) list \<Rightarrow> (owner_reference \<times> string) list"
  ord_results :: "(client_object \<times> string) list \<Rightarrow> (client_object \<times> string) list"

text \<open>
  The two maps that the loops fill.  The key of \<open>ownerReferences\<close> holds a pointer of the
  decoded pod, and the key of \<open>results\<close> is a pointer, so every insertion is a new entry.
\<close>

type_synonym found = "(owner_reference \<times> string) list \<times> (client_object \<times> string) list"

fun podLoop :: "string \<Rightarrow> (string \<times> pod_object) list \<Rightarrow> found \<Rightarrow> found" where
  "podLoop clientID [] acc = acc"
| "podLoop clientID ((n, p) # ps) (owners, results) =
     podLoop clientID ps
       (case controllerOf (om_ownerReferences (po_meta p)) of
          Some ref \<Rightarrow> (owners @ [(ref, clientID)], results)
        | None \<Rightarrow> (owners, results @ [(PodObject p, clientID)]))"

fun selectorLoop ::
  "'w detect_cmd \<Rightarrow> detect_order \<Rightarrow> (string \<times> azure_identity) list \<Rightarrow> found \<Rightarrow> ('w, found) io" where
  "selectorLoop dc ord [] acc w = (Inr acc, w)"
| "selectorLoop dc ord ((selector, i) # rest) acc w =
     (case ListPods (dc_kubeClient dc) (dc_namespace dc) [(CRDLabelKey, selector)] w of
        (Inl e, w1) \<Rightarrow> (Inl e, w1)
      | (Inr pods, w1) \<Rightarrow> selectorLoop dc ord rest (podLoop (ai_clientID i) (ord_pods ord pods) acc) w1)"

fun ownerLoop ::
  "'w detect_cmd \<Rightarrow> (owner_reference \<times> string) list \<Rightarrow> (client_object \<times> string) list \<Rightarrow> 'w \<Rightarrow>
   ((client_object \<times> string) list result \<times> 'w) option" where
  "ownerLoop dc [] results w = Some (Inr results, w)"
| "ownerLoop dc ((ref, clientID) # rest) results w =
     (case getOwner dc ref w of
        None \<Rightarrow> None
      | Some (Inl e, w1) \<Rightarrow> Some (Inl e, w1)
      | Some (Inr owner, w1) \<Rightarrow> ownerLoop dc rest (results @ [(owner, clientID)]) w1)"

fun fileLoop :: "'w detect_cmd \<Rightarrow> (client_object \<times> string) list \<Rightarrow> 'w \<Rightarrow> go_error option \<times> 'w" where
  "fileLoop dc [] w = (None, w)"
| "fileLoop dc ((obj, clientID) # rest) w =
     (case createServiceAccountFile dc (GetServiceAccountName obj) (om_name (metaOf obj)) clientID w of
        (Inl e, w1) \<Rightarrow> (Some e, w1)
      | (Inr sa, w1) \<Rightarrow>
          (case createResourceFile dc obj sa w1 of
             (Some e, w2) \<Rightarrow> (Some e, w2)
           | (None, w2) \<Rightarrow> fileLoop dc rest w2))"

definition detectRun :: "'w detect_cmd \<Rightarrow> detect_order \<Rightarrow> 'w \<Rightarrow> (go_error option \<times> 'w) option" where
  "detectRun dc ord w =
     (case ListAzureIdentityBinding (dc_kubeClient dc) (dc_namespace dc) w of
        (Inl e, w1) \<Rightarrow> Some (Some e, w1)
      | (Inr bindings, w1) \<Rightarrow>
          (case ListAzureIdentity (dc_kubeClient dc) (dc_namespace dc) w1 of
             (Inl e, w2) \<Rightarrow> Some (Some e, w2)
           | (Inr identities, w2) \<Rightarrow>
               (let labels = filterAzureIdentities bindings (identityMapLoop identities []) in
                case selectorLoop dc ord (ord_labels ord labels) ([], []) w2 of
                  (Inl e, w3) \<Rightarrow> Some (Some e, w3)
                | (Inr (owners, results), w3) \<Rightarrow>
                    (case ownerLoop dc (ord_owners ord owners) results w3 of
                       None \<Rightarrow> None
                     | Some (Inl e, w4) \<Rightarrow> Some (Some e, w4)
                     | Some (Inr all, w4) \<Rightarrow> Some (fileLoop dc (ord_results ord all) w4)))))"

end
