(* ===== verification/Proxy_Main.thy ===== *)
theory Proxy_Main
  imports Webhook_Correct Proxy_Correct Go_Flag Process_Info Detect
begin

section \<open>The process of the proxy (cmd/proxy/main.go) and its server (Run)\<close>

text \<open>
  The command line of the proxy, the order in which \<open>mainErr\<close> starts it, the life of its
  server until a signal ends it, and the contract with the two places that write its
  command line: the sidecar that the webhook injects and the one that \<open>detect\<close> adds.
\<close>

subsection \<open>The server\<close>

definition serverAddr :: "proxy \<Rightarrow> string" where
  "serverAddr p = localhost @ '':'' @ formatInt (px_port p)"

datatype signal = SIGTERM | SIGINT | OtherSignal string

text \<open>The signals that \<open>withShutdownSignal\<close> asks for (\<open>os.Interrupt\<close> is \<open>SIGINT\<close>).\<close>

definition shutdownSignals :: "signal list" where
  "shutdownSignals = [SIGTERM, SIGINT]"

definition errServerClosed :: go_error where
  "errServerClosed = GoError ''http: Server closed''"

text \<open>
  What happens to a running server: \<open>ListenAndServe\<close> returns an error in its goroutine,
  the process gets a signal, or \<open>Shutdown\<close> returns.
\<close>

datatype server_event = ListenReturned go_error | Signalled signal | ShutdownReturned "go_error option"

datatype run_state = Serving | ShuttingDown | RunReturned "go_error option" | RunPanicked go_error

fun runStep :: "run_state \<Rightarrow> server_event \<Rightarrow> run_state" where
  "runStep Serving (ListenReturned e) = (if e \<noteq> errServerClosed then RunPanicked e else Serving)"
| "runStep Serving (Signalled s) = (if s \<in> set shutdownSignals then ShuttingDown else Serving)"
| "runStep Serving (ShutdownReturned r) = Serving"
| "runStep ShuttingDown (ListenReturned e) = (if e \<noteq> errServerClosed then RunPanicked e else ShuttingDown)"
| "runStep ShuttingDown (Signalled s) = ShuttingDown"
| "runStep ShuttingDown (ShutdownReturned r) = RunReturned r"
| "runStep (RunReturned r) ev = RunReturned r"
| "runStep (RunPanicked e) ev = RunPanicked e"

definition runServer :: "server_event list \<Rightarrow> run_state" where
  "runServer evs = foldl runStep Serving evs"

subsection \<open>The process\<close>

definition proxyFlags :: flags where
  "proxyFlags =
     [(''proxy-port'', IntVal 8000), (''probe'', BoolVal False), (''log-level'', StringVal []),
      (''version'', BoolVal False)]"

text \<open>
  The calls of the process: printing the version, setting the log level, the probe's
  request with its error and its wait, the environment, and \<open>Run\<close> of the built proxy.
\<close>

record 'w proxy_process =
  pp_printVersion :: "('w, unit) io"
  pp_setLogLevel :: "string \<Rightarrow> ('w, unit) io"
  pp_newRequestErr :: "string \<Rightarrow> go_error option"
  pp_client :: "string \<Rightarrow> ('w, int) io"
  pp_sleep :: "'w \<Rightarrow> 'w"
  pp_getenv :: "string \<Rightarrow> string"
  pp_run :: "proxy \<Rightarrow> 'w \<Rightarrow> go_error option \<times> 'w"

definition ProbeProxy :: "'w proxy_process \<Rightarrow> int \<Rightarrow> 'w \<Rightarrow> go_error option \<times> 'w" where
  "ProbeProxy pp port w =
     (let url = probeURL port in probe (pp_newRequestErr pp url) (pp_client pp url) (pp_sleep pp) w)"

definition proxyMainErr :: "'w proxy_process \<Rightarrow> flags \<Rightarrow> 'w \<Rightarrow> go_error option \<times> 'w" where
  "proxyMainErr pp fs w =
     (if boolFlag fs ''version'' then
        (case pp_printVersion pp w of (Inl e, w1) \<Rightarrow> (Some e, w1) | (Inr _, w1) \<Rightarrow> (None, w1))
      else
        (case pp_setLogLevel pp (stringFlag fs ''log-level'') w of
           (Inl e, w1) \<Rightarrow> (Some (WrapError ''invalid --log-level set'' e), w1)
         | (Inr _, w1) \<Rightarrow>
             (let port = intFlag fs ''proxy-port'' in
              if boolFlag fs ''probe'' then
                (case ProbeProxy pp port w1 of
                   (Some e, w2) \<Rightarrow> (Some (WrapError ''failed to probe'' e), w2)
                 | (None, w2) \<Rightarrow> (None, w2))
              else
                (case NewProxy (pp_getenv pp) port of
                   Inl e \<Rightarrow> (Some (WrapError ''setup: failed to create proxy'' e), w1)
                 | Inr p \<Rightarrow>
                     (case pp_run pp p w1 of
                        (Some e, w2) \<Rightarrow> (Some (WrapError ''setup: failed to run proxy'' e), w2)
                      | (None, w2) \<Rightarrow> (None, w2))))))"

text \<open>How the process ends: a bad command line, success, or \<open>mlog.Fatal\<close>.\<close>

datatype exit_status = ExitUsage flag_error | ExitSuccess | ExitFatal go_error

definition proxyMain :: "'w proxy_process \<Rightarrow> string list \<Rightarrow> 'w \<Rightarrow> exit_status \<times> 'w" where
  "proxyMain pp args w =
     (case parseFlags proxyFlags args of
        Inl e \<Rightarrow> (ExitUsage e, w)
      | Inr (fs, rest) \<Rightarrow>
          (case proxyMainErr pp fs w of
             (Some e, w1) \<Rightarrow> (ExitFatal e, w1)
           | (None, w1) \<Rightarrow> (ExitSuccess, w1)))"

subsection \<open>The command line\<close>

definition proxyFlagValues :: "int \<Rightarrow> bool \<Rightarrow> string \<Rightarrow> flags" where
  "proxyFlagValues port isProbe level =
     [(''proxy-port'', IntVal port), (''probe'', BoolVal isProbe), (''log-level'', StringVal level),
      (''version'', BoolVal False)]"

lemma proxyFlags_values: "proxyFlags = proxyFlagValues 8000 False []"
  by (simp add: proxyFlags_def proxyFlagValues_def)

lemma proxyFlagValues_read [simp]:
  "intFlag (proxyFlagValues port pr level) ''proxy-port'' = port"
  "boolFlag (proxyFlagValues port pr level) ''probe'' = pr"
  "stringFlag (proxyFlagValues port pr level) ''log-level'' = level"
  "boolFlag (proxyFlagValues port pr level) ''version'' = False"
  by (simp_all add: intFlag_def boolFlag_def stringFlag_def proxyFlagValues_def)

lemma parse_port:
  assumes "- (2 ^ 31) \<le> port" and "port < 2 ^ 31"
  shows "parseFlags (proxyFlagValues old pr level) ((''--proxy-port='' @ formatInt port) # args) =
    parseFlags (proxyFlagValues port pr level) args"
proof -
  have "parseInt0 (formatInt port) 64 = Some port"
    using assms by (intro parseInt0_formatInt) simp_all
  then show ?thesis
    by (simp add: parseFlags.simps(2) cutFlag_def storeFlag_def proxyFlagValues_def)
qed

lemma parse_level:
  "parseFlags (proxyFlagValues port pr old) ((''--log-level='' @ level) # args) =
    parseFlags (proxyFlagValues port pr level) args"
  by (simp add: parseFlags.simps(2) cutFlag_def storeFlag_def proxyFlagValues_def)

lemma parse_probe:
  "parseFlags (proxyFlagValues port pr level) (''--probe'' # args) =
    parseFlags (proxyFlagValues port True level) args"
  by (simp add: parseFlags.simps(2) cutFlag_def proxyFlagValues_def)

lemmas parse_command_line = parse_port parse_level parse_probe

lemma sidecar_command:
  "ct_args (proxySidecarContainer m lvl port rp) =
     [''--proxy-port='' @ formatInt port, ''--log-level='' @ lvl]"
  "ct_lifecycle (proxySidecarContainer m lvl port rp) = Some (PostStartExec
     [''/proxy'', ''--proxy-port='' @ formatInt port, ''--probe'', ''--log-level='' @ lvl])"
  by (simp_all add: proxySidecarContainer_def)

lemma detect_command:
  "ct_args (detectProxyContainer dc) =
     [''--proxy-port='' @ formatInt (dc_proxyPort dc), ''--log-level='' @ ''info'']"
  "ct_lifecycle (detectProxyContainer dc) = Some (PostStartExec
     [''/proxy'', ''--proxy-port='' @ formatInt (dc_proxyPort dc), ''--probe'', ''--log-level='' @ ''info''])"
  by (simp_all add: detectProxyContainer_def)

text \<open>
  The proxy understands the command lines that are written for it.  For every port of 32
  bits, the arguments of the sidecar that the webhook injects, those of the container that
  \<open>detect\<close> adds, and the arguments of their post-start commands all parse, with no argument
  left over, to the port and the log level they were written with; the post-start commands
  ask for a probe, the arguments of the containers for a server.
\<close>

theorem command_line_roundtrip:
  assumes "- (2 ^ 31) \<le> port" and "port < 2 ^ 31"
  shows "parseFlags proxyFlags (ct_args (proxySidecarContainer m lvl port rp)) =
           Inr (proxyFlagValues port False lvl, []) \<and>
         (\<exists>cmd. ct_lifecycle (proxySidecarContainer m lvl port rp) = Some (PostStartExec (''/proxy'' # cmd)) \<and>
            parseFlags proxyFlags cmd = Inr (proxyFlagValues port True lvl, [])) \<and>
         (dc_proxyPort dc = port \<longrightarrow>
            parseFlags proxyFlags (ct_args (detectProxyContainer dc)) =
              Inr (proxyFlagValues port False ''info'', []) \<and>
            (\<exists>cmd. ct_lifecycle (detectProxyContainer dc) = Some (PostStartExec (''/proxy'' # cmd)) \<and>
               parseFlags proxyFlags cmd = Inr (proxyFlagValues port True ''info'', [])))"
proof -
  have args: "parseFlags proxyFlags [''--proxy-port='' @ formatInt port, ''--log-level='' @ level] =
      Inr (proxyFlagValues port False level, [])" for level
    by (simp only: proxyFlags_values parse_port [OF assms] parse_level) simp
  have probe: "parseFlags proxyFlags [''--proxy-port='' @ formatInt port, ''--probe'', ''--log-level='' @ level] =
      Inr (proxyFlagValues port True level, [])" for level
    by (simp only: proxyFlags_values parse_port [OF assms] parse_level parse_probe) simp
  show ?thesis
    by (intro conjI impI)
      (simp_all only: sidecar_command detect_command args probe option.inject lifecycle.inject list.inject simp_thms)
qed

theorem command_line_roundtrip_witness:
  "parseFlags proxyFlags [''--proxy-port=8080'', ''--log-level=''] = Inr (proxyFlagValues 8080 False [], [])"
proof -
  have port: "formatInt 8080 = ''8080''" by (simp add: formatInt_def showNat.simps digitChar_def char_of_def bit_iff_odd)
  have "- (2 ^ 31) \<le> (8080 :: int)" "(8080 :: int) < 2 ^ 31" by simp_all
  note command_line_roundtrip [OF this, of demoMutator "[]" None, THEN conjunct1]
  then show ?thesis
    unfolding sidecar_command port append.simps .
qed

subsection \<open>The server's life\<close>

lemma run_final [simp]:
  "foldl runStep (RunReturned r) evs = RunReturned r"
  "foldl runStep (RunPanicked e) evs = RunPanicked e"
  by (induction evs) auto

definition quietEvent :: "server_event \<Rightarrow> bool" where
  "quietEvent ev = (case ev of ListenReturned e \<Rightarrow> e = errServerClosed | _ \<Rightarrow> True)"

lemma run_shutting:
  "foldl runStep ShuttingDown evs = RunReturned r \<Longrightarrow>
    \<exists>bs cs. evs = bs @ ShutdownReturned r # cs \<and> list_all quietEvent bs"
proof (induction evs)
  case (Cons ev evs)
  show ?case
  proof (cases "foldl runStep ShuttingDown evs = RunReturned r \<and> quietEvent ev \<and> (\<forall>r'. ev \<noteq> ShutdownReturned r')")
    case True
    then obtain bs cs where "evs = bs @ ShutdownReturned r # cs" "list_all quietEvent bs"
      using Cons.IH by blast
    with True show ?thesis by (intro exI [of _ "ev # bs"] exI [of _ cs]) simp
  next
    case False
    with Cons.prems have "ev = ShutdownReturned r"
      by (cases ev) (auto simp: quietEvent_def split: if_splits)
    then show ?thesis by (intro exI [of _ "[]"] exI [of _ evs]) simp
  qed
qed simp

lemma run_serving:
  "foldl runStep Serving evs = RunReturned r \<Longrightarrow>
    \<exists>as s bs cs. evs = as @ Signalled s # bs @ ShutdownReturned r # cs \<and> s \<in> set shutdownSignals \<and>
      list_all quietEvent as \<and> list_all quietEvent bs"
proof (induction evs)
  case (Cons ev evs)
  show ?case
  proof (cases "runStep Serving ev = Serving")
    case True
    then have "quietEvent ev" by (cases ev) (auto simp: quietEvent_def split: if_splits)
    moreover from True Cons obtain as s bs cs where "evs = as @ Signalled s # bs @ ShutdownReturned r # cs"
      "s \<in> set shutdownSignals" "list_all quietEvent as" "list_all quietEvent bs" by auto
    ultimately show ?thesis
      by (intro exI [of _ "ev # as"] exI [of _ s] exI [of _ bs] exI [of _ cs]) simp
  next
    case False
    with Cons.prems obtain s where "ev = Signalled s" "s \<in> set shutdownSignals"
      "foldl runStep ShuttingDown evs = RunReturned r"
      by (cases ev) (auto split: if_splits)
    moreover from run_shutting [OF this(3)] obtain bs cs
      where "evs = bs @ ShutdownReturned r # cs" "list_all quietEvent bs" by blast
    ultimately show ?thesis
      by (intro exI [of _ "[]"] exI [of _ s] exI [of _ bs] exI [of _ cs]) simp
  qed
qed simp

text \<open>
  The server stops only when it is told to.  When \<open>Run\<close> has returned, the process
  got one of the two signals it asks for and \<open>Shutdown\<close> returned afterwards, with the
  error that \<open>Run\<close> returns; until then the listener failed with nothing but the error of a
  closed server, since any other failure panics.
\<close>

theorem run_returns_after_signal:
  assumes "runServer evs = RunReturned r"
  shows "\<exists>as s bs cs. evs = as @ Signalled s # bs @ ShutdownReturned r # cs \<and> s \<in> set shutdownSignals \<and>
    (\<forall>e. ListenReturned e \<in> set as \<union> set bs \<longrightarrow> e = errServerClosed)"
proof -
  obtain as s bs cs where "evs = as @ Signalled s # bs @ ShutdownReturned r # cs" "s \<in> set shutdownSignals"
    "list_all quietEvent as" "list_all quietEvent bs"
    using run_serving assms unfolding runServer_def by blast
  then show ?thesis
    by (intro exI [of _ as] exI [of _ s] exI [of _ bs] exI [of _ cs])
      (auto simp: list_all_iff quietEvent_def dest!: bspec)
qed

theorem run_returns_after_signal_witness:
  "\<exists>s \<in> set shutdownSignals. Signalled s \<in> set [Signalled SIGTERM, ListenReturned errServerClosed, ShutdownReturned None]"
proof -
  have "runServer [Signalled SIGTERM, ListenReturned errServerClosed, ShutdownReturned None] = RunReturned None"
    by (simp add: runServer_def shutdownSignals_def)
  from run_returns_after_signal [OF this] show ?thesis
    by (metis in_set_conv_decomp)
qed

subsection \<open>The probe of the sidecar\<close>

lemma probe_first:
  "probe None client sleep w =
     (case client w of
        (Inl e, w1) \<Rightarrow> (Some e, w1)
      | (Inr status, w1) \<Rightarrow> if status = 200 then (None, w1) else probeLoop 6 None client sleep (sleep w1))"
proof -
  have seven: "retryCount = Suc 6" by (simp add: retryCount_def)
  show ?thesis
    by (simp only: probe_def seven probeLoop.simps option.case)
qed

lemma probeURL_of_server: "probeURL (px_port p) = ''http://'' @ serverAddr p @ readyzPathPrefix"
  by (simp add: probeURL_def serverAddr_def)

lemma readyz_route: "routeOf readyzPathPrefix = ReadyzHandler"
  by (simp add: routeOf_def matchesTokenPath_def readyzPathPrefix_def)

lemma readyz_status: "statusOf (readyzHandler freshWriter) = Some 200"
  by (simp add: readyzHandler_def)

text \<open>
  The sidecar's post-start command asks the sidecar itself.  The command that the webhook
  writes into the sidecar for a port probes the address on which the proxy with that port
  listens, at a path that the proxy routes to its readiness handler; so when requests to
  that address reach the proxy, the command succeeds with its first request and changes
  nothing, and when the request fails (nothing listens yet) it fails at once.
\<close>

theorem post_start_probe:
  assumes port: "- (2 ^ 31) \<le> px_port p" "px_port p < 2 ^ 31"
    and cmd: "ct_lifecycle (proxySidecarContainer m lvl (px_port p) rp) = Some (PostStartExec (''/proxy'' # cmd))"
    and level: "pp_setLogLevel pp lvl w = (Inr (), w)"
    and request: "\<forall>url. pp_newRequestErr pp url = None"
  shows "((\<forall>path. routeOf path = ReadyzHandler \<longrightarrow>
             pp_client pp (''http://'' @ serverAddr p @ path) w = (Inr (the (statusOf (readyzHandler freshWriter))), w))
           \<longrightarrow> proxyMain pp cmd w = (ExitSuccess, w)) \<and>
         ((\<forall>path. pp_client pp (''http://'' @ serverAddr p @ path) w = (Inl e, w))
           \<longrightarrow> proxyMain pp cmd w = (ExitFatal (WrapError ''failed to probe'' e), w))"
proof -
  have "cmd = [''--proxy-port='' @ formatInt (px_port p), ''--probe'', ''--log-level='' @ lvl]"
    using cmd by (simp only: sidecar_command option.inject lifecycle.inject list.inject simp_thms)
  then have parse: "parseFlags proxyFlags cmd = Inr (proxyFlagValues (px_port p) True lvl, [])"
    by (simp only: proxyFlags_values parse_port [OF port] parse_level parse_probe) simp
  have main: "proxyMain pp cmd w =
      (case probe None (pp_client pp (probeURL (px_port p))) (pp_sleep pp) w of
         (Some e, w2) \<Rightarrow> (ExitFatal (WrapError ''failed to probe'' e), w2)
       | (None, w2) \<Rightarrow> (ExitSuccess, w2))"
    by (simp add: proxyMain_def parse proxyMainErr_def level ProbeProxy_def request Let_def
        split: prod.split option.split)
  show ?thesis
    using readyz_route by (simp add: main probe_first probeURL_of_server readyz_status)
qed

text \<open>A process whose requests to its own readiness path are answered with 200, for the witness.\<close>

definition demoProcess :: "unit proxy_process" where
  "demoProcess = \<lparr> pp_printVersion = (\<lambda>w. (Inr (), w)), pp_setLogLevel = (\<lambda>l w. (Inr (), w)),
     pp_newRequestErr = (\<lambda>url. None), pp_client = (\<lambda>url w. (Inr 200, w)), pp_sleep = id,
     pp_getenv = (\<lambda>n. []), pp_run = (\<lambda>p w. (None, w)) \<rparr>"

theorem post_start_probe_witness:
  "\<exists>cmd. ct_lifecycle (proxySidecarContainer demoMutator [] 8080 None) = Some (PostStartExec (''/proxy'' # cmd)) \<and>
     proxyMain demoProcess cmd () = (ExitSuccess, ())"
proof -
  define p where "p = \<lparr> px_port = 8080, px_tenantID = ''tenant'' \<rparr>"
  have port: "- (2 ^ 31) \<le> px_port p" "px_port p < 2 ^ 31" by (simp_all add: p_def)
  have "pp_setLogLevel demoProcess [] () = (Inr (), ())" "\<forall>url. pp_newRequestErr demoProcess url = None"
    by (simp_all add: demoProcess_def)
  from post_start_probe [OF port sidecar_command(2) this, THEN conjunct1]
  have "proxyMain demoProcess [''--proxy-port='' @ formatInt (px_port p), ''--probe'', ''--log-level='' @ []] () =
      (ExitSuccess, ())"
    by (simp add: demoProcess_def readyz_status)
  then show ?thesis
    unfolding sidecar_command by (auto simp: p_def)
qed

end
