(* ===== verification/Token_Client.thy ===== *)
theory Token_Client
  imports Go_Http Webhook_Annotations "HOL-Library.List_Lexorder" "HOL-Library.Char_ord"
begin

section \<open>The sample clients (examples/custom-token-endpoint-msal-go, examples/msal-go)\<close>

text \<open>
  The programs that show what a workload does with what the webhook gives it: they read the
  injected variables, keep the federated token in memory for five minutes, and exchange it
  for an access token with a form that is sent to the custom token endpoint.  The secret
  store, MSAL, the HTTP client, PEM and JSON are libraries, hence parameters.
\<close>

subsection \<open>url.Values\<close>

definition unreservedChar :: "char \<Rightarrow> bool" where
  "unreservedChar c =
     (let n = of_char c :: nat in
      48 \<le> n \<and> n \<le> 57 \<or> 65 \<le> n \<and> n \<le> 90 \<or> 97 \<le> n \<and> n \<le> 122 \<or> c \<in> set ''-_.~'')"

definition upperHexDigit :: "nat \<Rightarrow> char" where
  "upperHexDigit d = (if d < 10 then char_of (48 + d) else char_of (55 + d))"

text \<open>\<open>url.QueryEscape\<close>.\<close>

definition queryEscapeChar :: "char \<Rightarrow> string" where
  "queryEscapeChar c =
     (if c = CHR '' '' then ''+''
      else if unreservedChar c then [c]
      else [CHR ''%'', upperHexDigit (of_char c div 16), upperHexDigit (of_char c mod 16)])"

definition queryEscape :: "string \<Rightarrow> string" where
  "queryEscape s = concat (map queryEscapeChar s)"

text \<open>The values of a form by key; \<open>encodeValues\<close> is \<open>Values.Encode\<close>, which sorts the keys.\<close>

type_synonym form = "(string \<times> string list) list"

definition formAdd :: "string \<Rightarrow> string \<Rightarrow> form \<Rightarrow> form" where
  "formAdd k v q = AList.update k ((case map_of q k of None \<Rightarrow> [] | Some vs \<Rightarrow> vs) @ [v]) q"

definition formPairs :: "form \<Rightarrow> (string \<times> string) list" where
  "formPairs q = concat (map (\<lambda>(k, vs). map (Pair k) vs) q)"

definition encodeValues :: "form \<Rightarrow> string" where
  "encodeValues q =
     strJoin ''&'' (map (\<lambda>(k, v). queryEscape k @ ''='' @ queryEscape v) (formPairs (sort_key fst q)))"

lemma upperHexDigit_hex: "d < 16 \<Longrightarrow> hexVal (upperHexDigit d) = Some d"
  by (simp add: hexVal_def upperHexDigit_def)

lemma of_char_less_256: "(of_char c :: nat) < 256"
  by (metis char_of_mod_256 mod_less_divisor of_char_mod_256 zero_less_numeral)

lemma char_of_hex: "char_of (16 * ((of_char c :: nat) div 16) + of_char c mod 16) = c"
  by simp

lemma queryUnescape_plain: "c \<noteq> CHR ''%'' \<Longrightarrow> c \<noteq> CHR ''+'' \<Longrightarrow> queryUnescape (c # s) = map_option (Cons c) (queryUnescape s)"
  by simp

lemma unreserved_plain: "unreservedChar c \<Longrightarrow> c \<notin> {CHR ''%'', CHR ''+'', CHR ''&'', CHR ''='', CHR '';'', CHR '' ''}"
  by (auto simp: unreservedChar_def)

lemma queryUnescape_escapeChar: "queryUnescape (queryEscapeChar c @ s) = map_option (Cons c) (queryUnescape s)"
proof -
  have "(of_char c :: nat) div 16 < 16" using of_char_less_256 [of c] by linarith
  then have hex: "hexVal (upperHexDigit (of_char c div 16)) = Some (of_char c div 16)"
    "hexVal (upperHexDigit (of_char c mod 16)) = Some (of_char c mod 16)"
    by (auto intro: upperHexDigit_hex)
  have percent: "queryUnescape ([CHR ''%'', upperHexDigit (of_char c div 16), upperHexDigit (of_char c mod 16)] @ s)
      = map_option (Cons c) (queryUnescape s)"
    by (simp add: hex)
  show ?thesis
    using percent unreserved_plain [of c] queryUnescape_plain [of c s]
    by (auto simp only: queryEscapeChar_def append_Cons append_Nil split: if_splits) simp
qed

lemma queryUnescape_escape: "queryUnescape (queryEscape s) = Some s"
  by (induction s) (simp_all add: queryEscape_def queryUnescape_escapeChar)

lemma escape_no_sep:
  assumes "c \<in> set (queryEscape s)"
  shows "c \<notin> {CHR ''&'', CHR ''='', CHR '';''}"
proof -
  have hex: "upperHexDigit d \<notin> {CHR ''&'', CHR ''='', CHR '';''}" if "d < 16" for d
    using upperHexDigit_hex [OF that] by (auto simp: hexVal_def split: if_splits)
  obtain x where x: "c \<in> set (queryEscapeChar x)" using assms by (auto simp: queryEscape_def)
  have "(of_char x :: nat) div 16 < 16" "(of_char x :: nat) mod 16 < 16"
    using of_char_less_256 [of x] by (linarith, simp)
  then show ?thesis
    using x hex unreserved_plain [of x] by (auto simp: queryEscapeChar_def split: if_splits)
qed

lemma queryPair_escaped: "queryPair (queryEscape k @ CHR ''='' # queryEscape v) = Some (k, v)"
proof -
  have "strCut (CHR ''='') (queryEscape k @ CHR ''='' # queryEscape v) = (queryEscape k, queryEscape v)"
    using escape_no_sep [of _ k] by (simp add: strCut_def takeWhile_append2 dropWhile_append2)
  moreover have "CHR '';'' \<notin> set (queryEscape k @ CHR ''='' # queryEscape v)"
    using escape_no_sep by auto
  ultimately show ?thesis by (simp add: queryPair_def queryUnescape_escape)
qed

text \<open>A form is read back as its pairs, in the order of its keys.\<close>

lemma parseQuery_encodeValues: "parseQuery (encodeValues q) = formPairs (sort_key fst q)"
proof -
  let ?segs = "map (\<lambda>(k, v). queryEscape k @ ''='' @ queryEscape v) (formPairs (sort_key fst q))"
  have pairs: "List.map_filter queryPair (map (\<lambda>(k, v). queryEscape k @ ''='' @ queryEscape v) ps) = ps" for ps
    by (induction ps) (auto simp: List.map_filter_def queryPair_escaped)
  show ?thesis
  proof (cases "?segs = []")
    case True
    then show ?thesis by (simp add: encodeValues_def parseQuery_def queryPair_def List.map_filter_def)
  next
    case False
    have "\<forall>w \<in> set ?segs. CHR ''&'' \<notin> set w"
      using escape_no_sep by fastforce
    with False have "strSplit (CHR ''&'') (strJoin ''&'' ?segs) = ?segs"
      by (intro strSplit_join)
    then show ?thesis by (simp only: encodeValues_def parseQuery_def pairs)
  qed
qed

subsection \<open>The federated token in memory\<close>

text \<open>
  The fields of \<open>clientAssertionCredential\<close>; instants are nanoseconds after the zero time, so a
  credential that was never read has \<open>ac_lastRead\<close> 0.  The HTTP client of a credential is
  what it overrides in the default transport: the server name and the certificates trusted.  The mutex makes each call of
  \<open>getAssertion\<close> one step; the sample without it relies on one caller.
\<close>

record token_client =
  tc_serverName :: string
  tc_rootCAs :: string

record assertion_credential =
  ac_assertion :: string
  ac_tokenFile :: string
  ac_tokenEndpoint :: string
  ac_lastRead :: int
  ac_clientID :: string
  ac_tokenClient :: token_client

definition readInterval :: int where "readInterval = 5 * 60 * second"

text \<open>
  The outside of the samples: the clock, files, the test of a CA bundle, the type of the
  default transport, the parser of the endpoint, the HTTP client and the JSON decoder.
\<close>

record token_request =
  tr_method :: string
  tr_url :: string
  tr_query :: string

record token_reply =
  ty_status :: int
  ty_body :: string

record 'w token_env =
  te_now :: "'w \<Rightarrow> int \<times> 'w"
  te_readFile :: "string \<Rightarrow> ('w, string) io"
  te_appendCerts :: "string \<Rightarrow> bool"
  te_transportOK :: bool
  te_newRequestErr :: "string \<Rightarrow> go_error option"
  te_do :: "token_client \<Rightarrow> token_request \<Rightarrow> ('w, token_reply) io"
  te_decode :: "string \<Rightarrow> (string \<times> int) result"
  te_quote :: "string \<Rightarrow> string"

definition getAssertion ::
  "'w token_env \<Rightarrow> assertion_credential \<Rightarrow> 'w \<Rightarrow> string result \<times> assertion_credential \<times> 'w" where
  "getAssertion env c w =
     (case te_now env w of (now, w1) \<Rightarrow>
        if ac_lastRead c + readInterval < now then
          (case te_readFile env (ac_tokenFile c) w1 of
             (Inl e, w2) \<Rightarrow> (Inl e, c, w2)
           | (Inr content, w2) \<Rightarrow>
               (Inr content, c \<lparr> ac_assertion := content, ac_lastRead := now \<rparr>, w2))
        else (Inr (ac_assertion c), c, w1))"

definition createTokenHTTPClient :: "'w token_env \<Rightarrow> string \<Rightarrow> string \<Rightarrow> ('w, token_client) io" where
  "createTokenHTTPClient env sni caFile w =
     (case te_readFile env caFile w of
        (Inl e, w1) \<Rightarrow> (Inl (WrapError (''failed to read CA file '' @ te_quote env caFile) e), w1)
      | (Inr caCert, w1) \<Rightarrow>
          if \<not> te_appendCerts env caCert
          then (Inl (GoError (''failed to append CA certs from PEM from '' @ te_quote env caFile)), w1)
          else if \<not> te_transportOK env
          then (Inl (GoError ''default transport is not of type *http.Transport''), w1)
          else (Inr \<lparr> tc_serverName = sni, tc_rootCAs = caCert \<rparr>, w1))"

definition newClientAssertionCredential ::
  "'w token_env \<Rightarrow> string \<Rightarrow> string \<Rightarrow> string \<Rightarrow> string \<Rightarrow> string \<Rightarrow> ('w, assertion_credential) io" where
  "newClientAssertionCredential env clientID tokenEndpoint sni caFile tokenFile w =
     (case createTokenHTTPClient env sni caFile w of
        (Inl e, w1) \<Rightarrow> (Inl (WrapError ''failed to create token transport'' e), w1)
      | (Inr tokenHTTPClient, w1) \<Rightarrow>
          (Inr \<lparr> ac_assertion = [], ac_tokenFile = tokenFile, ac_tokenEndpoint = tokenEndpoint,
                 ac_lastRead = 0, ac_clientID = clientID, ac_tokenClient = tokenHTTPClient \<rparr>, w1))"

subsection \<open>The exchange\<close>

definition tokenForm :: "assertion_credential \<Rightarrow> string \<Rightarrow> string list \<Rightarrow> form" where
  "tokenForm c assertion scopes =
     formAdd ''client_id'' (ac_clientID c)
       (formAdd ''client_assertion'' assertion
         (formAdd ''scope'' (strJoin '' '' scopes)
           (formAdd ''client_assertion_type'' ''urn:ietf:params:oauth:client-assertion-type:jwt-bearer''
             (formAdd ''grant_type'' ''client_credentials'' []))))"

definition tokenRequest :: "assertion_credential \<Rightarrow> string \<Rightarrow> string list \<Rightarrow> token_request" where
  "tokenRequest c assertion scopes =
     \<lparr> tr_method = ''POST'', tr_url = ac_tokenEndpoint c, tr_query = encodeValues (tokenForm c assertion scopes) \<rparr>"

text \<open>\<open>time.Duration(n) * time.Second\<close>: the product of 64-bit integers wraps around.\<close>

definition wrap64 :: "int \<Rightarrow> int" where
  "wrap64 x = (x + 2 ^ 63) mod 2 ^ 64 - 2 ^ 63"

definition GetToken ::
  "'w token_env \<Rightarrow> assertion_credential \<Rightarrow> string list \<Rightarrow> 'w
     \<Rightarrow> (string \<times> int) result \<times> assertion_credential \<times> 'w" where
  "GetToken env c scopes w =
     (case getAssertion env c w of
        (Inl e, c1, w1) \<Rightarrow> (Inl (WrapError ''failed to get assertion'' e), c1, w1)
      | (Inr assertion, c1, w1) \<Rightarrow>
          (case te_newRequestErr env (ac_tokenEndpoint c1) of
             Some e \<Rightarrow> (Inl (WrapError ''failed to create request'' e), c1, w1)
           | None \<Rightarrow>
               (case te_do env (ac_tokenClient c1) (tokenRequest c1 assertion scopes) w1 of
                  (Inl e, w2) \<Rightarrow> (Inl (WrapError ''failed to send request'' e), c1, w2)
                | (Inr resp, w2) \<Rightarrow>
                    if ty_status resp \<noteq> 200
                    then (Inl (GoError (''unexpected status code '' @ formatInt (ty_status resp) @
                            '' from token endpoint: '' @ ty_body resp)), c1, w2)
                    else
                      (case te_decode env (ty_body resp) of
                         Inl e \<Rightarrow> (Inl (WrapError ''failed to decode token response'' e), c1, w2)
                       | Inr (accessToken, expiresIn) \<Rightarrow>
                           (case te_now env w2 of
                              (now, w3) \<Rightarrow> (Inr (accessToken, now + wrap64 (expiresIn * second)), c1, w3))))))"

subsection \<open>The programs\<close>

text \<open>\<open>klog.Fatal\<close> ends the process; the other failures are returned.\<close>

datatype 'a started = Fatal string | Failed go_error | Started 'a

definition envNotSet :: "string \<Rightarrow> string" where
  "envNotSet n = n @ '' environment variable is not set''"

text \<open>The chain of tests of a sample: the first variable that is empty is fatal.\<close>

fun requireEnv :: "(string \<Rightarrow> string) \<Rightarrow> string list \<Rightarrow> string option" where
  "requireEnv getenv [] = None"
| "requireEnv getenv (n # ns) = (if getenv n = [] then Some (envNotSet n) else requireEnv getenv ns)"

definition customEnvVars :: "string list" where
  "customEnvVars =
     [''AZURE_CLIENT_ID'', ''AZURE_FEDERATED_TOKEN_FILE'', ''AZURE_KUBERNETES_TOKEN_PROXY'',
      ''AZURE_KUBERNETES_SNI_NAME'', ''AZURE_KUBERNETES_CA_FILE'']"

definition createCredentialFromEnv ::
  "'w token_env \<Rightarrow> (string \<Rightarrow> string) \<Rightarrow> 'w \<Rightarrow> assertion_credential started \<times> 'w" where
  "createCredentialFromEnv env getenv w =
     (case requireEnv getenv customEnvVars of
        Some msg \<Rightarrow> (Fatal msg, w)
      | None \<Rightarrow>
          (case newClientAssertionCredential env (getenv ''AZURE_CLIENT_ID'')
                  (getenv ''AZURE_KUBERNETES_TOKEN_PROXY'') (getenv ''AZURE_KUBERNETES_SNI_NAME'')
                  (getenv ''AZURE_KUBERNETES_CA_FILE'') (getenv ''AZURE_FEDERATED_TOKEN_FILE'') w of
             (Inl e, w1) \<Rightarrow> (Failed e, w1)
           | (Inr cred, w1) \<Rightarrow> (Started cred, w1)))"

text \<open>
  The sample without the custom endpoint: MSAL's client is made for an authority, which is the
  injected host joined with the tenant.
\<close>

definition msalEnvVars :: "string list" where
  "msalEnvVars = [''AZURE_CLIENT_ID'', ''AZURE_TENANT_ID'', ''AZURE_FEDERATED_TOKEN_FILE'', ''AZURE_AUTHORITY_HOST'']"

definition newMsalCredential ::
  "(string \<Rightarrow> string \<Rightarrow> string result) \<Rightarrow> (string \<Rightarrow> string \<Rightarrow> 'm result) \<Rightarrow> string \<Rightarrow> string \<Rightarrow> string \<Rightarrow> 'm result" where
  "newMsalCredential joinPath newClient tenantID clientID authorityHost =
     (case joinPath authorityHost tenantID of
        Inl e \<Rightarrow> Inl (WrapError ''failed to construct authority URL'' e)
      | Inr authority \<Rightarrow>
          (case newClient authority clientID of
             Inl e \<Rightarrow> Inl (WrapError ''failed to create confidential client'' e)
           | Inr client \<Rightarrow> Inr client))"

text \<open>The variables of the samples' own configuration come first.\<close>

definition sampleEnvVars :: "string list" where
  "sampleEnvVars = [''KEYVAULT_URL'', ''SECRET_NAME'']"

definition startMsalSample ::
  "(string \<Rightarrow> string \<Rightarrow> string result) \<Rightarrow> (string \<Rightarrow> string \<Rightarrow> 'm result) \<Rightarrow> (string \<Rightarrow> string) \<Rightarrow> 'm started" where
  "startMsalSample joinPath newClient getenv =
     (case requireEnv getenv (sampleEnvVars @ msalEnvVars) of
        Some msg \<Rightarrow> Fatal msg
      | None \<Rightarrow>
          (case newMsalCredential joinPath newClient (getenv ''AZURE_TENANT_ID'') (getenv ''AZURE_CLIENT_ID'')
                  (getenv ''AZURE_AUTHORITY_HOST'') of
             Inl e \<Rightarrow> Failed e
           | Inr client \<Rightarrow> Started client))"

definition startCustomSample ::
  "'w token_env \<Rightarrow> (string \<Rightarrow> string) \<Rightarrow> 'w \<Rightarrow> assertion_credential started \<times> 'w" where
  "startCustomSample env getenv w =
     (case requireEnv getenv sampleEnvVars of
        Some msg \<Rightarrow> (Fatal msg, w)
      | None \<Rightarrow> createCredentialFromEnv env getenv w)"

text \<open>
  The loop of both programs: the secret is read again after a minute, until that fails; the
  result is the error with which the process exits.
\<close>

partial_function (option) pollSecrets ::
  "('w, string) io \<Rightarrow> ('w \<Rightarrow> 'w) \<Rightarrow> 'w \<Rightarrow> (go_error \<times> 'w) option" where
  "pollSecrets getSecret sleep w =
     (case getSecret w of
        (Inl e, w1) \<Rightarrow> Some (e, w1)
      | (Inr secret, w1) \<Rightarrow> pollSecrets getSecret sleep (sleep w1))"

text \<open>
  \<open>main\<close> of both programs: from the credential to the client of the secret store and the loop.
  Every way out is a failure; \<open>None\<close> is the loop that goes on for ever.
\<close>

datatype sample_exit = FatalExit string | FatalError go_error | PollFailed go_error

definition sampleMain ::
  "'c started \<times> 'w \<Rightarrow> ('c \<Rightarrow> ('w, 'k) io) \<Rightarrow> ('k \<Rightarrow> ('w, string) io) \<Rightarrow> ('w \<Rightarrow> 'w) \<Rightarrow> (sample_exit \<times> 'w) option" where
  "sampleMain started newClient getSecret sleep =
     (case started of
        (Fatal msg, w) \<Rightarrow> Some (FatalExit msg, w)
      | (Failed e, w) \<Rightarrow> Some (FatalError e, w)
      | (Started cred, w) \<Rightarrow>
          (case newClient cred w of
             (Inl e, w1) \<Rightarrow> Some (FatalError e, w1)
           | (Inr client, w1) \<Rightarrow>
               (case pollSecrets (getSecret client) sleep w1 of
                  None \<Rightarrow> None
                | Some (e, w2) \<Rightarrow> Some (PollFailed e, w2))))"

text \<open>\<open>GetToken\<close> of the MSAL sample: the token and its expiry are those of the library.\<close>

definition msalGetToken ::
  "(string list \<Rightarrow> ('w, string \<times> int) io) \<Rightarrow> string list \<Rightarrow> ('w, string \<times> int) io" where
  "msalGetToken acquireTokenByCredential scopes w =
     (case acquireTokenByCredential scopes w of
        (Inl e, w1) \<Rightarrow> (Inl e, w1)
      | (Inr (accessToken, expiresOn), w1) \<Rightarrow> (Inr (accessToken, expiresOn), w1))"

subsection \<open>The request\<close>

lemma token_form_pairs:
  "formPairs (sort_key fst (tokenForm c assertion scopes)) =
     [(''client_assertion'', assertion),
      (''client_assertion_type'', ''urn:ietf:params:oauth:client-assertion-type:jwt-bearer''),
      (''client_id'', ac_clientID c), (''grant_type'', ''client_credentials''),
      (''scope'', strJoin '' '' scopes)]"
  by (simp add: tokenForm_def formAdd_def formPairs_def less_eq_char_def less_char_def)

text \<open>
  C36: The token endpoint reads what the sample means.  The request is a POST to the configured
  endpoint, and its query, read back as the endpoint reads it, has exactly the five parameters
  of a client-credentials grant, with the assertion, the client id and the scopes unchanged
  whatever bytes they are made of.
\<close>

theorem token_request_form:
  "let r = tokenRequest c assertion scopes in
   tr_method r = ''POST'' \<and> tr_url r = ac_tokenEndpoint c \<and>
   parseQuery (tr_query r) =
     [(''client_assertion'', assertion),
      (''client_assertion_type'', ''urn:ietf:params:oauth:client-assertion-type:jwt-bearer''),
      (''client_id'', ac_clientID c), (''grant_type'', ''client_credentials''),
      (''scope'', strJoin '' '' scopes)] \<and>
   queryGet (tr_query r) ''client_assertion'' = assertion \<and> queryGet (tr_query r) ''client_id'' = ac_clientID c"
  by (simp add: tokenRequest_def Let_def parseQuery_encodeValues token_form_pairs queryGet_def)

subsection \<open>Freshness\<close>

text \<open>
  A run of calls of \<open>getAssertion\<close>: call \<open>i\<close> happens at the instant \<open>clk i\<close>, when reading
  the file \<open>f\<close> gives \<open>files f i\<close>.
\<close>

definition clockEnv :: "(nat \<Rightarrow> int) \<Rightarrow> (string \<Rightarrow> nat \<Rightarrow> string result) \<Rightarrow> nat token_env \<Rightarrow> nat token_env" where
  "clockEnv clk files env = env \<lparr> te_now := (\<lambda>i. (clk i, i)), te_readFile := (\<lambda>f i. (files f i, i)) \<rparr>"

primrec credentialAt :: "nat token_env \<Rightarrow> assertion_credential \<Rightarrow> nat \<Rightarrow> assertion_credential" where
  "credentialAt env c 0 = c"
| "credentialAt env c (Suc i) = fst (snd (getAssertion env (credentialAt env c i) i))"

definition assertionAt :: "nat token_env \<Rightarrow> assertion_credential \<Rightarrow> nat \<Rightarrow> string result" where
  "assertionAt env c i = fst (getAssertion env (credentialAt env c i) i)"

lemma getAssertion_clock:
  "getAssertion (clockEnv clk files env) c i =
     (if ac_lastRead c + readInterval < clk i then
        (case files (ac_tokenFile c) i of
           Inl e \<Rightarrow> (Inl e, c, i)
         | Inr a \<Rightarrow> (Inr a, c \<lparr> ac_assertion := a, ac_lastRead := clk i \<rparr>, i))
      else (Inr (ac_assertion c), c, i))"
  by (simp add: getAssertion_def clockEnv_def split: sum.split)

lemma credential_file: "ac_tokenFile (credentialAt (clockEnv clk files env) c n) = ac_tokenFile c"
  by (induction n) (simp_all add: getAssertion_clock split: sum.split)

lemma credential_read_at:
  "ac_lastRead (credentialAt (clockEnv clk files env) c n) = ac_lastRead c \<or>
   (\<exists>j < n. files (ac_tokenFile c) j = Inr (ac_assertion (credentialAt (clockEnv clk files env) c n)) \<and>
      clk j = ac_lastRead (credentialAt (clockEnv clk files env) c n))"
proof (induction n)
  case (Suc n)
  then show ?case
    by (auto simp: getAssertion_clock credential_file less_Suc_eq split: sum.split)
qed simp

text \<open>
  C37: The assertion is fresh.  Starting with a credential that was never read, whenever the
  clock is past the first five minutes, every assertion that \<open>getAssertion\<close> returns is the
  content that its token file had at this call or at an earlier one that lies at most five
  minutes back; an error is the error of reading the file at this call and leaves the
  credential as it was.
\<close>

theorem assertion_fresh:
  assumes "ac_lastRead c = 0" and "\<forall>i. readInterval < clk i"
  shows "(\<forall>a. assertionAt (clockEnv clk files env) c n = Inr a \<longrightarrow>
            (\<exists>j \<le> n. files (ac_tokenFile c) j = Inr a \<and> clk n - clk j \<le> readInterval)) \<and>
         (\<forall>e. assertionAt (clockEnv clk files env) c n = Inl e \<longrightarrow> files (ac_tokenFile c) n = Inl e \<and>
            credentialAt (clockEnv clk files env) c (Suc n) = credentialAt (clockEnv clk files env) c n)"
proof -
  let ?c = "credentialAt (clockEnv clk files env) c n"
  have pos: "0 \<le> readInterval" by (simp add: readInterval_def second_def)
  have kept: "\<exists>j \<le> n. files (ac_tokenFile c) j = Inr (ac_assertion ?c) \<and> clk n - clk j \<le> readInterval"
    if "\<not> ac_lastRead ?c + readInterval < clk n"
  proof -
    have "ac_lastRead ?c \<noteq> ac_lastRead c"
    proof
      assume "ac_lastRead ?c = ac_lastRead c"
      with that assms(1) have "clk n \<le> readInterval" by linarith
      with assms(2) show False by (meson not_less)
    qed
    then obtain j where j: "j < n" "files (ac_tokenFile c) j = Inr (ac_assertion ?c)" "clk j = ac_lastRead ?c"
      using credential_read_at by blast
    from j(1) have "j \<le> n" by simp
    moreover from that j(3) have "clk n - clk j \<le> readInterval" by linarith
    ultimately show ?thesis using j(2) by blast
  qed
  show ?thesis
    using kept pos by (auto simp: assertionAt_def getAssertion_clock credential_file split: sum.splits if_splits)
qed

subsection \<open>The expiry\<close>

lemma wrap64_id: "- (2 ^ 63) \<le> x \<Longrightarrow> x < 2 ^ 63 \<Longrightarrow> wrap64 x = x"
  by (simp add: wrap64_def)

text \<open>
  A token that is returned was issued for this exchange, and when it expires.  The access
  token and its lifetime are those that the endpoint answered, with status 200, to the
  request made with the assertion; the expiry is that many seconds after the answer was
  handled for every lifetime up to 9223372036 seconds, and for one second more the product
  of the durations wraps around and the expiry lies in the past.
\<close>

theorem GetToken_success:
  assumes "GetToken env c scopes w = (Inr (tok, expiresOn), c', w')"
  shows "\<exists>assertion w1 resp w2 n now.
    getAssertion env c w = (Inr assertion, c', w1) \<and>
    te_do env (ac_tokenClient c') (tokenRequest c' assertion scopes) w1 = (Inr resp, w2) \<and> ty_status resp = 200 \<and>
    te_decode env (ty_body resp) = Inr (tok, n) \<and> te_now env w2 = (now, w') \<and>
    (0 \<le> n \<and> n \<le> 9223372036 \<longrightarrow> expiresOn = now + n * second) \<and>
    (n = 9223372037 \<longrightarrow> expiresOn < now)"
proof -
  from assms obtain assertion w1 resp w2 n now where
    "getAssertion env c w = (Inr assertion, c', w1)"
    "te_do env (ac_tokenClient c') (tokenRequest c' assertion scopes) w1 = (Inr resp, w2)" "ty_status resp = 200"
    "te_decode env (ty_body resp) = Inr (tok, n)" "te_now env w2 = (now, w')"
    and e: "expiresOn = now + wrap64 (n * second)"
    by (auto simp: GetToken_def split: prod.splits sum.splits option.splits if_splits)
  moreover have "0 \<le> n \<and> n \<le> 9223372036 \<longrightarrow> wrap64 (n * second) = n * second"
    by (intro impI wrap64_id) (simp_all add: second_def)
  moreover have "wrap64 (9223372037 * second) < 0"
    by (simp add: wrap64_def second_def)
  ultimately show ?thesis
    by (intro exI [of _ assertion] exI [of _ w1] exI [of _ resp] exI [of _ w2] exI [of _ n] exI [of _ now]) auto
qed

text \<open>An endpoint that answers every request with a token for an hour, for the witnesses.\<close>

definition demoTokenEnv :: "nat token_env" where
  "demoTokenEnv = \<lparr> te_now = (\<lambda>i. (600 * second, i)), te_readFile = (\<lambda>_ i. (Inr ''jwt'', i)),
     te_appendCerts = (\<lambda>_. True), te_transportOK = True, te_newRequestErr = (\<lambda>_. None),
     te_do = (\<lambda>cl r i. (Inr \<lparr> ty_status = 200, ty_body = ''{}'' \<rparr>, i)),
     te_decode = (\<lambda>_. Inr (''access'', 3600)), te_quote = (\<lambda>s. s) \<rparr>"

definition demoCredential :: assertion_credential where
  "demoCredential = \<lparr> ac_assertion = [], ac_tokenFile = ''/token'', ac_tokenEndpoint = ''https://endpoint'',
     ac_lastRead = 0, ac_clientID = ''client'',
     ac_tokenClient = \<lparr> tc_serverName = ''sni'', tc_rootCAs = ''ca'' \<rparr> \<rparr>"

definition demoClock :: "nat \<Rightarrow> int" where
  "demoClock i = 301 * second + int i"

definition demoFiles :: "string \<Rightarrow> nat \<Rightarrow> string result" where
  "demoFiles f i =
     (if f = ''/token'' then Inr (if i = 0 then ''first'' else ''second'') else Inl (GoError ''no such file''))"

theorem assertion_fresh_witness:
  "assertionAt (clockEnv demoClock demoFiles demoTokenEnv) demoCredential 1 = Inr ''first'' \<and>
   (\<exists>j \<le> 1. demoFiles ''/token'' j = Inr ''first'' \<and> demoClock 1 - demoClock j \<le> readInterval)"
proof -
  have late: "\<forall>i. readInterval < demoClock i" by (simp add: demoClock_def readInterval_def second_def)
  have never: "ac_lastRead demoCredential = 0" by (simp add: demoCredential_def)
  have tokenFile: "ac_tokenFile demoCredential = ''/token''" by (simp add: demoCredential_def)
  have "assertionAt (clockEnv demoClock demoFiles demoTokenEnv) demoCredential 1 = Inr ''first''"
    by (simp add: assertionAt_def getAssertion_clock demoClock_def demoFiles_def demoCredential_def
        readInterval_def second_def)
  with assertion_fresh [OF never late, of demoFiles demoTokenEnv 1] show ?thesis unfolding tokenFile by blast
qed

theorem GetToken_success_witness:
  "\<exists>c'. GetToken demoTokenEnv demoCredential [''scope''] 0 = (Inr (''access'', 600 * second + 3600 * second), c', 0)"
proof -
  obtain e c' where g: "GetToken demoTokenEnv demoCredential [''scope''] 0 = (Inr (''access'', e), c', 0)"
    by (simp add: GetToken_def getAssertion_def demoTokenEnv_def demoCredential_def readInterval_def second_def)
  from GetToken_success [OF g] have "e = 600 * second + 3600 * second"
    by (auto simp: demoTokenEnv_def)
  with g show ?thesis by blast
qed

end
