(* ===== verification/End_To_End.thy ===== *)
theory End_To_End
  imports Webhook_Correct Proxy_Main Token_Client Kube_Helper
begin

section \<open>From the service account to the workload\<close>

text \<open>
  The chain across components: the account that the create command writes, the pod that the
  webhook mutates for it, and the processes of the pod, which are a sample client and the
  injected proxy.  The platform starts a container's process with the container's variables
  (\<open>runsWith\<close>); it expands references, which start with a dollar, and takes the last of
  several variables of one name, so the contract speaks of plain values of unique names.
\<close>

definition plainValue :: "string \<Rightarrow> bool" where
  "plainValue v \<longleftrightarrow> v \<noteq> [] \<and> CHR ''$'' \<notin> set v"

definition runsWith :: "container \<Rightarrow> (string \<Rightarrow> string) \<Rightarrow> bool" where
  "runsWith c getenv \<longleftrightarrow>
     (\<forall>v \<in> set (ct_env c). ev_rest v = None \<and> plainValue (ev_value v) \<and>
        (\<forall>u \<in> set (ct_env c). ev_name u = ev_name v \<longrightarrow> u = v) \<longrightarrow> getenv (ev_name v) = ev_value v)"

lemma injected_variable:
  assumes run: "runsWith (mutateContainer m cid tid skip cte vol c) getenv"
    and c: "ct_name c \<notin> skip" "n \<notin> ev_name ` set (ct_env c)"
    and d: "envVar n v \<in> set (desiredEnvs m cid tid (pm_azureAuthorityHost m) cte)" "plainValue v"
  shows "getenv n = v"
proof -
  let ?ds = "desiredEnvs m cid tid (pm_azureAuthorityHost m) cte"
  let ?env = "ct_env (mutateContainer m cid tid skip cte vol c)"
  have env: "?env = ct_env c @ filter (\<lambda>d. ev_name d \<notin> ev_name ` set (ct_env c) \<and> ev_value d \<noteq> []) ?ds"
    using c(1) by (simp add: mutateContainer_def frame_simps addEnvironmentVariables_env)
  have fields: "ev_name (envVar n v) = n" "ev_value (envVar n v) = v" "ev_rest (envVar n v) = None"
    by (simp_all add: envVar_def)
  have mem: "envVar n v \<in> set ?env" using c(2) d by (simp add: env fields plainValue_def)
  have "u = envVar n v" if "u \<in> set ?env" "ev_name u = n" for u
  proof -
    have "u \<in> set ?ds" using that c(2) by (auto simp: env)
    moreover have "inj_on ev_name (set ?ds)" using desiredEnvs_distinct by (simp add: distinct_map)
    ultimately show ?thesis using d(1) that(2) fields(1) by (simp add: inj_on_def)
  qed
  then show ?thesis using run mem d(2) unfolding runsWith_def by (metis fields)
qed

lemma mutated_container:
  assumes "mutatePod m lvl sa p = Inr p'" and "c \<in> set (ps_containers (pod_spec p))"
  shows "mutateContainer m (getClientID sa) (getTenantID sa (pm_config m)) (getSkipContainers p)
      (isUsingCustomTokenEndpoint m p) (volumeOf p) c \<in> set (ps_containers (pod_spec p'))"
proof -
  obtain q e where q: "injectProxy m lvl p = Inr q" and p': "p' = finishPod m sa e q"
    using assms(1) by (rule mutatePod_InrE)
  have "c \<in> set (ps_containers (pod_spec q))"
    using injectProxy_containers [OF q] assms(2) by auto
  then show ?thesis
    by (simp add: p' finishPod_spec mutatedContainers_def mutateContainers_def
        same_meta_reads [OF injectProxy_frame(1) [OF q]])
qed

lemma newServiceAccount_reads:
  "getClientID (newServiceAccount ns n clientID tenantID d) = clientID"
  "getTenantID (newServiceAccount ns n clientID tenantID d) cfg = tenantID"
  by (simp_all add: newServiceAccount_def getClientID_def getTenantID_def annotation_keys_distinct
      smap_get_def smap_set_def update_conv' Let_def)

subsection \<open>The sample clients start\<close>

definition tokenFile :: string where
  "tokenFile = filepathJoin [VolumeMountPath, TokenFilePath]"

definition caFile :: string where
  "caFile = filepathJoin [VolumeMountPath, CAFilePath]"

lemma file_values: "plainValue tokenFile" "plainValue caFile"
  by (simp_all add: plainValue_def tokenFile_def caFile_def VolumeMountPath_def TokenFilePath_def CAFilePath_def
      filepathJoin_def filepathClean_def)

text \<open>The names of the variables that the webhook sets for a pod.\<close>

definition injectedNames :: "string set" where
  "injectedNames = set msalEnvVars \<union> set customEnvVars"

text \<open>
  C15: A workload with an account that the create command wrote can authenticate.  In the pod that
  the webhook mutates, every container of the user that is not skipped and does not define
  the variables itself starts with the client id and the tenant of the command, the token
  file below the mounted volume and the authority of the cluster: the MSAL sample finds all
  variables that it needs and makes its client for exactly these, and in a pod that uses
  the custom token endpoint the other sample makes its credential for the configured
  endpoint and the projected files.
\<close>

theorem created_account_authenticates:
  assumes mut: "mutatePod m lvl (newServiceAccount ns n clientID tenantID d) p = Inr p'"
    and c: "c \<in> set (ps_containers (pod_spec p))" "ct_name c \<notin> getSkipContainers p"
    and own: "injectedNames \<inter> ev_name ` set (ct_env c) = {}"
    and vals: "plainValue clientID" "plainValue tenantID" "plainValue (pm_azureAuthorityHost m)"
  shows "\<exists>c' \<in> set (ps_containers (pod_spec p')). ct_name c' = ct_name c \<and>
    (\<forall>getenv. runsWith c' getenv \<longrightarrow>
       (requireEnv getenv sampleEnvVars = None \<longrightarrow>
          startMsalSample joinPath newClient getenv =
            (case newMsalCredential joinPath newClient tenantID clientID (pm_azureAuthorityHost m) of
               Inl e \<Rightarrow> Failed e | Inr client \<Rightarrow> Started client) \<and>
          getenv ''AZURE_FEDERATED_TOKEN_FILE'' = tokenFile) \<and>
       (isUsingCustomTokenEndpoint m p \<and> plainValue (AzureKubernetesTokenProxy (pm_config m)) \<and>
          plainValue (AzureKubernetesSNIName (pm_config m)) \<longrightarrow>
          createCredentialFromEnv env getenv w =
            (case newClientAssertionCredential env clientID (AzureKubernetesTokenProxy (pm_config m))
               (AzureKubernetesSNIName (pm_config m)) caFile tokenFile w of
               (Inl e, w1) \<Rightarrow> (Failed e, w1) | (Inr cred, w1) \<Rightarrow> (Started cred, w1))))"
proof -
  let ?sa = "newServiceAccount ns n clientID tenantID d" and ?cte = "isUsingCustomTokenEndpoint m p"
  let ?c = "mutateContainer m clientID tenantID (getSkipContainers p) ?cte (volumeOf p) c"
  have mem: "?c \<in> set (ps_containers (pod_spec p'))"
    using mutated_container [OF mut c(1)] by (simp add: newServiceAccount_reads)
  have name: "ct_name ?c = ct_name c" by (simp add: mutateContainer_def frame_simps)
  have val: "getenv k = v" if "runsWith ?c getenv" "k \<in> injectedNames" "plainValue v"
    "envVar k v \<in> set (desiredEnvs m clientID tenantID (pm_azureAuthorityHost m) ?cte)" for getenv k v
    using injected_variable [OF that(1) c(2) _ that(4,3)] own that(2) by blast
  note names = injectedNames_def msalEnvVars_def customEnvVars_def
  have base: "getenv ''AZURE_CLIENT_ID'' = clientID" "getenv ''AZURE_TENANT_ID'' = tenantID"
    "getenv ''AZURE_FEDERATED_TOKEN_FILE'' = tokenFile"
    "getenv ''AZURE_AUTHORITY_HOST'' = pm_azureAuthorityHost m" if "runsWith ?c getenv" for getenv
    by (rule val [OF that]; simp add: names vals file_values [unfolded tokenFile_def] desiredEnvs_def env_var_names tokenFile_def)+
  have custom: "getenv ''AZURE_KUBERNETES_TOKEN_PROXY'' = AzureKubernetesTokenProxy (pm_config m)"
    "getenv ''AZURE_KUBERNETES_SNI_NAME'' = AzureKubernetesSNIName (pm_config m)"
    "getenv ''AZURE_KUBERNETES_CA_FILE'' = caFile"
    if "runsWith ?c getenv" "?cte" "plainValue (AzureKubernetesTokenProxy (pm_config m))"
      "plainValue (AzureKubernetesSNIName (pm_config m))" for getenv
    by (rule val [OF that(1)]; simp add: names that file_values [unfolded caFile_def] desiredEnvs_def env_var_names caFile_def)+
  have ne: "clientID \<noteq> []" "tenantID \<noteq> []" "pm_azureAuthorityHost m \<noteq> []" "tokenFile \<noteq> []" "caFile \<noteq> []"
    using vals file_values by (auto simp: plainValue_def)
  show ?thesis
  proof (intro bexI [OF _ mem] conjI name allI impI)
    fix getenv
    assume run: "runsWith ?c getenv"
    show "getenv ''AZURE_FEDERATED_TOKEN_FILE'' = tokenFile" by (rule base [OF run])
    assume "requireEnv getenv sampleEnvVars = None"
    then have "requireEnv getenv (sampleEnvVars @ msalEnvVars) = None"
      by (simp add: sampleEnvVars_def msalEnvVars_def base [OF run] ne split: if_splits)
    then show "startMsalSample joinPath newClient getenv =
        (case newMsalCredential joinPath newClient tenantID clientID (pm_azureAuthorityHost m) of
           Inl e \<Rightarrow> Failed e | Inr client \<Rightarrow> Started client)"
      by (simp add: startMsalSample_def base [OF run])
  next
    fix getenv
    assume run: "runsWith ?c getenv"
      and cte: "?cte \<and> plainValue (AzureKubernetesTokenProxy (pm_config m)) \<and> plainValue (AzureKubernetesSNIName (pm_config m))"
    note vars = base [OF run] custom [OF run cte [THEN conjunct1] cte [THEN conjunct2, THEN conjunct1]
        cte [THEN conjunct2, THEN conjunct2]]
    have "requireEnv getenv customEnvVars = None"
      using cte by (simp add: customEnvVars_def vars ne plainValue_def)
    then show "createCredentialFromEnv env getenv w =
        (case newClientAssertionCredential env clientID (AzureKubernetesTokenProxy (pm_config m))
               (AzureKubernetesSNIName (pm_config m)) caFile tokenFile w of
           (Inl e, w1) \<Rightarrow> (Failed e, w1) | (Inr cred, w1) \<Rightarrow> (Started cred, w1))"
      by (simp add: createCredentialFromEnv_def vars)
  qed
qed

definition azureContainer :: container where
  "azureContainer = emptyContainer \<lparr> ct_name := ''app'' \<rparr>"

definition azurePod :: pod where
  "azurePod = demoPod \<lparr> pod_spec := (pod_spec demoPod) \<lparr> ps_containers := [azureContainer] \<rparr> \<rparr>"

lemma azure_mutates_for:
  assumes "getServiceAccountTokenExpiration azurePod sa = Inr e"
  shows "\<exists>p'. mutatePod m lvl sa azurePod = Inr p'"
proof -
  have meta: "pod_meta azurePod = pod_meta demoPod" by (simp add: azurePod_def)
  have port: "getProxyPort azurePod = Inr 8080"
    using same_meta_reads(3) [OF meta] demo_reads(2) by simp
  have "ps_hostNetwork (pod_spec azurePod) = False" by (simp add: azurePod_def demoPod_def)
  then have "\<exists>q. injectProxy m lvl azurePod = Inr q"
    using port by (simp add: injectProxy_def Let_def)
  then obtain q where q: "injectProxy m lvl azurePod = Inr q" by blast
  have "getServiceAccountTokenExpiration q sa = getServiceAccountTokenExpiration azurePod sa"
    by (simp add: getServiceAccountTokenExpiration_def injectProxy_frame(1) [OF q])
  with assms have "getServiceAccountTokenExpiration q sa = Inr e" by simp
  then show ?thesis using q by (simp add: mutatePod_eq)
qed

lemma azure_mutates:
  "\<exists>p'. mutatePod demoMutator [] (newServiceAccount ''ns'' ''sa'' ''client'' ''tenant'' (3600 * second)) azurePod = Inr p'"
  by (rule azure_mutates_for [of _ DefaultServiceAccountTokenExpiration])
    (simp add: getServiceAccountTokenExpiration_def azurePod_def demoPod_def newServiceAccount_def
      annotation_names smap_get_def smap_set_def expiration_bounds validServiceAccountTokenExpiry_def emptyMeta_def)

theorem created_account_authenticates_witness:
  "\<exists>p' c'. mutatePod demoMutator [] (newServiceAccount ''ns'' ''sa'' ''client'' ''tenant'' (3600 * second)) azurePod = Inr p' \<and>
    c' \<in> set (ps_containers (pod_spec p')) \<and>
    (\<forall>getenv. runsWith c' getenv \<longrightarrow> requireEnv getenv sampleEnvVars = None \<longrightarrow>
       startMsalSample (\<lambda>h t. Inr (h @ t)) (\<lambda>a i. Inr (a, i)) getenv =
         Started (''https://login.microsoftonline.com/tenant'', ''client''))"
proof -
  obtain p' where p': "mutatePod demoMutator [] (newServiceAccount ''ns'' ''sa'' ''client'' ''tenant'' (3600 * second)) azurePod = Inr p'"
    using azure_mutates by blast
  have "azureContainer \<in> set (ps_containers (pod_spec azurePod))" by (simp add: azurePod_def)
  moreover have "ct_name azureContainer \<notin> getSkipContainers azurePod"
    by (simp add: azurePod_def getSkipContainers_def demoPod_def emptyMeta_def smap_get_def annotation_names)
  moreover have "injectedNames \<inter> ev_name ` set (ct_env azureContainer) = {}"
    by (simp add: azureContainer_def emptyContainer_def)
  moreover have "plainValue ''client''" "plainValue ''tenant''" "plainValue (pm_azureAuthorityHost demoMutator)"
    by (simp_all add: plainValue_def demoMutator_def)
  moreover have "newMsalCredential (\<lambda>h t. Inr (h @ t)) (\<lambda>a i. Inr (a, i)) ''tenant'' ''client'' (pm_azureAuthorityHost demoMutator) =
      Inr (''https://login.microsoftonline.com/tenant'', ''client'')"
    by (simp add: newMsalCredential_def demoMutator_def)
  ultimately show ?thesis
    using created_account_authenticates [OF p', of azureContainer "\<lambda>h t. Inr (h @ t)" "\<lambda>a i. Inr (a, i)"] p'
    by fastforce
qed

subsection \<open>The injected proxy starts\<close>

lemma proxy_started:
  assumes "parseFlags proxyFlags args = Inr (proxyFlagValues port False lvl, [])"
    and "pp_getenv pp AzureTenantIDEnvVar = tid" "tid \<noteq> []" and "pp_setLogLevel pp lvl w = (Inr (), w1)"
  shows "proxyMain pp args w =
    (case pp_run pp \<lparr> px_port = port, px_tenantID = tid \<rparr> w1 of
       (Some e, w2) \<Rightarrow> (ExitFatal (WrapError ''setup: failed to run proxy'' e), w2)
     | (None, w2) \<Rightarrow> (ExitSuccess, w2))"
proof -
  have "NewProxy (pp_getenv pp) port = Inr \<lparr> px_port = port, px_tenantID = tid \<rparr>"
    using assms(2,3) by (simp add: NewProxy_def)
  then show ?thesis
    unfolding proxyMain_def assms(1) by (simp add: proxyMainErr_def assms(4) split: prod.split option.split)
qed

lemma injected_sidecar:
  assumes q: "injectProxy m lvl p = Inr q" and inj: "shouldInjectProxySidecar p"
    and absent: "ProxySidecarContainerName \<notin> ct_name ` (set (ps_initContainers (pod_spec p)) \<union> set (ps_containers (pod_spec p)))"
  shows "\<exists>port rp. getProxyPort p = Inr port \<and>
    proxySidecarContainer m lvl port rp \<in>
      set (if pm_useNativeSidecar m then ps_initContainers (pod_spec q) else ps_containers (pod_spec q))"
proof -
  obtain port where port: "getProxyPort p = Inr port" and host: "\<not> ps_hostNetwork (pod_spec p)"
    using q inj by (auto simp: injectProxy_def split: if_splits sum.splits)
  have names: "ProxyInitContainerName \<noteq> ProxySidecarContainerName"
    by (simp add: ProxyInitContainerName_def ProxySidecarContainerName_def)
  have no: "ct_name c \<noteq> ProxySidecarContainerName"
    if "c \<in> set (ps_initContainers (pod_spec p)) \<or> c \<in> set (ps_containers (pod_spec p))" for c
    using absent that by (metis UnI1 UnI2 imageI)
  have "\<not> list_ex (\<lambda>c. ct_name c = ProxySidecarContainerName) (ps_containers (pod_spec p))"
    "\<not> list_ex (\<lambda>c. ct_name c = ProxySidecarContainerName)
       (injectProxyInitContainer m (ps_initContainers (pod_spec p)) port)"
    using no names by (auto simp: list_ex_iff injectProxyInitContainer_def proxyInitContainer_def)
  then have "proxySidecarContainer m lvl port (if pm_useNativeSidecar m then Some ContainerRestartPolicyAlways else None) \<in>
      set (if pm_useNativeSidecar m then ps_initContainers (pod_spec q) else ps_containers (pod_spec q))"
    using q inj port host by (auto simp: injectProxy_def injectProxySidecarContainer_def Let_def)
  with port show ?thesis by blast
qed

lemma injected_proxy:
  assumes mut: "mutatePod m lvl sa p = Inr p'" and inj: "shouldInjectProxySidecar p"
    and absent: "ProxySidecarContainerName \<notin> ct_name ` (set (ps_initContainers (pod_spec p)) \<union> set (ps_containers (pod_spec p)))"
    and skip: "ProxySidecarContainerName \<notin> getSkipContainers p"
    and tenant: "plainValue (getTenantID sa (pm_config m))"
  shows "\<exists>port c. getProxyPort p = Inr port \<and> ct_name c = ProxySidecarContainerName \<and>
    c \<in> set (if pm_useNativeSidecar m then ps_initContainers (pod_spec p') else ps_containers (pod_spec p')) \<and>
    (\<forall>pp w w1. runsWith c (pp_getenv pp) \<and> pp_setLogLevel pp lvl w = (Inr (), w1) \<longrightarrow>
       proxyMain pp (ct_args c) w =
         (case pp_run pp \<lparr> px_port = port, px_tenantID = getTenantID sa (pm_config m) \<rparr> w1 of
            (Some e, w2) \<Rightarrow> (ExitFatal (WrapError ''setup: failed to run proxy'' e), w2)
          | (None, w2) \<Rightarrow> (ExitSuccess, w2))) \<and>
    (\<forall>getenv. runsWith c getenv \<longrightarrow> plainValue (getClientID sa) \<longrightarrow> getenv AzureClientIDEnvVar = getClientID sa)"
proof -
  obtain q e where q: "injectProxy m lvl p = Inr q" and p': "p' = finishPod m sa e q"
    using mut by (rule mutatePod_InrE)
  obtain port rp where port: "getProxyPort p = Inr port" and mem: "proxySidecarContainer m lvl port rp \<in>
      set (if pm_useNativeSidecar m then ps_initContainers (pod_spec q) else ps_containers (pod_spec q))"
    using injected_sidecar [OF q inj absent] by blast
  have range: "- (2 ^ 31) \<le> port" "port < 2 ^ 31"
    using port by (auto simp: getProxyPort_cases dest: parseInt_range split: option.splits sum.splits)
  let ?tid = "getTenantID sa (pm_config m)" and ?s = "proxySidecarContainer m lvl port rp"
  let ?c = "mutateContainer m (getClientID sa) ?tid (getSkipContainers p) (isUsingCustomTokenEndpoint m p) (volumeOf p) ?s"
  have c: "?c \<in> set (if pm_useNativeSidecar m then ps_initContainers (pod_spec p') else ps_containers (pod_spec p'))"
    using mem by (auto simp: p' finishPod_spec mutatedContainers_def mutateContainers_def
        same_meta_reads [OF injectProxy_frame(1) [OF q]])
  have fields: "ct_name ?s = ProxySidecarContainerName" "ct_env ?s = []"
    by (simp_all add: proxySidecarContainer_def emptyContainer_def)
  have kept: "ct_name ?c = ProxySidecarContainerName" "ct_args ?c = ct_args ?s"
    by (simp_all add: mutateContainer_def frame_simps fields)
  have parsed: "parseFlags proxyFlags (ct_args ?c) = Inr (proxyFlagValues port False lvl, [])"
    unfolding kept sidecar_command by (simp only: proxyFlags_values parse_port [OF range] parse_level) simp
  have started: "proxyMain pp (ct_args ?c) w =
      (case pp_run pp \<lparr> px_port = port, px_tenantID = ?tid \<rparr> w1 of
         (Some e, w2) \<Rightarrow> (ExitFatal (WrapError ''setup: failed to run proxy'' e), w2)
       | (None, w2) \<Rightarrow> (ExitSuccess, w2))"
    if run: "runsWith ?c (pp_getenv pp)" and level: "pp_setLogLevel pp lvl w = (Inr (), w1)" for pp :: "'w proxy_process" and w w1
  proof (rule proxy_started [where pp = pp, OF parsed _ _ level])
    show "pp_getenv pp AzureTenantIDEnvVar = ?tid"
      using run skip tenant
      by (intro injected_variable [OF run]) (simp_all add: fields desiredEnvs_def)
    show "?tid \<noteq> []" using tenant by (simp add: plainValue_def)
  qed
  have client: "getenv AzureClientIDEnvVar = getClientID sa"
    if run: "runsWith ?c getenv" and cid: "plainValue (getClientID sa)" for getenv
    using skip cid by (intro injected_variable [OF run]) (simp_all add: fields desiredEnvs_def)
  show ?thesis
    by (rule exI [of _ port], rule exI [of _ ?c])
      (intro conjI port kept(1) c allI impI; (elim conjE)?; (rule started | rule client); assumption)
qed

text \<open>
  C24: The injected proxy starts.  When the webhook mutates a pod that asks for the proxy, has no
  container of the sidecar's name and does not skip it, and the tenant of the account (or of
  the webhook) is known, the mutated pod has a sidecar whose process, started with its own
  arguments and variables, parses its command line and runs the proxy on the port of the
  pod's annotation for that tenant; it exits only with what the run returns.
\<close>

theorem injected_proxy_starts:
  assumes mut: "mutatePod m lvl sa p = Inr p'" and inj: "shouldInjectProxySidecar p"
    and absent: "ProxySidecarContainerName \<notin> ct_name ` (set (ps_initContainers (pod_spec p)) \<union> set (ps_containers (pod_spec p)))"
    and skip: "ProxySidecarContainerName \<notin> getSkipContainers p"
    and tenant: "plainValue (getTenantID sa (pm_config m))"
  shows "\<exists>port c. getProxyPort p = Inr port \<and> ct_name c = ProxySidecarContainerName \<and>
    c \<in> set (if pm_useNativeSidecar m then ps_initContainers (pod_spec p') else ps_containers (pod_spec p')) \<and>
    (\<forall>pp w w1. runsWith c (pp_getenv pp) \<and> pp_setLogLevel pp lvl w = (Inr (), w1) \<longrightarrow>
       proxyMain pp (ct_args c) w =
         (case pp_run pp \<lparr> px_port = port, px_tenantID = getTenantID sa (pm_config m) \<rparr> w1 of
            (Some e, w2) \<Rightarrow> (ExitFatal (WrapError ''setup: failed to run proxy'' e), w2)
          | (None, w2) \<Rightarrow> (ExitSuccess, w2)))"
  using injected_proxy [OF assms] by (elim exE conjE) (intro exI conjI; assumption)

theorem injected_proxy_starts_witness:
  "\<exists>p' c. mutatePod demoMutator [] demoSA demoPod = Inr p' \<and> ct_name c = ProxySidecarContainerName \<and>
     c \<in> set (ps_initContainers (pod_spec p')) \<and>
     (\<forall>(pp :: unit proxy_process) w w1. runsWith c (pp_getenv pp) \<and> pp_setLogLevel pp [] w = (Inr (), w1) \<longrightarrow>
        proxyMain pp (ct_args c) w =
          (case pp_run pp \<lparr> px_port = 8080, px_tenantID = ''tenant'' \<rparr> w1 of
             (Some e, w2) \<Rightarrow> (ExitFatal (WrapError ''setup: failed to run proxy'' e), w2)
           | (None, w2) \<Rightarrow> (ExitSuccess, w2)))"
proof -
  obtain p' where p': "mutatePod demoMutator [] demoSA demoPod = Inr p'" using demo_mutates by blast
  have tid: "getTenantID demoSA (pm_config demoMutator) = ''tenant''"
    by (simp add: getTenantID_def demoSA_def demoMutator_def demoConfig_def annotation_names)
  have absent: "ProxySidecarContainerName \<notin>
      ct_name ` (set (ps_initContainers (pod_spec demoPod)) \<union> set (ps_containers (pod_spec demoPod)))"
    by (simp add: demoPod_def demoContainer_def ProxySidecarContainerName_def)
  have skip: "ProxySidecarContainerName \<notin> getSkipContainers demoPod"
    by (simp add: getSkipContainers_def demoPod_def emptyMeta_def smap_get_def annotation_names)
  have tenant: "plainValue (getTenantID demoSA (pm_config demoMutator))"
    by (simp add: tid plainValue_def)
  have native: "pm_useNativeSidecar demoMutator" by (simp add: demoMutator_def)
  show ?thesis
    using injected_proxy_starts [where 'a = unit, OF p' demo_reads(1) absent skip tenant] p' unfolding tid demo_reads(2)
    by (simp add: native)
qed

end
