(* ===== verification/Cloud_Client.thy ===== *)
theory Cloud_Client
  imports Go_Strings
begin

section \<open>Building the cloud client (pkg/cloud/azureclient.go)\<close>

text \<open>
  The constructors of the Azure client from the three kinds of credential, and
  \<open>GetTenantID\<close>, which reads the tenant out of the challenge that an unauthenticated
  request is answered with.  Files, PEM and X.509 decoding and the SDK's constructors are
  parameters; a client is described by what it was built from.
\<close>

datatype azure_environment = PublicCloud | USGovernmentCloud | ChinaCloud | GermanCloud | OtherCloud string

text \<open>The map \<open>msGraphEndpoint\<close>; an environment without an entry reads the empty string.\<close>

fun msGraphEndpoint :: "azure_environment \<Rightarrow> string" where
  "msGraphEndpoint PublicCloud = ''https://graph.microsoft.com/''"
| "msGraphEndpoint USGovernmentCloud = ''https://graph.microsoft.us/''"
| "msGraphEndpoint ChinaCloud = ''https://microsoftgraph.chinacloudapi.cn/''"
| "msGraphEndpoint GermanCloud = ''https://graph.microsoft.de/''"
| "msGraphEndpoint (OtherCloud n) = []"

definition getGraphScope :: "azure_environment \<Rightarrow> string" where
  "getGraphScope env = msGraphEndpoint env @ ''.default''"

record ('w, 'cert, 'key, 'cred) client_sdk =
  sk_cliCredential :: "('w, 'cred) io"
  sk_secretCredential :: "string \<Rightarrow> string \<Rightarrow> string \<Rightarrow> ('w, 'cred) io"
  sk_certificateCredential :: "string \<Rightarrow> string \<Rightarrow> 'cert \<Rightarrow> 'key \<Rightarrow> ('w, 'cred) io"
  sk_readFile :: "string \<Rightarrow> ('w, string) io"
  sk_pemDecode :: "string \<Rightarrow> string option"
  sk_parseCertificate :: "string \<Rightarrow> 'cert result"
  sk_parsePKCS1PrivateKey :: "string \<Rightarrow> 'key result"
  sk_parsePKCS8PrivateKey :: "string \<Rightarrow> 'key option result"
  sk_authProvider :: "'cred \<Rightarrow> string list \<Rightarrow> unit result"
  sk_requestAdapter :: "'cred \<Rightarrow> unit result"
  sk_roleAssignmentsClient :: "string \<Rightarrow> 'cred \<Rightarrow> unit result"
  sk_roleDefinitionsClient :: "'cred \<Rightarrow> unit result"
  sk_errText :: "go_error \<Rightarrow> string"

record 'cred built_client =
  bc_environment :: azure_environment
  bc_subscriptionID :: string
  bc_credential :: 'cred

definition wrapResult :: "string \<Rightarrow> 'a result \<Rightarrow> 'a result" where
  "wrapResult msg r = (case r of Inl e \<Rightarrow> Inl (WrapError msg e) | Inr x \<Rightarrow> Inr x)"

definition getClient ::
  "('w, 'cert, 'key, 'cred) client_sdk \<Rightarrow> azure_environment \<Rightarrow> string \<Rightarrow> 'cred \<Rightarrow> 'cred built_client result" where
  "getClient sdk env subscriptionID credential =
     (case wrapResult ''failed to create authentication provider''
             (sk_authProvider sdk credential [getGraphScope env]) of Inl e \<Rightarrow> Inl e | Inr _ \<Rightarrow>
     (case wrapResult ''failed to create request adapter'' (sk_requestAdapter sdk credential) of Inl e \<Rightarrow> Inl e | Inr _ \<Rightarrow>
     (case wrapResult ''failed to create role assignments client''
             (sk_roleAssignmentsClient sdk subscriptionID credential) of Inl e \<Rightarrow> Inl e | Inr _ \<Rightarrow>
     (case wrapResult ''failed to create role definitions client''
             (sk_roleDefinitionsClient sdk credential) of Inl e \<Rightarrow> Inl e | Inr _ \<Rightarrow>
      Inr \<lparr> bc_environment = env, bc_subscriptionID = subscriptionID, bc_credential = credential \<rparr>))))"

text \<open>A credential, then the client.\<close>

definition clientFrom ::
  "('w, 'cert, 'key, 'cred) client_sdk \<Rightarrow> azure_environment \<Rightarrow> string \<Rightarrow> ('w, 'cred) io \<Rightarrow> ('w, 'cred built_client) io" where
  "clientFrom sdk env subscriptionID newCredential w =
     (case newCredential w of
        (Inl e, w1) \<Rightarrow> (Inl (WrapError ''failed to create credential'' e), w1)
      | (Inr cred, w1) \<Rightarrow> (getClient sdk env subscriptionID cred, w1))"

definition NewAzureClientWithCLI ::
  "('w, 'cert, 'key, 'cred) client_sdk \<Rightarrow> azure_environment \<Rightarrow> string \<Rightarrow> ('w, 'cred built_client) io" where
  "NewAzureClientWithCLI sdk env subscriptionID = clientFrom sdk env subscriptionID (sk_cliCredential sdk)"

definition NewAzureClientWithClientSecret ::
  "('w, 'cert, 'key, 'cred) client_sdk \<Rightarrow> azure_environment \<Rightarrow> string \<Rightarrow> string \<Rightarrow> string \<Rightarrow> string \<Rightarrow>
   ('w, 'cred built_client) io" where
  "NewAzureClientWithClientSecret sdk env subscriptionID clientID clientSecret tenantID =
     clientFrom sdk env subscriptionID (sk_secretCredential sdk tenantID clientID clientSecret)"

definition NewAzureClientWithClientCertificate ::
  "('w, 'cert, 'key, 'cred) client_sdk \<Rightarrow> azure_environment \<Rightarrow> string \<Rightarrow> string \<Rightarrow> string \<Rightarrow> 'cert \<Rightarrow> 'key \<Rightarrow>
   ('w, 'cred built_client) io" where
  "NewAzureClientWithClientCertificate sdk env subscriptionID clientID tenantID certificate privateKey =
     clientFrom sdk env subscriptionID (sk_certificateCredential sdk tenantID clientID certificate privateKey)"

definition parseRsaPrivateKey :: "('w, 'cert, 'key, 'cred) client_sdk \<Rightarrow> string \<Rightarrow> ('w, 'key) io" where
  "parseRsaPrivateKey sdk path w =
     (case sk_readFile sdk path w of
        (Inl e, w1) \<Rightarrow> (Inl e, w1)
      | (Inr privateKeyData, w1) \<Rightarrow>
          (case sk_pemDecode sdk privateKeyData of
             None \<Rightarrow> (Inl (GoError ''Failed to decode a pem block from private key''), w1)
           | Some block \<Rightarrow>
               (case sk_parsePKCS1PrivateKey sdk block of
                  Inr k \<Rightarrow> (Inr k, w1)
                | Inl errPkcs1 \<Rightarrow>
                    (case sk_parsePKCS8PrivateKey sdk block of
                       Inr (Some k) \<Rightarrow> (Inr k, w1)
                     | Inr None \<Rightarrow> (Inl (GoError ''pkcs8 contained non-RSA key. Expected RSA key''), w1)
                     | Inl errPkcs8 \<Rightarrow>
                         (Inl (GoError (''failed to parse private key as Pkcs#1 or Pkcs#8. ('' @
                            sk_errText sdk errPkcs1 @ ''). ('' @ sk_errText sdk errPkcs8 @ '')'')), w1)))))"

definition NewAzureClientWithClientCertificateFile ::
  "('w, 'cert, 'key, 'cred) client_sdk \<Rightarrow> azure_environment \<Rightarrow> string \<Rightarrow> string \<Rightarrow> string \<Rightarrow> string \<Rightarrow> string \<Rightarrow>
   ('w, 'cred built_client) io" where
  "NewAzureClientWithClientCertificateFile sdk env subscriptionID clientID tenantID certificatePath privateKeyPath w =
     (case sk_readFile sdk certificatePath w of
        (Inl e, w1) \<Rightarrow> (Inl (WrapError ''Failed to read certificate'' e), w1)
      | (Inr certificateData, w1) \<Rightarrow>
          (case sk_pemDecode sdk certificateData of
             None \<Rightarrow> (Inl (GoError ''Failed to decode pem block from certificate''), w1)
           | Some block \<Rightarrow>
               (case sk_parseCertificate sdk block of
                  Inl e \<Rightarrow> (Inl (WrapError ''Failed to parse certificate'' e), w1)
                | Inr certificate \<Rightarrow>
                    (case parseRsaPrivateKey sdk privateKeyPath w1 of
                       (Inl e, w2) \<Rightarrow> (Inl (WrapError ''Failed to parse rsa private key'' e), w2)
                     | (Inr privateKey, w2) \<Rightarrow>
                         NewAzureClientWithClientCertificate sdk env subscriptionID clientID tenantID
                           certificate privateKey w2))))"

subsection \<open>The tenant of a subscription\<close>

text \<open>
  The regular expression \<open>authorization_uri=".*/([0-9a-f\-]+)"\<close>, matched as Go matches
  it: at the leftmost start, the dots as many characters of the line as possible.  The
  group ends where its characters end, and the quote must follow.
\<close>

definition isTenantChar :: "char \<Rightarrow> bool" where
  "isTenantChar c = (c \<in> set ''0123456789abcdef-'')"

definition groupHere :: "string \<Rightarrow> string option" where
  "groupHere s =
     (case (takeWhile isTenantChar s, dropWhile isTenantChar s) of
        (g, q # _) \<Rightarrow> if g \<noteq> [] \<and> q = CHR 0x22 then Some g else None
      | _ \<Rightarrow> None)"

fun lastGroup :: "string \<Rightarrow> string option" where
  "lastGroup [] = None"
| "lastGroup (c # s) =
     (case (if c = CHR 0x0A then None else lastGroup s) of
        Some g \<Rightarrow> Some g
      | None \<Rightarrow> if c = CHR ''/'' then groupHere s else None)"

definition challengeStart :: string where
  "challengeStart = ''authorization_uri='' @ [CHR 0x22]"

fun findTenant :: "string \<Rightarrow> string option" where
  "findTenant [] = None"
| "findTenant (c # s) =
     (case (if prefix challengeStart (c # s) then lastGroup (drop (length challengeStart) (c # s)) else None) of
        Some g \<Rightarrow> Some g
      | None \<Rightarrow> findTenant s)"

definition hdrKey :: string where "hdrKey = ''WWW-Authenticate''"

text \<open>
  \<open>GetTenantID\<close>: \<open>newClient\<close> makes the subscriptions client; \<open>getSubscription\<close> is the
  request, which ends without a response error (a success, or a failure of another kind,
  with its text) or with one, whose header is read by \<open>Get\<close>.  The \<open>%q\<close> of the
  last message is shown for a header that needs no escapes.
\<close>

definition GetTenantID ::
  "unit result \<Rightarrow> (string \<Rightarrow> 'w \<Rightarrow> (string + (string \<Rightarrow> string)) \<times> 'w) \<Rightarrow> string \<Rightarrow> ('w, string) io" where
  "GetTenantID newClient getSubscription subscriptionID w =
     (case newClient of
        Inl e \<Rightarrow> (Inl (WrapError ''failed to create subscriptions client'' e), w)
      | Inr _ \<Rightarrow>
          (case getSubscription subscriptionID w of
             (Inl err, w1) \<Rightarrow> (Inl (GoError (''unexpected response from get subscription: '' @ err)), w1)
           | (Inr headerGet, w1) \<Rightarrow>
               (let hdr = headerGet hdrKey in
                if hdr = [] then
                  (Inl (GoError (''header '' @ quoted hdrKey @ '' not found in get subscription response'')), w1)
                else case findTenant hdr of
                       None \<Rightarrow>
                         (Inl (GoError (''Could not find the tenant ID in header: '' @ hdrKey @ '' '' @ quoted hdr)), w1)
                     | Some tenant \<Rightarrow> (Inr tenant, w1))))"

subsection \<open>What the match finds\<close>

lemma groupHere_tenant: "\<forall>c \<in> set t. isTenantChar c \<Longrightarrow> t \<noteq> [] \<Longrightarrow> groupHere (t @ CHR 0x22 # rest) = Some t"
proof -
  assume t: "\<forall>c \<in> set t. isTenantChar c" "t \<noteq> []"
  have "\<not> isTenantChar (CHR 0x22)" by code_simp
  then have "takeWhile isTenantChar (t @ CHR 0x22 # rest) = t"
    and "dropWhile isTenantChar (t @ CHR 0x22 # rest) = CHR 0x22 # rest"
    using t(1) by (simp_all add: takeWhile_append2 dropWhile_append2)
  then show ?thesis using t(2) by (simp add: groupHere_def)
qed

lemma lastGroup_no_slash: "CHR ''/'' \<notin> set s \<Longrightarrow> lastGroup s = None"
  by (induction s) auto

lemma lastGroup_append:
  "CHR 0x0A \<notin> set p \<Longrightarrow> lastGroup s = Some g \<Longrightarrow> lastGroup (p @ s) = Some g"
  by (induction p) auto

lemma groupHere_chars: "groupHere s = Some g \<Longrightarrow> g \<noteq> [] \<and> (\<forall>c \<in> set g. isTenantChar c)"
  by (auto simp: groupHere_def split: list.splits if_splits dest: set_takeWhileD)

lemma lastGroup_chars: "lastGroup s = Some g \<Longrightarrow> g \<noteq> [] \<and> (\<forall>c \<in> set g. isTenantChar c)"
  by (induction s) (auto split: option.splits if_splits dest: groupHere_chars)

lemma findTenant_chars: "findTenant s = Some g \<Longrightarrow> g \<noteq> [] \<and> (\<forall>c \<in> set g. isTenantChar c)"
  by (induction s rule: findTenant.induct) (auto split: option.splits if_splits dest: lastGroup_chars)

lemma findTenant_skip:
  "\<forall>k < length p. \<not> prefix challengeStart (drop k (p @ s)) \<Longrightarrow> findTenant (p @ s) = findTenant s"
proof (induction p)
  case (Cons c p)
  have "\<not> prefix challengeStart (c # p @ s)" using Cons.prems by fastforce
  moreover have "\<forall>k < length p. \<not> prefix challengeStart (drop k (p @ s))"
  proof (intro allI impI)
    fix k assume "k < length p"
    then show "\<not> prefix challengeStart (drop k (p @ s))" using Cons.prems [rule_format, of "Suc k"] by simp
  qed
  ultimately show ?case using Cons.IH by simp
qed simp

text \<open>
  The tenant of a challenge.  From a challenge whose authorization uri ends in the tenant
  id, with no slash after it, the match takes exactly the tenant id.
\<close>

theorem tenant_of_challenge:
  assumes "t \<noteq> []" and "list_all isTenantChar t"
    and "CHR ''/'' \<notin> set rest" and "CHR 0x0A \<notin> set host"
  shows "findTenant (''Bearer '' @ challengeStart @ host @ ''/'' @ t @ [CHR 0x22] @ rest) = Some t"
proof -
  let ?tail = "host @ ''/'' @ t @ [CHR 0x22] @ rest"
  have t: "\<forall>c \<in> set t. isTenantChar c" using assms(2) by (simp add: list_all_iff)
  have "CHR ''/'' \<notin> set t" using t by (auto simp: isTenantChar_def)
  then have "lastGroup (t @ [CHR 0x22] @ rest) = None"
    using assms(3) by (intro lastGroup_no_slash) auto
  then have "lastGroup (''/'' @ t @ [CHR 0x22] @ rest) = Some t"
    using groupHere_tenant [OF t assms(1), of rest] by simp
  then have last: "lastGroup ?tail = Some t" using lastGroup_append [OF assms(4)] by simp
  have "findTenant (challengeStart @ ?tail) = Some t"
  proof -
    obtain c s where c: "challengeStart @ ?tail = c # s" by (simp add: challengeStart_def)
    then have "prefix challengeStart (c # s)" "drop (length challengeStart) (c # s) = ?tail"
      by (metis prefixI, metis append_eq_conv_conj)
    then show ?thesis unfolding c using last by simp
  qed
  moreover have "findTenant (''Bearer '' @ challengeStart @ ?tail) = findTenant (challengeStart @ ?tail)"
    by (simp add: challengeStart_def)
  ultimately show ?thesis by simp
qed

theorem tenant_of_challenge_witness:
  "findTenant (''Bearer '' @ challengeStart @ ''https://login.windows.net'' @ ''/'' @ ''996fe9d1-6171'' @ [CHR 0x22] @
     '', error=invalid_token'') = Some ''996fe9d1-6171''"
  by (rule tenant_of_challenge) (simp_all add: isTenantChar_def)

end
