(* ===== verification/Auth.thy ===== *)
theory Auth
  imports Cloud_Client Go_Time
begin

section \<open>Authentication of the commands (pkg/cmd/serviceaccount/auth/provider.go)\<close>

text \<open>
  The options that choose how the commands authenticate, their validation, which builds
  the client, the fall-back to the Azure CLI's selected subscription, and the chain of
  HTTP middlewares.  Parsing UUIDs and INI files and naming Azure environments are library
  calls, hence parameters (\<open>auth_env\<close>); a UUID is its canonical text.
\<close>

definition clientSecretAuthMethod :: string where "clientSecretAuthMethod = ''client_secret''"
definition clientCertificateAuthMethod :: string where "clientCertificateAuthMethod = ''client_certificate''"
definition cliAuthMethod :: string where "cliAuthMethod = ''cli''"

definition nilUUID :: string where "nilUUID = ''00000000-0000-0000-0000-000000000000''"

subsection \<open>The middleware chain\<close>

text \<open>
  A middleware is called with the pipeline's continuation and the request; \<open>Next\<close> at an
  index past the last middleware is the transport.
\<close>

type_synonym ('q, 'p) round_trip = "'q \<Rightarrow> 'p"
type_synonym ('q, 'p) middleware = "('q, 'p) round_trip \<Rightarrow> 'q \<Rightarrow> 'p"

function pipelineNext ::
  "('q, 'p) middleware list \<Rightarrow> ('q, 'p) round_trip \<Rightarrow> nat \<Rightarrow> ('q, 'p) round_trip" where
  "pipelineNext middlewares transport middlewareIndex req =
     (if middlewareIndex < length middlewares
      then (middlewares ! middlewareIndex) (pipelineNext middlewares transport (Suc middlewareIndex)) req
      else transport req)"
  by pat_completeness auto
termination
  by (relation "measure (\<lambda>(ms, t, i, q). length ms - i)") auto

declare pipelineNext.simps [simp del]

definition pipelineRoundTrip :: "('q, 'p) middleware list \<Rightarrow> ('q, 'p) round_trip \<Rightarrow> ('q, 'p) round_trip" where
  "pipelineRoundTrip middlewares transport req = pipelineNext middlewares transport 0 req"

text \<open>\<open>delayDebugWrappers\<close>: the wrapping is decided for each request.\<close>

definition delayDebugRoundTrip ::
  "bool \<Rightarrow> (('q, 'p) round_trip \<Rightarrow> ('q, 'p) round_trip) \<Rightarrow> ('q, 'p) round_trip \<Rightarrow> ('q, 'p) round_trip" where
  "delayDebugRoundTrip traceEnabled debugWrappers transport req =
     (let rt = (if traceEnabled then debugWrappers transport else transport) in rt req)"

lemma pipelineNext_foldr: "pipelineNext ms t i = foldr (\<lambda>m k. m k) (drop i ms) t"
proof (induction "length ms - i" arbitrary: i)
  case 0
  then show ?case by (auto simp: fun_eq_iff pipelineNext.simps)
next
  case (Suc n)
  then have i: "i < length ms" by linarith
  then have "drop i ms = ms ! i # drop (Suc i) ms" by (simp add: Cons_nth_drop_Suc)
  moreover have rest: "pipelineNext ms t (Suc i) = foldr (\<lambda>m k. m k) (drop (Suc i) ms) t"
    using Suc by (intro Suc(1)) linarith
  ultimately show ?case
    using i by (intro ext, subst pipelineNext.simps) (simp only: rest, simp)
qed

text \<open>
  The HTTP client of the commands: the settings of its transport, the wrappers around it, from
  the innermost, and a client that does not follow redirects (\<open>http.ErrUseLastResponse\<close>).
  \<open>middlewares\<close> are the SDK's, \<open>userAgent\<close> is \<open>transport.NewUserAgentRoundTripper\<close>, and
  \<open>setDefaults\<close> is \<open>utilnet.SetTransportDefaults\<close>.
\<close>

record transport_settings =
  ts_maxIdleConnsPerHost :: int
  ts_minVersion :: int
  ts_nextProtos :: "string list"

record ('q, 'p) http_client =
  hc_roundTrip :: "('q, 'p) round_trip"
  hc_timeout :: int
  hc_checkRedirect :: "go_error option"

definition errUseLastResponse :: go_error where
  "errUseLastResponse = GoError ''net/http: use last response''"

definition defaultTransport :: "(transport_settings \<Rightarrow> 't) \<Rightarrow> 't" where
  "defaultTransport setDefaults =
     setDefaults \<lparr> ts_maxIdleConnsPerHost = 25, ts_minVersion = 0x0303, ts_nextProtos = [''h2'', ''http/1.1''] \<rparr>"

definition defaultWrap ::
  "('q, 'p) middleware list \<Rightarrow> (('q, 'p) round_trip \<Rightarrow> ('q, 'p) round_trip) \<Rightarrow> bool \<Rightarrow>
   (('q, 'p) round_trip \<Rightarrow> ('q, 'p) round_trip) \<Rightarrow> ('q, 'p) round_trip \<Rightarrow> ('q, 'p) round_trip" where
  "defaultWrap middlewares userAgent traceEnabled debugWrappers rt =
     (let rt1 = pipelineRoundTrip middlewares rt;
          rt2 = userAgent rt1
      in delayDebugRoundTrip traceEnabled debugWrappers rt2)"

definition defaultClient ::
  "(transport_settings \<Rightarrow> ('q, 'p) round_trip) \<Rightarrow> (('q, 'p) round_trip \<Rightarrow> ('q, 'p) round_trip) \<Rightarrow> ('q, 'p) http_client" where
  "defaultClient setDefaults wrap =
     \<lparr> hc_roundTrip = wrap (defaultTransport setDefaults), hc_timeout = 3 * 3600 * second,
       hc_checkRedirect = Some errUseLastResponse \<rparr>"

text \<open>
  A request passes the debug wrapper, the user agent, and the middlewares in their order before
  it reaches the transport.
\<close>

lemma defaultWrap_order:
  "defaultWrap ms ua trace dbg rt = (if trace then dbg else (\<lambda>k. k)) (ua (foldr (\<lambda>m k. m k) ms rt))"
  by (simp add: defaultWrap_def pipelineRoundTrip_def [abs_def] pipelineNext_foldr delayDebugRoundTrip_def fun_eq_iff Let_def)

subsection \<open>The subscription selected in the Azure CLI\<close>

type_synonym ini_file = "(string \<times> (string \<times> string) list) list"

definition getSelectedCloudFromAzConfig :: "ini_file \<Rightarrow> string" where
  "getSelectedCloudFromAzConfig f =
     (case map_of f ''cloud'' of
        None \<Rightarrow> ''AzureCloud''
      | Some cloud \<Rightarrow>
          (case map_of cloud ''name'' of
             None \<Rightarrow> ''AzureCloud''
           | Some s \<Rightarrow> if s \<noteq> [] then s else ''AzureCloud''))"

text \<open>
  \<open>uuid.Parse\<close> returns a UUID next to its error.  The errors of a missing section or key
  are the library's; they are \<open>noSection\<close> and \<open>noKey\<close>.
\<close>

record 'w auth_env =
  ae_uuidParse :: "string \<Rightarrow> string \<times> go_error option"
  ae_iniLoad :: "string \<Rightarrow> ('w, ini_file) io"
  ae_noSection :: "string \<Rightarrow> go_error"
  ae_noKey :: "string \<Rightarrow> go_error"
  ae_getenv :: "string \<Rightarrow> string"
  ae_windows :: bool
  ae_environmentFromName :: "string \<Rightarrow> azure_environment result"
  ae_getTenantID :: "string \<Rightarrow> ('w, string) io"

definition parsedUUID :: "string \<times> go_error option \<Rightarrow> string result" where
  "parsedUUID r = (case r of (u, None) \<Rightarrow> Inr u | (u, Some e) \<Rightarrow> Inl e)"

definition getCloudSubFromAzConfig :: "'w auth_env \<Rightarrow> string \<Rightarrow> ini_file \<Rightarrow> string result" where
  "getCloudSubFromAzConfig env cloud f =
     (case map_of f cloud of
        None \<Rightarrow> Inl (WrapError ''could not find user defined subscription id'' (ae_noSection env cloud))
      | Some cfg \<Rightarrow>
          (case map_of cfg ''subscription'' of
             None \<Rightarrow> Inl (WrapError ''error reading subscription id from cloud config'' (ae_noKey env ''subscription''))
           | Some sub \<Rightarrow> parsedUUID (ae_uuidParse env sub)))"

definition getSubFromAzDir :: "'w auth_env \<Rightarrow> string \<Rightarrow> ('w, string) io" where
  "getSubFromAzDir env root w =
     (case ae_iniLoad env (filepathJoin [root, ''clouds.config'']) w of
        (Inl e, w1) \<Rightarrow> (Inl (WrapError ''error decoding cloud subscription config'' e), w1)
      | (Inr subConfig, w1) \<Rightarrow>
          (case ae_iniLoad env (filepathJoin [root, ''config'']) w1 of
             (Inl e, w2) \<Rightarrow> (Inl (WrapError ''error decoding cloud config'' e), w2)
           | (Inr cloudConfig, w2) \<Rightarrow>
               (getCloudSubFromAzConfig env (getSelectedCloudFromAzConfig cloudConfig) subConfig, w2)))"

definition getHomeDir :: "'w auth_env \<Rightarrow> string" where
  "getHomeDir env =
     (if ae_windows env then
        (let home = ae_getenv env ''HOMEDRIVE'' @ ae_getenv env ''HOMEPATH'' in
         if home = [] then ae_getenv env ''USERPROFILE'' else home)
      else ae_getenv env ''HOME'')"

subsection \<open>Validation\<close>

record 'cred auth_args =
  aa_rawAzureEnvironment :: string
  aa_rawSubscriptionID :: string
  aa_subscriptionID :: string
  aa_authMethod :: string
  aa_rawClientID :: string
  aa_tenantID :: string
  aa_clientID :: string
  aa_clientSecret :: string
  aa_certificatePath :: string
  aa_privateKeyPath :: string
  aa_azureClient :: "'cred built_client option"

text \<open>The first part of \<open>Validate\<close>: the method and the options it needs.\<close>

definition validateMethod :: "'w auth_env \<Rightarrow> 'cred auth_args \<Rightarrow> go_error option \<times> 'cred auth_args" where
  "validateMethod env a0 =
     (if aa_authMethod a0 = [] then (Some (GoError ''--auth-method is a required parameter''), a0)
      else
        (let a = (if aa_authMethod a0 = cliAuthMethod \<and> aa_rawClientID a0 \<noteq> [] \<and> aa_clientSecret a0 \<noteq> []
                  then a0 \<lparr> aa_authMethod := clientSecretAuthMethod \<rparr> else a0) in
         if aa_authMethod a = clientSecretAuthMethod \<or> aa_authMethod a = clientCertificateAuthMethod then
           (case ae_uuidParse env (aa_rawClientID a) of
              (u, Some e) \<Rightarrow> (Some (WrapError ''parsing --client-id'' e), a \<lparr> aa_clientID := u \<rparr>)
            | (u, None) \<Rightarrow>
                (let a1 = a \<lparr> aa_clientID := u \<rparr> in
                 if aa_authMethod a1 = clientSecretAuthMethod then
                   (if aa_clientSecret a1 = []
                    then (Some (GoError (''--client-secret must be specified when --auth-method='' @ quoted ''client_secret'')), a1)
                    else (None, a1))
                 else if aa_certificatePath a1 = [] \<or> aa_privateKeyPath a1 = []
                 then (Some (GoError (''--certificate-path and --private-key-path must be specified when --auth-method='' @
                        quoted ''client_certificate'')), a1)
                 else (None, a1)))
         else (None, a)))"

text \<open>The second part: the subscription, from the flag or from the Azure CLI.\<close>

definition errSubscriptionRequired :: go_error where
  "errSubscriptionRequired = GoError ''--subscription-id is required (and must be a valid UUID)''"

definition validateSubscription :: "'w auth_env \<Rightarrow> 'cred auth_args \<Rightarrow> 'w \<Rightarrow> (go_error option \<times> 'cred auth_args) \<times> 'w" where
  "validateSubscription env a w =
     (let a1 = a \<lparr> aa_subscriptionID := fst (ae_uuidParse env (aa_rawSubscriptionID a)) \<rparr> in
      if aa_subscriptionID a1 = nilUUID then
        (case getSubFromAzDir env (filepathJoin [getHomeDir env, ''.azure'']) w of
           (Inl e, w1) \<Rightarrow> ((Some errSubscriptionRequired, a1), w1)
         | (Inr subID, w1) \<Rightarrow>
             if subID = nilUUID then ((Some errSubscriptionRequired, a1), w1)
             else ((None, a1 \<lparr> aa_subscriptionID := subID \<rparr>), w1))
      else ((None, a1), w))"

text \<open>The client of the method.\<close>

definition newClientOf ::
  "('w, 'cert, 'key, 'cred) client_sdk \<Rightarrow> azure_environment \<Rightarrow> 'cred auth_args \<Rightarrow> ('w, 'cred built_client) io" where
  "newClientOf sdk e a =
     (if aa_authMethod a = cliAuthMethod then NewAzureClientWithCLI sdk e (aa_subscriptionID a)
      else if aa_authMethod a = clientSecretAuthMethod then
        NewAzureClientWithClientSecret sdk e (aa_subscriptionID a) (aa_clientID a) (aa_clientSecret a) (aa_tenantID a)
      else if aa_authMethod a = clientCertificateAuthMethod then
        NewAzureClientWithClientCertificateFile sdk e (aa_subscriptionID a) (aa_clientID a) (aa_tenantID a)
          (aa_certificatePath a) (aa_privateKeyPath a)
      else (\<lambda>w. (Inl (GoError (''--auth-method: ERROR: method unsupported. method='' @ quoted (aa_authMethod a))), w)))"

definition Validate ::
  "'w auth_env \<Rightarrow> ('w, 'cert, 'key, 'cred) client_sdk \<Rightarrow> 'cred auth_args \<Rightarrow> 'w \<Rightarrow>
   (go_error option \<times> 'cred auth_args) \<times> 'w" where
  "Validate env sdk a0 w =
     (case validateMethod env a0 of (Some e, a) \<Rightarrow> ((Some e, a), w) | (None, a) \<Rightarrow>
      (case validateSubscription env a w of ((Some e, a1), w1) \<Rightarrow> ((Some e, a1), w1) | ((None, a1), w1) \<Rightarrow>
      (case ae_environmentFromName env (aa_rawAzureEnvironment a1) of
         Inl e \<Rightarrow> ((Some (WrapError ''failed to parse --azure-env as a valid target Azure cloud environment'' e), a1), w1)
       | Inr environment \<Rightarrow>
      (case ae_getTenantID env (aa_subscriptionID a1) w1 of
         (Inl e, w2) \<Rightarrow> ((Some e, a1 \<lparr> aa_tenantID := [] \<rparr>), w2)
       | (Inr tenant, w2) \<Rightarrow>
           (let a2 = a1 \<lparr> aa_tenantID := tenant \<rparr> in
            case newClientOf sdk environment a2 w2 of
              (Inl e, w3) \<Rightarrow> ((Some e, a2 \<lparr> aa_azureClient := None \<rparr>), w3)
            | (Inr client, w3) \<Rightarrow> ((None, a2 \<lparr> aa_azureClient := Some client \<rparr>), w3))))))"

subsection \<open>What a successful validation guarantees\<close>

lemma clientFrom_built:
  "clientFrom sdk env sub cred w = (Inr c, w1) \<Longrightarrow> bc_subscriptionID c = sub \<and> bc_environment c = env"
  by (auto simp: clientFrom_def getClient_def wrapResult_def split: prod.splits sum.splits)

lemma newClientOf_built:
  assumes "newClientOf sdk env a w = (Inr c, w1)"
  shows "bc_subscriptionID c = aa_subscriptionID a \<and> bc_environment c = env \<and>
    aa_authMethod a \<in> {cliAuthMethod, clientSecretAuthMethod, clientCertificateAuthMethod}"
  using assms
  by (auto simp: newClientOf_def NewAzureClientWithCLI_def NewAzureClientWithClientSecret_def
      NewAzureClientWithClientCertificateFile_def NewAzureClientWithClientCertificate_def
      split: if_splits prod.splits sum.splits option.splits dest: clientFrom_built)

lemma validateMethod_ok:
  assumes "validateMethod env a0 = (None, a)"
  shows "(aa_authMethod a = clientSecretAuthMethod \<longrightarrow> aa_clientSecret a \<noteq> [] \<and> ae_uuidParse env (aa_rawClientID a) = (aa_clientID a, None)) \<and>
    (aa_authMethod a = clientCertificateAuthMethod \<longrightarrow>
       aa_certificatePath a \<noteq> [] \<and> aa_privateKeyPath a \<noteq> [] \<and> ae_uuidParse env (aa_rawClientID a) = (aa_clientID a, None)) \<and>
    (aa_authMethod a = cliAuthMethod \<longrightarrow> aa_rawClientID a = [] \<or> aa_clientSecret a = [])"
  using assms
  by (auto simp: validateMethod_def Let_def clientSecretAuthMethod_def clientCertificateAuthMethod_def cliAuthMethod_def
      split: if_splits prod.splits option.splits)

lemma validateSubscription_ok:
  "validateSubscription env a w = ((None, a1), w1) \<Longrightarrow>
   aa_subscriptionID a1 \<noteq> nilUUID \<and> aa_authMethod a1 = aa_authMethod a \<and>
   aa_rawClientID a1 = aa_rawClientID a \<and> aa_clientSecret a1 = aa_clientSecret a \<and>
   aa_clientID a1 = aa_clientID a \<and> aa_certificatePath a1 = aa_certificatePath a \<and>
   aa_privateKeyPath a1 = aa_privateKeyPath a"
  by (auto simp: validateSubscription_def Let_def split: if_splits prod.splits sum.splits)

text \<open>
  C40: A validated command.  When the validation succeeds, there is a client, for the Azure
  environment and the subscription that were resolved, and the subscription is not the nil
  UUID; the method is one of the three, a secret or certificate method has its options and
  a client id that parsed, and the CLI method is used only when no client id and secret
  pair was given.
\<close>

theorem validated_command:
  assumes "Validate env sdk a0 w = ((None, a), w1)"
  shows "\<exists>client. aa_azureClient a = Some client \<and>
      bc_subscriptionID client = aa_subscriptionID a \<and> aa_subscriptionID a \<noteq> nilUUID \<and>
      ae_environmentFromName env (aa_rawAzureEnvironment a) = Inr (bc_environment client) \<and>
      ((aa_authMethod a = clientSecretAuthMethod \<and> aa_clientSecret a \<noteq> [] \<and>
          ae_uuidParse env (aa_rawClientID a) = (aa_clientID a, None)) \<or>
       (aa_authMethod a = clientCertificateAuthMethod \<and> aa_certificatePath a \<noteq> [] \<and> aa_privateKeyPath a \<noteq> [] \<and>
          ae_uuidParse env (aa_rawClientID a) = (aa_clientID a, None)) \<or>
       (aa_authMethod a = cliAuthMethod \<and> (aa_rawClientID a = [] \<or> aa_clientSecret a = [])))"
proof -
  obtain b b1 w2 e tenant w3 client w4 where b: "validateMethod env a0 = (None, b)"
    and b1: "validateSubscription env b w = ((None, b1), w2)"
    and e: "ae_environmentFromName env (aa_rawAzureEnvironment b1) = Inr e"
    and c: "newClientOf sdk e (b1 \<lparr> aa_tenantID := tenant \<rparr>) w3 = (Inr client, w4)"
    and a: "a = b1 \<lparr> aa_tenantID := tenant, aa_azureClient := Some client \<rparr>"
    using assms by (auto simp: Validate_def Let_def split: prod.splits option.splits sum.splits)
  show ?thesis
    using newClientOf_built [OF c] validateMethod_ok [OF b] validateSubscription_ok [OF b1] e
    by (auto simp: a)
qed

text \<open>A concrete validation, with a client id and a secret but the default method.\<close>

definition demoAuthEnv :: "unit auth_env" where
  "demoAuthEnv = \<lparr> ae_uuidParse = (\<lambda>s. (s, None)),
     ae_iniLoad = (\<lambda>f w. (Inl (GoError ''no file''), w)), ae_noSection = GoError, ae_noKey = GoError,
     ae_getenv = (\<lambda>v. ''/root''), ae_windows = False, ae_environmentFromName = (\<lambda>n. Inr PublicCloud),
     ae_getTenantID = (\<lambda>s w. (Inr ''tenant'', w)) \<rparr>"

definition demoClientSdk :: "(unit, string, string, string) client_sdk" where
  "demoClientSdk = \<lparr> sk_cliCredential = (\<lambda>w. (Inr ''cli'', w)),
     sk_secretCredential = (\<lambda>t c s w. (Inr ''secret'', w)), sk_certificateCredential = (\<lambda>t c x k w. (Inr ''certificate'', w)),
     sk_readFile = (\<lambda>f w. (Inr f, w)), sk_pemDecode = Some, sk_parseCertificate = Inr,
     sk_parsePKCS1PrivateKey = Inr, sk_parsePKCS8PrivateKey = (\<lambda>b. Inr (Some b)),
     sk_authProvider = (\<lambda>c s. Inr ()), sk_requestAdapter = (\<lambda>c. Inr ()),
     sk_roleAssignmentsClient = (\<lambda>s c. Inr ()), sk_roleDefinitionsClient = (\<lambda>c. Inr ()),
     sk_errText = (\<lambda>e. []) \<rparr>"

definition demoAuthArgs :: "string auth_args" where
  "demoAuthArgs = \<lparr> aa_rawAzureEnvironment = ''AzurePublicCloud'', aa_rawSubscriptionID = ''sub'',
     aa_subscriptionID = [], aa_authMethod = ''cli'', aa_rawClientID = ''client'', aa_tenantID = [],
     aa_clientID = [], aa_clientSecret = ''secret'', aa_certificatePath = [], aa_privateKeyPath = [],
     aa_azureClient = None \<rparr>"

theorem validated_command_witness:
  "\<exists>a client. Validate demoAuthEnv demoClientSdk demoAuthArgs () = ((None, a), ()) \<and>
     aa_azureClient a = Some client \<and> bc_subscriptionID client = aa_subscriptionID a"
proof -
  have "\<exists>a. Validate demoAuthEnv demoClientSdk demoAuthArgs () = ((None, a), ())"
    by (simp add: Validate_def validateMethod_def validateSubscription_def Let_def newClientOf_def
        NewAzureClientWithClientSecret_def clientFrom_def getClient_def wrapResult_def demoAuthEnv_def
        demoClientSdk_def demoAuthArgs_def cliAuthMethod_def clientSecretAuthMethod_def
        clientCertificateAuthMethod_def nilUUID_def)
  then obtain a where "Validate demoAuthEnv demoClientSdk demoAuthArgs () = ((None, a), ())" by blast
  with validated_command [OF this] show ?thesis by blast
qed

end
