(* ===== verification/Jwks.thy ===== *)
theory Jwks
  imports Go_Crypto
begin

section \<open>azwi jwks (pkg/cmd/jwks/root.go)\<close>

text \<open>
  The JSON Web Key Set of the public halves of the keys in some files.  Reading and
  parsing key files, the DER and JSON encoders and the validity tests of the jose library
  are parameters.
\<close>

datatype curve = P256 | P384 | P521 | OtherCurve

datatype public_key =
    RSAPublicKey string
  | ECDSAPublicKey curve string
  | OpaqueSigner string
  | OtherPublicKey string

text \<open>A parsed key: a private key, which implements \<open>publicKeyGetter\<close>, or a public one.\<close>

datatype parsed_key = KeyGetter public_key | PlainKey public_key

record jwk =
  jwk_algorithm :: string
  jwk_key :: public_key
  jwk_keyID :: string
  jwk_use :: string

record 'w jwks_env =
  je_publicKeysFromFile :: "string \<Rightarrow> ('w, parsed_key list) io"
  je_marshalPKIX :: "public_key \<Rightarrow> string result"
  je_isPublic :: "jwk \<Rightarrow> bool"
  je_valid :: "jwk \<Rightarrow> bool"
  je_show :: "jwk \<Rightarrow> string"
  je_marshalIndent :: "jwk list \<Rightarrow> string result"
  je_writeFile :: "string \<Rightarrow> string \<Rightarrow> int \<Rightarrow> ('w, unit) io"
  je_stdoutWrite :: "string \<Rightarrow> ('w, unit) io"

definition algorithmFromPublicKey :: "public_key \<Rightarrow> string result" where
  "algorithmFromPublicKey publicKey =
     (case publicKey of
        RSAPublicKey k \<Rightarrow> Inr ''RS256''
      | ECDSAPublicKey c k \<Rightarrow>
          (case c of
             P256 \<Rightarrow> Inr ''ES256''
           | P384 \<Rightarrow> Inr ''ES384''
           | P521 \<Rightarrow> Inr ''ES512''
           | OtherCurve \<Rightarrow> Inl (GoError ''unknown private key curve, must be 256, 384, or 521''))
      | OpaqueSigner alg \<Rightarrow> Inr alg
      | OtherPublicKey k \<Rightarrow>
          Inl (GoError ''unknown public key type, must be *rsa.PublicKey, *ecdsa.PublicKey, or jose.OpaqueSigner''))"

definition keyIDFromPublicKey :: "'w jwks_env \<Rightarrow> public_key \<Rightarrow> string result" where
  "keyIDFromPublicKey env publicKey =
     (case je_marshalPKIX env publicKey of
        Inl e \<Rightarrow> Inl (WrapError ''failed to serialize public key to DER format'' e)
      | Inr der \<Rightarrow> Inr (b64Encode False (sha256 der)))"

definition jwkFromPublicKey :: "'w jwks_env \<Rightarrow> public_key \<Rightarrow> jwk result" where
  "jwkFromPublicKey env publicKey =
     (case algorithmFromPublicKey publicKey of Inl e \<Rightarrow> Inl e | Inr alg \<Rightarrow>
      (case keyIDFromPublicKey env publicKey of Inl e \<Rightarrow> Inl e | Inr keyID \<Rightarrow>
      (let k = \<lparr> jwk_algorithm = alg, jwk_key = publicKey, jwk_keyID = keyID, jwk_use = ''sig'' \<rparr> in
       if \<not> je_isPublic env k then Inl (GoError (''JWK was not a public key! JWK: '' @ je_show env k))
       else Inr k)))"

definition publicHalf :: "parsed_key \<Rightarrow> public_key" where
  "publicHalf key = (case key of KeyGetter p \<Rightarrow> p | PlainKey p \<Rightarrow> p)"

definition errInvalidKey :: go_error where
  "errInvalidKey = GoError ''the public key is not valid''"

fun publicJWKSLoop :: "'w jwks_env \<Rightarrow> parsed_key list \<Rightarrow> jwk list \<Rightarrow> jwk list result" where
  "publicJWKSLoop env [] keys = Inr keys"
| "publicJWKSLoop env (key # rest) keys =
     (case jwkFromPublicKey env (publicHalf key) of
        Inl e \<Rightarrow> Inl e
      | Inr pubkey \<Rightarrow>
          if \<not> je_valid env pubkey then Inl errInvalidKey
          else publicJWKSLoop env rest (keys @ [pubkey]))"

definition publicJWKSFromKeys :: "'w jwks_env \<Rightarrow> parsed_key list \<Rightarrow> jwk list result" where
  "publicJWKSFromKeys env ins = publicJWKSLoop env ins []"

subsection \<open>The command\<close>

definition jwksValidate :: "string list \<Rightarrow> go_error option" where
  "jwksValidate publicKeys =
     (if length publicKeys = 0 then Some (GoError ''no public keys provided'') else None)"

fun readKeysLoop :: "'w jwks_env \<Rightarrow> string list \<Rightarrow> parsed_key list \<Rightarrow> ('w, parsed_key list) io" where
  "readKeysLoop env [] pubKeys w = (Inr pubKeys, w)"
| "readKeysLoop env (file # files) pubKeys w =
     (case je_publicKeysFromFile env file w of
        (Inl e, w1) \<Rightarrow> (Inl (WrapError ''failed to read public key file'' e), w1)
      | (Inr ks, w1) \<Rightarrow> readKeysLoop env files (pubKeys @ ks) w1)"

definition jwksRun :: "'w jwks_env \<Rightarrow> string list \<Rightarrow> string \<Rightarrow> 'w \<Rightarrow> go_error option \<times> 'w" where
  "jwksRun env publicKeys outputFile w =
     (case readKeysLoop env publicKeys [] w of
        (Inl e, w1) \<Rightarrow> (Some e, w1)
      | (Inr pubKeys, w1) \<Rightarrow>
          (case publicJWKSFromKeys env pubKeys of
             Inl e \<Rightarrow> (Some (WrapError ''failed to construct JSONWebKeySet from a list of keys'' e), w1)
           | Inr keySet \<Rightarrow>
               (case je_marshalIndent env keySet of
                  Inl e \<Rightarrow> (Some (WrapError ''failed to marshal JSONWebKeySet'' e), w1)
                | Inr keysetJSON \<Rightarrow>
                    if outputFile \<noteq> [] then
                      (case je_writeFile env outputFile keysetJSON 384 w1 of
                         (Inl e, w2) \<Rightarrow> (Some (WrapError ''failed to write JWKS to file'' e), w2)
                       | (Inr _, w2) \<Rightarrow> (None, w2))
                    else
                      (case je_stdoutWrite env keysetJSON w1 of
                         (Inl e, w2) \<Rightarrow> (Some (WrapError ''failed to write JWKS to stdout'' e), w2)
                       | (Inr _, w2) \<Rightarrow> (None, w2)))))"

subsection \<open>The key set\<close>

lemma length_b64Encode_raw: "length (b64Encode False s) = (4 * length s + 2) div 3"
proof (induction False s rule: b64Encode.induct)
  case (1 a b c s)
  have "4 * Suc (Suc (Suc (length s))) + 2 = (4 * length s + 2) + 4 * 3" by simp
  then have "(4 * Suc (Suc (Suc (length s))) + 2) div 3 = 4 + (4 * length s + 2) div 3"
    by (simp only: div_mult_self1)
  with 1 show ?case by (simp add: Let_def)
qed (simp_all add: Let_def)

text \<open>What an entry of the set says about the key it was made from.\<close>

definition describes :: "'w jwks_env \<Rightarrow> parsed_key \<Rightarrow> jwk \<Rightarrow> bool" where
  "describes env key k \<longleftrightarrow>
     jwk_key k = publicHalf key \<and> jwk_use k = ''sig'' \<and>
     algorithmFromPublicKey (publicHalf key) = Inr (jwk_algorithm k) \<and>
     keyIDFromPublicKey env (publicHalf key) = Inr (jwk_keyID k) \<and>
     length (jwk_keyID k) = 43 \<and> je_isPublic env k \<and> je_valid env k"

lemma jwkFromPublicKey_describes:
  "jwkFromPublicKey env (publicHalf key) = Inr k \<Longrightarrow> je_valid env k \<Longrightarrow> describes env key k"
  by (auto simp: jwkFromPublicKey_def describes_def keyIDFromPublicKey_def Let_def length_b64Encode_raw
      split: sum.splits if_splits)

lemma publicJWKSLoop_describes:
  "list_all2 (describes env) done acc \<Longrightarrow>
   (case publicJWKSLoop env ks acc of
      Inr keys \<Rightarrow> list_all2 (describes env) (done @ ks) keys
    | Inl e \<Rightarrow> list_ex (\<lambda>key. \<forall>k. \<not> describes env key k) ks)"
proof (induction env ks acc arbitrary: "done" rule: publicJWKSLoop.induct)
  case (2 env key rest keys)
  show ?case
  proof (cases "jwkFromPublicKey env (publicHalf key)")
    case (Inl e)
    have "\<not> describes env key k" for k
      using Inl by (cases k) (auto simp: describes_def jwkFromPublicKey_def Let_def split: sum.splits if_splits)
    with Inl show ?thesis by simp
  next
    case (Inr k)
    show ?thesis
    proof (cases "je_valid env k")
      case True
      then have "list_all2 (describes env) (done @ [key]) (keys @ [k])"
        using 2(2) jwkFromPublicKey_describes [OF Inr] by (intro list_all2_appendI) simp_all
      from 2(1) [OF Inr _ this] show ?thesis using Inr True by (auto split: sum.splits)
    next
      case False
      have "\<not> describes env key k'" for k'
        using Inr False by (cases k') (auto simp: describes_def jwkFromPublicKey_def Let_def split: sum.splits if_splits)
      with Inr False show ?thesis by simp
    qed
  qed
qed simp

text \<open>
  The key set.  It has one entry per input key, in order, and never a private key: the
  public half of the key, its algorithm, the use "sig", and as key id the 43 characters
  of the base64 SHA-256 of its DER form.  When the set cannot be made, there is an input
  key that no valid public entry describes.
\<close>

theorem key_set:
  "case publicJWKSFromKeys env ins of
     Inr keys \<Rightarrow> list_all2 (describes env) ins keys
   | Inl e \<Rightarrow> list_ex (\<lambda>key. \<forall>k. \<not> describes env key k) ins"
  using publicJWKSLoop_describes [of env "[]" "[]" ins]
  by (cases "publicJWKSLoop env ins []") (simp_all add: publicJWKSFromKeys_def)

end
