(* ===== verification/Cloud.thy ===== *)
theory Cloud
  imports Go_Strings
begin

section \<open>The cloud client (pkg/cloud)\<close>

text \<open>
  \<open>errors.go\<close>, \<open>graph.go\<close>, \<open>roleassignments.go\<close> and \<open>roledefinitions.go\<close>: the
  tests on errors, and the operations of \<open>AzureClient\<close> over the Graph and the
  authorization SDK.  The SDK calls are a record of parameters (\<open>azure_sdk\<close>); the
  \<open>Interface\<close> that the commands use is the record \<open>azure_client\<close>, which
  \<open>AzureClient\<close> fills from an SDK.
\<close>

subsection \<open>Errors (errors.go)\<close>

text \<open>
  \<open>err.Error()\<close>; \<open>lib\<close> gives the text of the error types that belong to libraries.
\<close>

fun errText :: "(go_error \<Rightarrow> string) \<Rightarrow> go_error \<Rightarrow> string" where
  "errText lib (GoError msg) = msg"
| "errText lib (WrapError msg e) = msg @ '': '' @ errText lib e"
| "errText lib (GraphError code msg) = ''code: '' @ code @ '', message: '' @ msg"
| "errText lib e = lib e"

text \<open>\<open>errors.As\<close>: the first error of the chain that has the wanted type.\<close>

fun errorsAs :: "(go_error \<Rightarrow> 'a option) \<Rightarrow> go_error \<Rightarrow> 'a option" where
  "errorsAs sel (WrapError msg e) =
     (case sel (WrapError msg e) of Some x \<Rightarrow> Some x | None \<Rightarrow> errorsAs sel e)"
| "errorsAs sel e = sel e"

fun asGraphError :: "go_error \<Rightarrow> (string \<times> string) option" where
  "asGraphError (GraphError code msg) = Some (code, msg)"
| "asGraphError _ = None"

fun asODataError :: "go_error \<Rightarrow> (string \<times> string) option" where
  "asODataError (ODataError code msg) = Some (code, msg)"
| "asODataError _ = None"

fun asResponseError :: "go_error \<Rightarrow> int option" where
  "asResponseError (ResponseError status msg) = Some status"
| "asResponseError _ = None"

definition GraphErrorCodeResourceNotFound :: string where
  "GraphErrorCodeResourceNotFound = ''Request_ResourceNotFound''"

definition GraphErrorCodeMultipleObjectsWithSameKeyValue :: string where
  "GraphErrorCodeMultipleObjectsWithSameKeyValue = ''Request_MultipleObjectsWithSameKeyValue''"

definition IsNotFound :: "(go_error \<Rightarrow> string) \<Rightarrow> go_error \<Rightarrow> bool" where
  "IsNotFound lib e = strContains (errText lib e) ''not found''"

definition IsRoleAssignmentAlreadyDeleted :: "go_error \<Rightarrow> bool" where
  "IsRoleAssignmentAlreadyDeleted e = (errorsAs asResponseError e = Some 204)"

definition IsRoleAssignmentExists :: "go_error \<Rightarrow> bool" where
  "IsRoleAssignmentExists e = (errorsAs asResponseError e = Some 409)"

definition IsFederatedCredentialNotFound :: "go_error \<Rightarrow> bool" where
  "IsFederatedCredentialNotFound e =
     (case errorsAs asGraphError e of
        Some (code, msg) \<Rightarrow> code = GraphErrorCodeResourceNotFound
      | None \<Rightarrow> False)"

definition IsFederatedCredentialAlreadyExists :: "go_error \<Rightarrow> bool" where
  "IsFederatedCredentialAlreadyExists e =
     (case errorsAs asGraphError e of
        Some (code, msg) \<Rightarrow> code = GraphErrorCodeMultipleObjectsWithSameKeyValue
      | None \<Rightarrow> False)"

definition maybeExtractGraphError :: "go_error \<Rightarrow> go_error" where
  "maybeExtractGraphError e =
     (case errorsAs asODataError e of Some (code, msg) \<Rightarrow> GraphError code msg | None \<Rightarrow> e)"

subsection \<open>The objects of the directory and the SDK\<close>

text \<open>
  The fields that the program reads.  The SDK's getters return pointers which the
  program dereferences without a test; the service sets them on every object it returns.
\<close>

record application =
  app_displayName :: string
  app_appId :: string
  app_id :: string

record service_principal =
  sp_displayName :: string
  sp_appId :: string
  sp_id :: string

record federated_credential =
  fic_id :: string
  fic_name :: string
  fic_issuer :: string
  fic_subject :: string
  fic_description :: string
  fic_audiences :: "string list"

text \<open>The id of a role assignment is a pointer which stays nil in the empty result.\<close>

record role_assignment =
  ra_id :: "string option"

definition emptyRoleAssignment :: role_assignment where
  "emptyRoleAssignment = \<lparr> ra_id = None \<rparr>"

text \<open>
  The SDK calls: the directory (Post may return a nil object), the authorization service
  (a listing is a finite sequence of pages, each fetched by a call), the random UUIDs and
  the clock.
\<close>

record 'w azure_sdk =
  sdk_appsPost :: "string \<Rightarrow> ('w, application option) io"
  sdk_appsGet :: "string \<Rightarrow> ('w, application list) io"
  sdk_appDelete :: "string \<Rightarrow> ('w, unit) io"
  sdk_spsPost :: "string \<Rightarrow> string list \<Rightarrow> ('w, service_principal option) io"
  sdk_spsGet :: "string \<Rightarrow> ('w, service_principal list) io"
  sdk_spDelete :: "string \<Rightarrow> ('w, unit) io"
  sdk_ficPost :: "string \<Rightarrow> federated_credential \<Rightarrow> ('w, unit) io"
  sdk_ficGet :: "string \<Rightarrow> string \<Rightarrow> ('w, federated_credential list) io"
  sdk_ficDelete :: "string \<Rightarrow> string \<Rightarrow> ('w, unit) io"
  sdk_roleDefinitionPages :: "string \<Rightarrow> string \<Rightarrow> ('w, string list) io list"
  sdk_raCreate :: "string \<Rightarrow> string \<Rightarrow> string \<Rightarrow> string \<Rightarrow> ('w, role_assignment) io"
  sdk_raDelete :: "string \<Rightarrow> ('w, role_assignment) io"
  sdk_uuidNew :: "'w \<Rightarrow> string \<times> 'w"
  sdk_sleep :: "int \<Rightarrow> 'w \<Rightarrow> 'w"

subsection \<open>The directory (graph.go)\<close>

definition ErrFederatedCredentialNotFound :: go_error where
  "ErrFederatedCredentialNotFound = GoError ''federated credential not found''"

definition extractOnError :: "('w, 'a) io \<Rightarrow> ('w, 'a) io" where
  "extractOnError call w =
     (case call w of
        (Inl e, w1) \<Rightarrow> (Inl (maybeExtractGraphError e), w1)
      | (Inr x, w1) \<Rightarrow> (Inr x, w1))"

definition CreateServicePrincipal ::
  "'w azure_sdk \<Rightarrow> string \<Rightarrow> string list \<Rightarrow> ('w, service_principal option) io" where
  "CreateServicePrincipal sdk appID tags = extractOnError (sdk_spsPost sdk appID tags)"

definition CreateApplication :: "'w azure_sdk \<Rightarrow> string \<Rightarrow> ('w, application option) io" where
  "CreateApplication sdk displayName = extractOnError (sdk_appsPost sdk displayName)"

definition getDisplayNameFilter :: "string \<Rightarrow> string" where
  "getDisplayNameFilter displayName = ''displayName eq '' @ [CHR 0x27] @ displayName @ [CHR 0x27]"

definition getSubjectFilter :: "string \<Rightarrow> string" where
  "getSubjectFilter subject = ''subject eq '' @ [CHR 0x27] @ subject @ [CHR 0x27]"

definition errServicePrincipalNotFound :: "string \<Rightarrow> go_error" where
  "errServicePrincipalNotFound displayName = GoError (''service principal '' @ displayName @ '' not found'')"

definition GetServicePrincipal :: "'w azure_sdk \<Rightarrow> string \<Rightarrow> ('w, service_principal) io" where
  "GetServicePrincipal sdk displayName w =
     (case extractOnError (sdk_spsGet sdk (getDisplayNameFilter displayName)) w of
        (Inl e, w1) \<Rightarrow> (Inl e, w1)
      | (Inr [], w1) \<Rightarrow> (Inl (errServicePrincipalNotFound displayName), w1)
      | (Inr (sp # _), w1) \<Rightarrow> (Inr sp, w1))"

definition errAppNotFound :: "string \<Rightarrow> go_error" where
  "errAppNotFound displayName =
     GoError (''application with display name '' @ [CHR 0x27] @ displayName @ [CHR 0x27] @ '' not found'')"

definition GetApplication :: "'w azure_sdk \<Rightarrow> string \<Rightarrow> ('w, application) io" where
  "GetApplication sdk displayName w =
     (case extractOnError (sdk_appsGet sdk (getDisplayNameFilter displayName)) w of
        (Inl e, w1) \<Rightarrow> (Inl e, w1)
      | (Inr [], w1) \<Rightarrow> (Inl (errAppNotFound displayName), w1)
      | (Inr (app # _), w1) \<Rightarrow> (Inr app, w1))"

definition DeleteServicePrincipal :: "'w azure_sdk \<Rightarrow> string \<Rightarrow> ('w, unit) io" where
  "DeleteServicePrincipal sdk objectID = sdk_spDelete sdk objectID"

definition DeleteApplication :: "'w azure_sdk \<Rightarrow> string \<Rightarrow> ('w, unit) io" where
  "DeleteApplication sdk objectID = sdk_appDelete sdk objectID"

definition AddFederatedCredential :: "'w azure_sdk \<Rightarrow> string \<Rightarrow> federated_credential \<Rightarrow> ('w, unit) io" where
  "AddFederatedCredential sdk objectID fic = extractOnError (sdk_ficPost sdk objectID fic)"

fun firstWithIssuer :: "string \<Rightarrow> federated_credential list \<Rightarrow> federated_credential result" where
  "firstWithIssuer issuer [] = Inl ErrFederatedCredentialNotFound"
| "firstWithIssuer issuer (fic # fics) =
     (if fic_issuer fic = issuer then Inr fic else firstWithIssuer issuer fics)"

definition GetFederatedCredential ::
  "'w azure_sdk \<Rightarrow> string \<Rightarrow> string \<Rightarrow> string \<Rightarrow> ('w, federated_credential) io" where
  "GetFederatedCredential sdk objectID issuer subject w =
     (case extractOnError (sdk_ficGet sdk objectID (getSubjectFilter subject)) w of
        (Inl e, w1) \<Rightarrow> (Inl e, w1)
      | (Inr fics, w1) \<Rightarrow> (firstWithIssuer issuer fics, w1))"

definition DeleteFederatedCredential :: "'w azure_sdk \<Rightarrow> string \<Rightarrow> string \<Rightarrow> ('w, unit) io" where
  "DeleteFederatedCredential sdk objectID federatedCredentialID =
     sdk_ficDelete sdk objectID federatedCredentialID"

subsection \<open>Role definitions and assignments (roledefinitions.go, roleassignments.go)\<close>

definition getRoleNameFilter :: "string \<Rightarrow> string" where
  "getRoleNameFilter roleName = ''roleName eq '' @ [CHR 0x27] @ roleName @ [CHR 0x27]"

definition errRoleNotFound :: "string \<Rightarrow> go_error" where
  "errRoleNotFound roleName = GoError (''role definition '' @ roleName @ '' not found'')"

fun rolePagerLoop :: "string \<Rightarrow> ('w, string list) io list \<Rightarrow> ('w, string) io" where
  "rolePagerLoop roleName [] w = (Inl (errRoleNotFound roleName), w)"
| "rolePagerLoop roleName (nextPage # pages) w =
     (case nextPage w of
        (Inl e, w1) \<Rightarrow> (Inl (WrapError ''failed to list role definitions'' e), w1)
      | (Inr (v # vs), w1) \<Rightarrow> (Inr v, w1)
      | (Inr [], w1) \<Rightarrow> rolePagerLoop roleName pages w1)"

definition GetRoleDefinitionIDByName :: "'w azure_sdk \<Rightarrow> string \<Rightarrow> string \<Rightarrow> ('w, string) io" where
  "GetRoleDefinitionIDByName sdk scope roleName =
     rolePagerLoop roleName (sdk_roleDefinitionPages sdk scope (getRoleNameFilter roleName))"

definition roleAssignmentCreateRetryCount :: nat where
  "roleAssignmentCreateRetryCount = 7"

text \<open>Five seconds, in the nanoseconds of \<open>time.Duration\<close>.\<close>

definition roleAssignmentCreateRetryDelay :: int where
  "roleAssignmentCreateRetryDelay = 5 * 1000000000"

text \<open>
  The retry loop.  Its \<open>err\<close> is declared inside the loop and shadows the outer one,
  so the return after the loop returns the outer, nil, error: an empty assignment.
\<close>

fun roleAssignmentLoop ::
  "'w azure_sdk \<Rightarrow> string \<Rightarrow> string \<Rightarrow> string \<Rightarrow> nat \<Rightarrow> ('w, role_assignment) io" where
  "roleAssignmentLoop sdk scope roleDefinitionID principalID 0 w = (Inr emptyRoleAssignment, w)"
| "roleAssignmentLoop sdk scope roleDefinitionID principalID (Suc n) w =
     (case sdk_uuidNew sdk w of
        (name, w1) \<Rightarrow>
          (case sdk_raCreate sdk scope name roleDefinitionID principalID w1 of
             (Inr ra, w2) \<Rightarrow> (Inr ra, w2)
           | (Inl e, w2) \<Rightarrow>
               if IsRoleAssignmentExists e then (Inl e, w2)
               else roleAssignmentLoop sdk scope roleDefinitionID principalID n
                      (sdk_sleep sdk roleAssignmentCreateRetryDelay w2)))"

definition CreateRoleAssignment ::
  "'w azure_sdk \<Rightarrow> string \<Rightarrow> string \<Rightarrow> string \<Rightarrow> ('w, role_assignment) io" where
  "CreateRoleAssignment sdk scope roleName principalID w =
     (case GetRoleDefinitionIDByName sdk [] roleName w of
        (Inl e, w1) \<Rightarrow> (Inl (WrapError (''failed to get role definition id for role '' @ roleName) e), w1)
      | (Inr roleDefinitionID, w1) \<Rightarrow>
          roleAssignmentLoop sdk scope roleDefinitionID principalID roleAssignmentCreateRetryCount w1)"

definition DeleteRoleAssignment :: "'w azure_sdk \<Rightarrow> string \<Rightarrow> ('w, role_assignment) io" where
  "DeleteRoleAssignment sdk roleAssignmentID = sdk_raDelete sdk roleAssignmentID"

subsection \<open>The interface of the commands\<close>

text \<open>\<open>Interface\<close> of \<open>azureclient.go\<close>, and \<open>AzureClient\<close> as its implementation.\<close>

record 'w azure_client =
  az_CreateServicePrincipal :: "string \<Rightarrow> string list \<Rightarrow> ('w, service_principal option) io"
  az_CreateApplication :: "string \<Rightarrow> ('w, application option) io"
  az_DeleteServicePrincipal :: "string \<Rightarrow> ('w, unit) io"
  az_DeleteApplication :: "string \<Rightarrow> ('w, unit) io"
  az_GetServicePrincipal :: "string \<Rightarrow> ('w, service_principal) io"
  az_GetApplication :: "string \<Rightarrow> ('w, application) io"
  az_CreateRoleAssignment :: "string \<Rightarrow> string \<Rightarrow> string \<Rightarrow> ('w, role_assignment) io"
  az_DeleteRoleAssignment :: "string \<Rightarrow> ('w, role_assignment) io"
  az_GetRoleDefinitionIDByName :: "string \<Rightarrow> string \<Rightarrow> ('w, string) io"
  az_AddFederatedCredential :: "string \<Rightarrow> federated_credential \<Rightarrow> ('w, unit) io"
  az_GetFederatedCredential :: "string \<Rightarrow> string \<Rightarrow> string \<Rightarrow> ('w, federated_credential) io"
  az_DeleteFederatedCredential :: "string \<Rightarrow> string \<Rightarrow> ('w, unit) io"

definition AzureClient :: "'w azure_sdk \<Rightarrow> 'w azure_client" where
  "AzureClient sdk = \<lparr>
     az_CreateServicePrincipal = CreateServicePrincipal sdk,
     az_CreateApplication = CreateApplication sdk,
     az_DeleteServicePrincipal = DeleteServicePrincipal sdk,
     az_DeleteApplication = DeleteApplication sdk,
     az_GetServicePrincipal = GetServicePrincipal sdk,
     az_GetApplication = GetApplication sdk,
     az_CreateRoleAssignment = CreateRoleAssignment sdk,
     az_DeleteRoleAssignment = DeleteRoleAssignment sdk,
     az_GetRoleDefinitionIDByName = GetRoleDefinitionIDByName sdk,
     az_AddFederatedCredential = AddFederatedCredential sdk,
     az_GetFederatedCredential = GetFederatedCredential sdk,
     az_DeleteFederatedCredential = DeleteFederatedCredential sdk \<rparr>"

end
