(* ===== verification/Cloud_Correct.thy ===== *)
theory Cloud_Correct
  imports Cloud
begin

section \<open>What the cloud client guarantees\<close>

text \<open>
  The lookups, the classification of their errors, and the retry loop of role assignments
  against a reading of it as a sequence of attempts.
\<close>

subsection \<open>Lookups\<close>

lemma not_found_text: "IsNotFound lib (GoError (a @ '' not found''))"
proof -
  have "sublist ''not found'' ((a @ '' '') @ ''not found'')"
    by (rule sublist_append_leftI)
  then show ?thesis by (simp add: IsNotFound_def strContains_iff)
qed

lemma not_found_errors [simp]:
  "IsNotFound lib (errAppNotFound n)"
  "IsNotFound lib (errServicePrincipalNotFound n)"
  "IsNotFound lib ErrFederatedCredentialNotFound"
  using not_found_text [of lib "''application with display name '' @ [CHR 0x27] @ n @ [CHR 0x27]"]
    not_found_text [of lib "''service principal '' @ n"] not_found_text [of lib "''federated credential''"]
  by (simp_all add: errAppNotFound_def errServicePrincipalNotFound_def ErrFederatedCredentialNotFound_def)

lemma federated_not_found_unrecognized: "\<not> IsFederatedCredentialNotFound ErrFederatedCredentialNotFound"
  by (simp add: IsFederatedCredentialNotFound_def ErrFederatedCredentialNotFound_def)

lemma firstWithIssuer_find:
  "firstWithIssuer issuer fics =
     (case find (\<lambda>fic. fic_issuer fic = issuer) fics of
        Some fic \<Rightarrow> Inr fic | None \<Rightarrow> Inl ErrFederatedCredentialNotFound)"
  by (induction issuer fics rule: firstWithIssuer.induct) auto

text \<open>
  The lookups of the directory.  An empty answer to a lookup by display name is an error
  that \<open>IsNotFound\<close> recognizes; a non-empty answer gives its first object.  A federated
  credential is returned only if its issuer is the one asked for; if the answer has none,
  the error is one that \<open>IsFederatedCredentialNotFound\<close> does not recognize.
\<close>

theorem lookup_outcomes:
  "(case sdk_appsGet sdk (getDisplayNameFilter n) w of
     (Inl e, w1) \<Rightarrow> GetApplication sdk n w = (Inl (maybeExtractGraphError e), w1)
   | (Inr apps, w1) \<Rightarrow>
       (if apps = [] then (\<exists>e. GetApplication sdk n w = (Inl e, w1) \<and> IsNotFound lib e)
        else GetApplication sdk n w = (Inr (hd apps), w1))) \<and>
   (case sdk_spsGet sdk (getDisplayNameFilter n) w of
     (Inl e, w1) \<Rightarrow> GetServicePrincipal sdk n w = (Inl (maybeExtractGraphError e), w1)
   | (Inr sps, w1) \<Rightarrow>
       (if sps = [] then (\<exists>e. GetServicePrincipal sdk n w = (Inl e, w1) \<and> IsNotFound lib e)
        else GetServicePrincipal sdk n w = (Inr (hd sps), w1))) \<and>
   (case sdk_ficGet sdk objectID (getSubjectFilter subject) w of
     (Inl e, w1) \<Rightarrow> GetFederatedCredential sdk objectID issuer subject w = (Inl (maybeExtractGraphError e), w1)
   | (Inr fics, w1) \<Rightarrow>
       (case find (\<lambda>fic. fic_issuer fic = issuer) fics of
          Some fic \<Rightarrow> GetFederatedCredential sdk objectID issuer subject w = (Inr fic, w1)
        | None \<Rightarrow> (\<exists>e. GetFederatedCredential sdk objectID issuer subject w = (Inl e, w1) \<and>
                     \<not> IsFederatedCredentialNotFound e)))"
proof (intro conjI)
  show "case sdk_appsGet sdk (getDisplayNameFilter n) w of
     (Inl e, w1) \<Rightarrow> GetApplication sdk n w = (Inl (maybeExtractGraphError e), w1)
   | (Inr apps, w1) \<Rightarrow>
       (if apps = [] then (\<exists>e. GetApplication sdk n w = (Inl e, w1) \<and> IsNotFound lib e)
        else GetApplication sdk n w = (Inr (hd apps), w1))"
    by (auto simp: GetApplication_def extractOnError_def split: prod.split sum.split list.split)
  show "case sdk_spsGet sdk (getDisplayNameFilter n) w of
     (Inl e, w1) \<Rightarrow> GetServicePrincipal sdk n w = (Inl (maybeExtractGraphError e), w1)
   | (Inr sps, w1) \<Rightarrow>
       (if sps = [] then (\<exists>e. GetServicePrincipal sdk n w = (Inl e, w1) \<and> IsNotFound lib e)
        else GetServicePrincipal sdk n w = (Inr (hd sps), w1))"
    by (auto simp: GetServicePrincipal_def extractOnError_def
        split: prod.split sum.split list.split)
  show "case sdk_ficGet sdk objectID (getSubjectFilter subject) w of
     (Inl e, w1) \<Rightarrow> GetFederatedCredential sdk objectID issuer subject w = (Inl (maybeExtractGraphError e), w1)
   | (Inr fics, w1) \<Rightarrow>
       (case find (\<lambda>fic. fic_issuer fic = issuer) fics of
          Some fic \<Rightarrow> GetFederatedCredential sdk objectID issuer subject w = (Inr fic, w1)
        | None \<Rightarrow> (\<exists>e. GetFederatedCredential sdk objectID issuer subject w = (Inl e, w1) \<and>
                     \<not> IsFederatedCredentialNotFound e))"
    by (auto simp: GetFederatedCredential_def extractOnError_def firstWithIssuer_find
        federated_not_found_unrecognized split: prod.split sum.split option.split)
qed

subsection \<open>The retries of a role assignment\<close>

text \<open>One attempt, and the outside before the \<open>i\<close>-th one when all earlier ones failed.\<close>

definition raAttempt :: "'w azure_sdk \<Rightarrow> string \<Rightarrow> string \<Rightarrow> string \<Rightarrow> ('w, role_assignment) io" where
  "raAttempt sdk scope rd principalID w =
     (case sdk_uuidNew sdk w of (n, w1) \<Rightarrow> sdk_raCreate sdk scope n rd principalID w1)"

fun raBefore :: "'w azure_sdk \<Rightarrow> string \<Rightarrow> string \<Rightarrow> string \<Rightarrow> nat \<Rightarrow> 'w \<Rightarrow> 'w" where
  "raBefore sdk scope rd principalID 0 w = w"
| "raBefore sdk scope rd principalID (Suc i) w =
     raBefore sdk scope rd principalID i
       (sdk_sleep sdk roleAssignmentCreateRetryDelay (snd (raAttempt sdk scope rd principalID w)))"

text \<open>The outcomes that end the loop: success, and the conflict with an existing assignment.\<close>

fun raFinal :: "role_assignment result \<Rightarrow> bool" where
  "raFinal (Inr ra) = True"
| "raFinal (Inl e) = IsRoleAssignmentExists e"

lemma roleAssignmentLoop_attempts:
  "roleAssignmentLoop sdk scope rd principalID n w =
     (case find (\<lambda>i. raFinal (fst (raAttempt sdk scope rd principalID (raBefore sdk scope rd principalID i w)))) [0..<n] of
        Some i \<Rightarrow> raAttempt sdk scope rd principalID (raBefore sdk scope rd principalID i w)
      | None \<Rightarrow> (Inr emptyRoleAssignment, raBefore sdk scope rd principalID n w))"
proof (induction n arbitrary: w)
  case 0
  then show ?case by simp
next
  case (Suc n)
  have find_Suc: "find P (map Suc xs) = map_option Suc (find (\<lambda>i. P (Suc i)) xs)" for P xs
    by (induction xs) auto
  have upt: "[0..<Suc n] = 0 # map Suc [0..<n]" by (simp add: map_Suc_upt upt_conv_Cons)
  let ?a = "raAttempt sdk scope rd principalID w"
  let ?w = "sdk_sleep sdk roleAssignmentCreateRetryDelay (snd ?a)"
  have step: "roleAssignmentLoop sdk scope rd principalID (Suc n) w =
      (if raFinal (fst ?a) then ?a else roleAssignmentLoop sdk scope rd principalID n ?w)"
    by (auto simp: raAttempt_def split: prod.split sum.split)
  show ?case
    unfolding step upt
    by (auto simp: Suc.IH [of ?w] find_Suc split: option.split)
qed

text \<open>
  C33: Creating a role assignment.  After the role definition is found there are at most seven
  attempts, five seconds apart; the first that succeeds or conflicts with an existing
  assignment is the result.  If all seven fail otherwise, the call still returns no error,
  and an empty assignment.
\<close>

theorem CreateRoleAssignment_attempts:
  "CreateRoleAssignment sdk scope roleName principalID w =
     (case GetRoleDefinitionIDByName sdk [] roleName w of
        (Inl e, w1) \<Rightarrow> (Inl (WrapError (''failed to get role definition id for role '' @ roleName) e), w1)
      | (Inr rd, w1) \<Rightarrow>
          (let before = (\<lambda>i. raBefore sdk scope rd principalID i w1);
               attempt = (\<lambda>i. raAttempt sdk scope rd principalID (before i))
           in case find (\<lambda>i. raFinal (fst (attempt i))) [0..<7] of
                Some i \<Rightarrow> attempt i
              | None \<Rightarrow> (Inr emptyRoleAssignment, before 7)))"
  by (simp only: CreateRoleAssignment_def roleAssignmentLoop_attempts roleAssignmentCreateRetryCount_def Let_def)

end
