(* ===== verification/Metrics.thy ===== *)
theory Metrics
  imports Process_Info
begin

section \<open>The request metric (pkg/webhook/stats_reporter.go, pkg/metrics)\<close>

text \<open>
  The histogram of the webhook, the view that the exporter puts over it, and which bucket a
  duration is counted in.  The meter, the reader and the provider are calls of OpenTelemetry;
  names, the pattern of the view and the boundaries are the program's.  Boundaries are in
  milliseconds, and a duration of \<open>Handle\<close> is in nanoseconds.
\<close>

subsection \<open>Registration\<close>

text \<open>\<open>newHistogram\<close> is \<open>meter.Float64Histogram\<close> of the meter \<open>webhook\<close>: name and description.\<close>

definition meterName :: string where "meterName = ''webhook''"

definition registerMetrics ::
  "(string \<Rightarrow> string \<Rightarrow> string \<Rightarrow> ('w, 'h) io) \<Rightarrow> 'w \<Rightarrow> 'h result \<times> 'w" where
  "registerMetrics newHistogram w =
     newHistogram meterName requestDurationMetricName
       ''Distribution of how long it took for the azure-workload-identity mutation request'' w"

subsection \<open>The view\<close>

record metric_view =
  mv_instrument :: string
  mv_boundaries :: "nat list"

definition requestView :: metric_view where
  "requestView = \<lparr> mv_instrument = ''azwi_*'',
     mv_boundaries = [1, 2, 3, 4, 5, 6, 7, 8, 9, 10, 20, 30, 40, 50, 60, 70, 80, 90, 100, 200, 300, 400, 500,
       600, 700, 800, 900, 1000, 1500, 2000, 2500, 3000] \<rparr>"

text \<open>
  \<open>InitExporter\<close> with the provider it makes: a reader over the new exporter, and the view.
\<close>

definition InitExporterWithView :: "('w, 'x) io \<Rightarrow> ('x \<Rightarrow> metric_view \<Rightarrow> 'w \<Rightarrow> 'w) \<Rightarrow> ('w, unit) io" where
  "InitExporterWithView newExporter setMeterProvider =
     InitExporter newExporter (\<lambda>exporter. setMeterProvider exporter requestView)"

text \<open>The names that a pattern of a view stands for: \<open>*\<close> is any number of characters.\<close>

fun patternMatches :: "string \<Rightarrow> string \<Rightarrow> bool" where
  "patternMatches [] [] = True"
| "patternMatches [] (c # s) = False"
| "patternMatches (p # ps) [] = (p = CHR ''*'' \<and> patternMatches ps [])"
| "patternMatches (p # ps) (c # s) =
     (if p = CHR ''*'' then patternMatches ps (c # s) \<or> patternMatches (p # ps) s
      else p = c \<and> patternMatches ps s)"

text \<open>
  The bucket of an explicit-boundary histogram: \<open>i\<close> counts the values above boundary
  \<open>i - 1\<close> and up to boundary \<open>i\<close>.
\<close>

definition bucketOf :: "metric_view \<Rightarrow> int \<Rightarrow> nat" where
  "bucketOf v duration = List.length (takeWhile (\<lambda>b. int b * 1000000 < duration) (mv_boundaries v))"

subsection \<open>Every request has its bucket\<close>

lemma takeWhile_bucket:
  assumes "i = List.length (takeWhile P xs)"
  shows "(\<forall>j < i. P (xs ! j)) \<and> (i < List.length xs \<longrightarrow> \<not> P (xs ! i))"
  using assms nth_length_takeWhile [of P xs] set_takeWhileD [of _ P xs] takeWhile_nth [of _ P xs] nth_mem
  by (metis (no_types, lifting))

text \<open>
  The request metric is one that the view is over, its boundaries increase, and a duration lies
  between the two boundaries of its bucket.
\<close>

theorem request_bucket:
  "patternMatches (mv_instrument requestView) requestDurationMetricName \<and>
   sorted_wrt (<) (mv_boundaries requestView) \<and>
   (let i = bucketOf requestView d; bs = mv_boundaries requestView in
      i \<le> List.length bs \<and>
      (\<forall>j < i. int (bs ! j) * 1000000 < d) \<and>
      (i < List.length bs \<longrightarrow> d \<le> int (bs ! i) * 1000000))"
proof -
  have "patternMatches (mv_instrument requestView) requestDurationMetricName"
    by (simp add: requestView_def requestDurationMetricName_def)
  moreover have "sorted_wrt (<) (mv_boundaries requestView)" by (simp add: requestView_def)
  moreover have "bucketOf requestView d \<le> List.length (mv_boundaries requestView)"
    by (simp add: bucketOf_def length_takeWhile_le)
  ultimately show ?thesis
    using takeWhile_bucket [of "bucketOf requestView d" "\<lambda>b. int b * 1000000 < d" "mv_boundaries requestView"]
    by (simp add: Let_def bucketOf_def not_less)
qed

end
