(* ===== verification/Msal_Sample.thy ===== *)
theory Msal_Sample
  imports Token_Client
begin

section \<open>The sample client over MSAL (examples/msal-go)\<close>

text \<open>
  The program without a custom endpoint: its credential, the callback through which MSAL gets
  the federated token, and \<open>main\<close>.  It keeps the token as the other sample does, which the
  last section shows by a simulation; the exchange itself is MSAL's.
\<close>

subsection \<open>The credential\<close>

text \<open>\<open>'m\<close> is the confidential client of MSAL; the callback is part of it.\<close>

record 'm msal_credential =
  mc_assertion :: string
  mc_file :: string
  mc_client :: 'm
  mc_lastRead :: int

definition msalGetAssertion ::
  "'w token_env \<Rightarrow> 'm msal_credential \<Rightarrow> 'w \<Rightarrow> string result \<times> 'm msal_credential \<times> 'w" where
  "msalGetAssertion env c w =
     (case te_now env w of (now, w1) \<Rightarrow>
        if mc_lastRead c + 5 * 60 * second < now then
          (case te_readFile env (mc_file c) w1 of
             (Inl e, w2) \<Rightarrow> (Inl e, c, w2)
           | (Inr content, w2) \<Rightarrow>
               (let c = c \<lparr> mc_assertion := content \<rparr>;
                    c = c \<lparr> mc_lastRead := now \<rparr>
                in (Inr (mc_assertion c), c, w2)))
        else (Inr (mc_assertion c), c, w1))"

text \<open>\<open>newClient\<close> is \<open>confidential.New\<close> with the callback.\<close>

definition newMsalAssertionCredential ::
  "(string \<Rightarrow> string \<Rightarrow> string result) \<Rightarrow> (string \<Rightarrow> string \<Rightarrow> 'm result) \<Rightarrow> string \<Rightarrow> string \<Rightarrow> string \<Rightarrow> string \<Rightarrow>
     'm msal_credential result" where
  "newMsalAssertionCredential joinPath newClient tenantID clientID authorityHost tokenFile =
     (case newMsalCredential joinPath newClient tenantID clientID authorityHost of
        Inl e \<Rightarrow> Inl e
      | Inr client \<Rightarrow>
          Inr \<lparr> mc_assertion = [], mc_file = tokenFile, mc_client = client, mc_lastRead = 0 \<rparr>)"

subsection \<open>The program\<close>

definition msalStarted ::
  "(string \<Rightarrow> string \<Rightarrow> string result) \<Rightarrow> (string \<Rightarrow> string \<Rightarrow> 'm result) \<Rightarrow> (string \<Rightarrow> string) \<Rightarrow> 'm msal_credential started" where
  "msalStarted joinPath newClient getenv =
     (case requireEnv getenv (sampleEnvVars @ msalEnvVars) of
        Some msg \<Rightarrow> Fatal msg
      | None \<Rightarrow>
          (case newMsalAssertionCredential joinPath newClient (getenv ''AZURE_TENANT_ID'') (getenv ''AZURE_CLIENT_ID'')
                  (getenv ''AZURE_AUTHORITY_HOST'') (getenv ''AZURE_FEDERATED_TOKEN_FILE'') of
             Inl e \<Rightarrow> Failed e
           | Inr cred \<Rightarrow> Started cred))"

definition msalMain ::
  "(string \<Rightarrow> string \<Rightarrow> string result) \<Rightarrow> (string \<Rightarrow> string \<Rightarrow> 'm result) \<Rightarrow> (string \<Rightarrow> string) \<Rightarrow>
     (string \<Rightarrow> 'm msal_credential \<Rightarrow> ('w, 'k) io) \<Rightarrow> ('k \<Rightarrow> string \<Rightarrow> ('w, string) io) \<Rightarrow> ('w \<Rightarrow> 'w) \<Rightarrow> 'w \<Rightarrow>
     (sample_exit \<times> 'w) option" where
  "msalMain joinPath newClient getenv newSecretClient getSecret sleep w =
     sampleMain (msalStarted joinPath newClient getenv, w) (newSecretClient (getenv ''KEYVAULT_URL''))
       (\<lambda>k. getSecret k (getenv ''SECRET_NAME'')) sleep"

subsection \<open>The start, and the token in memory\<close>

lemma msalStarted_client:
  "(case msalStarted joinPath newClient getenv of Fatal m \<Rightarrow> Fatal m | Failed e \<Rightarrow> Failed e | Started c \<Rightarrow> Started (mc_client c)) =
     startMsalSample joinPath newClient getenv"
  by (simp add: msalStarted_def startMsalSample_def newMsalAssertionCredential_def split: option.split sum.split)

lemma msalStarted_file:
  assumes "msalStarted joinPath newClient getenv = Started c"
  shows "mc_file c = getenv ''AZURE_FEDERATED_TOKEN_FILE'' \<and> mc_file c \<noteq> [] \<and> mc_lastRead c = 0"
  using assms
  by (auto simp: msalStarted_def newMsalAssertionCredential_def sampleEnvVars_def msalEnvVars_def
      split: option.splits sum.splits if_splits)

text \<open>The credential of the other sample with the same token; \<open>x\<close> has its endpoint and client.\<close>

definition heldAs :: "assertion_credential \<Rightarrow> 'm msal_credential \<Rightarrow> assertion_credential" where
  "heldAs x c = x \<lparr> ac_assertion := mc_assertion c, ac_tokenFile := mc_file c, ac_lastRead := mc_lastRead c \<rparr>"

primrec msalCredentialAt :: "nat token_env \<Rightarrow> 'm msal_credential \<Rightarrow> nat \<Rightarrow> 'm msal_credential" where
  "msalCredentialAt env c 0 = c"
| "msalCredentialAt env c (Suc i) = fst (snd (msalGetAssertion env (msalCredentialAt env c i) i))"

definition msalAssertionAt :: "nat token_env \<Rightarrow> 'm msal_credential \<Rightarrow> nat \<Rightarrow> string result" where
  "msalAssertionAt env c i = fst (msalGetAssertion env (msalCredentialAt env c i) i)"

lemma getAssertion_heldAs:
  "getAssertion env (heldAs x c) w = (case msalGetAssertion env c w of (r, c', w') \<Rightarrow> (r, heldAs x c', w'))"
  by (simp add: getAssertion_def msalGetAssertion_def heldAs_def readInterval_def Let_def split: prod.split sum.split)

lemma credentialAt_heldAs: "credentialAt env (heldAs x c) n = heldAs x (msalCredentialAt env c n)"
  by (induction n) (simp_all add: getAssertion_heldAs split: prod.split)

text \<open>
  The two samples keep the federated token alike.  Over any clock and any contents of the
  token file, call by call, the callback of MSAL gives what \<open>getAssertion\<close> of the other sample
  gives when both start with the same token, instant and file, errors included.
\<close>

theorem samples_hold_same_token:
  "msalAssertionAt env c n = assertionAt env (heldAs x c) n"
  by (simp add: msalAssertionAt_def assertionAt_def credentialAt_heldAs getAssertion_heldAs split: prod.split)

end
