(* ===== verification/Sa_Data.thy ===== *)
theory Sa_Data
  imports Cloud Kube_Helper Workflow Go_Crypto
begin

section \<open>The data of the service account commands (pkg/cmd/serviceaccount)\<close>

text \<open>
  \<open>options/errors.go\<close> and \<open>util/util.go\<close>, the structs \<open>createData\<close> and
  \<open>deleteData\<close> of \<open>create.go\<close> and \<open>delete.go\<close> with their getters, some of which
  fetch and cache an object of the directory.  The environment of a command
  (\<open>cli_env\<close>) is what its \<open>authProvider\<close> and \<open>GetKubeClient\<close> give, the text of
  library errors and the build's version.
\<close>

subsection \<open>Option errors and hashes\<close>

definition FlagIsRequiredError :: "string \<Rightarrow> go_error" where
  "FlagIsRequiredError n = GoError (''--'' @ n @ '' is required'')"

definition OneOfFlagsIsRequiredError :: "string list \<Rightarrow> go_error" where
  "OneOfFlagsIsRequiredError names = GoError (''--'' @ strJoin '' or --'' names @ '' is required'')"

definition GetIssuerHash :: "string \<Rightarrow> string" where
  "GetIssuerHash issuerURL = b64Encode True (sha256 issuerURL)"

definition GetFederatedCredentialName :: "string \<Rightarrow> string \<Rightarrow> string \<Rightarrow> string" where
  "GetFederatedCredentialName namespace n issuerURL =
     b64Encode True (sha256 (namespace @ ''-'' @ n @ ''-'' @ issuerURL))"

definition GetFederatedCredentialSubject :: "string \<Rightarrow> string \<Rightarrow> string" where
  "GetFederatedCredentialSubject namespace n = ''system:serviceaccount:'' @ namespace @ '':'' @ n"

subsection \<open>The flags (options/options.go)\<close>

definition flagServiceAccountName :: string where
  "flagServiceAccountName = ''service-account-name''"
definition flagServiceAccountNamespace :: string where
  "flagServiceAccountNamespace = ''service-account-namespace''"
definition flagServiceAccountIssuerURL :: string where
  "flagServiceAccountIssuerURL = ''service-account-issuer-url''"
definition flagServiceAccountTokenExpiration :: string where
  "flagServiceAccountTokenExpiration = ''service-account-token-expiration''"
definition flagAADApplicationName :: string where
  "flagAADApplicationName = ''aad-application-name''"
definition flagAADApplicationClientID :: string where
  "flagAADApplicationClientID = ''aad-application-client-id''"
definition flagAADApplicationObjectID :: string where
  "flagAADApplicationObjectID = ''aad-application-object-id''"
definition flagServicePrincipalName :: string where
  "flagServicePrincipalName = ''service-principal-name''"
definition flagServicePrincipalObjectID :: string where
  "flagServicePrincipalObjectID = ''service-principal-object-id''"
definition flagAzureScope :: string where
  "flagAzureScope = ''azure-scope''"
definition flagAzureRole :: string where
  "flagAzureRole = ''azure-role''"
definition flagRoleAssignmentID :: string where
  "flagRoleAssignmentID = ''role-assignment-id''"

subsection \<open>The environment and the state of a command\<close>

record 'w cli_env =
  ce_azure :: "'w azure_client"
  ce_tenantID :: string
  ce_getKubeClient :: "('w, 'w kube_client) io"
  ce_errText :: "go_error \<Rightarrow> string"
  ce_buildVersion :: string
  ce_vcs :: string

record create_data =
  cd_serviceAccountName :: string
  cd_serviceAccountNamespace :: string
  cd_serviceAccountIssuerURL :: string
  cd_serviceAccountTokenExpiration :: int
  cd_aadApplication :: "application option"
  cd_aadApplicationName :: string
  cd_aadApplicationClientID :: string
  cd_aadApplicationObjectID :: string
  cd_servicePrincipal :: "service_principal option"
  cd_servicePrincipalObjectID :: string
  cd_servicePrincipalName :: string
  cd_azureRole :: string
  cd_azureScope :: string

text \<open>
  The state that the phases of a command thread: its data, the client that the
  service-account phase keeps between its check and its action, and the outside.
\<close>

record 'w create_state =
  cst_data :: create_data
  cst_kube :: "'w kube_client option"
  cst_world :: 'w

record delete_data =
  dd_serviceAccountName :: string
  dd_serviceAccountNamespace :: string
  dd_serviceAccountIssuerURL :: string
  dd_aadApplication :: "application option"
  dd_aadApplicationName :: string
  dd_aadApplicationObjectID :: string
  dd_roleAssignmentID :: string

record 'w delete_state =
  dst_data :: delete_data
  dst_kube :: "'w kube_client option"
  dst_world :: 'w

subsection \<open>The getters of createData\<close>

definition createAADApplicationName :: "create_data \<Rightarrow> string" where
  "createAADApplicationName c =
     (if cd_aadApplicationName c = [] then
        (if cd_serviceAccountNamespace c \<noteq> [] \<and> cd_serviceAccountName c \<noteq> [] \<and> cd_serviceAccountIssuerURL c \<noteq> []
         then cd_serviceAccountNamespace c @ ''-'' @ cd_serviceAccountName c @ ''-'' @
              GetIssuerHash (cd_serviceAccountIssuerURL c)
         else [])
      else cd_aadApplicationName c)"

definition createAADApplication :: "'w cli_env \<Rightarrow> ('w create_state, application) io" where
  "createAADApplication env s =
     (case cd_aadApplication (cst_data s) of
        Some app \<Rightarrow> (Inr app, s)
      | None \<Rightarrow>
          (case az_GetApplication (ce_azure env) (createAADApplicationName (cst_data s)) (cst_world s) of
             (Inl e, w) \<Rightarrow> (Inl e, s \<lparr> cst_world := w \<rparr>)
           | (Inr app, w) \<Rightarrow>
               (Inr app, s \<lparr> cst_data := cst_data s \<lparr> cd_aadApplication := Some app \<rparr>, cst_world := w \<rparr>)))"

definition createAADApplicationClientID :: "'w cli_env \<Rightarrow> 'w create_state \<Rightarrow> string \<times> 'w create_state" where
  "createAADApplicationClientID env s =
     (if cd_aadApplicationClientID (cst_data s) \<noteq> [] then (cd_aadApplicationClientID (cst_data s), s)
      else case createAADApplication env s of
             (Inl e, s1) \<Rightarrow> ([], s1)
           | (Inr app, s1) \<Rightarrow> (app_appId app, s1))"

definition createAADApplicationObjectID :: "'w cli_env \<Rightarrow> 'w create_state \<Rightarrow> string \<times> 'w create_state" where
  "createAADApplicationObjectID env s =
     (if cd_aadApplicationObjectID (cst_data s) \<noteq> [] then (cd_aadApplicationObjectID (cst_data s), s)
      else case createAADApplication env s of
             (Inl e, s1) \<Rightarrow> ([], s1)
           | (Inr app, s1) \<Rightarrow> (app_id app, s1))"

definition createServicePrincipalName :: "create_data \<Rightarrow> string" where
  "createServicePrincipalName c =
     (if cd_servicePrincipalName c = [] then createAADApplicationName c else cd_servicePrincipalName c)"

definition createServicePrincipal :: "'w cli_env \<Rightarrow> ('w create_state, service_principal) io" where
  "createServicePrincipal env s =
     (case cd_servicePrincipal (cst_data s) of
        Some sp \<Rightarrow> (Inr sp, s)
      | None \<Rightarrow>
          (case az_GetServicePrincipal (ce_azure env) (createServicePrincipalName (cst_data s)) (cst_world s) of
             (Inl e, w) \<Rightarrow> (Inl e, s \<lparr> cst_world := w \<rparr>)
           | (Inr sp, w) \<Rightarrow>
               (Inr sp, s \<lparr> cst_data := cst_data s \<lparr> cd_servicePrincipal := Some sp \<rparr>, cst_world := w \<rparr>)))"

definition createServicePrincipalObjectID :: "'w cli_env \<Rightarrow> 'w create_state \<Rightarrow> string \<times> 'w create_state" where
  "createServicePrincipalObjectID env s =
     (if cd_servicePrincipalObjectID (cst_data s) \<noteq> [] then (cd_servicePrincipalObjectID (cst_data s), s)
      else case createServicePrincipal env s of
             (Inl e, s1) \<Rightarrow> ([], s1)
           | (Inr sp, s1) \<Rightarrow> (sp_id sp, s1))"

subsection \<open>The getters of deleteData\<close>

definition deleteAADApplicationName :: "delete_data \<Rightarrow> string" where
  "deleteAADApplicationName d =
     (if dd_aadApplicationName d = [] then
        (if dd_serviceAccountNamespace d \<noteq> [] \<and> dd_serviceAccountName d \<noteq> [] \<and> dd_serviceAccountIssuerURL d \<noteq> []
         then dd_serviceAccountNamespace d @ ''-'' @ dd_serviceAccountName d @ ''-'' @
              GetIssuerHash (dd_serviceAccountIssuerURL d)
         else [])
      else dd_aadApplicationName d)"

definition deleteAADApplication :: "'w cli_env \<Rightarrow> ('w delete_state, application) io" where
  "deleteAADApplication env s =
     (case dd_aadApplication (dst_data s) of
        Some app \<Rightarrow> (Inr app, s)
      | None \<Rightarrow>
          (case az_GetApplication (ce_azure env) (deleteAADApplicationName (dst_data s)) (dst_world s) of
             (Inl e, w) \<Rightarrow> (Inl e, s \<lparr> dst_world := w \<rparr>)
           | (Inr app, w) \<Rightarrow>
               (Inr app, s \<lparr> dst_data := dst_data s \<lparr> dd_aadApplication := Some app \<rparr>, dst_world := w \<rparr>)))"

definition deleteAADApplicationObjectID :: "'w cli_env \<Rightarrow> 'w delete_state \<Rightarrow> string \<times> 'w delete_state" where
  "deleteAADApplicationObjectID env s =
     (if dd_aadApplicationObjectID (dst_data s) \<noteq> [] then (dd_aadApplicationObjectID (dst_data s), s)
      else case deleteAADApplication env s of
             (Inl e, s1) \<Rightarrow> ([], s1)
           | (Inr app, s1) \<Rightarrow> (app_id app, s1))"

subsection \<open>The caches\<close>

text \<open>
  The contract of a cached object, which the two \<open>AADApplication\<close> getters and
  \<open>ServicePrincipal\<close> share: a hit does nothing, a miss fetches, and only a successful
  fetch fills the cache.
\<close>

locale cached_lookup =
  fixes lookup :: "('s, 'a) io"
    and cache :: "'s \<Rightarrow> 'a option"
    and fetch :: "'s \<Rightarrow> 'a result"
  assumes hit: "cache s = Some x \<Longrightarrow> lookup s = (Inr x, s)"
    and miss_ok: "cache s = None \<Longrightarrow> fetch s = Inr x \<Longrightarrow> fst (lookup s) = Inr x \<and> cache (snd (lookup s)) = Some x"
    and miss_err: "cache s = None \<Longrightarrow> fetch s = Inl e \<Longrightarrow> fst (lookup s) = Inl e \<and> cache (snd (lookup s)) = None"
begin

lemma result_cached: "fst (lookup s) = Inr x \<longleftrightarrow> cache (snd (lookup s)) = Some x"
proof (cases "cache s")
  case None
  then show ?thesis
    by (cases "fetch s") (auto dest: miss_ok [OF None] miss_err [OF None])
qed (auto simp: hit)

lemma once: "fst (lookup s) = Inr x \<Longrightarrow> lookup (snd (lookup s)) = (Inr x, snd (lookup s))"
  using hit result_cached by blast

lemma result: "fst (lookup s) = (case cache s of Some x \<Rightarrow> Inr x | None \<Rightarrow> fetch s)"
proof (cases "cache s")
  case None
  then show ?thesis
    by (cases "fetch s") (auto dest: miss_ok [OF None] miss_err [OF None])
qed (auto simp: hit)

end

text \<open>The result of a fetch, without the state of the outside after it.\<close>

definition createFetchApp :: "'w cli_env \<Rightarrow> 'w create_state \<Rightarrow> application result" where
  "createFetchApp env s =
     fst (az_GetApplication (ce_azure env) (createAADApplicationName (cst_data s)) (cst_world s))"

definition createFetchSp :: "'w cli_env \<Rightarrow> 'w create_state \<Rightarrow> service_principal result" where
  "createFetchSp env s =
     fst (az_GetServicePrincipal (ce_azure env) (createServicePrincipalName (cst_data s)) (cst_world s))"

definition deleteFetchApp :: "'w cli_env \<Rightarrow> 'w delete_state \<Rightarrow> application result" where
  "deleteFetchApp env s =
     fst (az_GetApplication (ce_azure env) (deleteAADApplicationName (dst_data s)) (dst_world s))"

interpretation create_app: cached_lookup "createAADApplication env" "\<lambda>s. cd_aadApplication (cst_data s)" "createFetchApp env"
  for env
  by unfold_locales
    (auto simp: createAADApplication_def createFetchApp_def split: prod.splits sum.splits)

interpretation create_sp: cached_lookup "createServicePrincipal env" "\<lambda>s. cd_servicePrincipal (cst_data s)" "createFetchSp env"
  for env
  by unfold_locales
    (auto simp: createServicePrincipal_def createFetchSp_def split: prod.splits sum.splits)

interpretation delete_app: cached_lookup "deleteAADApplication env" "\<lambda>s. dd_aadApplication (dst_data s)" "deleteFetchApp env"
  for env
  by unfold_locales
    (auto simp: deleteAADApplication_def deleteFetchApp_def split: prod.splits sum.splits)

end
