(* ===== verification/Sa_Create.thy ===== *)
theory Sa_Create
  imports Sa_Data
begin

section \<open>azwi serviceaccount create (pkg/cmd/serviceaccount/create.go, phases/create)\<close>

text \<open>
  The four phases of the command, each with its check and its action over the state of the
  command, and the command itself.  Log calls whose arguments call a getter that may
  contact the directory are kept as that call.
\<close>

subsection \<open>aad-application (phases/create/aadapplication.go)\<close>

definition aadApplicationPhaseName :: string where
  "aadApplicationPhaseName = ''aad-application''"

definition createAadPrerun :: "'w create_state \<Rightarrow> go_error option \<times> 'w create_state" where
  "createAadPrerun s =
     (if createAADApplicationName (cst_data s) = []
      then (Some (FlagIsRequiredError flagAADApplicationName), s)
      else (None, s))"

text \<open>
  The service principal of an application that exists or was created; \<open>errors.Wrap\<close> of a
  nil error is nil.
\<close>

definition createAadServicePrincipal ::
  "'w cli_env \<Rightarrow> application \<Rightarrow> 'w create_state \<Rightarrow> go_error option \<times> 'w create_state" where
  "createAadServicePrincipal env app s =
     (case createServicePrincipal env s of
        (Inr sp, s1) \<Rightarrow> (None, s1)
      | (Inl e, s1) \<Rightarrow>
          if \<not> IsNotFound (ce_errText env) e
          then (Some (WrapError ''failed to get service principal'' e), s1)
          else
            (let tags = [''azwi version: '' @ ce_buildVersion env @ '', commit: '' @ ce_vcs env] in
             case az_CreateServicePrincipal (ce_azure env) (app_appId app) tags (cst_world s1) of
               (Inl e2, w) \<Rightarrow> (Some (WrapError ''failed to create service principal'' e2), s1 \<lparr> cst_world := w \<rparr>)
             | (Inr None, w) \<Rightarrow> (None, s1 \<lparr> cst_world := w \<rparr>)
             | (Inr (Some sp), w) \<Rightarrow> (None, s1 \<lparr> cst_world := w \<rparr>)))"

definition createAadRun :: "'w cli_env \<Rightarrow> 'w create_state \<Rightarrow> go_error option \<times> 'w create_state" where
  "createAadRun env s =
     (case createAADApplication env s of
        (Inr app, s1) \<Rightarrow> createAadServicePrincipal env app s1
      | (Inl e, s1) \<Rightarrow>
          if \<not> IsNotFound (ce_errText env) e
          then (Some (WrapError ''failed to get AAD application'' e), s1)
          else
            (case az_CreateApplication (ce_azure env) (createAADApplicationName (cst_data s1)) (cst_world s1) of
               (Inl e2, w) \<Rightarrow> (Some (WrapError ''failed to create AAD application'' e2), s1 \<lparr> cst_world := w \<rparr>)
             | (Inr None, w) \<Rightarrow> (None, s1 \<lparr> cst_world := w \<rparr>)
             | (Inr (Some app), w) \<Rightarrow> createAadServicePrincipal env app (s1 \<lparr> cst_world := w \<rparr>)))"

definition createAadPhase :: "'w cli_env \<Rightarrow> 'w create_state phase" where
  "createAadPhase env = \<lparr>
     ph_name = aadApplicationPhaseName,
     ph_aliases = [''app''],
     ph_description = ''Create Azure Active Directory (AAD) application and its underlying service principal'',
     ph_preRun = createAadPrerun,
     ph_run = createAadRun env,
     ph_flags = [flagAADApplicationName] \<rparr>"

subsection \<open>service-account (phases/create/serviceaccount.go)\<close>

definition serviceAccountPhaseName :: string where
  "serviceAccountPhaseName = ''service-account''"

definition errExpirationTooSmall :: go_error where
  "errExpirationTooSmall =
     GoError (''--service-account-token-expiration must be greater than or equal to '' @
       durationString (MinServiceAccountTokenExpiration * second))"

definition errExpirationTooLarge :: go_error where
  "errExpirationTooLarge =
     GoError (''--service-account-token-expiration must be less than or equal to '' @
       durationString (MaxServiceAccountTokenExpiration * second))"

definition createSaPrerun :: "'w cli_env \<Rightarrow> 'w create_state \<Rightarrow> go_error option \<times> 'w create_state" where
  "createSaPrerun env s =
     (let c = cst_data s in
      if cd_serviceAccountNamespace c = [] then (Some (FlagIsRequiredError flagServiceAccountNamespace), s)
      else if cd_serviceAccountName c = [] then (Some (FlagIsRequiredError flagServiceAccountName), s)
      else if cd_serviceAccountTokenExpiration c < MinServiceAccountTokenExpiration * second
      then (Some errExpirationTooSmall, s)
      else if cd_serviceAccountTokenExpiration c > MaxServiceAccountTokenExpiration * second
      then (Some errExpirationTooLarge, s)
      else case ce_getKubeClient env (cst_world s) of
             (Inl e, w) \<Rightarrow>
               (Some (WrapError ''failed to get kubernetes client'' e), s \<lparr> cst_kube := None, cst_world := w \<rparr>)
           | (Inr kc, w) \<Rightarrow> (None, s \<lparr> cst_kube := Some kc, cst_world := w \<rparr>))"

definition nilClient :: go_error where
  "nilClient = GoPanic ''invalid memory address or nil pointer dereference''"

definition createSaRun :: "'w cli_env \<Rightarrow> 'w create_state \<Rightarrow> go_error option \<times> 'w create_state" where
  "createSaRun env s =
     (case createAADApplicationClientID env s of
        (clientID, s1) \<Rightarrow>
          (case cst_kube s1 of
             None \<Rightarrow> (Some nilClient, s1)
           | Some kc \<Rightarrow>
               (case CreateOrUpdateServiceAccount kc (cd_serviceAccountNamespace (cst_data s1))
                       (cd_serviceAccountName (cst_data s1)) clientID (ce_tenantID env)
                       (cd_serviceAccountTokenExpiration (cst_data s1)) (cst_world s1) of
                  (Inl e, w) \<Rightarrow>
                    (Some (WrapError ''failed to create kubernetes service account'' e), s1 \<lparr> cst_world := w \<rparr>)
                | (Inr _, w) \<Rightarrow> (None, s1 \<lparr> cst_world := w \<rparr>))))"

definition createSaPhase :: "'w cli_env \<Rightarrow> 'w create_state phase" where
  "createSaPhase env = \<lparr>
     ph_name = serviceAccountPhaseName,
     ph_aliases = [''sa''],
     ph_description = ''Create Kubernetes service account in the current KUBECONFIG context and add azure-workload-identity labels and annotations to it'',
     ph_preRun = createSaPrerun env,
     ph_run = createSaRun env,
     ph_flags = [flagServiceAccountNamespace, flagServiceAccountName, flagServiceAccountTokenExpiration,
       flagAADApplicationName, flagAADApplicationClientID] \<rparr>"

subsection \<open>federated-identity (phases/create/federatedidentitycredential.go)\<close>

definition federatedIdentityPhaseName :: string where
  "federatedIdentityPhaseName = ''federated-identity''"

definition createFicPrerun :: "'w create_state \<Rightarrow> go_error option \<times> 'w create_state" where
  "createFicPrerun s =
     (let c = cst_data s in
      if cd_serviceAccountNamespace c = [] then (Some (FlagIsRequiredError flagServiceAccountNamespace), s)
      else if cd_serviceAccountName c = [] then (Some (FlagIsRequiredError flagServiceAccountName), s)
      else if cd_serviceAccountIssuerURL c = [] then (Some (FlagIsRequiredError flagServiceAccountIssuerURL), s)
      else (None, s))"

text \<open>The credential that the action posts; its id is chosen by the service.\<close>

definition newFederatedCredential :: "string \<Rightarrow> string \<Rightarrow> string \<Rightarrow> federated_credential" where
  "newFederatedCredential namespace n issuerURL = \<lparr>
     fic_id = [],
     fic_name = GetFederatedCredentialName namespace n issuerURL,
     fic_issuer = issuerURL,
     fic_subject = GetFederatedCredentialSubject namespace n,
     fic_description = ''Federated Service Account for '' @ namespace @ ''/'' @ n,
     fic_audiences = [DefaultAudience] \<rparr>"

definition createFicRun :: "'w cli_env \<Rightarrow> 'w create_state \<Rightarrow> go_error option \<times> 'w create_state" where
  "createFicRun env s =
     (case createAADApplicationObjectID env s of
        (objectID, s1) \<Rightarrow>
          (let c = cst_data s1;
               fic = newFederatedCredential (cd_serviceAccountNamespace c) (cd_serviceAccountName c)
                       (cd_serviceAccountIssuerURL c)
           in case az_AddFederatedCredential (ce_azure env) objectID fic (cst_world s1) of
                (Inr _, w) \<Rightarrow> (None, s1 \<lparr> cst_world := w \<rparr>)
              | (Inl e, w) \<Rightarrow>
                  if IsFederatedCredentialAlreadyExists e then (None, s1 \<lparr> cst_world := w \<rparr>)
                  else (Some (WrapError ''failed to add federated credential'' e), s1 \<lparr> cst_world := w \<rparr>)))"

definition createFicPhase :: "'w cli_env \<Rightarrow> 'w create_state phase" where
  "createFicPhase env = \<lparr>
     ph_name = federatedIdentityPhaseName,
     ph_aliases = [''fi''],
     ph_description = ''Create federated identity credential between the AAD application and the Kubernetes service account'',
     ph_preRun = createFicPrerun,
     ph_run = createFicRun env,
     ph_flags = [flagServiceAccountNamespace, flagServiceAccountName, flagServiceAccountIssuerURL,
       flagAADApplicationName, flagAADApplicationObjectID] \<rparr>"

subsection \<open>role-assignment (phases/create/roleassignment.go)\<close>

definition roleAssignmentPhaseName :: string where
  "roleAssignmentPhaseName = ''role-assignment''"

definition createRaPrerun :: "'w cli_env \<Rightarrow> 'w create_state \<Rightarrow> go_error option \<times> 'w create_state" where
  "createRaPrerun env s =
     (let c = cst_data s in
      if cd_azureScope c = [] then (Some (FlagIsRequiredError flagAzureScope), s)
      else if cd_azureRole c = [] then (Some (FlagIsRequiredError flagAzureRole), s)
      else if createServicePrincipalName c = [] then
        (case createServicePrincipalObjectID env s of
           (objectID, s1) \<Rightarrow>
             if objectID = []
             then (Some (OneOfFlagsIsRequiredError [flagServicePrincipalName, flagServicePrincipalObjectID]), s1)
             else (None, s1))
      else (None, s))"

text \<open>The log calls after the request read the object id of the service principal again.\<close>

definition createRaRun :: "'w cli_env \<Rightarrow> 'w create_state \<Rightarrow> go_error option \<times> 'w create_state" where
  "createRaRun env s =
     (case createServicePrincipalObjectID env s of
        (objectID, s1) \<Rightarrow>
          (case az_CreateRoleAssignment (ce_azure env) (cd_azureScope (cst_data s1))
                  (cd_azureRole (cst_data s1)) objectID (cst_world s1) of
             (Inr ra, w) \<Rightarrow> (None, snd (createServicePrincipalObjectID env (s1 \<lparr> cst_world := w \<rparr>)))
           | (Inl e, w) \<Rightarrow>
               if IsRoleAssignmentExists e
               then (None, snd (createServicePrincipalObjectID env
                      (snd (createServicePrincipalObjectID env (s1 \<lparr> cst_world := w \<rparr>)))))
               else (Some (WrapError ''failed to create role assignment'' e), s1 \<lparr> cst_world := w \<rparr>)))"

definition createRaPhase :: "'w cli_env \<Rightarrow> 'w create_state phase" where
  "createRaPhase env = \<lparr>
     ph_name = roleAssignmentPhaseName,
     ph_aliases = [''ra''],
     ph_description = ''Create role assignment between the AAD application and the Azure cloud resource'',
     ph_preRun = createRaPrerun env,
     ph_run = createRaRun env,
     ph_flags = [flagAzureScope, flagAzureRole, flagServicePrincipalName, flagServicePrincipalObjectID] \<rparr>"

subsection \<open>The command (create.go)\<close>

definition createPhases :: "'w cli_env \<Rightarrow> 'w create_state phase list" where
  "createPhases env = [createAadPhase env, createSaPhase env, createFicPhase env, createRaPhase env]"

text \<open>
  \<open>newCreateCmd\<close>: the runner with its phases and the value of \<open>--skip-phases\<close>; a
  subcommand of \<open>phase\<close> runs one of them.
\<close>

definition createRunner :: "'w cli_env \<Rightarrow> string list \<Rightarrow> 'w create_state runner" where
  "createRunner env skips =
     (bindSkipFlag (AppendPhases NewPhaseRunner (createPhases env))) \<lparr> rn_skipPhases := skips \<rparr>"

definition createCommand :: "'w cli_env \<Rightarrow> string list \<Rightarrow> 'w create_state \<Rightarrow> go_error option \<times> 'w create_state" where
  "createCommand env skips s = Run (createRunner env skips) s"

definition createPhaseCommand ::
  "'w cli_env \<Rightarrow> 'w create_state phase \<Rightarrow> 'w create_state \<Rightarrow> go_error option \<times> 'w create_state" where
  "createPhaseCommand env p s = runPhaseCommand (createRunner env []) p s"

end
