(* ===== verification/Sa_Delete.thy ===== *)
theory Sa_Delete
  imports Sa_Create
begin

section \<open>azwi serviceaccount delete (pkg/cmd/serviceaccount/delete.go, phases/delete)\<close>

text \<open>
  The four phases of the command and the command itself.  The names of the phases are
  those of the create command.
\<close>

subsection \<open>role-assignment (phases/delete/roleassignment.go)\<close>

definition deleteRaPrerun :: "'w delete_state \<Rightarrow> go_error option \<times> 'w delete_state" where
  "deleteRaPrerun s =
     (if dd_roleAssignmentID (dst_data s) = [] then (Some (FlagIsRequiredError flagRoleAssignmentID), s)
      else (None, s))"

definition deleteRaRun :: "'w cli_env \<Rightarrow> 'w delete_state \<Rightarrow> go_error option \<times> 'w delete_state" where
  "deleteRaRun env s =
     (case az_DeleteRoleAssignment (ce_azure env) (dd_roleAssignmentID (dst_data s)) (dst_world s) of
        (Inr ra, w) \<Rightarrow> (None, s \<lparr> dst_world := w \<rparr>)
      | (Inl e, w) \<Rightarrow>
          if \<not> IsRoleAssignmentAlreadyDeleted e
          then (Some (WrapError ''failed to delete role assignment'' e), s \<lparr> dst_world := w \<rparr>)
          else (None, s \<lparr> dst_world := w \<rparr>))"

definition deleteRaPhase :: "'w cli_env \<Rightarrow> 'w delete_state phase" where
  "deleteRaPhase env = \<lparr>
     ph_name = roleAssignmentPhaseName,
     ph_aliases = [''ra''],
     ph_description = ''Delete the role assignment between the AAD application and the Azure cloud resource'',
     ph_preRun = deleteRaPrerun,
     ph_run = deleteRaRun env,
     ph_flags = [flagRoleAssignmentID] \<rparr>"

subsection \<open>federated-identity (phases/delete/federatedidentitycredential.go)\<close>

definition deleteFicPrerun :: "'w delete_state \<Rightarrow> go_error option \<times> 'w delete_state" where
  "deleteFicPrerun s =
     (let d = dst_data s in
      if dd_serviceAccountNamespace d = [] then (Some (FlagIsRequiredError flagServiceAccountNamespace), s)
      else if dd_serviceAccountName d = [] then (Some (FlagIsRequiredError flagServiceAccountName), s)
      else if dd_serviceAccountIssuerURL d = [] then (Some (FlagIsRequiredError flagServiceAccountIssuerURL), s)
      else (None, s))"

definition deleteFicRun :: "'w cli_env \<Rightarrow> 'w delete_state \<Rightarrow> go_error option \<times> 'w delete_state" where
  "deleteFicRun env s =
     (case deleteAADApplicationObjectID env s of
        (objectID, s1) \<Rightarrow>
          (let d = dst_data s1;
               subject = GetFederatedCredentialSubject (dd_serviceAccountNamespace d) (dd_serviceAccountName d)
           in case az_GetFederatedCredential (ce_azure env) objectID (dd_serviceAccountIssuerURL d) subject
                     (dst_world s1) of
                (Inl e, w) \<Rightarrow>
                  if \<not> IsFederatedCredentialNotFound e
                  then (Some (WrapError ''failed to get federated identity credential'' e), s1 \<lparr> dst_world := w \<rparr>)
                  else (None, s1 \<lparr> dst_world := w \<rparr>)
              | (Inr fic, w) \<Rightarrow>
                  (case deleteAADApplicationObjectID env (s1 \<lparr> dst_world := w \<rparr>) of
                     (objectID2, s2) \<Rightarrow>
                       (case az_DeleteFederatedCredential (ce_azure env) objectID2 (fic_id fic) (dst_world s2) of
                          (Inl e, w2) \<Rightarrow>
                            (Some (WrapError ''failed to delete federated identity credential'' e), s2 \<lparr> dst_world := w2 \<rparr>)
                        | (Inr _, w2) \<Rightarrow> (None, s2 \<lparr> dst_world := w2 \<rparr>)))))"

definition deleteFicPhase :: "'w cli_env \<Rightarrow> 'w delete_state phase" where
  "deleteFicPhase env = \<lparr>
     ph_name = federatedIdentityPhaseName,
     ph_aliases = [''fi''],
     ph_description = ''Delete federated identity credential for the AAD application and the Kubernetes service account'',
     ph_preRun = deleteFicPrerun,
     ph_run = deleteFicRun env,
     ph_flags = [flagServiceAccountNamespace, flagServiceAccountName, flagServiceAccountIssuerURL,
       flagAADApplicationName, flagAADApplicationObjectID] \<rparr>"

subsection \<open>service-account (phases/delete/serviceaccount.go)\<close>

definition deleteSaPrerun :: "'w cli_env \<Rightarrow> 'w delete_state \<Rightarrow> go_error option \<times> 'w delete_state" where
  "deleteSaPrerun env s =
     (let d = dst_data s in
      if dd_serviceAccountNamespace d = [] then (Some (FlagIsRequiredError flagServiceAccountNamespace), s)
      else if dd_serviceAccountName d = [] then (Some (FlagIsRequiredError flagServiceAccountName), s)
      else case ce_getKubeClient env (dst_world s) of
             (Inl e, w) \<Rightarrow>
               (Some (WrapError ''failed to get Kubernetes client'' e), s \<lparr> dst_kube := None, dst_world := w \<rparr>)
           | (Inr kc, w) \<Rightarrow> (None, s \<lparr> dst_kube := Some kc, dst_world := w \<rparr>))"

definition deleteSaRun :: "'w delete_state \<Rightarrow> go_error option \<times> 'w delete_state" where
  "deleteSaRun s =
     (case dst_kube s of
        None \<Rightarrow> (Some nilClient, s)
      | Some kc \<Rightarrow>
          (case DeleteServiceAccount kc (dd_serviceAccountNamespace (dst_data s))
                  (dd_serviceAccountName (dst_data s)) (dst_world s) of
             (Inr _, w) \<Rightarrow> (None, s \<lparr> dst_world := w \<rparr>)
           | (Inl e, w) \<Rightarrow>
               if \<not> apiIsNotFound e
               then (Some (WrapError ''failed to delete service account'' e), s \<lparr> dst_world := w \<rparr>)
               else (None, s \<lparr> dst_world := w \<rparr>)))"

definition deleteSaPhase :: "'w cli_env \<Rightarrow> 'w delete_state phase" where
  "deleteSaPhase env = \<lparr>
     ph_name = serviceAccountPhaseName,
     ph_aliases = [''sa''],
     ph_description = ''Delete the Kubernetes service account in the current KUBECONFIG context'',
     ph_preRun = deleteSaPrerun env,
     ph_run = deleteSaRun,
     ph_flags = [flagServiceAccountNamespace, flagServiceAccountName] \<rparr>"

subsection \<open>aad-application (phases/delete/aadapplication.go)\<close>

definition deleteAadPrerun :: "'w cli_env \<Rightarrow> 'w delete_state \<Rightarrow> go_error option \<times> 'w delete_state" where
  "deleteAadPrerun env s =
     (if deleteAADApplicationName (dst_data s) = [] then
        (case deleteAADApplicationObjectID env s of
           (objectID, s1) \<Rightarrow>
             if objectID = []
             then (Some (OneOfFlagsIsRequiredError [flagAADApplicationName, flagAADApplicationObjectID]), s1)
             else (None, s1))
      else (None, s))"

text \<open>The object id is read for the log, and again for the request.\<close>

definition deleteAadRun :: "'w cli_env \<Rightarrow> 'w delete_state \<Rightarrow> go_error option \<times> 'w delete_state" where
  "deleteAadRun env s =
     (case deleteAADApplicationObjectID env (snd (deleteAADApplicationObjectID env s)) of
        (objectID, s1) \<Rightarrow>
          (case az_DeleteApplication (ce_azure env) objectID (dst_world s1) of
             (Inl e, w) \<Rightarrow> (Some (WrapError ''failed to delete application'' e), s1 \<lparr> dst_world := w \<rparr>)
           | (Inr _, w) \<Rightarrow> (None, s1 \<lparr> dst_world := w \<rparr>)))"

definition deleteAadPhase :: "'w cli_env \<Rightarrow> 'w delete_state phase" where
  "deleteAadPhase env = \<lparr>
     ph_name = aadApplicationPhaseName,
     ph_aliases = [''app''],
     ph_description = ''Delete the Azure Active Directory (AAD) application and its underlying service principal'',
     ph_preRun = deleteAadPrerun env,
     ph_run = deleteAadRun env,
     ph_flags = [flagAADApplicationName, flagAADApplicationObjectID] \<rparr>"

subsection \<open>The command (delete.go)\<close>

definition deletePhases :: "'w cli_env \<Rightarrow> 'w delete_state phase list" where
  "deletePhases env = [deleteRaPhase env, deleteFicPhase env, deleteSaPhase env, deleteAadPhase env]"

definition deleteRunner :: "'w cli_env \<Rightarrow> string list \<Rightarrow> 'w delete_state runner" where
  "deleteRunner env skips =
     (bindSkipFlag (AppendPhases NewPhaseRunner (deletePhases env))) \<lparr> rn_skipPhases := skips \<rparr>"

text \<open>
  The command skips the federated-identity phase when it deletes the application, which
  takes its credentials with it.
\<close>

definition deleteCommand :: "'w cli_env \<Rightarrow> string list \<Rightarrow> 'w delete_state \<Rightarrow> go_error option \<times> 'w delete_state" where
  "deleteCommand env skips s =
     (let r = deleteRunner env skips;
          r' = (if IsPhaseActive r (deleteAadPhase env) then AppendSkipPhases r [deleteFicPhase env] else r)
      in Run r' s)"

definition deletePhaseCommand ::
  "'w cli_env \<Rightarrow> 'w delete_state phase \<Rightarrow> 'w delete_state \<Rightarrow> go_error option \<times> 'w delete_state" where
  "deletePhaseCommand env p s = runPhaseCommand (deleteRunner env []) p s"

end
