(* ===== verification/Sa_Correct.thy ===== *)
theory Sa_Correct
  imports Sa_Delete Cloud_Correct
begin

section \<open>What the service account commands guarantee\<close>

text \<open>
  Lemmas on the getters and the phases, the contract of the runner on the phases of the
  two commands, and the properties of the commands and of the cloud client.
\<close>

subsection \<open>A concrete command\<close>

text \<open>
  A directory of one application and its service principal, each present or not, and a
  cluster without the service account: the inputs of the examples below.
\<close>

definition demoApp :: application where
  "demoApp = \<lparr> app_displayName = ''app'', app_appId = ''client'', app_id = ''object'' \<rparr>"

definition demoSp :: service_principal where
  "demoSp = \<lparr> sp_displayName = ''app'', sp_appId = ''client'', sp_id = ''sp-object'' \<rparr>"

definition demoSdk :: "(bool \<times> bool) azure_sdk" where
  "demoSdk = \<lparr>
     sdk_appsPost = (\<lambda>n (a, p). (Inr (Some demoApp), (True, p))),
     sdk_appsGet = (\<lambda>f (a, p). (Inr (if a then [demoApp] else []), (a, p))),
     sdk_appDelete = (\<lambda>i (a, p). (Inr (), (False, False))),
     sdk_spsPost = (\<lambda>i tags (a, p). (Inr (Some demoSp), (a, True))),
     sdk_spsGet = (\<lambda>f (a, p). (Inr (if p then [demoSp] else []), (a, p))),
     sdk_spDelete = (\<lambda>i (a, p). (Inr (), (a, False))),
     sdk_ficPost = (\<lambda>i fic w. (Inr (), w)),
     sdk_ficGet = (\<lambda>i f w. (Inr [], w)),
     sdk_ficDelete = (\<lambda>i j w. (Inr (), w)),
     sdk_roleDefinitionPages = (\<lambda>sc f. []),
     sdk_raCreate = (\<lambda>sc n rd i w. (Inr emptyRoleAssignment, w)),
     sdk_raDelete = (\<lambda>i w. (Inr emptyRoleAssignment, w)),
     sdk_uuidNew = (\<lambda>w. (''uuid'', w)),
     sdk_sleep = (\<lambda>d w. w) \<rparr>"

definition demoKube :: "'w kube_client" where
  "demoKube = \<lparr>
     kc_getServiceAccount = (\<lambda>ns n w. (Inl (StatusError ''NotFound'' n), w)),
     kc_create = (\<lambda>sa w. (Inr (), w)),
     kc_update = (\<lambda>sa w. (Inr (), w)),
     kc_delete = (\<lambda>sa w. (Inr (), w)),
     kc_listPods = (\<lambda>ns l w. (Inr [], w)),
     kc_listAzureIdentity = (\<lambda>ns w. (Inr [], w)),
     kc_listAzureIdentityBinding = (\<lambda>ns w. (Inr [], w)),
     kc_getObject = (\<lambda>k ns n w. (Inl (StatusError ''NotFound'' n), w)) \<rparr>"

definition demoCliEnv :: "(bool \<times> bool) cli_env" where
  "demoCliEnv = \<lparr> ce_azure = AzureClient demoSdk, ce_tenantID = ''tenant'',
     ce_getKubeClient = (\<lambda>w. (Inr demoKube, w)), ce_errText = (\<lambda>e. []),
     ce_buildVersion = ''v1'', ce_vcs = ''abc'' \<rparr>"

definition demoCreateData :: create_data where
  "demoCreateData = \<lparr> cd_serviceAccountName = ''sa'', cd_serviceAccountNamespace = ''ns'',
     cd_serviceAccountIssuerURL = ''https://issuer'', cd_serviceAccountTokenExpiration = 7200 * second,
     cd_aadApplication = None, cd_aadApplicationName = ''app'', cd_aadApplicationClientID = [],
     cd_aadApplicationObjectID = [], cd_servicePrincipal = None, cd_servicePrincipalObjectID = [],
     cd_servicePrincipalName = [], cd_azureRole = ''Reader'', cd_azureScope = ''/'' \<rparr>"

definition demoCreateState :: "(bool \<times> bool) create_state" where
  "demoCreateState = \<lparr> cst_data = demoCreateData, cst_kube = Some demoKube, cst_world = (False, False) \<rparr>"

lemmas demo_defs = demoApp_def demoSp_def demoSdk_def demoKube_def demoCliEnv_def demoCreateData_def
  demoCreateState_def

subsection \<open>What a getter changes\<close>

text \<open>The data that the user gave: everything but the caches.\<close>

definition createFlags :: "create_data \<Rightarrow> create_data" where
  "createFlags c = c \<lparr> cd_aadApplication := None, cd_servicePrincipal := None \<rparr>"

definition deleteFlags :: "delete_data \<Rightarrow> delete_data" where
  "deleteFlags d = d \<lparr> dd_aadApplication := None \<rparr>"

text \<open>A step of a command that keeps the flags, the filled caches and the client.\<close>

definition createKeeps :: "'w create_state \<Rightarrow> 'w create_state \<Rightarrow> bool" where
  "createKeeps s t \<longleftrightarrow>
     createFlags (cst_data t) = createFlags (cst_data s) \<and>
     cd_aadApplication (cst_data s) \<in> {None, cd_aadApplication (cst_data t)} \<and>
     cd_servicePrincipal (cst_data s) \<in> {None, cd_servicePrincipal (cst_data t)}"

definition deleteKeeps :: "'w delete_state \<Rightarrow> 'w delete_state \<Rightarrow> bool" where
  "deleteKeeps s t \<longleftrightarrow>
     deleteFlags (dst_data t) = deleteFlags (dst_data s) \<and>
     dd_aadApplication (dst_data s) \<in> {None, dd_aadApplication (dst_data t)}"

lemma createKeeps_refl [simp]: "createKeeps s s"
  by (simp add: createKeeps_def)

lemma createKeeps_trans: "createKeeps s t \<Longrightarrow> createKeeps t u \<Longrightarrow> createKeeps s u"
  by (auto simp: createKeeps_def)

lemma createKeeps_world [simp]:
  "createKeeps s (t \<lparr> cst_world := w \<rparr>) = createKeeps s t"
  "createKeeps s (t \<lparr> cst_kube := k \<rparr>) = createKeeps s t"
  "createKeeps (s \<lparr> cst_world := w \<rparr>) t = createKeeps s t"
  by (simp_all add: createKeeps_def)

lemma deleteKeeps_refl [simp]: "deleteKeeps s s"
  by (simp add: deleteKeeps_def)

lemma deleteKeeps_trans: "deleteKeeps s t \<Longrightarrow> deleteKeeps t u \<Longrightarrow> deleteKeeps s u"
  by (auto simp: deleteKeeps_def)

lemma deleteKeeps_world [simp]:
  "deleteKeeps s (t \<lparr> dst_world := w \<rparr>) = deleteKeeps s t"
  "deleteKeeps s (t \<lparr> dst_kube := k \<rparr>) = deleteKeeps s t"
  "deleteKeeps (s \<lparr> dst_world := w \<rparr>) t = deleteKeeps s t"
  by (simp_all add: deleteKeeps_def)

lemma createAADApplication_keeps:
  "createAADApplication env s = (x, t) \<Longrightarrow> createKeeps s t \<and> cst_kube t = cst_kube s"
  by (auto simp: createAADApplication_def createKeeps_def createFlags_def
      split: option.splits prod.splits sum.splits)

lemma createServicePrincipal_keeps:
  "createServicePrincipal env s = (x, t) \<Longrightarrow> createKeeps s t \<and> cst_kube t = cst_kube s"
  by (auto simp: createServicePrincipal_def createKeeps_def createFlags_def
      split: option.splits prod.splits sum.splits)

lemma createIDs_keep:
  "createAADApplicationClientID env s = (i, t) \<Longrightarrow> createKeeps s t \<and> cst_kube t = cst_kube s"
  "createAADApplicationObjectID env s = (i, t) \<Longrightarrow> createKeeps s t \<and> cst_kube t = cst_kube s"
  "createServicePrincipalObjectID env s = (i, t) \<Longrightarrow> createKeeps s t \<and> cst_kube t = cst_kube s"
  by (auto simp: createAADApplicationClientID_def createAADApplicationObjectID_def
      createServicePrincipalObjectID_def split: if_splits prod.splits sum.splits
      dest: createAADApplication_keeps createServicePrincipal_keeps)

lemma createIDs_keep_snd:
  "createKeeps s (snd (createServicePrincipalObjectID env s))"
  "cst_kube (snd (createServicePrincipalObjectID env s)) = cst_kube s"
  using createIDs_keep(3) [of env s "fst (createServicePrincipalObjectID env s)"
      "snd (createServicePrincipalObjectID env s)"] by simp_all

lemma deleteAADApplication_keeps:
  "deleteAADApplication env s = (x, t) \<Longrightarrow> deleteKeeps s t \<and> dst_kube t = dst_kube s"
  by (auto simp: deleteAADApplication_def deleteKeeps_def deleteFlags_def
      split: option.splits prod.splits sum.splits)

lemma deleteObjectID_keeps:
  "deleteAADApplicationObjectID env s = (i, t) \<Longrightarrow> deleteKeeps s t \<and> dst_kube t = dst_kube s"
  by (auto simp: deleteAADApplicationObjectID_def split: if_splits prod.splits sum.splits
      dest: deleteAADApplication_keeps)

lemma deleteObjectID_keeps_snd:
  "deleteKeeps s (snd (deleteAADApplicationObjectID env s))"
  "dst_kube (snd (deleteAADApplicationObjectID env s)) = dst_kube s"
  using deleteObjectID_keeps [of env s "fst (deleteAADApplicationObjectID env s)"
      "snd (deleteAADApplicationObjectID env s)"] by simp_all

subsection \<open>What a phase changes\<close>

lemma createAadServicePrincipal_keeps:
  "createKeeps s (snd (createAadServicePrincipal env app s)) \<and>
   cst_kube (snd (createAadServicePrincipal env app s)) = cst_kube s"
  by (auto simp: createAadServicePrincipal_def Let_def split: prod.splits sum.splits option.splits
      dest!: createServicePrincipal_keeps)

lemma createAadRun_keeps:
  "createKeeps s (snd (createAadRun env s)) \<and> cst_kube (snd (createAadRun env s)) = cst_kube s"
proof (cases "createAADApplication env s")
  case (Pair x t)
  note t = createAADApplication_keeps [OF Pair]
  have next_keeps: "createKeeps s (snd (createAadServicePrincipal env app (t \<lparr> cst_world := w \<rparr>)))
      \<and> cst_kube (snd (createAadServicePrincipal env app (t \<lparr> cst_world := w \<rparr>))) = cst_kube s" for app w
    using t createAadServicePrincipal_keeps [of "t \<lparr> cst_world := w \<rparr>" env app]
      createKeeps_trans [of s t] by auto
  have same: "createKeeps s (snd (createAadServicePrincipal env app t))
      \<and> cst_kube (snd (createAadServicePrincipal env app t)) = cst_kube s" for app
    using next_keeps [of app "cst_world t"] by simp
  show ?thesis
    using Pair t next_keeps same
    by (auto simp: createAadRun_def split: sum.splits prod.splits option.splits)
qed

lemma createSaRun_keeps:
  "createKeeps s (snd (createSaRun env s)) \<and> cst_kube (snd (createSaRun env s)) = cst_kube s"
  by (auto simp: createSaRun_def split: prod.splits sum.splits option.splits
      dest!: createIDs_keep(1))

lemma createFicRun_keeps:
  "createKeeps s (snd (createFicRun env s)) \<and> cst_kube (snd (createFicRun env s)) = cst_kube s"
  by (auto simp: createFicRun_def Let_def split: prod.splits sum.splits
      dest!: createIDs_keep(2))

lemma createRaRun_keeps:
  "createKeeps s (snd (createRaRun env s)) \<and> cst_kube (snd (createRaRun env s)) = cst_kube s"
proof (cases "createServicePrincipalObjectID env s")
  case (Pair i t)
  let ?f = "\<lambda>u. snd (createServicePrincipalObjectID env u)"
  have t: "createKeeps s t" "cst_kube t = cst_kube s" using createIDs_keep(3) [OF Pair] by simp_all
  have one: "createKeeps s (?f (t \<lparr> cst_world := w \<rparr>))" for w
    using t createIDs_keep_snd(1) [of "t \<lparr> cst_world := w \<rparr>" env] createKeeps_trans by simp blast
  have two: "createKeeps s (?f (?f (t \<lparr> cst_world := w \<rparr>)))" for w
    using createKeeps_trans [OF one createIDs_keep_snd(1)] .
  show ?thesis
    using Pair t one two
    by (auto simp: createRaRun_def createIDs_keep_snd(2) split: sum.splits prod.splits)
qed

lemma createPreruns_keep:
  "createKeeps s (snd (createAadPrerun s))" "createKeeps s (snd (createSaPrerun env s))"
  "createKeeps s (snd (createFicPrerun s))" "createKeeps s (snd (createRaPrerun env s))"
  by (auto simp: createAadPrerun_def createSaPrerun_def createFicPrerun_def createRaPrerun_def Let_def
      split: sum.splits prod.splits dest!: createIDs_keep(3))

lemma deleteRuns_keep:
  "deleteKeeps s (snd (deleteRaRun env s))" "deleteKeeps s (snd (deleteFicRun env s))"
  "deleteKeeps s (snd (deleteSaRun s))" "deleteKeeps s (snd (deleteAadRun env s))"
proof -
  show "deleteKeeps s (snd (deleteRaRun env s))"
    by (auto simp: deleteRaRun_def split: sum.splits prod.splits)
  show "deleteKeeps s (snd (deleteSaRun s))"
    by (auto simp: deleteSaRun_def split: sum.splits prod.splits option.splits)
  show "deleteKeeps s (snd (deleteFicRun env s))"
    by (auto simp: deleteFicRun_def Let_def split: sum.splits prod.splits
        dest!: deleteObjectID_keeps intro: deleteKeeps_trans)
  show "deleteKeeps s (snd (deleteAadRun env s))"
    using deleteObjectID_keeps_snd(1) [of s env]
    by (auto simp: deleteAadRun_def split: sum.splits prod.splits
        dest!: deleteObjectID_keeps intro: deleteKeeps_trans)
qed

lemma deletePreruns_keep:
  "deleteKeeps s (snd (deleteRaPrerun s))" "deleteKeeps s (snd (deleteFicPrerun s))"
  "deleteKeeps s (snd (deleteSaPrerun env s))" "deleteKeeps s (snd (deleteAadPrerun env s))"
  by (auto simp: deleteRaPrerun_def deleteSaPrerun_def deleteFicPrerun_def deleteAadPrerun_def Let_def
      split: sum.splits prod.splits dest!: deleteObjectID_keeps)

subsection \<open>The runner's contract on the two commands\<close>

lemmas create_phase_defs = createPhases_def createAadPhase_def createSaPhase_def createFicPhase_def
  createRaPhase_def

lemmas delete_phase_defs = deletePhases_def deleteRaPhase_def deleteFicPhase_def deleteSaPhase_def
  deleteAadPhase_def

lemmas phase_names = aadApplicationPhaseName_def serviceAccountPhaseName_def
  federatedIdentityPhaseName_def roleAssignmentPhaseName_def

interpretation create_cmd: phase_contract "createPhases env" "createKeeps s0"
  for env s0
proof unfold_locales
  fix p s
  assume p: "p \<in> set (createPhases env)" and s: "createKeeps s0 s"
  have "createKeeps s (snd (ph_preRun p s))"
    using p createPreruns_keep [of s] by (auto simp: create_phase_defs)
  with s show "createKeeps s0 (snd (ph_preRun p s))" by (rule createKeeps_trans)
  have "createKeeps s (snd (ph_run p s))"
    using p createAadRun_keeps [of s] createSaRun_keeps [of s] createFicRun_keeps [of s] createRaRun_keeps [of s]
    by (auto simp: create_phase_defs)
  with s show "createKeeps s0 (snd (ph_run p s))" by (rule createKeeps_trans)
qed

interpretation delete_cmd: phase_contract "deletePhases env" "deleteKeeps s0"
  for env s0
proof unfold_locales
  fix p s
  assume p: "p \<in> set (deletePhases env)" and s: "deleteKeeps s0 s"
  have "deleteKeeps s (snd (ph_preRun p s))"
    using p deletePreruns_keep [of s] by (auto simp: delete_phase_defs)
  with s show "deleteKeeps s0 (snd (ph_preRun p s))" by (rule deleteKeeps_trans)
  have "deleteKeeps s (snd (ph_run p s))"
    using p deleteRuns_keep [of s] by (auto simp: delete_phase_defs)
  with s show "deleteKeeps s0 (snd (ph_run p s))" by (rule deleteKeeps_trans)
qed

lemma runner_fields [simp]:
  "rn_phases (createRunner env skips) = createPhases env" "rn_skipPhases (createRunner env skips) = skips"
  "rn_phases (deleteRunner env skips) = deletePhases env" "rn_skipPhases (deleteRunner env skips) = skips"
  by (simp_all add: createRunner_def deleteRunner_def bindSkipFlag_def AppendPhases_def NewPhaseRunner_def)

lemma AppendSkipPhases_phases [simp]: "rn_phases (AppendSkipPhases r ps) = rn_phases r"
  by (simp add: AppendSkipPhases_eq)

text \<open>
  A command never alters what the user asked for, and an object of the directory, once
  fetched into a cache, is the one used to the end, whether the command succeeds or fails.
\<close>

theorem commands_keep_data:
  "createKeeps s (snd (createCommand env skips s)) \<and> deleteKeeps d (snd (deleteCommand env skips d))"
proof
  show "createKeeps s (snd (createCommand env skips s))"
    unfolding createCommand_def by (rule create_cmd.Run_inv [where env = env]) simp_all
  show "deleteKeeps d (snd (deleteCommand env skips d))"
    unfolding deleteCommand_def Let_def by (rule delete_cmd.Run_inv [where env = env]) simp_all
qed

subsection \<open>The Kubernetes client of the service-account phase\<close>

interpretation create_client: phase_readiness "createPhases env" "createSaPhase env" "\<lambda>s. cst_kube s \<noteq> None" nilClient
  for env
proof unfold_locales
  fix s q msg
  show "nilClient \<noteq> GoError msg" by (simp add: nilClient_def)
  show "fst (ph_preRun (createSaPhase env) s) = None \<Longrightarrow> cst_kube (snd (ph_preRun (createSaPhase env) s)) \<noteq> None"
    by (auto simp: createSaPhase_def createSaPrerun_def Let_def split: if_splits sum.splits prod.splits)
  assume q: "q \<in> set (createPhases env)"
  then show "cst_kube s \<noteq> None \<Longrightarrow> fst (ph_preRun q s) = None \<Longrightarrow> cst_kube (snd (ph_preRun q s)) \<noteq> None"
    by (auto simp: create_phase_defs createAadPrerun_def createSaPrerun_def createFicPrerun_def
        createRaPrerun_def Let_def split: if_splits sum.splits prod.splits dest!: createIDs_keep(3))
  show "cst_kube s \<noteq> None \<Longrightarrow> cst_kube (snd (ph_run q s)) \<noteq> None"
    using q createAadRun_keeps [of s] createSaRun_keeps [of s] createFicRun_keeps [of s] createRaRun_keeps [of s]
    by (auto simp: create_phase_defs)
  show "fst (ph_preRun q s) \<noteq> Some nilClient"
    using q by (auto simp: create_phase_defs createAadPrerun_def createSaPrerun_def createFicPrerun_def
        createRaPrerun_def Let_def nilClient_def FlagIsRequiredError_def OneOfFlagsIsRequiredError_def
        errExpirationTooSmall_def errExpirationTooLarge_def split: if_splits sum.splits prod.splits)
  show "(q = createSaPhase env \<Longrightarrow> cst_kube s \<noteq> None) \<Longrightarrow> fst (ph_run q s) \<noteq> Some nilClient"
    using q by (auto simp: create_phase_defs createAadRun_def createAadServicePrincipal_def createSaRun_def
        createFicRun_def createRaRun_def Let_def nilClient_def
        split: if_splits sum.splits prod.splits option.splits dest!: createIDs_keep(1))
qed

interpretation delete_client: phase_readiness "deletePhases env" "deleteSaPhase env" "\<lambda>s. dst_kube s \<noteq> None" nilClient
  for env
proof unfold_locales
  fix s q msg
  show "nilClient \<noteq> GoError msg" by (simp add: nilClient_def)
  show "fst (ph_preRun (deleteSaPhase env) s) = None \<Longrightarrow> dst_kube (snd (ph_preRun (deleteSaPhase env) s)) \<noteq> None"
    by (auto simp: deleteSaPhase_def deleteSaPrerun_def Let_def split: if_splits sum.splits prod.splits)
  assume q: "q \<in> set (deletePhases env)"
  then show "dst_kube s \<noteq> None \<Longrightarrow> fst (ph_preRun q s) = None \<Longrightarrow> dst_kube (snd (ph_preRun q s)) \<noteq> None"
    by (auto simp: delete_phase_defs deleteAadPrerun_def deleteSaPrerun_def deleteFicPrerun_def
        deleteRaPrerun_def Let_def split: if_splits sum.splits prod.splits dest!: deleteObjectID_keeps)
  show "dst_kube s \<noteq> None \<Longrightarrow> dst_kube (snd (ph_run q s)) \<noteq> None"
    using q by (auto simp: delete_phase_defs deleteAadRun_def deleteSaRun_def deleteFicRun_def
        deleteRaRun_def Let_def deleteObjectID_keeps_snd(2) split: sum.splits prod.splits option.splits
        dest!: deleteObjectID_keeps)
  show "fst (ph_preRun q s) \<noteq> Some nilClient"
    using q by (auto simp: delete_phase_defs deleteAadPrerun_def deleteSaPrerun_def deleteFicPrerun_def
        deleteRaPrerun_def Let_def nilClient_def FlagIsRequiredError_def OneOfFlagsIsRequiredError_def
        split: if_splits sum.splits prod.splits)
  show "(q = deleteSaPhase env \<Longrightarrow> dst_kube s \<noteq> None) \<Longrightarrow> fst (ph_run q s) \<noteq> Some nilClient"
    using q by (auto simp: delete_phase_defs deleteAadRun_def deleteSaRun_def deleteFicRun_def
        deleteRaRun_def Let_def nilClient_def split: if_splits sum.splits prod.splits option.splits)
qed

text \<open>
  The Kubernetes client is never used before it was obtained: in neither command, whatever
  is skipped, does the service-account phase run with a nil client, since the runner checks
  all phases before it runs the first.
\<close>

theorem client_before_use:
  "fst (createCommand env skips s) \<noteq> Some (WrapError msg nilClient) \<and>
   fst (deleteCommand env skips d) \<noteq> Some (WrapError msg nilClient)"
proof
  show "fst (createCommand env skips s) \<noteq> Some (WrapError msg nilClient)"
    unfolding createCommand_def by (rule create_client.Run_ok [where env = env]) simp
  show "fst (deleteCommand env skips d) \<noteq> Some (WrapError msg nilClient)"
    unfolding deleteCommand_def Let_def by (rule delete_client.Run_ok [where env = env]) simp
qed

subsection \<open>Service accounts\<close>

lemma created_expiration:
  assumes "MinServiceAccountTokenExpiration * second \<le> d" "d \<le> MaxServiceAccountTokenExpiration * second"
    and "smap_get (pod_annotations p) ServiceAccountTokenExpiryAnnotation = []"
  shows "\<exists>e. getServiceAccountTokenExpiration p (newServiceAccount ns n clientID tenantID d) = Inr e \<and>
    roundSecond d = e * second"
proof -
  obtain e where e: "roundSecond d = e * second" "3600 \<le> e" "e \<le> 86400"
    "showSeconds (roundSecond d) = formatInt e" "parseInt (formatInt e) 64 = Inr e" "formatInt e \<noteq> []"
    by (rule rendered_expiration [OF assms(1,2)])
  have default: "roundSecond d = DefaultServiceAccountTokenExpiration * second"
    if "d = DefaultServiceAccountTokenExpiration * second"
    using that by (simp add: roundSecond_def Let_def saturate64_def second_def DefaultServiceAccountTokenExpiration_def)
  have "getServiceAccountTokenExpiration p (newServiceAccount ns n clientID tenantID d) = Inr e"
    using e default assms(3)
    by (auto simp: getServiceAccountTokenExpiration_def newServiceAccount_def Let_def emptyServiceAccount_def
        emptyMeta_def annotation_keys_distinct validExpiry_iff DefaultServiceAccountTokenExpiration_def second_def)
  with e(1) show ?thesis by blast
qed

text \<open>
  From the command to the webhook.  With an expiration that the create command accepts,
  the webhook reads from the service account that the command writes exactly the client id,
  the tenant and the expiration rounded to a second, for every pod that does not set its
  own expiration.
\<close>

theorem created_account_read_back:
  assumes "fst (createSaPrerun env s) = None"
    and "smap_get (pod_annotations p) ServiceAccountTokenExpiryAnnotation = []"
  shows "let d = cd_serviceAccountTokenExpiration (cst_data s); sa = newServiceAccount ns n clientID tenantID d
    in getClientID sa = clientID \<and> getTenantID sa c = tenantID \<and>
       (\<exists>e. getServiceAccountTokenExpiration p sa = Inr e \<and> roundSecond d = e * second)"
proof -
  define d where "d = cd_serviceAccountTokenExpiration (cst_data s)"
  have "MinServiceAccountTokenExpiration * second \<le> d" "d \<le> MaxServiceAccountTokenExpiration * second"
    using assms(1) by (auto simp: createSaPrerun_def Let_def d_def split: if_splits)
  then obtain e where "getServiceAccountTokenExpiration p (newServiceAccount ns n clientID tenantID d) = Inr e"
    "roundSecond d = e * second"
    using created_expiration [OF _ _ assms(2)] by blast
  moreover have "map_of (smap_set m TenantIDAnnotation tenantID) TenantIDAnnotation = Some tenantID" for m
    by (simp add: smap_set_def update_conv')
  ultimately show ?thesis
    by (auto simp: d_def [symmetric] Let_def getClientID_def getTenantID_def newServiceAccount_def emptyServiceAccount_def
        emptyMeta_def annotation_keys_distinct smap_set_def update_conv' smap_get_def)
qed

lemma createClientID_result:
  "fst (createAADApplicationClientID env s) =
     (if cd_aadApplicationClientID (cst_data s) \<noteq> [] then cd_aadApplicationClientID (cst_data s)
      else case cd_aadApplication (cst_data s) of
             Some app \<Rightarrow> app_appId app
           | None \<Rightarrow> (case createFetchApp env s of Inr app \<Rightarrow> app_appId app | Inl _ \<Rightarrow> []))"
  using create_app.result [of env s]
  by (auto simp: createAADApplicationClientID_def split: prod.splits sum.splits option.splits)

lemma createKeeps_fields:
  "createKeeps s t \<Longrightarrow>
   cd_serviceAccountNamespace (cst_data t) = cd_serviceAccountNamespace (cst_data s) \<and>
   cd_serviceAccountName (cst_data t) = cd_serviceAccountName (cst_data s) \<and>
   cd_serviceAccountIssuerURL (cst_data t) = cd_serviceAccountIssuerURL (cst_data s) \<and>
   cd_serviceAccountTokenExpiration (cst_data t) = cd_serviceAccountTokenExpiration (cst_data s)"
  by (cases "cst_data s"; cases "cst_data t") (simp add: createKeeps_def createFlags_def)

text \<open>The account of the concrete command, read by the webhook.\<close>

definition demoConfigless :: config where
  "demoConfigless = \<lparr> Cloud = [], TenantID = ''default-tenant'', ProxyImage = [], ProxyInitImage = [],
     AzureKubernetesTokenProxy = [], AzureKubernetesSNIName = [], AzureKubernetesCAData = [],
     AzureKubernetesCAConfigMapName = [], AzureKubernetesCACTBSignerName = [],
     AzureKubernetesCACTBLabelSelector = None \<rparr>"

definition demoPlainPod :: pod where
  "demoPlainPod = \<lparr> pod_meta = emptyMeta, pod_spec = \<lparr> ps_serviceAccountName = ''sa'', ps_hostNetwork = False,
     ps_initContainers = [], ps_containers = [], ps_volumes = [], ps_rest = None \<rparr>, pod_status = None \<rparr>"

theorem created_account_read_back_witness:
  "let d = cd_serviceAccountTokenExpiration (cst_data demoCreateState);
       sa = newServiceAccount ''ns'' ''sa'' ''client'' ''tenant'' d
   in getClientID sa = ''client'' \<and> getTenantID sa demoConfigless = ''tenant'' \<and>
      (\<exists>e. getServiceAccountTokenExpiration demoPlainPod sa = Inr e \<and> roundSecond d = e * second)"
proof (rule created_account_read_back)
  show "fst (createSaPrerun demoCliEnv demoCreateState) = None"
    by (simp add: createSaPrerun_def Let_def demo_defs second_def expiration_bounds)
  show "smap_get (pod_annotations demoPlainPod) ServiceAccountTokenExpiryAnnotation = []"
    by (simp add: demoPlainPod_def emptyMeta_def)
qed

text \<open>
  The service-account phase.  It writes one account: with the client id of the flag, or
  of the application looked up by name, or, if the look-up fails, an empty one; it creates
  it, and replaces it if it exists; any other error is reported.
\<close>

theorem createSaRun_writes:
  assumes "cst_kube s = Some kc"
  shows "let c = cst_data s;
      s1 = snd (createAADApplicationClientID env s);
      clientID =
        (if cd_aadApplicationClientID c \<noteq> [] then cd_aadApplicationClientID c
         else case cd_aadApplication c of
                Some app \<Rightarrow> app_appId app
              | None \<Rightarrow> (case createFetchApp env s of Inr app \<Rightarrow> app_appId app | Inl _ \<Rightarrow> []));
      sa = newServiceAccount (cd_serviceAccountNamespace c) (cd_serviceAccountName c) clientID
             (ce_tenantID env) (cd_serviceAccountTokenExpiration c);
      created = kc_create kc sa (cst_world s1);
      updated = kc_update kc sa (snd created);
      failed = (\<lambda>e. Some (WrapError ''failed to create kubernetes service account'' e));
      out = createSaRun env s
    in (fst out, cst_world (snd out)) =
       (case fst created of
          Inr _ \<Rightarrow> (None, snd created)
        | Inl e \<Rightarrow>
            (if apiIsAlreadyExists e
             then (case fst updated of Inr _ \<Rightarrow> None | Inl e2 \<Rightarrow> failed e2, snd updated)
             else (failed e, snd created)))"
proof -
  obtain clientID s1 where s1: "createAADApplicationClientID env s = (clientID, s1)" by fastforce
  have kc: "cst_kube s1 = Some kc" and keeps: "createKeeps s s1"
    using createIDs_keep(1) [OF s1] assms by simp_all
  show ?thesis
    unfolding Let_def createClientID_result [symmetric]
    using s1 kc createKeeps_fields [OF keeps]
    by (auto simp: createSaRun_def CreateOrUpdateServiceAccount_def Let_def split: prod.splits sum.splits)
qed

theorem createSaRun_writes_witness:
  "let c = demoCreateData;
      s1 = snd (createAADApplicationClientID demoCliEnv demoCreateState);
      clientID =
        (if cd_aadApplicationClientID c \<noteq> [] then cd_aadApplicationClientID c
         else case cd_aadApplication c of
                Some app \<Rightarrow> app_appId app
              | None \<Rightarrow> (case createFetchApp demoCliEnv demoCreateState of Inr app \<Rightarrow> app_appId app | Inl _ \<Rightarrow> []));
      sa = newServiceAccount (cd_serviceAccountNamespace c) (cd_serviceAccountName c) clientID
             (ce_tenantID demoCliEnv) (cd_serviceAccountTokenExpiration c);
      created = kc_create demoKube sa (cst_world s1);
      updated = kc_update demoKube sa (snd created);
      failed = (\<lambda>e. Some (WrapError ''failed to create kubernetes service account'' e));
      out = createSaRun demoCliEnv demoCreateState
    in (fst out, cst_world (snd out)) =
       (case fst created of
          Inr _ \<Rightarrow> (None, snd created)
        | Inl e \<Rightarrow>
            (if apiIsAlreadyExists e
             then (case fst updated of Inr _ \<Rightarrow> None | Inl e2 \<Rightarrow> failed e2, snd updated)
             else (failed e, snd created)))"
  using createSaRun_writes [of demoCreateState demoKube demoCliEnv]
  by (simp only: demoCreateState_def create_state.select_convs simp_thms)

subsection \<open>Creating what is missing\<close>

text \<open>
  A directory whose look-ups change nothing, and in which what was created under a name is
  found under that name; the service principal of an application has its display name.
\<close>

definition findsWhatItCreates :: "'w azure_client \<Rightarrow> string \<Rightarrow> bool" where
  "findsWhatItCreates az n \<longleftrightarrow>
     (\<forall>m w. snd (az_GetApplication az m w) = w \<and> snd (az_GetServicePrincipal az m w) = w) \<and>
     (\<forall>w e x w'. fst (az_GetApplication az n w) = Inl e \<and> az_CreateApplication az n w = (Inr x, w') \<longrightarrow>
        (\<exists>a. x = Some a \<and> fst (az_GetApplication az n w') = Inr a)) \<and>
     (\<forall>w a e tags x w'. fst (az_GetApplication az n w) = Inr a \<and> fst (az_GetServicePrincipal az n w) = Inl e \<and>
        az_CreateServicePrincipal az (app_appId a) tags w = (Inr x, w') \<longrightarrow>
        fst (az_GetApplication az n w') = Inr a \<and> (\<exists>p. fst (az_GetServicePrincipal az n w') = Inr p))"

lemma findsWhatItCreatesD:
  assumes "findsWhatItCreates az n"
  shows "az_GetApplication az m w = (fst (az_GetApplication az m w), w)"
    and "az_GetServicePrincipal az m w = (fst (az_GetServicePrincipal az m w), w)"
    and "fst (az_GetApplication az n w) = Inl e \<Longrightarrow> az_CreateApplication az n w = (Inr x, w') \<Longrightarrow>
      \<exists>a. x = Some a \<and> fst (az_GetApplication az n w') = Inr a"
    and "fst (az_GetApplication az n w) = Inr a \<Longrightarrow> fst (az_GetServicePrincipal az n w) = Inl e \<Longrightarrow>
      az_CreateServicePrincipal az (app_appId a) tags w = (Inr y, w') \<Longrightarrow>
      fst (az_GetApplication az n w') = Inr a \<and> (\<exists>p. fst (az_GetServicePrincipal az n w') = Inr p)"
proof -
  have "snd (az_GetApplication az m w) = w" "snd (az_GetServicePrincipal az m w) = w"
    using assms unfolding findsWhatItCreates_def by blast+
  then show "az_GetApplication az m w = (fst (az_GetApplication az m w), w)"
    and "az_GetServicePrincipal az m w = (fst (az_GetServicePrincipal az m w), w)"
    by (metis prod.collapse)+
qed (use assms in \<open>unfold findsWhatItCreates_def, blast+\<close>)

lemma names_cached [simp]:
  "createAADApplicationName (c \<lparr> cd_aadApplication := x \<rparr>) = createAADApplicationName c"
  "createServicePrincipalName (c \<lparr> cd_aadApplication := x \<rparr>) = createServicePrincipalName c"
  by (simp_all add: createServicePrincipalName_def createAADApplicationName_def)

lemma createAadRun_present:
  assumes "findsWhatItCreates (ce_azure env) n"
    and "createAADApplicationName (cst_data s) = n" and "createServicePrincipalName (cst_data s) = n"
    and "fst (az_GetApplication (ce_azure env) n (cst_world s)) = Inr a"
    and "fst (az_GetServicePrincipal (ce_azure env) n (cst_world s)) = Inr p"
  shows "fst (createAadRun env s) = None \<and> cst_world (snd (createAadRun env s)) = cst_world s"
proof -
  have "az_GetApplication (ce_azure env) n (cst_world s) = (Inr a, cst_world s)"
    and "az_GetServicePrincipal (ce_azure env) n (cst_world s) = (Inr p, cst_world s)"
    using findsWhatItCreatesD(1,2) [OF assms(1)] assms(4,5) by metis+
  then show ?thesis
    using assms(2,3)
    by (simp add: createAadRun_def createAADApplication_def createAadServicePrincipal_def
        createServicePrincipal_def split: option.split)
qed

lemma createAadServicePrincipal_establishes:
  assumes "findsWhatItCreates (ce_azure env) n" and "createServicePrincipalName (cst_data s) = n"
    and "cd_servicePrincipal (cst_data s) = None"
    and "fst (az_GetApplication (ce_azure env) n (cst_world s)) = Inr a"
    and "createAadServicePrincipal env a s = (None, t)"
  shows "fst (az_GetApplication (ce_azure env) n (cst_world t)) = Inr a \<and>
    (\<exists>p. fst (az_GetServicePrincipal (ce_azure env) n (cst_world t)) = Inr p)"
proof (cases "fst (az_GetServicePrincipal (ce_azure env) n (cst_world s))")
  case (Inr p)
  then have "az_GetServicePrincipal (ce_azure env) n (cst_world s) = (Inr p, cst_world s)"
    using findsWhatItCreatesD(2) [OF assms(1)] by metis
  then show ?thesis
    using assms(2-5) by (auto simp: createAadServicePrincipal_def createServicePrincipal_def)
next
  case (Inl e)
  then have "az_GetServicePrincipal (ce_azure env) n (cst_world s) = (Inl e, cst_world s)"
    using findsWhatItCreatesD(2) [OF assms(1)] by metis
  then obtain tags x where "az_CreateServicePrincipal (ce_azure env) (app_appId a) tags (cst_world s) = (Inr x, cst_world t)"
    using assms(2,3,5)
    by (auto simp: createAadServicePrincipal_def createServicePrincipal_def Let_def
        split: if_splits prod.splits sum.splits option.splits)
  then show ?thesis
    using findsWhatItCreatesD(4) [OF assms(1) assms(4) Inl] by blast
qed

lemma createAadRun_establishes:
  assumes "findsWhatItCreates (ce_azure env) n"
    and "createAADApplicationName (cst_data s) = n" and "createServicePrincipalName (cst_data s) = n"
    and "cd_aadApplication (cst_data s) = None" and "cd_servicePrincipal (cst_data s) = None"
    and "createAadRun env s = (None, t)"
  shows "\<exists>a p. fst (az_GetApplication (ce_azure env) n (cst_world t)) = Inr a \<and>
    fst (az_GetServicePrincipal (ce_azure env) n (cst_world t)) = Inr p"
proof (cases "fst (az_GetApplication (ce_azure env) n (cst_world s))")
  case (Inr a)
  let ?s = "s \<lparr> cst_data := cst_data s \<lparr> cd_aadApplication := Some a \<rparr> \<rparr>"
  have "az_GetApplication (ce_azure env) n (cst_world s) = (Inr a, cst_world s)"
    using findsWhatItCreatesD(1) [OF assms(1)] Inr by metis
  then have "createAadServicePrincipal env a ?s = (None, t)"
    using assms(2,4,6) by (simp add: createAadRun_def createAADApplication_def)
  then show ?thesis
    using createAadServicePrincipal_establishes [OF assms(1), of ?s a t] assms(3,5) Inr by auto
next
  case (Inl e)
  then have "az_GetApplication (ce_azure env) n (cst_world s) = (Inl e, cst_world s)"
    using findsWhatItCreatesD(1) [OF assms(1)] by metis
  then obtain x w where x: "az_CreateApplication (ce_azure env) n (cst_world s) = (Inr x, w)"
    and t: "\<And>a. x = Some a \<Longrightarrow> createAadServicePrincipal env a (s \<lparr> cst_world := w \<rparr>) = (None, t)"
    using assms(2,4,6)
    by (auto simp: createAadRun_def createAADApplication_def
        split: if_splits prod.splits sum.splits option.splits)
  obtain a where "x = Some a" "fst (az_GetApplication (ce_azure env) n w) = Inr a"
    using findsWhatItCreatesD(3) [OF assms(1) Inl x] by blast
  then show ?thesis
    using createAadServicePrincipal_establishes [OF assms(1), of "s \<lparr> cst_world := w \<rparr>" a t] t assms(3,5)
    by auto
qed

text \<open>
  Creating the application is idempotent.  In a directory that finds what it creates, with
  the service principal looked up under the application's name, a second run of the phase
  after one that succeeded creates nothing: it succeeds and leaves the directory as it is.
\<close>

theorem create_aad_idempotent:
  assumes "findsWhatItCreates (ce_azure env) (createAADApplicationName (cst_data s))"
    and "createServicePrincipalName (cst_data s) = createAADApplicationName (cst_data s)"
    and "cd_aadApplication (cst_data s) = None" and "cd_servicePrincipal (cst_data s) = None"
    and "createAadRun env s = (None, t)"
  shows "fst (createAadRun env (s \<lparr> cst_world := cst_world t \<rparr>)) = None \<and>
    cst_world (snd (createAadRun env (s \<lparr> cst_world := cst_world t \<rparr>))) = cst_world t"
  using createAadRun_establishes [OF assms(1) refl assms(2-5)]
    createAadRun_present [OF assms(1), of "s \<lparr> cst_world := cst_world t \<rparr>"] assms(2)
  by auto

theorem create_aad_idempotent_witness:
  "fst (createAadRun demoCliEnv (demoCreateState \<lparr> cst_world := (True, True) \<rparr>)) = None \<and>
   cst_world (snd (createAadRun demoCliEnv (demoCreateState \<lparr> cst_world := (True, True) \<rparr>))) = (True, True)"
proof -
  have finds: "findsWhatItCreates (ce_azure demoCliEnv) n" for n
    by (auto simp: findsWhatItCreates_def demo_defs AzureClient_def GetApplication_def GetServicePrincipal_def
        CreateApplication_def CreateServicePrincipal_def extractOnError_def split: if_splits)
  have run: "createAadRun demoCliEnv demoCreateState = (None, demoCreateState \<lparr> cst_world := (True, True) \<rparr>)"
    by (simp add: createAadRun_def createAADApplication_def createAadServicePrincipal_def createServicePrincipal_def
        demo_defs AzureClient_def GetApplication_def GetServicePrincipal_def CreateApplication_def
        CreateServicePrincipal_def extractOnError_def)
  show ?thesis
    using create_aad_idempotent [OF finds _ _ _ run]
    by (simp add: createServicePrincipalName_def demo_defs)
qed

end
