(* ===== verification/Sa_Delete_Correct.thy ===== *)
theory Sa_Delete_Correct
  imports Sa_Correct
begin

section \<open>What the delete command guarantees, and the names both commands compute\<close>

text \<open>
  Which phases a delete runs, the outcomes of its federated-identity and aad-application
  phases over the cloud client, and how far the names and subjects that the commands
  derive identify a service account.
\<close>

subsection \<open>Which phases run\<close>

lemma delete_phase_names [simp]:
  "map ph_name (deletePhases env) = [roleAssignmentPhaseName, federatedIdentityPhaseName, serviceAccountPhaseName, aadApplicationPhaseName]"
  by (simp add: delete_phase_defs)

lemma phase_names_distinct [simp]:
  "aadApplicationPhaseName \<noteq> serviceAccountPhaseName" "aadApplicationPhaseName \<noteq> federatedIdentityPhaseName"
  "aadApplicationPhaseName \<noteq> roleAssignmentPhaseName" "serviceAccountPhaseName \<noteq> federatedIdentityPhaseName"
  "serviceAccountPhaseName \<noteq> roleAssignmentPhaseName" "federatedIdentityPhaseName \<noteq> roleAssignmentPhaseName"
  by (simp_all add: phase_names)

text \<open>The phases that a delete with the given \<open>--skip-phases\<close> leaves.\<close>

definition deleteActive :: "'w cli_env \<Rightarrow> string list \<Rightarrow> 'w delete_state phase list" where
  "deleteActive env skips =
     [p \<leftarrow> deletePhases env. ph_name p \<notin> set skips \<and>
        (ph_name p = federatedIdentityPhaseName \<longrightarrow> aadApplicationPhaseName \<in> set skips)]"

text \<open>
  Delete skips the credential that goes with its application.  When all names of
  \<open>--skip-phases\<close> are phases, the command checks, then runs, in order, exactly the
  phases not named, without the federated-identity phase unless the aad-application phase
  is skipped; when one is not, it does nothing but report it.
\<close>

theorem deleteCommand_phases:
  "if set skips \<subseteq> ph_name ` set (deletePhases env)
   then deleteCommand env skips s =
          (case preRunAll (deleteActive env skips) s of
             (Some e, t) \<Rightarrow> (Some e, t)
           | (None, t) \<Rightarrow> runAll (deleteActive env skips) t)
   else \<exists>e. deleteCommand env skips s = (Some (WrapError ''failed to compute skip phases'' e), s)"
proof -
  define r where "r = (if IsPhaseActive (deleteRunner env skips) (deleteAadPhase env)
    then AppendSkipPhases (deleteRunner env skips) [deleteFicPhase env] else deleteRunner env skips)"
  have run: "deleteCommand env skips s = Run r s"
    by (simp add: deleteCommand_def Let_def r_def)
  have aad: "ph_name (deleteAadPhase env) = aadApplicationPhaseName"
    and fic: "ph_name (deleteFicPhase env) = federatedIdentityPhaseName"
    by (simp_all add: deleteAadPhase_def deleteFicPhase_def)
  have skipped: "set (rn_skipPhases r) = set skips \<union>
      (if aadApplicationPhaseName \<in> set skips then {} else {federatedIdentityPhaseName})"
    by (simp add: r_def AppendSkipPhases_eq IsPhaseActive_iff aad fic)
  have phases: "rn_phases r = deletePhases env"
    by (simp add: r_def)
  have names: "map ph_name (rn_phases r) = [roleAssignmentPhaseName, federatedIdentityPhaseName,
      serviceAccountPhaseName, aadApplicationPhaseName]"
    by (simp add: phases)
  have image: "ph_name ` set (deletePhases env) = set (map ph_name (rn_phases r))"
    by (simp only: phases set_map)
  have active: "filter (IsPhaseActive r) (rn_phases r) = deleteActive env skips"
    unfolding deleteActive_def phases
    by (rule filter_cong) (auto simp: IsPhaseActive_iff skipped)
  show ?thesis
  proof (cases "set skips \<subseteq> ph_name ` set (deletePhases env)")
    case True
    then have "set (rn_skipPhases r) \<subseteq> ph_name ` set (rn_phases r)"
      using names by (auto simp: skipped image)
    then show ?thesis using True by (simp add: run Run_skip active Let_def)
  next
    case False
    then have "\<not> set (rn_skipPhases r) \<subseteq> set (map ph_name (rn_phases r))"
      by (auto simp: skipped image)
    then obtain e where "computeSkipPhases r = Inl e"
      using computeSkipLoop_Inl unfolding computeSkipPhases_def by blast
    then show ?thesis using False by (simp add: run Run_def)
  qed
qed

subsection \<open>The outcomes of the phases over the cloud client\<close>

text \<open>
  Deleting the federated credential.  Over the cloud client, the phase deletes the first
  credential of the application's answer whose issuer is the command's, and only that one;
  an answer without one is a failure of the phase, although the phase means to tolerate a
  credential that is gone; a service error is tolerated only if it says that the
  application's resource does not exist.
\<close>

theorem deleteFicRun_outcome:
  fixes env :: "'w cli_env"
  assumes "ce_azure env = AzureClient sdk" and "dd_aadApplicationObjectID (dst_data s) = objectID" and "objectID \<noteq> []"
  shows "let d = dst_data s;
      answer = sdk_ficGet sdk objectID (getSubjectFilter
        (GetFederatedCredentialSubject (dd_serviceAccountNamespace d) (dd_serviceAccountName d))) (dst_world s);
      out = (fst (deleteFicRun env s), dst_world (snd (deleteFicRun env s)))
    in case fst answer of
         Inl e \<Rightarrow> out =
           (if IsFederatedCredentialNotFound (maybeExtractGraphError e) then None
            else Some (WrapError ''failed to get federated identity credential'' (maybeExtractGraphError e)), snd answer)
       | Inr fics \<Rightarrow>
           (case find (\<lambda>fic. fic_issuer fic = dd_serviceAccountIssuerURL d) fics of
              None \<Rightarrow> out =
                (Some (WrapError ''failed to get federated identity credential'' ErrFederatedCredentialNotFound), snd answer)
            | Some fic \<Rightarrow> out =
                (case sdk_ficDelete sdk objectID (fic_id fic) (snd answer) of
                   (Inl e, w) \<Rightarrow> (Some (WrapError ''failed to delete federated identity credential'' e), w)
                 | (Inr _, w) \<Rightarrow> (None, w)))"
  using assms
  by (auto simp: Let_def deleteFicRun_def deleteAADApplicationObjectID_def AzureClient_def
      GetFederatedCredential_def DeleteFederatedCredential_def extractOnError_def firstWithIssuer_find
      federated_not_found_unrecognized split: prod.split sum.split option.split)

definition demoDeleteState :: "(bool \<times> bool) delete_state" where
  "demoDeleteState = \<lparr> dst_data = \<lparr> dd_serviceAccountName = ''sa'', dd_serviceAccountNamespace = ''ns'',
       dd_serviceAccountIssuerURL = ''https://issuer'', dd_aadApplication = None, dd_aadApplicationName = [],
       dd_aadApplicationObjectID = ''object'', dd_roleAssignmentID = [] \<rparr>,
     dst_kube = None, dst_world = (True, True) \<rparr>"

theorem deleteFicRun_outcome_witness:
  "fst (deleteFicRun demoCliEnv demoDeleteState) =
     Some (WrapError ''failed to get federated identity credential'' ErrFederatedCredentialNotFound)"
proof -
  have azure: "ce_azure demoCliEnv = AzureClient demoSdk" by (simp add: demoCliEnv_def)
  have objectID: "dd_aadApplicationObjectID (dst_data demoDeleteState) = ''object''"
    by (simp add: demoDeleteState_def)
  have answer: "sdk_ficGet demoSdk i f w = (Inr [], w)" for i f w
    by (simp add: demoSdk_def)
  show ?thesis
    using deleteFicRun_outcome [OF azure objectID] by (simp add: Let_def answer)
qed

text \<open>
  Deleting an application that cannot be found.  When no object id is given and the
  look-up by name fails, also on retry, the phase still sends a delete request, for the
  empty object id, and its outcome is the outcome of that request.
\<close>

theorem deleteAadRun_empty_id:
  assumes "dd_aadApplicationObjectID (dst_data s) = []" and "dd_aadApplication (dst_data s) = None"
    and "\<And>w. \<exists>e. fst (az_GetApplication (ce_azure env) (deleteAADApplicationName (dst_data s)) w) = Inl e"
  shows "let look = az_GetApplication (ce_azure env) (deleteAADApplicationName (dst_data s));
      sent = az_DeleteApplication (ce_azure env) [] (snd (look (snd (look (dst_world s)))))
    in (fst (deleteAadRun env s), dst_world (snd (deleteAadRun env s))) =
       (case fst sent of Inl e \<Rightarrow> Some (WrapError ''failed to delete application'' e) | Inr _ \<Rightarrow> None, snd sent)"
proof -
  let ?look = "az_GetApplication (ce_azure env) (deleteAADApplicationName (dst_data s))"
  have "deleteAADApplicationObjectID env (s \<lparr> dst_world := w \<rparr>) = ([], s \<lparr> dst_world := snd (?look w) \<rparr>)" for w
  proof -
    obtain e w' where "?look w = (Inl e, w')" using assms(3) [of w] by (cases "?look w") auto
    then show ?thesis
      using assms(1,2) by (simp add: deleteAADApplicationObjectID_def deleteAADApplication_def)
  qed
  note looked = this [of "dst_world s"] this
  show ?thesis
    using looked by (auto simp: deleteAadRun_def Let_def split: prod.split sum.split)
qed

theorem deleteAadRun_empty_id_witness:
  "let s = demoDeleteState \<lparr> dst_data := (dst_data demoDeleteState) \<lparr> dd_aadApplicationObjectID := [] \<rparr> \<rparr>;
       env = demoCliEnv \<lparr> ce_azure := (AzureClient demoSdk) \<lparr> az_GetApplication := \<lambda>n w. (Inl (errAppNotFound n), w) \<rparr> \<rparr>
   in fst (deleteAadRun env s) = None \<and> dst_world (snd (deleteAadRun env s)) = (False, False)"
proof -
  let ?s = "demoDeleteState \<lparr> dst_data := (dst_data demoDeleteState) \<lparr> dd_aadApplicationObjectID := [] \<rparr> \<rparr>"
  let ?env = "demoCliEnv \<lparr> ce_azure := (AzureClient demoSdk) \<lparr> az_GetApplication := \<lambda>n w. (Inl (errAppNotFound n), w) \<rparr> \<rparr>"
  have "dd_aadApplicationObjectID (dst_data ?s) = []" "dd_aadApplication (dst_data ?s) = None"
    by (simp_all add: demoDeleteState_def)
  then show ?thesis
    using deleteAadRun_empty_id [of ?s ?env]
    by (simp add: Let_def AzureClient_def DeleteApplication_def demoSdk_def demoDeleteState_def)
qed

subsection \<open>Names and subjects\<close>

text \<open>The subject of a credential tells service accounts apart: a namespace has no colon.\<close>

lemma subject_injective:
  assumes "CHR '':'' \<notin> set ns" and "CHR '':'' \<notin> set ns'"
    and "GetFederatedCredentialSubject ns n = GetFederatedCredentialSubject ns' n'"
  shows "ns = ns' \<and> n = n'"
proof -
  have "strSplit (CHR '':'') (ns @ CHR '':'' # n) = strSplit (CHR '':'') (ns' @ CHR '':'' # n')"
    using assms(3) by (simp add: GetFederatedCredentialSubject_def)
  then have "ns = ns'" using assms(1,2) by (simp add: strSplit_append)
  with assms(3) show ?thesis by (simp add: GetFederatedCredentialSubject_def)
qed

text \<open>
  The names that the commands derive do not tell service accounts apart.  The account
  \<open>c\<close> of a namespace \<open>a-b\<close> and the account \<open>b-c\<close> of the namespace \<open>a\<close> get the same
  credential name and the same default application name, in both commands, although the
  subjects of their credentials differ; so a delete for one finds the application of the
  other.
\<close>

theorem derived_names_collide:
  fixes cd :: create_data and dd :: delete_data
  assumes "CHR '':'' \<notin> set a" and "CHR '':'' \<notin> set b" and "a \<noteq> []" and "c \<noteq> []" and "u \<noteq> []"
  shows "let named = (\<lambda>ns n. cd \<lparr> cd_aadApplicationName := [], cd_serviceAccountNamespace := ns,
             cd_serviceAccountName := n, cd_serviceAccountIssuerURL := u \<rparr>);
           named_d = (\<lambda>ns n. dd \<lparr> dd_aadApplicationName := [], dd_serviceAccountNamespace := ns,
             dd_serviceAccountName := n, dd_serviceAccountIssuerURL := u \<rparr>)
    in GetFederatedCredentialName (a @ ''-'' @ b) c u = GetFederatedCredentialName a (b @ ''-'' @ c) u \<and>
       createAADApplicationName (named (a @ ''-'' @ b) c) = createAADApplicationName (named a (b @ ''-'' @ c)) \<and>
       createAADApplicationName (named (a @ ''-'' @ b) c) = deleteAADApplicationName (named_d a (b @ ''-'' @ c)) \<and>
       GetFederatedCredentialSubject (a @ ''-'' @ b) c \<noteq> GetFederatedCredentialSubject a (b @ ''-'' @ c)"
proof -
  have "GetFederatedCredentialSubject (a @ ''-'' @ b) c \<noteq> GetFederatedCredentialSubject a (b @ ''-'' @ c)"
    using subject_injective [of "a @ ''-'' @ b" a c "b @ ''-'' @ c"] assms(1,2) by auto
  then show ?thesis
    using assms(3-5)
    by (simp add: Let_def GetFederatedCredentialName_def createAADApplicationName_def deleteAADApplicationName_def)
qed

theorem derived_names_collide_witness:
  "GetFederatedCredentialName ''team-a'' ''web'' ''https://issuer'' = GetFederatedCredentialName ''team'' ''a-web'' ''https://issuer''"
  using derived_names_collide [of "''team''" "''a''" "''web''" "''https://issuer''"] by (simp add: Let_def)

end
