(* ===== verification/Directory.thy ===== *)
theory Directory
  imports Sa_Delete_Correct
begin

section \<open>The commands over a directory and a cluster\<close>

text \<open>
  What Azure AD and the API server keep, as far as the service account commands are about it
  (\<open>directory\<close>), and what is documented of the two services as laws over a view of the
  outside.  The services stay parameters: a law speaks of every outcome of a call, failures
  included.  Under the laws the create command federates the service account with the
  application, and the delete command takes back what the create command made.
\<close>

subsection \<open>What the services keep\<close>

text \<open>
  Applications, service principals, the federated credentials with the object id of their
  application, and the service accounts by namespace and name.
\<close>

record directory =
  dir_apps :: "application set"
  dir_sps :: "service_principal set"
  dir_fics :: "(string \<times> federated_credential) set"
  dir_accounts :: "string \<times> string \<Rightarrow> service_account option"

text \<open>\<open>eq\<close> is the comparison of the filter on display names.\<close>

definition appsNamed :: "(string \<Rightarrow> string \<Rightarrow> bool) \<Rightarrow> string \<Rightarrow> directory \<Rightarrow> application set" where
  "appsNamed eq n d = {a \<in> dir_apps d. eq (app_displayName a) n}"

definition spsNamed :: "(string \<Rightarrow> string \<Rightarrow> bool) \<Rightarrow> string \<Rightarrow> directory \<Rightarrow> service_principal set" where
  "spsNamed eq n d = {p \<in> dir_sps d. eq (sp_displayName p) n}"

text \<open>
  Azure AD exchanges a service account token for one of a client if an application of that
  client id with a service principal has a credential for the token's issuer, subject and
  audience.
\<close>

definition exchanges :: "directory \<Rightarrow> string \<Rightarrow> string \<Rightarrow> string \<Rightarrow> string \<Rightarrow> bool" where
  "exchanges d clientID issuer subject audience \<longleftrightarrow>
     (\<exists>a \<in> dir_apps d. \<exists>p \<in> dir_sps d. \<exists>f. app_appId a = clientID \<and> sp_appId p = clientID \<and>
        (app_id a, f) \<in> dir_fics d \<and> fic_issuer f = issuer \<and> fic_subject f = subject \<and>
        audience \<in> set (fic_audiences f))"

subsection \<open>The laws of the directory\<close>

text \<open>
  A look-up changes nothing, and an answer to a filter on a display name, which has no
  apostrophe, has exactly the objects of that name, in some order.
\<close>

definition lookupLaws :: "(string \<Rightarrow> string \<Rightarrow> bool) \<Rightarrow> 'w azure_sdk \<Rightarrow> ('w \<Rightarrow> directory) \<Rightarrow> bool" where
  "lookupLaws eq sdk view \<longleftrightarrow>
     (\<forall>n. eq n n) \<and>
     (\<forall>f w. view (snd (sdk_appsGet sdk f w)) = view w \<and> view (snd (sdk_spsGet sdk f w)) = view w) \<and>
     (\<forall>n w. CHR 0x27 \<notin> set n \<longrightarrow>
        (\<forall>as. fst (sdk_appsGet sdk (getDisplayNameFilter n) w) = Inr as \<longrightarrow> set as = appsNamed eq n (view w)) \<and>
        (\<forall>ps. fst (sdk_spsGet sdk (getDisplayNameFilter n) w) = Inr ps \<longrightarrow> set ps = spsNamed eq n (view w)))"

text \<open>
  A request to create adds an object: an application of the requested name with ids that
  nothing has; the service principal of an application, with its name; a credential of an
  application, with some id.  The credentials of an application do not clash, which is to
  have the same name, or both the same issuer and the same subject.
\<close>

definition freshApp :: "directory \<Rightarrow> application \<Rightarrow> bool" where
  "freshApp d a \<longleftrightarrow> app_id a \<noteq> [] \<and> app_appId a \<noteq> [] \<and>
     app_id a \<notin> app_id ` dir_apps d \<union> fst ` dir_fics d \<and>
     app_appId a \<notin> app_appId ` dir_apps d \<union> sp_appId ` dir_sps d"

definition clashes :: "federated_credential \<Rightarrow> federated_credential \<Rightarrow> bool" where
  "clashes f g \<longleftrightarrow> fic_name f = fic_name g \<or> (fic_issuer f = fic_issuer g \<and> fic_subject f = fic_subject g)"

definition clashing :: "directory \<Rightarrow> string \<Rightarrow> federated_credential \<Rightarrow> bool" where
  "clashing d i fic \<longleftrightarrow> (\<exists>f. (i, f) \<in> dir_fics d \<and> clashes f fic)"

definition addsApp :: "string \<Rightarrow> application \<Rightarrow> directory \<Rightarrow> directory \<Rightarrow> bool" where
  "addsApp n a d d' \<longleftrightarrow> app_displayName a = n \<and> freshApp d a \<and>
     d' = d \<lparr> dir_apps := insert a (dir_apps d) \<rparr>"

definition addsPrincipal :: "string \<Rightarrow> service_principal \<Rightarrow> directory \<Rightarrow> directory \<Rightarrow> bool" where
  "addsPrincipal i p d d' \<longleftrightarrow>
     (\<exists>a \<in> dir_apps d. app_appId a = i \<and> sp_appId p = i \<and> sp_displayName p = app_displayName a) \<and>
     d' = d \<lparr> dir_sps := insert p (dir_sps d) \<rparr>"

definition addsFic :: "string \<Rightarrow> federated_credential \<Rightarrow> directory \<Rightarrow> directory \<Rightarrow> bool" where
  "addsFic i fic d d' \<longleftrightarrow> i \<in> app_id ` dir_apps d \<and> \<not> clashing d i fic \<and>
     (\<exists>j. d' = d \<lparr> dir_fics := insert (i, fic \<lparr> fic_id := j \<rparr>) (dir_fics d) \<rparr>)"

text \<open>
  A request that is answered with an error may have taken effect: the connection may be lost
  after the service has acted, and a client library that sends a request again may be told
  that its own object exists.  Otherwise it changes nothing, and the error which says that a
  credential exists is given only for a clash.
\<close>

definition creationLaws :: "'w azure_sdk \<Rightarrow> ('w \<Rightarrow> directory) \<Rightarrow> bool" where
  "creationLaws sdk view \<longleftrightarrow>
     (\<forall>n w r w'. sdk_appsPost sdk n w = (r, w') \<longrightarrow>
        (case r of
           Inl e \<Rightarrow> view w' = view w \<or> (\<exists>a. addsApp n a (view w) (view w'))
         | Inr x \<Rightarrow> \<exists>a. x = Some a \<and> addsApp n a (view w) (view w'))) \<and>
     (\<forall>i tags w r w'. sdk_spsPost sdk i tags w = (r, w') \<longrightarrow>
        (case r of
           Inl e \<Rightarrow> view w' = view w \<or> (\<exists>p. addsPrincipal i p (view w) (view w'))
         | Inr x \<Rightarrow> \<exists>p. x = Some p \<and> addsPrincipal i p (view w) (view w'))) \<and>
     (\<forall>i fic w r w'. sdk_ficPost sdk i fic w = (r, w') \<longrightarrow>
        (case r of
           Inl e \<Rightarrow> addsFic i fic (view w) (view w') \<or> view w' = view w \<and>
             (IsFederatedCredentialAlreadyExists (maybeExtractGraphError e) \<longrightarrow> clashing (view w) i fic)
         | Inr _ \<Rightarrow> addsFic i fic (view w) (view w')))"

text \<open>A deleted application takes its credentials and its service principal with it.\<close>

definition removeApp :: "string \<Rightarrow> directory \<Rightarrow> directory" where
  "removeApp i d = d \<lparr>
     dir_apps := {a \<in> dir_apps d. app_id a \<noteq> i},
     dir_sps := {p \<in> dir_sps d. \<forall>a \<in> dir_apps d. app_id a = i \<longrightarrow> sp_appId p \<noteq> app_appId a},
     dir_fics := {x \<in> dir_fics d. fst x \<noteq> i} \<rparr>"

definition deletionLaws :: "'w azure_sdk \<Rightarrow> ('w \<Rightarrow> directory) \<Rightarrow> bool" where
  "deletionLaws sdk view \<longleftrightarrow>
     (\<forall>i w r w'. sdk_appDelete sdk i w = (r, w') \<longrightarrow>
        (case r of
           Inl e \<Rightarrow> view w' = view w \<or> view w' = removeApp i (view w)
         | Inr _ \<Rightarrow> view w' = removeApp i (view w)))"

text \<open>Roles, random numbers and time are apart from what the view shows.\<close>

definition roleLaws :: "'w azure_sdk \<Rightarrow> ('w \<Rightarrow> directory) \<Rightarrow> bool" where
  "roleLaws sdk view \<longleftrightarrow>
     (\<forall>sc f w. \<forall>page \<in> set (sdk_roleDefinitionPages sdk sc f). view (snd (page w)) = view w) \<and>
     (\<forall>sc n rd p w. view (snd (sdk_raCreate sdk sc n rd p w)) = view w) \<and>
     (\<forall>i w. view (snd (sdk_raDelete sdk i w)) = view w) \<and>
     (\<forall>w. view (snd (sdk_uuidNew sdk w)) = view w) \<and>
     (\<forall>dt w. view (sdk_sleep sdk dt w) = view w)"

text \<open>A directory that can be reached: every look-up of applications is answered.\<close>

definition lookupsAnswered :: "'w azure_sdk \<Rightarrow> bool" where
  "lookupsAnswered sdk \<longleftrightarrow> (\<forall>f w. \<exists>as. fst (sdk_appsGet sdk f w) = Inr as)"

subsection \<open>The laws of the cluster\<close>

text \<open>
  The API server stores an account under its namespace and name with the annotations it is
  sent; what it adds to the object is its own.  Here too, a request that is answered with an
  error may have taken effect.
\<close>

definition accountKey :: "service_account \<Rightarrow> string \<times> string" where
  "accountKey sa = (om_namespace (sa_meta sa), om_name (sa_meta sa))"

definition stores :: "service_account \<Rightarrow> directory \<Rightarrow> directory \<Rightarrow> bool" where
  "stores sa d d' \<longleftrightarrow>
     (\<exists>st. sa_annotations st = sa_annotations sa \<and>
        d' = d \<lparr> dir_accounts := (dir_accounts d)(accountKey sa \<mapsto> st) \<rparr>)"

definition removesAccount :: "string \<times> string \<Rightarrow> directory \<Rightarrow> directory \<Rightarrow> bool" where
  "removesAccount k d d' \<longleftrightarrow> d' = d \<lparr> dir_accounts := (dir_accounts d)(k := None) \<rparr>"

definition clientLaws :: "'w kube_client \<Rightarrow> ('w \<Rightarrow> directory) \<Rightarrow> bool" where
  "clientLaws kc view \<longleftrightarrow>
     (\<forall>sa w r w'. kc_create kc sa w = (r, w') \<or> kc_update kc sa w = (r, w') \<longrightarrow>
        (case r of
           Inl e \<Rightarrow> view w' = view w \<or> stores sa (view w) (view w')
         | Inr _ \<Rightarrow> stores sa (view w) (view w'))) \<and>
     (\<forall>ns n w r w'. kc_getServiceAccount kc ns n w = (r, w') \<longrightarrow> view w' = view w \<and>
        (case r of
           Inl e \<Rightarrow> apiIsNotFound e \<longrightarrow> dir_accounts (view w) (ns, n) = None
         | Inr sa \<Rightarrow> accountKey sa = (ns, n))) \<and>
     (\<forall>sa w r w'. kc_delete kc sa w = (r, w') \<longrightarrow>
        (case r of
           Inl e \<Rightarrow> removesAccount (accountKey sa) (view w) (view w') \<or> view w' = view w \<and>
             (apiIsNotFound e \<longrightarrow> dir_accounts (view w) (accountKey sa) = None)
         | Inr _ \<Rightarrow> removesAccount (accountKey sa) (view w) (view w')))"

definition clusterLaws :: "('w, 'w kube_client) io \<Rightarrow> ('w \<Rightarrow> directory) \<Rightarrow> bool" where
  "clusterLaws getKubeClient view \<longleftrightarrow>
     (\<forall>w. view (snd (getKubeClient w)) = view w) \<and>
     (\<forall>w kc. fst (getKubeClient w) = Inr kc \<longrightarrow> clientLaws kc view)"

text \<open>An environment whose cloud client and cluster obey the laws.\<close>

definition lawfulEnv ::
  "(string \<Rightarrow> string \<Rightarrow> bool) \<Rightarrow> 'w azure_sdk \<Rightarrow> ('w \<Rightarrow> directory) \<Rightarrow> 'w cli_env \<Rightarrow> bool" where
  "lawfulEnv eq sdk view env \<longleftrightarrow>
     ce_azure env = AzureClient sdk \<and> lookupLaws eq sdk view \<and> creationLaws sdk view \<and>
     deletionLaws sdk view \<and> roleLaws sdk view \<and> clusterLaws (ce_getKubeClient env) view"

subsection \<open>The cloud client under the laws\<close>

lemma lookupLawsD:
  assumes "lookupLaws eq sdk view"
  shows "eq n n" "view (snd (sdk_appsGet sdk f w)) = view w" "view (snd (sdk_spsGet sdk f w)) = view w"
    and "CHR 0x27 \<notin> set n \<Longrightarrow> fst (sdk_appsGet sdk (getDisplayNameFilter n) w) = Inr as \<Longrightarrow> set as = appsNamed eq n (view w)"
    and "CHR 0x27 \<notin> set n \<Longrightarrow> fst (sdk_spsGet sdk (getDisplayNameFilter n) w) = Inr ps \<Longrightarrow> set ps = spsNamed eq n (view w)"
  using assms by (simp_all add: lookupLaws_def)

lemma GetApplication_law:
  assumes "lookupLaws eq sdk view" and "GetApplication sdk n w = (r, w')"
  shows "view w' = view w"
    and "CHR 0x27 \<notin> set n \<Longrightarrow> r = Inr a \<Longrightarrow> a \<in> appsNamed eq n (view w)"
    and "CHR 0x27 \<notin> set n \<Longrightarrow> r = Inl e \<Longrightarrow> lookupsAnswered sdk \<Longrightarrow> appsNamed eq n (view w) = {}"
proof -
  obtain x w1 where x: "sdk_appsGet sdk (getDisplayNameFilter n) w = (x, w1)" by fastforce
  note laws = lookupLawsD [OF assms(1)]
  show "view w' = view w"
    using laws(2) [of "getDisplayNameFilter n" w] assms(2) x
    by (auto simp: GetApplication_def extractOnError_def split: sum.splits list.splits)
  show "a \<in> appsNamed eq n (view w)" if "CHR 0x27 \<notin> set n" "r = Inr a"
    using laws(4) [OF that(1), of w] assms(2) x that(2)
    by (auto simp: GetApplication_def extractOnError_def split: sum.splits list.splits)
  show "appsNamed eq n (view w) = {}" if n: "CHR 0x27 \<notin> set n" "r = Inl e" and all: "lookupsAnswered sdk"
  proof -
    obtain as where "x = Inr as" using all x unfolding lookupsAnswered_def by (metis fst_conv)
    then show ?thesis
      using laws(4) [OF n(1), of w as] assms(2) x n(2)
      by (auto simp: GetApplication_def extractOnError_def split: list.splits)
  qed
qed

lemma GetServicePrincipal_law:
  assumes "lookupLaws eq sdk view" and "GetServicePrincipal sdk n w = (r, w')"
  shows "view w' = view w"
    and "CHR 0x27 \<notin> set n \<Longrightarrow> r = Inr p \<Longrightarrow> p \<in> spsNamed eq n (view w)"
proof -
  obtain x w1 where x: "sdk_spsGet sdk (getDisplayNameFilter n) w = (x, w1)" by fastforce
  note laws = lookupLawsD [OF assms(1)]
  show "view w' = view w"
    using laws(3) [of "getDisplayNameFilter n" w] assms(2) x
    by (auto simp: GetServicePrincipal_def extractOnError_def split: sum.splits list.splits)
  show "p \<in> spsNamed eq n (view w)" if "CHR 0x27 \<notin> set n" "r = Inr p"
    using laws(5) [OF that(1), of w] assms(2) x that(2)
    by (auto simp: GetServicePrincipal_def extractOnError_def split: sum.splits list.splits)
qed

lemma creationLawsD:
  assumes "creationLaws sdk view"
  shows "sdk_appsPost sdk n w = (Inl e, w') \<Longrightarrow> view w' = view w \<or> (\<exists>a. addsApp n a (view w) (view w'))"
    and "sdk_appsPost sdk n w = (Inr x, w') \<Longrightarrow> \<exists>a. x = Some a \<and> addsApp n a (view w) (view w')"
    and "sdk_spsPost sdk i tags w = (Inl e, w') \<Longrightarrow> view w' = view w \<or> (\<exists>p. addsPrincipal i p (view w) (view w'))"
    and "sdk_spsPost sdk i tags w = (Inr y, w') \<Longrightarrow> \<exists>p. y = Some p \<and> addsPrincipal i p (view w) (view w')"
    and "sdk_ficPost sdk i fic w = (Inl e, w') \<Longrightarrow> addsFic i fic (view w) (view w') \<or> view w' = view w \<and>
      (IsFederatedCredentialAlreadyExists (maybeExtractGraphError e) \<longrightarrow> clashing (view w) i fic)"
    and "sdk_ficPost sdk i fic w = (Inr u, w') \<Longrightarrow> addsFic i fic (view w) (view w')"
proof -
  note A = assms [unfolded creationLaws_def, THEN conjunct1, rule_format]
  note B = assms [unfolded creationLaws_def, THEN conjunct2, THEN conjunct1, rule_format]
  note C = assms [unfolded creationLaws_def, THEN conjunct2, THEN conjunct2, rule_format]
  show "sdk_appsPost sdk n w = (Inl e, w') \<Longrightarrow> view w' = view w \<or> (\<exists>a. addsApp n a (view w) (view w'))"
    "sdk_appsPost sdk n w = (Inr x, w') \<Longrightarrow> \<exists>a. x = Some a \<and> addsApp n a (view w) (view w')"
    using A [of n w "Inl e"] A [of n w "Inr x"] by simp_all
  show "sdk_spsPost sdk i tags w = (Inl e, w') \<Longrightarrow> view w' = view w \<or> (\<exists>p. addsPrincipal i p (view w) (view w'))"
    "sdk_spsPost sdk i tags w = (Inr y, w') \<Longrightarrow> \<exists>p. y = Some p \<and> addsPrincipal i p (view w) (view w')"
    using B [of i tags w "Inl e"] B [of i tags w "Inr y"] by simp_all
  show "sdk_ficPost sdk i fic w = (Inl e, w') \<Longrightarrow> addsFic i fic (view w) (view w') \<or> view w' = view w \<and>
      (IsFederatedCredentialAlreadyExists (maybeExtractGraphError e) \<longrightarrow> clashing (view w) i fic)"
    "sdk_ficPost sdk i fic w = (Inr u, w') \<Longrightarrow> addsFic i fic (view w) (view w')"
    using C [of i fic w "Inl e"] C [of i fic w "Inr u"] by simp_all
qed

lemma role_operations_apart:
  assumes "roleLaws sdk view"
  shows "view (snd (CreateRoleAssignment sdk sc rn p w)) = view w"
    and "view (snd (DeleteRoleAssignment sdk i w)) = view w"
proof -
  note laws = assms [unfolded roleLaws_def]
  have pages: "view (snd (rolePagerLoop rn ps w)) = view w"
    if "\<forall>page \<in> set ps. \<forall>w. view (snd (page w)) = view w" for ps w
    using that
  proof (induction ps arbitrary: w)
    case (Cons page ps)
    obtain x w1 where x: "page w = (x, w1)" by fastforce
    then have "view w1 = view w" using Cons.prems by (metis list.set_intros(1) snd_conv)
    then show ?case using Cons x by (auto split: sum.splits list.splits)
  qed simp
  have loop: "view (snd (roleAssignmentLoop sdk sc rd p n w)) = view w" for rd n w
  proof (induction n arbitrary: w)
    case (Suc n)
    obtain u w1 where u: "sdk_uuidNew sdk w = (u, w1)" by fastforce
    obtain r w2 where r: "sdk_raCreate sdk sc u rd p w1 = (r, w2)" by fastforce
    have "view w1 = view w" "view w2 = view w1" "\<And>dt. view (sdk_sleep sdk dt w2) = view w2"
      using laws u r by (metis snd_conv)+
    then show ?case using Suc u r by (auto split: sum.splits)
  qed simp
  obtain r w1 where r: "GetRoleDefinitionIDByName sdk [] rn w = (r, w1)" by fastforce
  have "view w1 = view w"
    using pages [of "sdk_roleDefinitionPages sdk [] (getRoleNameFilter rn)" w] laws r
    by (simp add: GetRoleDefinitionIDByName_def)
  then show "view (snd (CreateRoleAssignment sdk sc rn p w)) = view w"
    using r loop by (auto simp: CreateRoleAssignment_def split: sum.splits)
  show "view (snd (DeleteRoleAssignment sdk i w)) = view w"
    using laws by (simp add: DeleteRoleAssignment_def)
qed

lemma stores_again: "stores sa d d' \<Longrightarrow> stores sa d' d'' \<Longrightarrow> stores sa d d''"
  unfolding stores_def by (elim exE conjE) (intro exI conjI, assumption, simp)

lemma clientLawsD:
  assumes "clientLaws kc view"
  shows "CreateOrUpdateServiceAccount kc ns n cid tid d w = (Inr u, w') \<Longrightarrow>
      stores (newServiceAccount ns n cid tid d) (view w) (view w')"
    and "CreateOrUpdateServiceAccount kc ns n cid tid d w = (Inl e, w') \<Longrightarrow>
      view w' = view w \<or> stores (newServiceAccount ns n cid tid d) (view w) (view w')"
    and "DeleteServiceAccount kc ns n w = (r, w') \<Longrightarrow> (case r of Inr _ \<Rightarrow> True | Inl e \<Rightarrow> apiIsNotFound e) \<Longrightarrow>
      view w' = (view w) \<lparr> dir_accounts := (dir_accounts (view w))((ns, n) := None) \<rparr>"
proof -
  note A = assms [unfolded clientLaws_def, THEN conjunct1, rule_format]
  note B = assms [unfolded clientLaws_def, THEN conjunct2, THEN conjunct1, rule_format]
  note C = assms [unfolded clientLaws_def, THEN conjunct2, THEN conjunct2, rule_format]
  let ?sa = "newServiceAccount ns n cid tid d"
  obtain r1 w1 where c: "kc_create kc ?sa w = (r1, w1)" by fastforce
  obtain r2 w2 where u: "kc_update kc ?sa w1 = (r2, w2)" by fastforce
  have A1: "case r1 of Inl e \<Rightarrow> view w1 = view w \<or> stores ?sa (view w) (view w1) | Inr _ \<Rightarrow> stores ?sa (view w) (view w1)"
    using A c by blast
  have A2: "case r2 of Inl e \<Rightarrow> view w2 = view w1 \<or> stores ?sa (view w1) (view w2) | Inr _ \<Rightarrow> stores ?sa (view w1) (view w2)"
    using A u by blast
  show "CreateOrUpdateServiceAccount kc ns n cid tid d w = (Inr u, w') \<Longrightarrow> stores ?sa (view w) (view w')" for u
    using A1 A2 c u by (auto simp: CreateOrUpdateServiceAccount_def Let_def split: sum.splits if_splits
        intro: stores_again)
  show "CreateOrUpdateServiceAccount kc ns n cid tid d w = (Inl e, w') \<Longrightarrow>
      view w' = view w \<or> stores ?sa (view w) (view w')"
    using A1 A2 c u by (auto simp: CreateOrUpdateServiceAccount_def Let_def split: sum.splits if_splits
        intro: stores_again)
  assume d: "DeleteServiceAccount kc ns n w = (r, w')" "case r of Inr _ \<Rightarrow> True | Inl e \<Rightarrow> apiIsNotFound e"
  obtain g w3 where g: "kc_getServiceAccount kc ns n w = (g, w3)" by fastforce
  have same: "view w3 = view w" using B [OF g] by simp
  have absent: "x = x \<lparr> dir_accounts := (dir_accounts x)(k := None) \<rparr>" if "dir_accounts x k = None" for x k
  proof -
    have "(dir_accounts x)(k := None) = dir_accounts x" using that by (rule fun_upd_idem)
    then show ?thesis by simp
  qed
  show "view w' = (view w) \<lparr> dir_accounts := (dir_accounts (view w))((ns, n) := None) \<rparr>"
  proof (cases g)
    case (Inl e)
    then have "w' = w3" "r = Inl e" using d(1) g by (simp_all add: DeleteServiceAccount_def)
    then have "dir_accounts (view w) (ns, n) = None" using B [OF g] Inl d(2) by simp
    then show ?thesis using absent [of "view w"] same \<open>w' = w3\<close> by simp
  next
    case (Inr sa)
    then have del: "kc_delete kc sa w3 = (r, w')" using d(1) g by (simp add: DeleteServiceAccount_def)
    have key: "accountKey sa = (ns, n)" using B [OF g] Inr by simp
    show ?thesis
    proof (cases r)
      case (Inl e)
      then have "removesAccount (ns, n) (view w3) (view w') \<or>
          view w' = view w3 \<and> dir_accounts (view w3) (ns, n) = None"
        using C [OF del] d(2) key by simp
      then show ?thesis using absent [of "view w3"] same by (auto simp: removesAccount_def)
    next
      case (Inr u)
      then show ?thesis using C [OF del] key same by (simp add: removesAccount_def)
    qed
  qed
qed

subsection \<open>What a create adds\<close>

text \<open>
  The second directory is the first with an application, a principal and credentials of that
  application, and another account under one key.
\<close>

definition extendsBy :: "application \<Rightarrow> string \<times> string \<Rightarrow> directory \<Rightarrow> directory \<Rightarrow> bool" where
  "extendsBy a k d d' \<longleftrightarrow>
     dir_apps d' = insert a (dir_apps d) \<and>
     dir_sps d \<subseteq> dir_sps d' \<and> dir_sps d' \<subseteq> dir_sps d \<union> {p. sp_appId p = app_appId a} \<and>
     dir_fics d \<subseteq> dir_fics d' \<and> dir_fics d' \<subseteq> dir_fics d \<union> {x. fst x = app_id a} \<and>
     (\<forall>l. l \<noteq> k \<longrightarrow> dir_accounts d' l = dir_accounts d l)"

lemma extendsBy_refl: "a \<in> dir_apps d \<Longrightarrow> extendsBy a k d d"
  by (auto simp: extendsBy_def)

lemma extendsBy_trans: "extendsBy a k d d' \<Longrightarrow> extendsBy a k d' d'' \<Longrightarrow> extendsBy a k d d''"
  unfolding extendsBy_def by (intro conjI; (blast | simp))

lemma extendsBy_upd:
  "extendsBy a k d (d \<lparr> dir_apps := insert a (dir_apps d) \<rparr>)"
  "a \<in> dir_apps d \<Longrightarrow> sp_appId p = app_appId a \<Longrightarrow> extendsBy a k d (d \<lparr> dir_sps := insert p (dir_sps d) \<rparr>)"
  "a \<in> dir_apps d \<Longrightarrow> extendsBy a k d (d \<lparr> dir_fics := insert (app_id a, f) (dir_fics d) \<rparr>)"
  "a \<in> dir_apps d \<Longrightarrow> accountKey sa = k \<Longrightarrow> stores sa d d' \<Longrightarrow> extendsBy a k d d'"
  by (auto simp: extendsBy_def stores_def)

text \<open>
  What identifies the application of a command: one application has its name, and the cache
  holds no other.
\<close>

definition settled ::
  "(string \<Rightarrow> string \<Rightarrow> bool) \<Rightarrow> string \<Rightarrow> application \<Rightarrow> ('w \<Rightarrow> directory) \<Rightarrow> 'w create_state \<Rightarrow> bool" where
  "settled eq n a view s \<longleftrightarrow>
     createAADApplicationName (cst_data s) = n \<and> cd_aadApplicationClientID (cst_data s) = [] \<and>
     cd_aadApplicationObjectID (cst_data s) = [] \<and> appsNamed eq n (view (cst_world s)) = {a} \<and>
     cd_aadApplication (cst_data s) \<in> {None, Some a}"

lemma createKeeps_names:
  "createKeeps s t \<Longrightarrow>
   createAADApplicationName (cst_data t) = createAADApplicationName (cst_data s) \<and>
   createServicePrincipalName (cst_data t) = createServicePrincipalName (cst_data s) \<and>
   cd_aadApplicationClientID (cst_data t) = cd_aadApplicationClientID (cst_data s) \<and>
   cd_aadApplicationObjectID (cst_data t) = cd_aadApplicationObjectID (cst_data s)"
  by (cases "cst_data s"; cases "cst_data t")
    (simp add: createKeeps_def createFlags_def createServicePrincipalName_def createAADApplicationName_def)

lemma settled_keeps:
  assumes "settled eq n a view s" and "createKeeps s t" and "dir_apps (view (cst_world t)) = dir_apps (view (cst_world s))"
    and "cd_aadApplication (cst_data t) \<in> {None, Some a}"
  shows "settled eq n a view t"
  using assms createKeeps_names [OF assms(2)] by (simp add: settled_def appsNamed_def)

lemma settled_in: "settled eq n a view s \<Longrightarrow> a \<in> dir_apps (view (cst_world s))"
  by (auto simp: settled_def appsNamed_def)

lemma lawfulEnvD:
  assumes "lawfulEnv eq sdk view env"
  shows "lookupLaws eq sdk view" "creationLaws sdk view" "deletionLaws sdk view" "roleLaws sdk view"
    "clusterLaws (ce_getKubeClient env) view"
    "az_GetApplication (ce_azure env) = GetApplication sdk"
    "az_GetServicePrincipal (ce_azure env) = GetServicePrincipal sdk"
    "az_CreateApplication (ce_azure env) = CreateApplication sdk"
    "az_CreateServicePrincipal (ce_azure env) = CreateServicePrincipal sdk"
    "az_AddFederatedCredential (ce_azure env) = AddFederatedCredential sdk"
    "az_CreateRoleAssignment (ce_azure env) = CreateRoleAssignment sdk"
    "az_DeleteRoleAssignment (ce_azure env) = DeleteRoleAssignment sdk"
    "az_DeleteApplication (ce_azure env) = DeleteApplication sdk"
  using assms by (simp_all add: lawfulEnv_def AzureClient_def)

lemma settled_application:
  assumes law: "lawfulEnv eq sdk view env" "lookupsAnswered sdk" and n: "CHR 0x27 \<notin> set n"
    and s: "settled eq n a view s" and get: "createAADApplication env s = (r, t)"
  shows "r = Inr a" "settled eq n a view t" "view (cst_world t) = view (cst_world s)"
    "createKeeps s t" "cst_kube t = cst_kube s"
proof -
  show keeps: "createKeeps s t" "cst_kube t = cst_kube s" using createAADApplication_keeps [OF get] by simp_all
  have "r = Inr a \<and> view (cst_world t) = view (cst_world s) \<and> cd_aadApplication (cst_data t) = Some a"
  proof (cases "cd_aadApplication (cst_data s)")
    case None
    obtain x w where x: "GetApplication sdk n (cst_world s) = (x, w)" by fastforce
    note gets = GetApplication_law [OF lawfulEnvD(1) [OF law(1)] x]
    have named: "appsNamed eq n (view (cst_world s)) = {a}" using s by (simp add: settled_def)
    then have "x = Inr a" using gets(2) [OF n] gets(3) [OF n _ law(2)] by (cases x) auto
    then show ?thesis
      using get None x gets(1) s by (simp add: createAADApplication_def settled_def lawfulEnvD(6) [OF law(1)]) auto
  next
    case (Some b)
    then show ?thesis using get s by (auto simp: createAADApplication_def settled_def)
  qed
  then show "r = Inr a" "view (cst_world t) = view (cst_world s)" "settled eq n a view t"
    using settled_keeps [OF s keeps(1)] by simp_all
qed

lemma settled_ids:
  assumes "lawfulEnv eq sdk view env" "lookupsAnswered sdk" "CHR 0x27 \<notin> set n" "settled eq n a view s"
  shows "\<exists>t. createAADApplicationClientID env s = (app_appId a, t) \<and> settled eq n a view t \<and>
      view (cst_world t) = view (cst_world s) \<and> createKeeps s t \<and> cst_kube t = cst_kube s"
    and "\<exists>t. createAADApplicationObjectID env s = (app_id a, t) \<and> settled eq n a view t \<and>
      view (cst_world t) = view (cst_world s) \<and> createKeeps s t \<and> cst_kube t = cst_kube s"
proof -
  obtain r t where t: "createAADApplication env s = (r, t)" by fastforce
  note get = settled_application [OF assms t]
  show "\<exists>t. createAADApplicationClientID env s = (app_appId a, t) \<and> settled eq n a view t \<and>
      view (cst_world t) = view (cst_world s) \<and> createKeeps s t \<and> cst_kube t = cst_kube s"
    using get t assms(4) by (auto simp: createAADApplicationClientID_def settled_def)
  show "\<exists>t. createAADApplicationObjectID env s = (app_id a, t) \<and> settled eq n a view t \<and>
      view (cst_world t) = view (cst_world s) \<and> createKeeps s t \<and> cst_kube t = cst_kube s"
    using get t assms(4) by (auto simp: createAADApplicationObjectID_def settled_def)
qed

subsection \<open>The phases of create under the laws\<close>

text \<open>A name that is not ambiguous: one application at most has it, and the principals of the name are its own.\<close>

definition unambiguous :: "(string \<Rightarrow> string \<Rightarrow> bool) \<Rightarrow> string \<Rightarrow> directory \<Rightarrow> bool" where
  "unambiguous eq n d \<longleftrightarrow>
     (\<forall>a \<in> appsNamed eq n d. \<forall>b \<in> appsNamed eq n d. a = b) \<and>
     (\<forall>p \<in> spsNamed eq n d. \<exists>a \<in> appsNamed eq n d. sp_appId p = app_appId a)"

definition hasPrincipal :: "application \<Rightarrow> directory \<Rightarrow> bool" where
  "hasPrincipal a d \<longleftrightarrow> (\<exists>p \<in> dir_sps d. sp_appId p = app_appId a)"

text \<open>The data of a command that derives the names and looks up the ids.\<close>

definition derivesIDs :: "string \<Rightarrow> create_data \<Rightarrow> bool" where
  "derivesIDs n c \<longleftrightarrow> createAADApplicationName c = n \<and> createServicePrincipalName c = n \<and>
     cd_aadApplicationClientID c = [] \<and> cd_aadApplicationObjectID c = [] \<and>
     cd_aadApplication c = None \<and> cd_servicePrincipal c = None"

lemma createAadServicePrincipal_law:
  assumes law: "lawfulEnv eq sdk view env" and n: "CHR 0x27 \<notin> set n"
    and s: "settled eq n a view s" and sp: "createServicePrincipalName (cst_data s) = n" "cd_servicePrincipal (cst_data s) = None"
    and own: "\<forall>p \<in> spsNamed eq n (view (cst_world s)). sp_appId p = app_appId a"
    and run: "createAadServicePrincipal env a s = (None, t)"
  shows "settled eq n a view t \<and> extendsBy a k (view (cst_world s)) (view (cst_world t)) \<and>
    hasPrincipal a (view (cst_world t)) \<and> dir_fics (view (cst_world t)) = dir_fics (view (cst_world s))"
proof -
  let ?d = "view (cst_world s)"
  obtain x w where x: "GetServicePrincipal sdk n (cst_world s) = (x, w)" by fastforce
  note sps = GetServicePrincipal_law [OF lawfulEnvD(1) [OF law] x]
  have keeps: "createKeeps s t"
    using createAadServicePrincipal_keeps [of s env a] run by simp
  note a = settled_in [OF s]
  have get: "createServicePrincipal env s =
      (case x of Inl e \<Rightarrow> (Inl e, s \<lparr> cst_world := w \<rparr>)
       | Inr p \<Rightarrow> (Inr p, s \<lparr> cst_data := cst_data s \<lparr> cd_servicePrincipal := Some p \<rparr>, cst_world := w \<rparr>))"
    using x sp by (simp add: createServicePrincipal_def lawfulEnvD(7) [OF law])
  show ?thesis
  proof (cases x)
    case (Inr p)
    then have t: "t = s \<lparr> cst_data := cst_data s \<lparr> cd_servicePrincipal := Some p \<rparr>, cst_world := w \<rparr>"
      using run get by (simp add: createAadServicePrincipal_def)
    then have "view (cst_world t) = ?d" using sps(1) by simp
    moreover have "hasPrincipal a ?d" using sps(2) [OF n Inr] own by (auto simp: hasPrincipal_def spsNamed_def)
    moreover have "settled eq n a view t"
      using settled_keeps [OF s keeps] t s sps(1) by (simp add: settled_def)
    ultimately show ?thesis using extendsBy_refl [OF a] by simp
  next
    case (Inl e)
    obtain tags y w' where y: "CreateServicePrincipal sdk (app_appId a) tags w = (Inr y, w')"
      and t: "t = s \<lparr> cst_world := w' \<rparr>"
      using run get Inl
      by (auto simp: createAadServicePrincipal_def Let_def lawfulEnvD(9) [OF law]
          split: if_splits prod.splits sum.splits option.splits)
    have "sdk_spsPost sdk (app_appId a) tags w = (Inr y, w')"
      using y by (auto simp: CreateServicePrincipal_def extractOnError_def split: prod.splits sum.splits)
    then obtain p where p: "sp_appId p = app_appId a"
      and d: "view w' = ?d \<lparr> dir_sps := insert p (dir_sps ?d) \<rparr>"
      using creationLawsD(4) [OF lawfulEnvD(2) [OF law]] sps(1) by (metis addsPrincipal_def)
    have "extendsBy a k ?d (view w')" unfolding d by (rule extendsBy_upd(2) [OF a p])
    moreover have "settled eq n a view t" using t s d by (simp add: settled_def appsNamed_def)
    moreover have "hasPrincipal a (view w')" using p d by (auto simp: hasPrincipal_def)
    ultimately show ?thesis using t d by simp
  qed
qed

lemma createAadRun_law:
  assumes law: "lawfulEnv eq sdk view env" "lookupsAnswered sdk" and n: "CHR 0x27 \<notin> set n"
    and c: "derivesIDs n (cst_data s)" and names: "unambiguous eq n (view (cst_world s))"
    and run: "createAadRun env s = (None, t)"
  shows "\<exists>a. settled eq n a view t \<and> extendsBy a k (view (cst_world s)) (view (cst_world t)) \<and>
    hasPrincipal a (view (cst_world t)) \<and> dir_fics (view (cst_world t)) = dir_fics (view (cst_world s)) \<and>
    (a \<in> appsNamed eq n (view (cst_world s)) \<or>
     freshApp (view (cst_world s)) a \<and> appsNamed eq n (view (cst_world s)) = {})"
proof -
  let ?d = "view (cst_world s)"
  obtain x w where x: "GetApplication sdk n (cst_world s) = (x, w)" by fastforce
  note gets = GetApplication_law [OF lawfulEnvD(1) [OF law(1)] x]
  have get: "createAADApplication env s =
      (case x of Inl e \<Rightarrow> (Inl e, s \<lparr> cst_world := w \<rparr>)
       | Inr a \<Rightarrow> (Inr a, s \<lparr> cst_data := cst_data s \<lparr> cd_aadApplication := Some a \<rparr>, cst_world := w \<rparr>))"
    using x c by (simp add: createAADApplication_def derivesIDs_def lawfulEnvD(6) [OF law(1)])
  show ?thesis
  proof (cases x)
    case (Inr a)
    let ?s = "s \<lparr> cst_data := cst_data s \<lparr> cd_aadApplication := Some a \<rparr>, cst_world := w \<rparr>"
    have a: "a \<in> appsNamed eq n ?d" using gets(2) [OF n Inr] .
    then have named: "appsNamed eq n ?d = {a}" using names by (auto simp: unambiguous_def)
    then have "settled eq n a view ?s" using c gets(1) by (simp add: settled_def derivesIDs_def)
    moreover have "\<forall>p \<in> spsNamed eq n (view (cst_world ?s)). sp_appId p = app_appId a"
      using names [unfolded unambiguous_def, THEN conjunct2] named gets(1) by simp
    moreover have "createAadServicePrincipal env a ?s = (None, t)"
      using run get Inr by (simp add: createAadRun_def)
    moreover have "createServicePrincipalName (cst_data ?s) = n" "cd_servicePrincipal (cst_data ?s) = None"
      using c by (simp_all add: derivesIDs_def)
    ultimately have "settled eq n a view t \<and> extendsBy a k (view (cst_world ?s)) (view (cst_world t)) \<and>
        hasPrincipal a (view (cst_world t)) \<and> dir_fics (view (cst_world t)) = dir_fics (view (cst_world ?s))"
      by (intro createAadServicePrincipal_law [OF law(1) n])
    then have "settled eq n a view t \<and> extendsBy a k ?d (view (cst_world t)) \<and>
        hasPrincipal a (view (cst_world t)) \<and> dir_fics (view (cst_world t)) = dir_fics ?d"
      using gets(1) by simp
    with a show ?thesis by blast
  next
    case (Inl e)
    have none: "appsNamed eq n ?d = {}" using gets(3) [OF n Inl law(2)] .
    obtain y w' where y: "CreateApplication sdk n w = (Inr y, w')"
      and then_sp: "\<And>a. y = Some a \<Longrightarrow> createAadServicePrincipal env a (s \<lparr> cst_world := w' \<rparr>) = (None, t)"
      using run get Inl c
      by (auto simp: createAadRun_def derivesIDs_def lawfulEnvD(8) [OF law(1)]
          split: if_splits prod.splits sum.splits option.splits)
    have "sdk_appsPost sdk n w = (Inr y, w')"
      using y by (auto simp: CreateApplication_def extractOnError_def split: prod.splits sum.splits)
    then obtain a where ya: "y = Some a" and a: "app_displayName a = n" "freshApp ?d a"
      and d: "view w' = ?d \<lparr> dir_apps := insert a (dir_apps ?d) \<rparr>"
      using creationLawsD(2) [OF lawfulEnvD(2) [OF law(1)]] gets(1) by (metis addsApp_def)
    let ?s = "s \<lparr> cst_world := w' \<rparr>"
    have "appsNamed eq n (view w') = {a}"
      using none d a(1) lookupLawsD(1) [OF lawfulEnvD(1) [OF law(1)]] by (auto simp: appsNamed_def)
    then have s: "settled eq n a view ?s" using c by (simp add: settled_def derivesIDs_def)
    have own: "\<forall>p \<in> spsNamed eq n (view (cst_world ?s)). sp_appId p = app_appId a"
      using names none d by (auto simp: unambiguous_def spsNamed_def)
    have grown: "extendsBy a k ?d (view w')" unfolding d by (rule extendsBy_upd(1))
    have "settled eq n a view t \<and> extendsBy a k (view w') (view (cst_world t)) \<and>
        hasPrincipal a (view (cst_world t)) \<and> dir_fics (view (cst_world t)) = dir_fics (view w')"
      using createAadServicePrincipal_law [OF law(1) n s _ _ own then_sp [OF ya], of k] c
      by (simp add: derivesIDs_def)
    then have "settled eq n a view t \<and> extendsBy a k ?d (view (cst_world t)) \<and>
        hasPrincipal a (view (cst_world t)) \<and> dir_fics (view (cst_world t)) = dir_fics ?d"
      using extendsBy_trans [OF grown] d by simp
    then show ?thesis using a(2) none by auto
  qed
qed

text \<open>The credential and the account that a command is to make.\<close>

definition wantedFic :: "create_data \<Rightarrow> federated_credential" where
  "wantedFic c = newFederatedCredential (cd_serviceAccountNamespace c) (cd_serviceAccountName c)
     (cd_serviceAccountIssuerURL c)"

definition wantedAccount :: "'w cli_env \<Rightarrow> application \<Rightarrow> create_data \<Rightarrow> service_account" where
  "wantedAccount env a c = newServiceAccount (cd_serviceAccountNamespace c) (cd_serviceAccountName c) (app_appId a)
     (ce_tenantID env) (cd_serviceAccountTokenExpiration c)"

definition createKey :: "create_data \<Rightarrow> string \<times> string" where
  "createKey c = (cd_serviceAccountNamespace c, cd_serviceAccountName c)"

lemma wanted_keeps:
  assumes "createKeeps s t"
  shows "wantedFic (cst_data t) = wantedFic (cst_data s)" "wantedAccount env a (cst_data t) = wantedAccount env a (cst_data s)"
    "createKey (cst_data t) = createKey (cst_data s)"
  using createKeeps_fields [OF assms] by (simp_all add: wantedFic_def wantedAccount_def createKey_def)

lemma wantedAccount_key: "accountKey (wantedAccount env a c) = createKey c"
  by (simp add: accountKey_def wantedAccount_def newServiceAccount_def createKey_def Let_def)

lemma createSaRun_law:
  assumes law: "lawfulEnv eq sdk view env" "lookupsAnswered sdk" and n: "CHR 0x27 \<notin> set n"
    and s: "settled eq n a view s" and kc: "cst_kube s = Some kc" "clientLaws kc view"
    and run: "createSaRun env s = (None, t)"
  shows "settled eq n a view t \<and> createKeeps s t \<and>
    stores (wantedAccount env a (cst_data s)) (view (cst_world s)) (view (cst_world t))"
proof -
  obtain u where u: "createAADApplicationClientID env s = (app_appId a, u)" "settled eq n a view u"
    "view (cst_world u) = view (cst_world s)" "createKeeps s u" "cst_kube u = cst_kube s"
    using settled_ids(1) [OF law n s] by blast
  let ?c = "cst_data u"
  obtain x w where w: "CreateOrUpdateServiceAccount kc (cd_serviceAccountNamespace ?c) (cd_serviceAccountName ?c)
      (app_appId a) (ce_tenantID env) (cd_serviceAccountTokenExpiration ?c) (cst_world u) = (Inr x, w)"
    and t: "t = u \<lparr> cst_world := w \<rparr>"
    using run u(1,5) kc(1) by (auto simp: createSaRun_def split: prod.splits sum.splits)
  have st: "stores (wantedAccount env a (cst_data s)) (view (cst_world s)) (view w)"
    using clientLawsD(1) [OF kc(2) w] u(3) wanted_keeps(2) [OF u(4), of env a] by (simp add: wantedAccount_def)
  then have "dir_apps (view w) = dir_apps (view (cst_world u))" using u(3) by (auto simp: stores_def)
  then have "settled eq n a view t" using settled_keeps [OF u(2), of t] u(2) t by (simp add: settled_def)
  then show ?thesis using st t u(4) by simp
qed

text \<open>The credential is added, or one that clashes with it is there.\<close>

definition ficOutcome :: "application \<Rightarrow> create_data \<Rightarrow> directory \<Rightarrow> directory \<Rightarrow> bool" where
  "ficOutcome a c d d' \<longleftrightarrow>
     (if clashing d (app_id a) (wantedFic c) then dir_fics d' = dir_fics d
      else \<exists>j. dir_fics d' = insert (app_id a, (wantedFic c) \<lparr> fic_id := j \<rparr>) (dir_fics d))"

lemma ficOutcome_cong: "wantedFic c = wantedFic c' \<Longrightarrow> ficOutcome a c d d' = ficOutcome a c' d d'"
  by (simp only: ficOutcome_def)

lemma createFicRun_law:
  assumes law: "lawfulEnv eq sdk view env" "lookupsAnswered sdk" and n: "CHR 0x27 \<notin> set n"
    and s: "settled eq n a view s" and run: "createFicRun env s = (None, t)"
  shows "settled eq n a view t \<and> extendsBy a k (view (cst_world s)) (view (cst_world t)) \<and>
    dir_accounts (view (cst_world t)) = dir_accounts (view (cst_world s)) \<and>
    dir_sps (view (cst_world t)) = dir_sps (view (cst_world s)) \<and>
    ficOutcome a (cst_data s) (view (cst_world s)) (view (cst_world t))"
proof -
  let ?d = "view (cst_world s)"
  obtain u where u: "createAADApplicationObjectID env s = (app_id a, u)" "settled eq n a view u"
    "view (cst_world u) = ?d" "createKeeps s u" "cst_kube u = cst_kube s"
    using settled_ids(2) [OF law n s] by blast
  let ?f = "wantedFic (cst_data s)"
  obtain r w where post: "sdk_ficPost sdk (app_id a) ?f (cst_world u) = (r, w)" by fastforce
  have fic: "newFederatedCredential (cd_serviceAccountNamespace (cst_data u)) (cd_serviceAccountName (cst_data u))
      (cd_serviceAccountIssuerURL (cst_data u)) = ?f"
    using wanted_keeps(1) [OF u(4)] unfolding wantedFic_def .
  have out: "createFicRun env s =
      (case r of
         Inr _ \<Rightarrow> (None, u \<lparr> cst_world := w \<rparr>)
       | Inl e \<Rightarrow> if IsFederatedCredentialAlreadyExists (maybeExtractGraphError e) then (None, u \<lparr> cst_world := w \<rparr>)
           else (Some (WrapError ''failed to add federated credential'' (maybeExtractGraphError e)), u \<lparr> cst_world := w \<rparr>))"
    by (simp add: createFicRun_def Let_def u(1) fic lawfulEnvD(10) [OF law(1)] AddFederatedCredential_def
        extractOnError_def post split: sum.split)
  have t: "t = u \<lparr> cst_world := w \<rparr>"
    and ok: "case r of Inr _ \<Rightarrow> True | Inl e \<Rightarrow> IsFederatedCredentialAlreadyExists (maybeExtractGraphError e)"
    using run unfolding out by (simp_all split: sum.splits if_splits)
  note a = settled_in [OF s]
  note posts = creationLawsD(5,6) [OF lawfulEnvD(2) [OF law(1)]]
  have "addsFic (app_id a) ?f ?d (view w) \<or> view w = ?d \<and> clashing ?d (app_id a) ?f"
    using posts(1) [of "app_id a" ?f "cst_world u"] posts(2) [of "app_id a" ?f "cst_world u"] post ok u(3)
    by (cases r) auto
  then show ?thesis
  proof (elim disjE)
    assume "view w = ?d \<and> clashing ?d (app_id a) ?f"
    then show ?thesis using t u(2,3) extendsBy_refl [OF a] by (simp add: settled_def ficOutcome_def)
  next
    assume "addsFic (app_id a) ?f ?d (view w)"
    then obtain j where new: "\<not> clashing ?d (app_id a) ?f"
      and d: "view w = ?d \<lparr> dir_fics := insert (app_id a, ?f \<lparr> fic_id := j \<rparr>) (dir_fics ?d) \<rparr>"
      by (auto simp: addsFic_def)
    have "extendsBy a k ?d (view w)" unfolding d by (rule extendsBy_upd(3) [OF a])
    moreover have "settled eq n a view t" using t d u(2,3) by (simp add: settled_def appsNamed_def)
    ultimately show ?thesis using t d new by (auto simp: ficOutcome_def)
  qed
qed

lemma createFicRun_clash:
  assumes law: "lawfulEnv eq sdk view env" "lookupsAnswered sdk" and n: "CHR 0x27 \<notin> set n"
    and s: "settled eq n a view s" and run: "createFicRun env s = (None, t)"
    and clash: "clashing (view (cst_world s)) (app_id a) (wantedFic (cst_data s))"
  shows "view (cst_world t) = view (cst_world s)"
proof -
  obtain u where u: "createAADApplicationObjectID env s = (app_id a, u)" "view (cst_world u) = view (cst_world s)"
    "createKeeps s u"
    using settled_ids(2) [OF law n s] by blast
  let ?f = "newFederatedCredential (cd_serviceAccountNamespace (cst_data u)) (cd_serviceAccountName (cst_data u))
      (cd_serviceAccountIssuerURL (cst_data u))"
  obtain r w where post: "sdk_ficPost sdk (app_id a) ?f (cst_world u) = (r, w)" by fastforce
  have "clashing (view (cst_world u)) (app_id a) ?f" using wanted_keeps(1) [OF u(3)] clash u(2) by (simp add: wantedFic_def)
  then have "view w = view (cst_world u)"
    using creationLawsD(5,6) [OF lawfulEnvD(2) [OF law(1)]] post by (cases r) (metis addsFic_def)+
  then show ?thesis
    using run u post by (auto simp: createFicRun_def Let_def lawfulEnvD(10) [OF law(1)] AddFederatedCredential_def
        extractOnError_def split: sum.splits if_splits)
qed

lemma createRaRun_law:
  assumes law: "lawfulEnv eq sdk view env"
  shows "view (cst_world (snd (createRaRun env s))) = view (cst_world s)"
proof -
  let ?id = "createServicePrincipalObjectID env"
  have get: "view (cst_world (snd (?id u))) = view (cst_world u)" for u
  proof -
    obtain x w where x: "GetServicePrincipal sdk (createServicePrincipalName (cst_data u)) (cst_world u) = (x, w)"
      by fastforce
    show ?thesis
      using x GetServicePrincipal_law(1) [OF lawfulEnvD(1) [OF law] x]
      by (auto simp: createServicePrincipalObjectID_def createServicePrincipal_def lawfulEnvD(7) [OF law]
          split: prod.splits sum.splits option.splits)
  qed
  obtain i u where u: "?id s = (i, u)" by fastforce
  obtain r w where w: "CreateRoleAssignment sdk (cd_azureScope (cst_data u)) (cd_azureRole (cst_data u)) i (cst_world u) = (r, w)"
    by fastforce
  have "view w = view (cst_world s)"
    using role_operations_apart(1) [OF lawfulEnvD(4) [OF law], of "cd_azureScope (cst_data u)" "cd_azureRole (cst_data u)" i "cst_world u"]
      w get [of s] u by simp
  then show ?thesis
    using u w get by (auto simp: createRaRun_def lawfulEnvD(11) [OF law] split: sum.splits)
qed

subsection \<open>The create command under the laws\<close>

lemma createCommand_unskipped:
  "createCommand env [] s =
     (case preRunAll (createPhases env) s of (Some e, u) \<Rightarrow> (Some e, u) | (None, u) \<Rightarrow> runAll (createPhases env) u)"
proof -
  have "filter (IsPhaseActive (createRunner env [])) (createPhases env) = createPhases env"
    by (simp add: IsPhaseActive_iff [abs_def])
  then show ?thesis unfolding createCommand_def by (subst Run_skip) (simp_all add: Let_def)
qed

lemma createCommand_steps:
  assumes "createCommand env [] s = (None, t)"
  obtains s0 s1 s2 s3 where "preRunAll (createPhases env) s = (None, s0)" "createAadRun env s0 = (None, s1)"
    "createSaRun env s1 = (None, s2)" "createFicRun env s2 = (None, s3)" "createRaRun env s3 = (None, t)"
proof -
  obtain s0 where pre: "preRunAll (createPhases env) s = (None, s0)" and run: "runAll (createPhases env) s0 = (None, t)"
    using assms unfolding createCommand_unskipped by (auto split: prod.splits option.splits)
  from run show ?thesis
    by (auto simp: create_phase_defs intro: that [OF pre] split: prod.splits option.splits)
qed

lemma createChecks:
  assumes law: "lawfulEnv eq sdk view env" and pre: "preRunAll (createPhases env) s = (None, s0)"
    and sp: "createServicePrincipalName (cst_data s) = createAADApplicationName (cst_data s)"
  obtains kc where "clientLaws kc view" "cst_kube s0 = Some kc" "cst_data s0 = cst_data s"
    "view (cst_world s0) = view (cst_world s)" "createAADApplicationName (cst_data s) \<noteq> []"
    "fst (createSaPrerun env s) = None"
proof -
  have aad: "createAadPrerun s = (None, s)" and ne: "createAADApplicationName (cst_data s) \<noteq> []"
    using pre by (auto simp: create_phase_defs createAadPrerun_def split: if_splits)
  then obtain u where u: "createSaPrerun env s = (None, u)" and rest: "preRunAll [createFicPhase env, createRaPhase env] u = (None, s0)"
    using pre by (auto simp: createPhases_def createAadPhase_def createSaPhase_def split: prod.splits option.splits)
  obtain kc w where kc: "ce_getKubeClient env (cst_world s) = (Inr kc, w)" and s1: "u = s \<lparr> cst_kube := Some kc, cst_world := w \<rparr>"
    using u by (auto simp: createSaPrerun_def Let_def split: if_splits prod.splits sum.splits)
  have "s0 = u"
    using rest ne sp s1
    by (auto simp: createFicPhase_def createRaPhase_def createFicPrerun_def createRaPrerun_def Let_def
        split: prod.splits option.splits if_splits)
  moreover have "view w = view (cst_world s)" "clientLaws kc view"
    using lawfulEnvD(5) [OF law] kc unfolding clusterLaws_def by (metis fst_conv snd_conv)+
  ultimately show ?thesis using that s1 ne u by simp
qed

lemma createCommand_law:
  assumes law: "lawfulEnv eq sdk view env" "lookupsAnswered sdk"
    and n: "CHR 0x27 \<notin> set n" "derivesIDs n (cst_data s)"
    and names: "unambiguous eq n (view (cst_world s))"
    and run: "createCommand env [] s = (None, t)"
  obtains a st where "appsNamed eq n (view (cst_world t)) = {a}"
    "a \<in> appsNamed eq n (view (cst_world s)) \<or> freshApp (view (cst_world s)) a \<and> appsNamed eq n (view (cst_world s)) = {}"
    "extendsBy a (createKey (cst_data s)) (view (cst_world s)) (view (cst_world t))"
    "hasPrincipal a (view (cst_world t))"
    "dir_accounts (view (cst_world t)) (createKey (cst_data s)) = Some st"
    "sa_annotations st = sa_annotations (wantedAccount env a (cst_data s))"
    "ficOutcome a (cst_data s) (view (cst_world s)) (view (cst_world t))"
proof -
  let ?k = "createKey (cst_data s)"
  obtain s0 s1 s2 s3 where pre: "preRunAll (createPhases env) s = (None, s0)"
    and r1: "createAadRun env s0 = (None, s1)" and r2: "createSaRun env s1 = (None, s2)"
    and r3: "createFicRun env s2 = (None, s3)" and r4: "createRaRun env s3 = (None, t)"
    by (rule createCommand_steps [OF run])
  have "createServicePrincipalName (cst_data s) = createAADApplicationName (cst_data s)"
    using n(2) by (simp add: derivesIDs_def)
  then obtain kc where kc: "clientLaws kc view" "cst_kube s0 = Some kc" and d0: "cst_data s0 = cst_data s"
    and v0: "view (cst_world s0) = view (cst_world s)"
    by (rule createChecks [OF law(1) pre])
  obtain a where s1: "settled eq n a view s1" and e1: "extendsBy a ?k (view (cst_world s)) (view (cst_world s1))"
    and p1: "hasPrincipal a (view (cst_world s1))"
    and f1: "dir_fics (view (cst_world s1)) = dir_fics (view (cst_world s))"
    and fresh: "a \<in> appsNamed eq n (view (cst_world s)) \<or> freshApp (view (cst_world s)) a \<and> appsNamed eq n (view (cst_world s)) = {}"
    using createAadRun_law [OF law n(1) _ _ r1, of ?k] n(2) names d0 v0 by auto
  have k1: "createKeeps s s1" "cst_kube s1 = Some kc"
    using createAadRun_keeps [of s0 env] r1 kc(2) d0 by (simp_all add: createKeeps_def)
  have s2: "settled eq n a view s2" and k2: "createKeeps s1 s2"
    and st2: "stores (wantedAccount env a (cst_data s)) (view (cst_world s1)) (view (cst_world s2))"
    using createSaRun_law [OF law n(1) s1 k1(2) kc(1) r2] wanted_keeps(2) [OF k1(1), of env a] by simp_all
  have key: "accountKey (wantedAccount env a (cst_data s)) = ?k" by (rule wantedAccount_key)
  obtain st where st: "sa_annotations st = sa_annotations (wantedAccount env a (cst_data s))"
    and d2: "view (cst_world s2) = (view (cst_world s1)) \<lparr> dir_accounts := (dir_accounts (view (cst_world s1)))(?k \<mapsto> st) \<rparr>"
    using st2 unfolding stores_def key by blast
  note keeps = createKeeps_trans [OF k1(1) k2]
  have s3: "settled eq n a view s3" and e3: "extendsBy a ?k (view (cst_world s2)) (view (cst_world s3))"
    and same: "dir_accounts (view (cst_world s3)) = dir_accounts (view (cst_world s2))"
      "dir_sps (view (cst_world s3)) = dir_sps (view (cst_world s2))"
    and f: "ficOutcome a (cst_data s) (view (cst_world s2)) (view (cst_world s3))"
    using createFicRun_law [OF law n(1) s2 r3, of ?k] ficOutcome_cong [OF wanted_keeps(1) [OF keeps]] by simp_all
  have f2: "dir_fics (view (cst_world s2)) = dir_fics (view (cst_world s))" using f1 d2 by simp
  have f: "ficOutcome a (cst_data s) (view (cst_world s)) (view (cst_world s3))"
    using f unfolding ficOutcome_def clashing_def f2 .
  have vt: "view (cst_world t) = view (cst_world s3)"
    using createRaRun_law [OF law(1), of s3] r4 by simp
  have "extendsBy a ?k (view (cst_world s1)) (view (cst_world s2))"
    by (rule extendsBy_upd(4) [OF settled_in [OF s1] key st2])
  then have "extendsBy a ?k (view (cst_world s)) (view (cst_world t))"
    using extendsBy_trans e1 e3 vt by metis
  moreover have "hasPrincipal a (view (cst_world t))"
    using p1 same(2) d2 vt by (simp add: hasPrincipal_def)
  ultimately show ?thesis
    using s3 fresh st f d2 same(1) vt by (intro that [of a st]) (simp_all add: settled_def)
qed

end
