(* ===== verification/Directory_Correct.thy ===== *)
theory Directory_Correct
  imports Directory End_To_End
begin

section \<open>Federation, from the command to the exchanged token\<close>

text \<open>
  What the create and the delete command achieve over every directory and cluster that obey
  the laws of \<open>Directory\<close>, and a concrete directory and cluster that obey them, on which the
  properties are applied.
\<close>

subsection \<open>A concrete directory and cluster\<close>

record directory_lists =
  l_apps :: "application list"
  l_sps :: "service_principal list"
  l_fics :: "(string \<times> federated_credential) list"
  l_accounts :: "service_account list"

definition shows_lists :: "directory_lists \<Rightarrow> directory" where
  "shows_lists w = \<lparr> dir_apps = set (l_apps w), dir_sps = set (l_sps w), dir_fics = set (l_fics w),
     dir_accounts = (\<lambda>k. find (\<lambda>sa. accountKey sa = k) (l_accounts w)) \<rparr>"

text \<open>An id that is longer than those that exist.\<close>

definition newID :: "char \<Rightarrow> string list \<Rightarrow> string" where
  "newID c ids = replicate (Suc (sum_list (map length ids))) c"

lemma newID_fresh: "newID c ids \<notin> set ids" "newID c ids \<noteq> []"
proof -
  have "length i \<le> sum_list (map length ids)" if "i \<in> set ids" for i
    using that by (intro member_le_sum_list) auto
  then have "newID c ids \<in> set ids \<Longrightarrow> length (newID c ids) \<le> sum_list (map length ids)" .
  then show "newID c ids \<notin> set ids" by (auto simp: newID_def)
qed (simp add: newID_def)

definition newApp :: "string \<Rightarrow> directory_lists \<Rightarrow> application" where
  "newApp n w = \<lparr> app_displayName = n,
     app_appId = newID (CHR ''c'') (map app_appId (l_apps w) @ map sp_appId (l_sps w)),
     app_id = newID (CHR ''o'') (map app_id (l_apps w) @ map fst (l_fics w)) \<rparr>"

definition listSdk :: "directory_lists azure_sdk" where
  "listSdk = \<lparr>
     sdk_appsPost = (\<lambda>n w. (Inr (Some (newApp n w)), w \<lparr> l_apps := newApp n w # l_apps w \<rparr>)),
     sdk_appsGet = (\<lambda>f w. (Inr [a \<leftarrow> l_apps w. getDisplayNameFilter (app_displayName a) = f], w)),
     sdk_appDelete = (\<lambda>i w. (Inr (), w \<lparr>
        l_apps := [a \<leftarrow> l_apps w. app_id a \<noteq> i],
        l_sps := [p \<leftarrow> l_sps w. list_all (\<lambda>a. app_id a = i \<longrightarrow> sp_appId p \<noteq> app_appId a) (l_apps w)],
        l_fics := [x \<leftarrow> l_fics w. fst x \<noteq> i] \<rparr>)),
     sdk_spsPost = (\<lambda>i tags w.
        case find (\<lambda>a. app_appId a = i) (l_apps w) of
          None \<Rightarrow> (Inl (ODataError ''Request_BadRequest'' []), w)
        | Some a \<Rightarrow>
            (let p = \<lparr> sp_displayName = app_displayName a, sp_appId = i, sp_id = newID (CHR ''s'') (map sp_id (l_sps w)) \<rparr>
             in (Inr (Some p), w \<lparr> l_sps := p # l_sps w \<rparr>))),
     sdk_spsGet = (\<lambda>f w. (Inr [p \<leftarrow> l_sps w. getDisplayNameFilter (sp_displayName p) = f], w)),
     sdk_spDelete = (\<lambda>i w. (Inr (), w \<lparr> l_sps := [p \<leftarrow> l_sps w. sp_id p \<noteq> i] \<rparr>)),
     sdk_ficPost = (\<lambda>i fic w.
        if list_ex (\<lambda>(j, f). j = i \<and> clashes f fic) (l_fics w)
        then (Inl (ODataError GraphErrorCodeMultipleObjectsWithSameKeyValue []), w)
        else if \<not> list_ex (\<lambda>a. app_id a = i) (l_apps w)
        then (Inl (ODataError GraphErrorCodeResourceNotFound []), w)
        else (Inr (), w \<lparr> l_fics := (i, fic \<lparr> fic_id := ''fic'' \<rparr>) # l_fics w \<rparr>)),
     sdk_ficGet = (\<lambda>i f w. (Inr [fic. (j, fic) \<leftarrow> l_fics w, j = i \<and> getSubjectFilter (fic_subject fic) = f], w)),
     sdk_ficDelete = (\<lambda>i j w. (Inr (), w \<lparr> l_fics := [x \<leftarrow> l_fics w. \<not> (fst x = i \<and> fic_id (snd x) = j)] \<rparr>)),
     sdk_roleDefinitionPages = (\<lambda>sc f. [\<lambda>w. (Inr [''role''], w)]),
     sdk_raCreate = (\<lambda>sc n rd i w. (Inr \<lparr> ra_id = Some n \<rparr>, w)),
     sdk_raDelete = (\<lambda>i w. (Inr emptyRoleAssignment, w)),
     sdk_uuidNew = (\<lambda>w. (''uuid'', w)),
     sdk_sleep = (\<lambda>d w. w) \<rparr>"

definition listKube :: "directory_lists kube_client" where
  "listKube = demoKube \<lparr>
     kc_getServiceAccount := (\<lambda>ns n w.
        case find (\<lambda>sa. accountKey sa = (ns, n)) (l_accounts w) of
          None \<Rightarrow> (Inl (StatusError ''NotFound'' n), w) | Some sa \<Rightarrow> (Inr sa, w)),
     kc_create := (\<lambda>sa w.
        case find (\<lambda>x. accountKey x = accountKey sa) (l_accounts w) of
          None \<Rightarrow> (Inr (), w \<lparr> l_accounts := sa # l_accounts w \<rparr>)
        | Some x \<Rightarrow> (Inl (StatusError ''AlreadyExists'' []), w)),
     kc_update := (\<lambda>sa w. (Inr (), w \<lparr> l_accounts := sa # l_accounts w \<rparr>)),
     kc_delete := (\<lambda>sa w. (Inr (), w \<lparr> l_accounts := [x \<leftarrow> l_accounts w. accountKey x \<noteq> accountKey sa] \<rparr>)) \<rparr>"

definition listEnv :: "directory_lists cli_env" where
  "listEnv = \<lparr> ce_azure = AzureClient listSdk, ce_tenantID = ''tenant'',
     ce_getKubeClient = (\<lambda>w. (Inr listKube, w)), ce_errText = (\<lambda>e. []),
     ce_buildVersion = ''v1'', ce_vcs = ''abc'' \<rparr>"

lemma displayNameFilter_inject [simp]: "getDisplayNameFilter n = getDisplayNameFilter m \<longleftrightarrow> n = m"
  by (simp add: getDisplayNameFilter_def)

lemma find_SomeD: "find P xs = Some x \<Longrightarrow> P x"
  by (induction xs) (auto split: if_splits)

lemma find_filter_key:
  "find (\<lambda>x. key x = k) [x \<leftarrow> xs. key x \<noteq> l] = (if k = l then None else find (\<lambda>x. key x = k) xs)"
  by (induction xs) auto

lemma list_services_lawful: "lawfulEnv (=) listSdk shows_lists listEnv"
  unfolding lawfulEnv_def
proof (intro conjI)
  show "ce_azure listEnv = AzureClient listSdk" by (simp add: listEnv_def)
  show "lookupLaws (=) listSdk shows_lists"
    by (auto simp: lookupLaws_def listSdk_def shows_lists_def appsNamed_def spsNamed_def)
  have ids: "newID c (xs @ ys) \<notin> set xs \<union> set ys" for c xs ys using newID_fresh(1) [of c "xs @ ys"] by simp
  have "freshApp (shows_lists w) (newApp n w)" for n w
    using ids [of "CHR ''c''" "map app_appId (l_apps w)" "map sp_appId (l_sps w)"]
      ids [of "CHR ''o''" "map app_id (l_apps w)" "map fst (l_fics w)"]
    by (simp add: freshApp_def newApp_def shows_lists_def newID_fresh(2))
  then show "creationLaws listSdk shows_lists"
    unfolding creationLaws_def
    by (auto simp: listSdk_def shows_lists_def newApp_def Let_def find_Some_iff list_ex_iff
        IsFederatedCredentialAlreadyExists_def maybeExtractGraphError_def GraphErrorCodeResourceNotFound_def
        GraphErrorCodeMultipleObjectsWithSameKeyValue_def clashing_def addsApp_def addsPrincipal_def addsFic_def
        split: option.splits if_splits dest: nth_mem)
  show "deletionLaws listSdk shows_lists"
    by (auto simp: deletionLaws_def listSdk_def shows_lists_def removeApp_def list_all_iff)
  show "roleLaws listSdk shows_lists" by (simp add: roleLaws_def listSdk_def)
  have "stores sa (shows_lists w) (shows_lists (w \<lparr> l_accounts := sa # l_accounts w \<rparr>))" for sa w
    unfolding stores_def by (intro exI [of _ sa]) (auto simp: shows_lists_def)
  then have "clientLaws listKube shows_lists"
    unfolding clientLaws_def
    by (auto simp: listKube_def shows_lists_def find_filter_key apiIsNotFound_def removesAccount_def
        split: option.splits dest: find_SomeD)
  then show "clusterLaws (ce_getKubeClient listEnv) shows_lists"
    by (simp add: clusterLaws_def listEnv_def)
qed

lemma list_lookups_answered: "lookupsAnswered listSdk"
  by (simp add: lookupsAnswered_def listSdk_def)

subsection \<open>Create federates\<close>

text \<open>Where the application has a credential that clashes with the one to be made, it serves the same tokens.\<close>

definition clashesServe :: "(string \<Rightarrow> string \<Rightarrow> bool) \<Rightarrow> string \<Rightarrow> create_data \<Rightarrow> directory \<Rightarrow> bool" where
  "clashesServe eq n c d \<longleftrightarrow>
     (\<forall>a \<in> appsNamed eq n d. \<forall>f. (app_id a, f) \<in> dir_fics d \<and> clashes f (wantedFic c) \<longrightarrow>
        fic_issuer f = fic_issuer (wantedFic c) \<and> fic_subject f = fic_subject (wantedFic c) \<and>
        DefaultAudience \<in> set (fic_audiences f))"

lemma wantedFic_fields:
  "fic_issuer (wantedFic c) = cd_serviceAccountIssuerURL c"
  "fic_subject (wantedFic c) = GetFederatedCredentialSubject (cd_serviceAccountNamespace c) (cd_serviceAccountName c)"
  "fic_audiences (wantedFic c) = [DefaultAudience]"
  by (simp_all add: wantedFic_def newFederatedCredential_def)

lemma create_federates_app:
  assumes "lawfulEnv eq sdk view env" "lookupsAnswered sdk" "CHR 0x27 \<notin> set n"
    and "derivesIDs n (cst_data s)" "unambiguous eq n (view (cst_world s))"
    and serve: "clashesServe eq n (cst_data s) (view (cst_world s))"
    and "createCommand env [] s = (None, t)"
  shows "let c = cst_data s; d = view (cst_world s); d' = view (cst_world t) in
    \<exists>a st. appsNamed eq n d' = {a} \<and> extendsBy a (createKey c) d d' \<and> (appsNamed eq n d = {a} \<or> freshApp d a) \<and>
      exchanges d' (app_appId a) (cd_serviceAccountIssuerURL c)
        (GetFederatedCredentialSubject (cd_serviceAccountNamespace c) (cd_serviceAccountName c)) DefaultAudience \<and>
      dir_accounts d' (createKey c) = Some st \<and> sa_annotations st = sa_annotations (wantedAccount env a c)"
proof -
  let ?c = "cst_data s" and ?d = "view (cst_world s)" and ?d' = "view (cst_world t)"
  obtain a st where a: "appsNamed eq n ?d' = {a}"
    "a \<in> appsNamed eq n ?d \<or> freshApp ?d a \<and> appsNamed eq n ?d = {}"
    and e: "extendsBy a (createKey ?c) ?d ?d'" and p: "hasPrincipal a ?d'"
    and st: "dir_accounts ?d' (createKey ?c) = Some st" "sa_annotations st = sa_annotations (wantedAccount env a ?c)"
    and f: "ficOutcome a ?c ?d ?d'"
    by (rule createCommand_law [OF assms(1-5,7)])
  have "\<exists>f. (app_id a, f) \<in> dir_fics ?d' \<and> fic_issuer f = fic_issuer (wantedFic ?c) \<and>
      fic_subject f = fic_subject (wantedFic ?c) \<and> DefaultAudience \<in> set (fic_audiences f)"
  proof (cases "clashing ?d (app_id a) (wantedFic ?c)")
    case True
    then obtain g where g: "(app_id a, g) \<in> dir_fics ?d" "clashes g (wantedFic ?c)" by (auto simp: clashing_def)
    then have "\<not> freshApp ?d a" by (force simp: freshApp_def)
    then have "a \<in> appsNamed eq n ?d" using a(2) by blast
    then show ?thesis using serve f True g unfolding clashesServe_def ficOutcome_def by auto
  next
    case False
    then obtain j where "dir_fics ?d' = insert (app_id a, (wantedFic ?c) \<lparr> fic_id := j \<rparr>) (dir_fics ?d)"
      using f by (auto simp: ficOutcome_def)
    then show ?thesis by (auto simp: wantedFic_fields)
  qed
  then obtain f where f: "(app_id a, f) \<in> dir_fics ?d'"
    and serves: "fic_issuer f = fic_issuer (wantedFic ?c) \<and> fic_subject f = fic_subject (wantedFic ?c) \<and>
      DefaultAudience \<in> set (fic_audiences f)"
    by blast
  have "a \<in> dir_apps ?d'" using a(1) by (auto simp: appsNamed_def)
  then have "exchanges ?d' (app_appId a) (cd_serviceAccountIssuerURL ?c)
      (GetFederatedCredentialSubject (cd_serviceAccountNamespace ?c) (cd_serviceAccountName ?c)) DefaultAudience"
    using p f serves unfolding exchanges_def hasPrincipal_def wantedFic_fields by blast
  moreover have "appsNamed eq n ?d = {a} \<or> freshApp ?d a"
    using a(2) assms(5) by (auto simp: unambiguous_def)
  ultimately show ?thesis using a(1) e st unfolding Let_def by blast
qed

text \<open>
  C3: Create federates the service account.  Over any directory and cluster that obey their
  laws, a create that succeeds without skipping a phase leaves one application of the name
  whose client the directory exchanges the account's tokens for: the issuer, the subject and
  the audience are those of a credential.  The account is in the cluster with that client id
  and the tenant.  Nothing else in the directory and the cluster changes.  The name must not
  be ambiguous, and a credential that clashes with the new one must serve the same tokens.
\<close>

theorem create_federates:
  assumes "lawfulEnv eq sdk view env" "lookupsAnswered sdk" "CHR 0x27 \<notin> set n"
    and "derivesIDs n (cst_data s)" "unambiguous eq n (view (cst_world s))"
    and "clashesServe eq n (cst_data s) (view (cst_world s))"
    and "createCommand env [] s = (None, t)"
  shows "let c = cst_data s; d = view (cst_world s); d' = view (cst_world t) in
    \<exists>a st. appsNamed eq n d' = {a} \<and> extendsBy a (createKey c) d d' \<and>
      exchanges d' (app_appId a) (cd_serviceAccountIssuerURL c)
        (GetFederatedCredentialSubject (cd_serviceAccountNamespace c) (cd_serviceAccountName c)) DefaultAudience \<and>
      dir_accounts d' (createKey c) = Some st \<and> getClientID st = app_appId a \<and> getTenantID st cfg = ce_tenantID env"
proof -
  have "getClientID st = app_appId a" "getTenantID st cfg = ce_tenantID env"
    if "sa_annotations st = sa_annotations (wantedAccount env a c)" for st a c
    using that newServiceAccount_reads by (simp_all add: getClientID_def getTenantID_def wantedAccount_def)
  then show ?thesis using create_federates_app [OF assms] unfolding Let_def by metis
qed

text \<open>The concrete command: no application is there, and the create makes all.\<close>

definition emptyLists :: directory_lists where
  "emptyLists = \<lparr> l_apps = [], l_sps = [], l_fics = [], l_accounts = [] \<rparr>"

definition listCreateState :: "directory_lists \<Rightarrow> directory_lists create_state" where
  "listCreateState w = \<lparr> cst_data = demoCreateData, cst_kube = None, cst_world = w \<rparr>"

definition listApp :: application where "listApp = newApp ''app'' emptyLists"

definition createdLists :: directory_lists where
  "createdLists = \<lparr> l_apps = [listApp],
     l_sps = [\<lparr> sp_displayName = ''app'', sp_appId = app_appId listApp, sp_id = newID (CHR ''s'') [] \<rparr>],
     l_fics = [(app_id listApp, (wantedFic demoCreateData) \<lparr> fic_id := ''fic'' \<rparr>)],
     l_accounts = [wantedAccount listEnv listApp demoCreateData] \<rparr>"

lemma newApp_simps: "app_displayName (newApp n w) = n"
  by (simp add: newApp_def)

lemmas list_run_simps = listEnv_def AzureClient_def GetApplication_def GetServicePrincipal_def CreateApplication_def
  CreateServicePrincipal_def AddFederatedCredential_def extractOnError_def listSdk_def Let_def

lemmas list_state_simps = listCreateState_def demoCreateData_def createAADApplicationName_def createServicePrincipalName_def

lemma list_checks:
  assumes "ce_getKubeClient env w = (Inr listKube, w)"
  shows "preRunAll (createPhases env) (listCreateState w) = (None, (listCreateState w) \<lparr> cst_kube := Some listKube \<rparr>)"
  by (simp add: create_phase_defs createAadPrerun_def createSaPrerun_def createFicPrerun_def createRaPrerun_def Let_def
      list_state_simps expiration_bounds second_def assms)

text \<open>The phases after the first, when the application and its principal are there.\<close>

definition listRestState :: "application option \<Rightarrow> directory_lists create_state" where
  "listRestState x = \<lparr> cst_data = demoCreateData \<lparr> cd_aadApplication := x \<rparr>, cst_kube = Some listKube,
     cst_world = createdLists \<lparr> l_fics := [], l_accounts := [] \<rparr> \<rparr>"

lemma list_rest_runs:
  assumes "x \<in> {None, Some listApp}"
  shows "\<exists>t. runAll [createSaPhase listEnv, createFicPhase listEnv, createRaPhase listEnv] (listRestState x) = (None, t) \<and>
    cst_world t = createdLists"
proof -
  let ?s = "(listRestState (Some listApp)) \<lparr> cst_world := createdLists \<lparr> l_fics := [] \<rparr> \<rparr>"
  let ?t = "?s \<lparr> cst_world := createdLists \<rparr>"
  note state = listRestState_def list_state_simps
  have names: "app_displayName listApp = ''app''" by (simp add: listApp_def newApp_def)
  have sa: "createSaRun listEnv (listRestState x) = (None, ?s)"
    using assms
    by (auto simp: createSaRun_def createAADApplicationClientID_def createAADApplication_def
        list_run_simps state createdLists_def names CreateOrUpdateServiceAccount_def listKube_def wantedAccount_def)
  have fic: "createFicRun listEnv ?s = (None, ?t)"
    by (simp add: createFicRun_def createAADApplicationObjectID_def createAADApplication_def
        list_run_simps state createdLists_def wantedFic_def)
  obtain t where ra: "createRaRun listEnv ?t = (None, t)" and t: "cst_world t = createdLists"
    by (simp add: createRaRun_def createServicePrincipalObjectID_def createServicePrincipal_def
        list_run_simps state createdLists_def CreateRoleAssignment_def GetRoleDefinitionIDByName_def
        roleAssignmentCreateRetryCount_def eval_nat_numeral)
  have "runAll [createSaPhase listEnv, createFicPhase listEnv, createRaPhase listEnv] (listRestState x) = (None, t)"
    using sa fic ra by (simp add: create_phase_defs)
  then show ?thesis using t by blast
qed

lemma list_create_runs:
  "\<exists>t. createCommand listEnv [] (listCreateState emptyLists) = (None, t) \<and> cst_world t = createdLists"
proof -
  let ?s = "(listCreateState emptyLists) \<lparr> cst_kube := Some listKube \<rparr>"
  have pre: "preRunAll (createPhases listEnv) (listCreateState emptyLists) = (None, ?s)"
    by (rule list_checks) (simp add: listEnv_def)
  have aad: "createAadRun listEnv ?s = (None, listRestState None)"
    by (simp add: createAadRun_def createAADApplication_def createAadServicePrincipal_def createServicePrincipal_def
        list_run_simps list_state_simps listRestState_def emptyLists_def createdLists_def listApp_def newApp_simps)
  obtain t where "runAll [createSaPhase listEnv, createFicPhase listEnv, createRaPhase listEnv] (listRestState None) = (None, t)"
    and t: "cst_world t = createdLists"
    using list_rest_runs by blast
  then have "runAll (createPhases listEnv) ?s = (None, t)"
    using aad by (simp add: createPhases_def createAadPhase_def)
  then show ?thesis using t by (simp add: createCommand_unskipped pre)
qed

lemma list_create_premises:
  "lawfulEnv (=) listSdk shows_lists listEnv" "lookupsAnswered listSdk" "CHR 0x27 \<notin> set ''app''"
  "derivesIDs ''app'' (cst_data (listCreateState w))"
  "unambiguous (=) n (shows_lists emptyLists)" "clashesServe (=) n c (shows_lists emptyLists)"
  by (simp_all add: list_services_lawful list_lookups_answered derivesIDs_def listCreateState_def demoCreateData_def
      createAADApplicationName_def createServicePrincipalName_def unambiguous_def clashesServe_def
      shows_lists_def emptyLists_def appsNamed_def spsNamed_def)

theorem create_federates_witness:
  "\<exists>a. appsNamed (=) ''app'' (shows_lists createdLists) = {a} \<and>
     exchanges (shows_lists createdLists) (app_appId a) ''https://issuer''
       (GetFederatedCredentialSubject ''ns'' ''sa'') DefaultAudience"
proof -
  obtain t where t: "createCommand listEnv [] (listCreateState emptyLists) = (None, t)" "cst_world t = createdLists"
    using list_create_runs by blast
  have s: "cst_world (listCreateState emptyLists) = emptyLists" "cst_data (listCreateState emptyLists) = demoCreateData"
    by (simp_all add: listCreateState_def)
  have data: "cd_serviceAccountIssuerURL demoCreateData = ''https://issuer''"
    "cd_serviceAccountNamespace demoCreateData = ''ns''" "cd_serviceAccountName demoCreateData = ''sa''"
    by (simp_all add: demoCreateData_def)
  show ?thesis
    using create_federates [OF list_create_premises(1-4) _ _ t(1)] list_create_premises(5,6)
    unfolding Let_def s t(2) data by blast
qed

subsection \<open>The workload's token is exchanged\<close>

lemma injectedNames_clientID: "''AZURE_CLIENT_ID'' \<in> injectedNames"
  by (simp add: injectedNames_def msalEnvVars_def)

lemma injected_clientID:
  assumes mut: "mutatePod m lvl sa p = Inr p'"
    and c: "c \<in> set (ps_containers (pod_spec p))" "ct_name c \<notin> getSkipContainers p"
    and own: "injectedNames \<inter> ev_name ` set (ct_env c) = {}" and cid: "plainValue (getClientID sa)"
  shows "\<exists>c' \<in> set (ps_containers (pod_spec p')). ct_name c' = ct_name c \<and>
    (\<forall>getenv. runsWith c' getenv \<longrightarrow> getenv ''AZURE_CLIENT_ID'' = getClientID sa)"
proof (intro bexI [OF _ mutated_container [OF mut c(1)]] conjI allI impI)
  let ?c = "mutateContainer m (getClientID sa) (getTenantID sa (pm_config m)) (getSkipContainers p)
      (isUsingCustomTokenEndpoint m p) (volumeOf p) c"
  show "ct_name ?c = ct_name c" by (simp add: mutateContainer_def frame_simps)
  fix getenv
  assume "runsWith ?c getenv"
  then show "getenv ''AZURE_CLIENT_ID'' = getClientID sa"
    using own injectedNames_clientID
    by (intro injected_variable [OF _ c(2) _ _ cid]) (auto simp: desiredEnvs_def env_var_names)
qed

lemma federated_account:
  assumes "lawfulEnv eq sdk view env" "lookupsAnswered sdk" "CHR 0x27 \<notin> set n"
    and "derivesIDs n (cst_data s)" "unambiguous eq n (view (cst_world s))"
    and "clashesServe eq n (cst_data s) (view (cst_world s))" "createCommand env [] s = (None, t)"
    and st: "dir_accounts (view (cst_world t)) (createKey (cst_data s)) = Some st"
  shows "exchanges (view (cst_world t)) (getClientID st) (cd_serviceAccountIssuerURL (cst_data s))
      (GetFederatedCredentialSubject (cd_serviceAccountNamespace (cst_data s)) (cd_serviceAccountName (cst_data s)))
      DefaultAudience"
    and "getTenantID st cfg = ce_tenantID env"
proof -
  obtain a st' where x: "exchanges (view (cst_world t)) (app_appId a) (cd_serviceAccountIssuerURL (cst_data s))
      (GetFederatedCredentialSubject (cd_serviceAccountNamespace (cst_data s)) (cd_serviceAccountName (cst_data s)))
      DefaultAudience"
    and "dir_accounts (view (cst_world t)) (createKey (cst_data s)) = Some st'"
    and "sa_annotations st' = sa_annotations (wantedAccount env a (cst_data s))"
    using create_federates_app [OF assms(1-7)] unfolding Let_def by blast
  then have "getClientID st = app_appId a" "getTenantID st cfg = ce_tenantID env"
    using st newServiceAccount_reads by (simp_all add: getClientID_def getTenantID_def wantedAccount_def)
  with x show "exchanges (view (cst_world t)) (getClientID st) (cd_serviceAccountIssuerURL (cst_data s))
      (GetFederatedCredentialSubject (cd_serviceAccountNamespace (cst_data s)) (cd_serviceAccountName (cst_data s)))
      DefaultAudience"
    and "getTenantID st cfg = ce_tenantID env"
    by simp_all
qed

text \<open>A pod that the webhook mutates for an account whose tokens the directory exchanges.\<close>

lemma federated_pod:
  assumes x: "exchanges d (getClientID st) issuer subject DefaultAudience" and cid: "plainValue (getClientID st)"
    and mut: "mutatePod m lvl st p = Inr p'" "pm_audience m = DefaultAudience" "\<not> isUsingCustomTokenEndpoint m p"
    and c: "c \<in> set (ps_containers (pod_spec p))" "ct_name c \<notin> getSkipContainers p"
    and own: "injectedNames \<inter> ev_name ` set (ct_env c) = {}"
  shows "\<exists>e audience cas. \<exists>c' \<in> set (ps_containers (pod_spec p')).
    find (\<lambda>v. vol_name v = volumeOf p) (ps_volumes (pod_spec p')) =
      Some \<lparr> vol_name = volumeOf p, vol_source = Projected (ServiceAccountTokenProjection TokenFilePath e audience # cas) \<rparr> \<and>
    ct_name c' = ct_name c \<and>
    (\<forall>getenv. runsWith c' getenv \<longrightarrow> exchanges d (getenv ''AZURE_CLIENT_ID'') issuer subject audience)"
proof -
  obtain e cas where vol: "find (\<lambda>v. vol_name v = volumeOf p) (ps_volumes (pod_spec p')) =
      Some \<lparr> vol_name = volumeOf p, vol_source = Projected
        (ServiceAccountTokenProjection TokenFilePath e DefaultAudience # cas) \<rparr>"
    using mutated_volume [OF mut(1)] mut(2,3) by auto
  obtain c' where c': "c' \<in> set (ps_containers (pod_spec p'))" "ct_name c' = ct_name c"
    "\<And>getenv. runsWith c' getenv \<Longrightarrow> getenv ''AZURE_CLIENT_ID'' = getClientID st"
    using injected_clientID [OF mut(1) c own cid] by blast
  show ?thesis
    by (rule exI [of _ e], rule exI [of _ DefaultAudience], rule exI [of _ cas], rule bexI [OF _ c'(1)])
      (simp add: vol c'(2,3) x)
qed

text \<open>
  C2: A workload can exchange its token.  After a successful create, a pod of the account that
  uses neither another audience nor the custom token endpoint, once mutated, has a projected
  token whose audience is one that the directory exchanges the account's token for, for the
  client id that the processes of its containers find in their environment.
\<close>

theorem federated_workload:
  assumes "lawfulEnv eq sdk view env" "lookupsAnswered sdk" "CHR 0x27 \<notin> set n"
    and "derivesIDs n (cst_data s)" "unambiguous eq n (view (cst_world s))"
    and "clashesServe eq n (cst_data s) (view (cst_world s))"
    and "createCommand env [] s = (None, t)"
    and st: "dir_accounts (view (cst_world t)) (createKey (cst_data s)) = Some st" "plainValue (getClientID st)"
    and mut: "mutatePod m lvl st p = Inr p'" "pm_audience m = DefaultAudience" "\<not> isUsingCustomTokenEndpoint m p"
    and c: "c \<in> set (ps_containers (pod_spec p))" "ct_name c \<notin> getSkipContainers p"
    and own: "injectedNames \<inter> ev_name ` set (ct_env c) = {}"
  shows "\<exists>e audience cas. \<exists>c' \<in> set (ps_containers (pod_spec p')).
    find (\<lambda>v. vol_name v = volumeOf p) (ps_volumes (pod_spec p')) =
      Some \<lparr> vol_name = volumeOf p, vol_source = Projected (ServiceAccountTokenProjection TokenFilePath e audience # cas) \<rparr> \<and>
    ct_name c' = ct_name c \<and>
    (\<forall>getenv. runsWith c' getenv \<longrightarrow>
       exchanges (view (cst_world t)) (getenv ''AZURE_CLIENT_ID'') (cd_serviceAccountIssuerURL (cst_data s))
         (GetFederatedCredentialSubject (cd_serviceAccountNamespace (cst_data s)) (cd_serviceAccountName (cst_data s)))
         audience)"
  using federated_pod [OF federated_account(1) [OF assms(1-8)] assms(9-15)] by blast

text \<open>The concrete account, and the pod that the webhook mutates for it.\<close>

lemma list_account:
  "getTenantID (wantedAccount listEnv listApp demoCreateData) cfg = ''tenant''"
  "plainValue (getClientID (wantedAccount listEnv listApp demoCreateData))"
  "dir_accounts (shows_lists createdLists) (createKey demoCreateData) = Some (wantedAccount listEnv listApp demoCreateData)"
proof -
  have "getClientID (wantedAccount listEnv listApp demoCreateData) = app_appId listApp"
    by (simp add: wantedAccount_def newServiceAccount_reads)
  then show "plainValue (getClientID (wantedAccount listEnv listApp demoCreateData))"
    by (simp add: plainValue_def listApp_def newApp_def newID_def emptyLists_def)
  show "getTenantID (wantedAccount listEnv listApp demoCreateData) cfg = ''tenant''"
    by (simp add: wantedAccount_def newServiceAccount_reads) (simp add: listEnv_def)
  show "dir_accounts (shows_lists createdLists) (createKey demoCreateData) = Some (wantedAccount listEnv listApp demoCreateData)"
    using wantedAccount_key [of listEnv listApp demoCreateData] by (simp add: shows_lists_def createdLists_def)
qed

lemma list_pod_mutates: "\<exists>p'. mutatePod m lvl (wantedAccount listEnv listApp demoCreateData) azurePod = Inr p'"
proof -
  have "smap_get (pod_annotations azurePod) ServiceAccountTokenExpiryAnnotation = []"
    by (simp add: azurePod_def demoPod_def emptyMeta_def smap_get_def annotation_names)
  moreover have "cd_serviceAccountTokenExpiration demoCreateData = 7200 * second" by (simp add: demoCreateData_def)
  ultimately have "\<exists>e. getServiceAccountTokenExpiration azurePod (wantedAccount listEnv listApp demoCreateData) = Inr e"
    using created_expiration [of "7200 * second" azurePod "cd_serviceAccountNamespace demoCreateData"
        "cd_serviceAccountName demoCreateData" "app_appId listApp" "ce_tenantID listEnv"]
    by (fastforce simp: wantedAccount_def expiration_bounds second_def)
  then show ?thesis using azure_mutates_for by blast
qed

lemma list_pod:
  "azureContainer \<in> set (ps_containers (pod_spec azurePod))" "ct_name azureContainer \<notin> getSkipContainers azurePod"
  "injectedNames \<inter> ev_name ` set (ct_env azureContainer) = {}"
  "pm_audience demoMutator = DefaultAudience" "\<not> isUsingCustomTokenEndpoint demoMutator azurePod"
  "ProxySidecarContainerName \<notin> getSkipContainers azurePod" "shouldInjectProxySidecar azurePod"
  "ProxySidecarContainerName \<notin> ct_name ` (set (ps_initContainers (pod_spec azurePod)) \<union> set (ps_containers (pod_spec azurePod)))"
  using demo_reads(1)
  by (simp_all add: azurePod_def getSkipContainers_def demoPod_def emptyMeta_def smap_get_def annotation_names
      azureContainer_def emptyContainer_def demoMutator_def isUsingCustomTokenEndpoint_def disabledCTE_def
      ProxySidecarContainerName_def shouldInjectProxySidecar_def)

theorem federated_workload_witness:
  "\<exists>p' c'. mutatePod demoMutator [] (wantedAccount listEnv listApp demoCreateData) azurePod = Inr p' \<and>
    c' \<in> set (ps_containers (pod_spec p')) \<and>
    (\<forall>getenv. runsWith c' getenv \<longrightarrow>
       (\<exists>audience. exchanges (shows_lists createdLists) (getenv ''AZURE_CLIENT_ID'') ''https://issuer''
          (GetFederatedCredentialSubject ''ns'' ''sa'') audience))"
proof -
  let ?sa = "wantedAccount listEnv listApp demoCreateData"
  obtain t where t: "createCommand listEnv [] (listCreateState emptyLists) = (None, t)" "cst_world t = createdLists"
    using list_create_runs by blast
  have s: "cst_world (listCreateState emptyLists) = emptyLists" "cst_data (listCreateState emptyLists) = demoCreateData"
    by (simp_all add: listCreateState_def)
  have data: "cd_serviceAccountIssuerURL demoCreateData = ''https://issuer''"
    "cd_serviceAccountNamespace demoCreateData = ''ns''" "cd_serviceAccountName demoCreateData = ''sa''"
    by (simp_all add: demoCreateData_def)
  obtain p' where p': "mutatePod demoMutator [] ?sa azurePod = Inr p'" using list_pod_mutates by blast
  have st: "dir_accounts (shows_lists (cst_world t)) (createKey (cst_data (listCreateState emptyLists))) = Some ?sa"
    using list_account(3) by (simp add: t(2) s)
  show ?thesis
    using federated_workload [OF list_create_premises(1-4) _ _ t(1) st list_account(2) p' list_pod(4,5,1,2,3)]
      list_create_premises(5,6) p'
    unfolding Let_def s t(2) data by blast
qed

end
