(* ===== verification/Directory_Delete.thy ===== *)
theory Directory_Delete
  imports Directory_Correct
begin

section \<open>What delete takes back, and an account that create leaves without federation\<close>

text \<open>
  The delete command under the laws of the two services: after a create that made the
  application, it leaves both as they were, but for the account.  And the consequence of the
  colliding names of credentials: a create that succeeds for an account whose tokens no
  application accepts.
\<close>

subsection \<open>The delete command under the laws\<close>

lemma deleteCommand_unskipped:
  "deleteCommand env [] s =
     (let ps = [deleteRaPhase env, deleteSaPhase env, deleteAadPhase env] in
      case preRunAll ps s of (Some e, u) \<Rightarrow> (Some e, u) | (None, u) \<Rightarrow> runAll ps u)"
proof -
  let ?r = "AppendSkipPhases (deleteRunner env []) [deleteFicPhase env]"
  have names: "ph_name (deleteRaPhase env) = roleAssignmentPhaseName" "ph_name (deleteSaPhase env) = serviceAccountPhaseName"
    "ph_name (deleteAadPhase env) = aadApplicationPhaseName" "ph_name (deleteFicPhase env) = federatedIdentityPhaseName"
    by (simp_all add: delete_phase_defs)
  have skip: "rn_skipPhases ?r = [federatedIdentityPhaseName]" by (simp add: AppendSkipPhases_eq names)
  have "filter (IsPhaseActive ?r) (deletePhases env) = [deleteRaPhase env, deleteSaPhase env, deleteAadPhase env]"
    by (simp add: deletePhases_def IsPhaseActive_iff skip names phase_names)
  moreover have "deleteCommand env [] s = Run ?r s"
    by (simp add: deleteCommand_def Let_def IsPhaseActive_iff)
  moreover have "set (rn_skipPhases ?r) \<subseteq> ph_name ` set (rn_phases ?r)"
    unfolding skip by (simp add: deletePhases_def names)
  ultimately show ?thesis by (simp add: Run_skip Let_def)
qed

lemma deleteCommand_steps:
  assumes "deleteCommand env [] s = (None, t)"
  obtains s0 s1 s2 where "preRunAll [deleteRaPhase env, deleteSaPhase env, deleteAadPhase env] s = (None, s0)"
    "deleteRaRun env s0 = (None, s1)" "deleteSaRun s1 = (None, s2)" "deleteAadRun env s2 = (None, t)"
proof -
  let ?ps = "[deleteRaPhase env, deleteSaPhase env, deleteAadPhase env]"
  obtain s0 where pre: "preRunAll ?ps s = (None, s0)" and run: "runAll ?ps s0 = (None, t)"
    using assms unfolding deleteCommand_unskipped Let_def by (auto split: prod.splits option.splits)
  from run show ?thesis
    by (auto simp: delete_phase_defs intro: that [OF pre] split: prod.splits option.splits)
qed

text \<open>The data of a delete for the application of a name.\<close>

definition looksUpApp :: "string \<Rightarrow> delete_data \<Rightarrow> bool" where
  "looksUpApp n d \<longleftrightarrow> n \<noteq> [] \<and> deleteAADApplicationName d = n \<and> dd_aadApplicationObjectID d = [] \<and>
     dd_aadApplication d = None"

lemma deleteChecks:
  assumes law: "lawfulEnv eq sdk view env" and d: "looksUpApp n (dst_data s)"
    and pre: "preRunAll [deleteRaPhase env, deleteSaPhase env, deleteAadPhase env] s = (None, s0)"
  obtains kc where "clientLaws kc view" "dst_kube s0 = Some kc" "dst_data s0 = dst_data s"
    "view (dst_world s0) = view (dst_world s)"
proof -
  have "deleteRaPrerun s = (None, s)"
    using pre by (auto simp: delete_phase_defs deleteRaPrerun_def split: if_splits)
  then obtain u where u: "deleteSaPrerun env s = (None, u)" and rest: "preRunAll [deleteAadPhase env] u = (None, s0)"
    using pre by (auto simp: deleteRaPhase_def deleteSaPhase_def split: prod.splits option.splits)
  obtain kc w where kc: "ce_getKubeClient env (dst_world s) = (Inr kc, w)" and s1: "u = s \<lparr> dst_kube := Some kc, dst_world := w \<rparr>"
    using u by (auto simp: deleteSaPrerun_def Let_def split: if_splits prod.splits sum.splits)
  have "s0 = u"
    using rest d s1 by (auto simp: deleteAadPhase_def deleteAadPrerun_def looksUpApp_def)
  moreover have "view w = view (dst_world s)" "clientLaws kc view"
    using lawfulEnvD(5) [OF law] kc unfolding clusterLaws_def by (metis fst_conv snd_conv)+
  ultimately show ?thesis using that s1 by simp
qed

lemma deleteName_cached [simp]:
  "deleteAADApplicationName (d \<lparr> dd_aadApplication := x \<rparr>) = deleteAADApplicationName d"
  by (simp add: deleteAADApplicationName_def)

lemma deleteObjectID_law:
  assumes law: "lawfulEnv eq sdk view env" "lookupsAnswered sdk" and n: "CHR 0x27 \<notin> set n"
    and s: "deleteAADApplicationName (dst_data s) = n" "dd_aadApplicationObjectID (dst_data s) = []"
      "dd_aadApplication (dst_data s) \<in> {None, Some a}" "appsNamed eq n (view (dst_world s)) = {a}"
  shows "\<exists>t. deleteAADApplicationObjectID env s = (app_id a, t) \<and> view (dst_world t) = view (dst_world s) \<and>
    deleteAADApplicationName (dst_data t) = n \<and> dd_aadApplicationObjectID (dst_data t) = [] \<and>
    dd_aadApplication (dst_data t) = Some a"
proof (cases "dd_aadApplication (dst_data s)")
  case None
  obtain x w where x: "GetApplication sdk n (dst_world s) = (x, w)" by fastforce
  note gets = GetApplication_law [OF lawfulEnvD(1) [OF law(1)] x]
  have "x = Inr a" using gets(2) [OF n] gets(3) [OF n _ law(2)] s(4) by (cases x) auto
  then show ?thesis
    using None x gets(1) s
    by (simp add: deleteAADApplicationObjectID_def deleteAADApplication_def lawfulEnvD(6) [OF law(1)])
next
  case (Some b)
  then show ?thesis using s by (simp add: deleteAADApplicationObjectID_def deleteAADApplication_def)
qed

lemma deleteAadRun_law:
  assumes law: "lawfulEnv eq sdk view env" "lookupsAnswered sdk" and n: "CHR 0x27 \<notin> set n"
    and s: "looksUpApp n (dst_data s)" "appsNamed eq n (view (dst_world s)) = {a}"
    and run: "deleteAadRun env s = (None, t)"
  shows "view (dst_world t) = removeApp (app_id a) (view (dst_world s))"
proof -
  obtain u where u: "deleteAADApplicationObjectID env s = (app_id a, u)" "view (dst_world u) = view (dst_world s)"
    "deleteAADApplicationName (dst_data u) = n" "dd_aadApplicationObjectID (dst_data u) = []"
    "dd_aadApplication (dst_data u) = Some a"
    using deleteObjectID_law [OF law n] s unfolding looksUpApp_def by blast
  then obtain v where v: "deleteAADApplicationObjectID env u = (app_id a, v)" "view (dst_world v) = view (dst_world u)"
    using deleteObjectID_law [OF law n, of u a] s(2) by auto
  obtain r w where r: "sdk_appDelete sdk (app_id a) (dst_world v) = (r, w)" by fastforce
  have "\<exists>x. r = Inr x \<and> t = v \<lparr> dst_world := w \<rparr>"
    using run u(1) v(1) r
    by (auto simp: deleteAadRun_def lawfulEnvD(13) [OF law(1)] DeleteApplication_def split: sum.splits)
  then show ?thesis
    using lawfulEnvD(3) [OF law(1), unfolded deletionLaws_def, rule_format, OF r] u(2) v(2)
    by (auto split: sum.splits)
qed

definition deleteKey :: "delete_data \<Rightarrow> string \<times> string" where
  "deleteKey d = (dd_serviceAccountNamespace d, dd_serviceAccountName d)"

lemma deleteCommand_law:
  assumes law: "lawfulEnv eq sdk view env" "lookupsAnswered sdk" and n: "CHR 0x27 \<notin> set n"
    and s: "looksUpApp n (dst_data s)" "appsNamed eq n (view (dst_world s)) = {a}"
    and run: "deleteCommand env [] s = (None, t)"
  shows "view (dst_world t) = removeApp (app_id a)
    ((view (dst_world s)) \<lparr> dir_accounts := (dir_accounts (view (dst_world s)))(deleteKey (dst_data s) := None) \<rparr>)"
proof -
  obtain s0 s1 s2 where pre: "preRunAll [deleteRaPhase env, deleteSaPhase env, deleteAadPhase env] s = (None, s0)"
    and r1: "deleteRaRun env s0 = (None, s1)" and r2: "deleteSaRun s1 = (None, s2)" and r3: "deleteAadRun env s2 = (None, t)"
    by (rule deleteCommand_steps [OF run])
  obtain kc where kc: "clientLaws kc view" "dst_kube s0 = Some kc" and d0: "dst_data s0 = dst_data s"
    and v0: "view (dst_world s0) = view (dst_world s)"
    by (rule deleteChecks [OF law(1) s(1) pre])
  obtain r w where r: "DeleteRoleAssignment sdk (dd_roleAssignmentID (dst_data s0)) (dst_world s0) = (r, w)" by fastforce
  have v1: "view w = view (dst_world s)"
    using role_operations_apart(2) [OF lawfulEnvD(4) [OF law(1)], of "dd_roleAssignmentID (dst_data s0)" "dst_world s0"] r v0
    by simp
  have s1: "s1 = s0 \<lparr> dst_world := w \<rparr>"
    using r1 r by (auto simp: deleteRaRun_def lawfulEnvD(12) [OF law(1)] split: sum.splits if_splits)
  obtain r' w' where r': "DeleteServiceAccount kc (dd_serviceAccountNamespace (dst_data s))
      (dd_serviceAccountName (dst_data s)) w = (r', w')" by fastforce
  have s2: "s2 = s1 \<lparr> dst_world := w' \<rparr>" and ok: "case r' of Inr _ \<Rightarrow> True | Inl e \<Rightarrow> apiIsNotFound e"
    using r2 r' s1 kc(2) d0 by (auto simp: deleteSaRun_def split: sum.splits if_splits)
  have v2: "view (dst_world s2) = (view (dst_world s)) \<lparr> dir_accounts :=
      (dir_accounts (view (dst_world s)))(deleteKey (dst_data s) := None) \<rparr>"
    using clientLawsD(3) [OF kc(1) r' ok] v1 s2 by (simp add: deleteKey_def)
  have "looksUpApp n (dst_data s2)" using s(1) s1 s2 d0 by simp
  moreover have "appsNamed eq n (view (dst_world s2)) = {a}" using s(2) v2 by (simp add: appsNamed_def)
  ultimately show ?thesis using deleteAadRun_law [OF law n _ _ r3] v2 by simp
qed

lemma removeApp_extends:
  assumes "extendsBy a k d d'" and "freshApp d a"
  shows "removeApp (app_id a) (d' \<lparr> dir_accounts := (dir_accounts d')(k := None) \<rparr>) =
    d \<lparr> dir_accounts := (dir_accounts d)(k := None) \<rparr>"
proof -
  have apps: "dir_apps d' = insert a (dir_apps d)" and sps: "dir_sps d \<subseteq> dir_sps d'"
    "dir_sps d' \<subseteq> dir_sps d \<union> {p. sp_appId p = app_appId a}"
    and fics: "dir_fics d \<subseteq> dir_fics d'" "dir_fics d' \<subseteq> dir_fics d \<union> {x. fst x = app_id a}"
    and accounts: "\<And>l. l \<noteq> k \<Longrightarrow> dir_accounts d' l = dir_accounts d l"
    using assms(1) by (auto simp: extendsBy_def)
  have fresh: "\<And>b. b \<in> dir_apps d \<Longrightarrow> app_id b \<noteq> app_id a" "\<And>p. p \<in> dir_sps d \<Longrightarrow> sp_appId p \<noteq> app_appId a"
    "\<And>x. x \<in> dir_fics d \<Longrightarrow> fst x \<noteq> app_id a"
    using assms(2) unfolding freshApp_def by (metis UnCI imageI)+
  have "{b \<in> dir_apps d'. app_id b \<noteq> app_id a} = dir_apps d" using apps fresh(1) by auto
  moreover have "{p \<in> dir_sps d'. \<forall>b \<in> dir_apps d'. app_id b = app_id a \<longrightarrow> sp_appId p \<noteq> app_appId b} = dir_sps d"
    using apps fresh(1,2) sps by auto
  moreover have "{x \<in> dir_fics d'. fst x \<noteq> app_id a} = dir_fics d" using fresh(3) fics by auto
  moreover have "(dir_accounts d')(k := None) = (dir_accounts d)(k := None)" using accounts by auto
  ultimately show ?thesis by (cases d; cases d') (simp add: removeApp_def)
qed

text \<open>
  C9: Delete takes back what create made.  Where no application and no principal has the name,
  a create that succeeds and then a delete that succeeds for the same account and name leave
  the applications, the principals, the credentials and every other account as they were,
  over every directory and cluster that obey their laws; the account is gone.
\<close>

theorem create_delete_roundtrip:
  assumes "lawfulEnv eq sdk view env" "lookupsAnswered sdk" "CHR 0x27 \<notin> set n"
    and "derivesIDs n (cst_data s)" "looksUpApp n (dst_data x)"
    and "appsNamed eq n (view (cst_world s)) = {}" "spsNamed eq n (view (cst_world s)) = {}"
    and "createCommand env [] s = (None, t)"
    and "dst_world x = cst_world t" "deleteKey (dst_data x) = createKey (cst_data s)"
    and "deleteCommand env [] x = (None, u)"
  shows "view (dst_world u) = (view (cst_world s)) \<lparr> dir_accounts :=
    (dir_accounts (view (cst_world s)))(createKey (cst_data s) := None) \<rparr>"
proof -
  have "unambiguous eq n (view (cst_world s))" using assms(6,7) by (simp add: unambiguous_def)
  then obtain a where a: "appsNamed eq n (view (cst_world t)) = {a}" "freshApp (view (cst_world s)) a"
    "extendsBy a (createKey (cst_data s)) (view (cst_world s)) (view (cst_world t))"
    using createCommand_law [OF assms(1-4) _ assms(8)] assms(6) by (metis empty_iff)
  have "view (dst_world u) = removeApp (app_id a) ((view (dst_world x)) \<lparr> dir_accounts :=
      (dir_accounts (view (dst_world x)))(deleteKey (dst_data x) := None) \<rparr>)"
    using a(1) by (intro deleteCommand_law [OF assms(1-3,5) _ assms(11)]) (simp add: assms(9))
  then show ?thesis using removeApp_extends [OF a(3,2)] assms(9,10) by simp
qed

definition listDeleteState :: "directory_lists \<Rightarrow> directory_lists delete_state" where
  "listDeleteState w = \<lparr> dst_data = \<lparr> dd_serviceAccountName = ''sa'', dd_serviceAccountNamespace = ''ns'',
       dd_serviceAccountIssuerURL = ''https://issuer'', dd_aadApplication = None, dd_aadApplicationName = ''app'',
       dd_aadApplicationObjectID = [], dd_roleAssignmentID = ''ra'' \<rparr>,
     dst_kube = None, dst_world = w \<rparr>"

lemma list_delete_runs: "\<exists>u. deleteCommand listEnv [] (listDeleteState createdLists) = (None, u)"
proof -
  let ?s = "(listDeleteState createdLists) \<lparr> dst_kube := Some listKube \<rparr>"
  let ?w = "createdLists \<lparr> l_accounts := [] \<rparr>"
  have names: "app_displayName listApp = ''app''" by (simp add: listApp_def newApp_def)
  have key: "accountKey (wantedAccount listEnv listApp demoCreateData) = (''ns'', ''sa'')"
    by (simp add: wantedAccount_key createKey_def demoCreateData_def)
  have pre: "preRunAll [deleteRaPhase listEnv, deleteSaPhase listEnv, deleteAadPhase listEnv] (listDeleteState createdLists)
      = (None, ?s)"
    by (simp add: delete_phase_defs deleteRaPrerun_def deleteSaPrerun_def deleteAadPrerun_def Let_def
        listDeleteState_def deleteAADApplicationName_def listEnv_def)
  have ra: "deleteRaRun listEnv ?s = (None, ?s)"
    by (simp add: deleteRaRun_def DeleteRoleAssignment_def list_run_simps listDeleteState_def)
  have sa: "deleteSaRun ?s = (None, ?s \<lparr> dst_world := ?w \<rparr>)"
    by (simp add: deleteSaRun_def DeleteServiceAccount_def listDeleteState_def listKube_def createdLists_def key)
  obtain t where aad: "deleteAadRun listEnv (?s \<lparr> dst_world := ?w \<rparr>) = (None, t)"
    by (simp add: deleteAadRun_def deleteAADApplicationObjectID_def deleteAADApplication_def deleteAADApplicationName_def
        DeleteApplication_def list_run_simps listDeleteState_def createdLists_def names)
  have "runAll [deleteRaPhase listEnv, deleteSaPhase listEnv, deleteAadPhase listEnv] ?s = (None, t)"
    using ra sa aad by (simp add: delete_phase_defs)
  then show ?thesis unfolding deleteCommand_unskipped Let_def pre by simp
qed

theorem create_delete_roundtrip_witness:
  "\<exists>u. deleteCommand listEnv [] (listDeleteState createdLists) = (None, u) \<and>
     shows_lists (dst_world u) = shows_lists emptyLists"
proof -
  obtain t where t: "createCommand listEnv [] (listCreateState emptyLists) = (None, t)" "cst_world t = createdLists"
    using list_create_runs by blast
  obtain u where u: "deleteCommand listEnv [] (listDeleteState createdLists) = (None, u)"
    using list_delete_runs by blast
  have "looksUpApp ''app'' (dst_data (listDeleteState createdLists))"
    by (simp add: looksUpApp_def listDeleteState_def deleteAADApplicationName_def)
  moreover have "appsNamed (=) ''app'' (shows_lists (cst_world (listCreateState emptyLists))) = {}"
    "spsNamed (=) ''app'' (shows_lists (cst_world (listCreateState emptyLists))) = {}"
    by (simp_all add: appsNamed_def spsNamed_def shows_lists_def listCreateState_def emptyLists_def)
  moreover have "dst_world (listDeleteState createdLists) = cst_world t" by (simp add: listDeleteState_def t(2))
  moreover have "deleteKey (dst_data (listDeleteState createdLists)) = createKey (cst_data (listCreateState emptyLists))"
    by (simp add: deleteKey_def createKey_def listDeleteState_def listCreateState_def demoCreateData_def)
  ultimately have "shows_lists (dst_world u) = (shows_lists emptyLists) \<lparr> dir_accounts :=
      (dir_accounts (shows_lists emptyLists))(createKey demoCreateData := None) \<rparr>"
    using create_delete_roundtrip [OF list_create_premises(1-4) _ _ _ t(1) _ _ u]
    by (simp add: listCreateState_def)
  also have "\<dots> = shows_lists emptyLists" by (simp add: shows_lists_def emptyLists_def)
  finally show ?thesis using u by blast
qed

subsection \<open>A create that succeeds without federating\<close>

text \<open>
  C13: An account whose credential's name is taken is not federated.  When the application has a
  credential of the derived name for another account (as the colliding names of the accounts
  \<open>c\<close> of \<open>a-b\<close> and \<open>b-c\<close> of \<open>a\<close> bring about), a create for this account
  succeeds as far as the command reports, and annotates the account with the client id, but
  no client accepts its tokens, over every directory and cluster that obey their laws.
\<close>

theorem colliding_account_not_federated:
  assumes "lawfulEnv eq sdk view env" "lookupsAnswered sdk" "CHR 0x27 \<notin> set n"
    and "derivesIDs n (cst_data s)" "unambiguous eq n (view (cst_world s))"
    and taken: "a \<in> appsNamed eq n (view (cst_world s))" "(app_id a, f) \<in> dir_fics (view (cst_world s))"
      "fic_name f = fic_name (wantedFic (cst_data s))"
    and none: "\<forall>x \<in> dir_fics (view (cst_world s)). fic_subject (snd x) \<noteq> fic_subject (wantedFic (cst_data s))"
    and "createCommand env [] s = (None, t)"
  shows "(\<exists>st. dir_accounts (view (cst_world t)) (createKey (cst_data s)) = Some st \<and> getClientID st = app_appId a) \<and>
    (\<forall>clientID issuer audience. \<not> exchanges (view (cst_world t)) clientID issuer
       (GetFederatedCredentialSubject (cd_serviceAccountNamespace (cst_data s)) (cd_serviceAccountName (cst_data s)))
       audience)"
proof -
  let ?d = "view (cst_world s)"
  obtain b st where b: "b \<in> appsNamed eq n ?d \<or> freshApp ?d b \<and> appsNamed eq n ?d = {}"
    and st: "dir_accounts (view (cst_world t)) (createKey (cst_data s)) = Some st"
      "sa_annotations st = sa_annotations (wantedAccount env b (cst_data s))"
    and out: "ficOutcome b (cst_data s) ?d (view (cst_world t))"
    by (rule createCommand_law [OF assms(1-5,10)])
  have ab: "b = a" using b taken(1) assms(5) unfolding unambiguous_def by blast
  have "clashing ?d (app_id a) (wantedFic (cst_data s))"
    using taken(2,3) by (auto simp: clashing_def clashes_def)
  then have "dir_fics (view (cst_world t)) = dir_fics ?d" using out ab by (simp add: ficOutcome_def)
  then have "\<not> exchanges (view (cst_world t)) clientID issuer (fic_subject (wantedFic (cst_data s))) audience"
    for clientID issuer audience
    using none by (fastforce simp: exchanges_def)
  moreover have "getClientID st = app_appId a"
    using st(2) newServiceAccount_reads(1) ab by (simp add: getClientID_def wantedAccount_def)
  ultimately show ?thesis using st(1) unfolding wantedFic_fields by blast
qed

text \<open>The account \<open>a-web\<close> of \<open>team\<close>, after the account \<open>web\<close> of \<open>team-a\<close>.\<close>

definition firstData :: create_data where
  "firstData = demoCreateData \<lparr> cd_serviceAccountNamespace := ''team-a'', cd_serviceAccountName := ''web'' \<rparr>"

definition secondData :: create_data where
  "secondData = demoCreateData \<lparr> cd_serviceAccountNamespace := ''team'', cd_serviceAccountName := ''a-web'' \<rparr>"

definition firstLists :: directory_lists where
  "firstLists = createdLists \<lparr> l_fics := [(app_id listApp, (wantedFic firstData) \<lparr> fic_id := ''fic'' \<rparr>)],
     l_accounts := [wantedAccount listEnv listApp firstData] \<rparr>"

definition secondState :: "directory_lists create_state" where
  "secondState = \<lparr> cst_data = secondData, cst_kube = None, cst_world = firstLists \<rparr>"

lemma names_taken: "fic_name (wantedFic firstData) = fic_name (wantedFic secondData)"
  by (simp add: wantedFic_def newFederatedCredential_def firstData_def secondData_def GetFederatedCredentialName_def)

lemma second_create_runs: "\<exists>t. createCommand listEnv [] secondState = (None, t)"
proof -
  let ?s = "secondState \<lparr> cst_kube := Some listKube \<rparr>"
  let ?sp = "\<lparr> sp_displayName = ''app'', sp_appId = app_appId listApp, sp_id = newID (CHR ''s'') [] \<rparr>"
  let ?c = "secondData \<lparr> cd_aadApplication := Some listApp, cd_servicePrincipal := Some ?sp \<rparr>"
  let ?w = "firstLists \<lparr> l_accounts := wantedAccount listEnv listApp secondData # l_accounts firstLists \<rparr>"
  have names: "app_displayName listApp = ''app''" by (simp add: listApp_def newApp_def)
  note data = secondState_def secondData_def demoCreateData_def createAADApplicationName_def createServicePrincipalName_def
  have pre: "preRunAll (createPhases listEnv) secondState = (None, ?s)"
    by (simp add: create_phase_defs createAadPrerun_def createSaPrerun_def createFicPrerun_def createRaPrerun_def Let_def
        data expiration_bounds second_def listEnv_def)
  have aad: "createAadRun listEnv ?s = (None, ?s \<lparr> cst_data := ?c \<rparr>)"
    by (simp add: createAadRun_def createAADApplication_def createAadServicePrincipal_def createServicePrincipal_def
        list_run_simps data firstLists_def createdLists_def names)
  have keys: "accountKey (wantedAccount listEnv listApp firstData) = (''team-a'', ''web'')"
    "accountKey (wantedAccount listEnv listApp secondData) = (''team'', ''a-web'')"
    by (simp_all add: wantedAccount_key createKey_def firstData_def secondData_def)
  have account: "newServiceAccount ''team'' ''a-web'' (app_appId listApp) ''tenant'' (7200 * second) =
      wantedAccount listEnv listApp secondData"
    by (simp add: wantedAccount_def secondData_def demoCreateData_def listEnv_def)
  have fields: "cd_serviceAccountNamespace ?c = ''team''" "cd_serviceAccountName ?c = ''a-web''"
    "cd_serviceAccountTokenExpiration ?c = 7200 * second" "cd_aadApplicationClientID ?c = []"
    "cd_aadApplicationObjectID ?c = []" "cd_serviceAccountIssuerURL ?c = ''https://issuer''"
    "cd_servicePrincipalObjectID ?c = []" "cd_aadApplication ?c = Some listApp" "cd_servicePrincipal ?c = Some ?sp"
    by (simp_all add: secondData_def demoCreateData_def)
  have stored: "CreateOrUpdateServiceAccount listKube ''team'' ''a-web'' (app_appId listApp) ''tenant'' (7200 * second) firstLists =
      (Inr (), ?w)"
    unfolding CreateOrUpdateServiceAccount_def account
    by (simp add: Let_def listKube_def keys firstLists_def)
  have sa: "createSaRun listEnv (?s \<lparr> cst_data := ?c \<rparr>) = (None, ?s \<lparr> cst_data := ?c, cst_world := ?w \<rparr>)"
    using stored
    by (simp add: createSaRun_def createAADApplicationClientID_def createAADApplication_def fields)
      (simp add: listEnv_def secondState_def)
  have fic_name: "fic_name (newFederatedCredential ''team'' ''a-web'' ''https://issuer'') = fic_name (wantedFic firstData)"
    unfolding names_taken by (simp add: wantedFic_def secondData_def demoCreateData_def)
  have post: "AddFederatedCredential listSdk (app_id listApp) (newFederatedCredential ''team'' ''a-web'' ''https://issuer'') ?w =
      (Inl (GraphError GraphErrorCodeMultipleObjectsWithSameKeyValue []), ?w)"
    by (simp add: AddFederatedCredential_def extractOnError_def listSdk_def firstLists_def clashes_def fic_name
        maybeExtractGraphError_def)
  have fic: "createFicRun listEnv (?s \<lparr> cst_data := ?c, cst_world := ?w \<rparr>) = (None, ?s \<lparr> cst_data := ?c, cst_world := ?w \<rparr>)"
    using post
    by (simp add: createFicRun_def createAADApplicationObjectID_def createAADApplication_def fields Let_def
        listEnv_def AzureClient_def IsFederatedCredentialAlreadyExists_def)
  obtain t where ra: "createRaRun listEnv (?s \<lparr> cst_data := ?c, cst_world := ?w \<rparr>) = (None, t)"
    by (simp add: createRaRun_def createServicePrincipalObjectID_def createServicePrincipal_def fields
        list_run_simps CreateRoleAssignment_def GetRoleDefinitionIDByName_def
        roleAssignmentCreateRetryCount_def eval_nat_numeral)
  have "runAll (createPhases listEnv) ?s = (None, t)"
    using aad sa fic ra by (simp add: create_phase_defs)
  then show ?thesis unfolding createCommand_unskipped pre by simp
qed

theorem colliding_account_not_federated_witness:
  "\<exists>t. createCommand listEnv [] secondState = (None, t) \<and>
     \<not> exchanges (shows_lists (cst_world t)) (app_appId listApp) ''https://issuer''
         (GetFederatedCredentialSubject ''team'' ''a-web'') DefaultAudience"
proof -
  obtain t where t: "createCommand listEnv [] secondState = (None, t)" using second_create_runs by blast
  have data: "cst_data secondState = secondData" "cst_world secondState = firstLists"
    by (simp_all add: secondState_def)
  have names: "app_displayName listApp = ''app''" by (simp add: listApp_def newApp_def)
  have subject: "GetFederatedCredentialSubject ''team-a'' ''web'' \<noteq> GetFederatedCredentialSubject ''team'' ''a-web''"
    by (simp add: GetFederatedCredentialSubject_def)
  have "derivesIDs ''app'' (cst_data secondState)"
    by (simp add: data derivesIDs_def secondData_def demoCreateData_def createAADApplicationName_def createServicePrincipalName_def)
  moreover have "unambiguous (=) ''app'' (shows_lists (cst_world secondState))"
    by (auto simp: data unambiguous_def appsNamed_def spsNamed_def shows_lists_def firstLists_def createdLists_def names)
  moreover have "listApp \<in> appsNamed (=) ''app'' (shows_lists (cst_world secondState))"
    by (simp add: data appsNamed_def shows_lists_def firstLists_def createdLists_def names)
  moreover have "(app_id listApp, (wantedFic firstData) \<lparr> fic_id := ''fic'' \<rparr>) \<in> dir_fics (shows_lists (cst_world secondState))"
    by (simp add: data shows_lists_def firstLists_def)
  moreover have "fic_name ((wantedFic firstData) \<lparr> fic_id := ''fic'' \<rparr>) = fic_name (wantedFic (cst_data secondState))"
    by (simp add: data names_taken)
  moreover have "\<forall>x \<in> dir_fics (shows_lists (cst_world secondState)).
      fic_subject (snd x) \<noteq> fic_subject (wantedFic (cst_data secondState))"
    using subject by (simp add: data shows_lists_def firstLists_def wantedFic_fields firstData_def secondData_def)
  moreover have "cd_serviceAccountNamespace (cst_data secondState) = ''team''"
    "cd_serviceAccountName (cst_data secondState) = ''a-web''"
    by (simp_all add: data secondData_def)
  ultimately show ?thesis
    using colliding_account_not_federated [OF list_create_premises(1-3) _ _ _ _ _ _ t] t by metis
qed

end
