(* ===== verification/Sa_Commands.thy ===== *)
theory Sa_Commands
  imports Sa_Delete_Correct Detect Jwks Auth
begin

section \<open>The command lines of azwi (pkg/cmd and its commands)\<close>

text \<open>
  The flags that each command defines, how their values become the data of the command, and
  what runs before it.  Cobra and pflag are libraries: a command line is what they make of
  it, the flags that were given with their values (\<open>given\<close>), and they refuse a flag that the
  command does not define and a command line without a required flag.
\<close>

subsection \<open>Flags and their values\<close>

datatype flag_value =
    FlagString string
  | FlagDuration int
  | FlagInt32 int
  | FlagSlice "string list"
  | FlagBool bool

record cli_flag =
  cf_name :: string
  cf_shorthand :: string
  cf_default :: flag_value

type_synonym given_flags = "(string \<times> flag_value) list"

definition cliFlag :: "string \<Rightarrow> flag_value \<Rightarrow> cli_flag" where
  "cliFlag n d = \<lparr> cf_name = n, cf_shorthand = [], cf_default = d \<rparr>"

definition cliFlagP :: "string \<Rightarrow> string \<Rightarrow> flag_value \<Rightarrow> cli_flag" where
  "cliFlagP n short d = \<lparr> cf_name = n, cf_shorthand = short, cf_default = d \<rparr>"

text \<open>The variable of a flag after parsing: the value given, or the default.\<close>

definition flagVar :: "cli_flag list \<Rightarrow> given_flags \<Rightarrow> string \<Rightarrow> flag_value option" where
  "flagVar flags given n =
     (case map_of given n of
        Some v \<Rightarrow> Some v
      | None \<Rightarrow> map_option cf_default (find (\<lambda>f. cf_name f = n) flags))"

definition stringVar :: "cli_flag list \<Rightarrow> given_flags \<Rightarrow> string \<Rightarrow> string" where
  "stringVar flags given n = (case flagVar flags given n of Some (FlagString s) \<Rightarrow> s | _ \<Rightarrow> [])"

definition durationVar :: "cli_flag list \<Rightarrow> given_flags \<Rightarrow> string \<Rightarrow> int" where
  "durationVar flags given n = (case flagVar flags given n of Some (FlagDuration d) \<Rightarrow> d | _ \<Rightarrow> 0)"

definition int32Var :: "cli_flag list \<Rightarrow> given_flags \<Rightarrow> string \<Rightarrow> int" where
  "int32Var flags given n = (case flagVar flags given n of Some (FlagInt32 i) \<Rightarrow> i | _ \<Rightarrow> 0)"

definition sliceVar :: "cli_flag list \<Rightarrow> given_flags \<Rightarrow> string \<Rightarrow> string list" where
  "sliceVar flags given n = (case flagVar flags given n of Some (FlagSlice l) \<Rightarrow> l | _ \<Rightarrow> [])"

definition boolVar :: "cli_flag list \<Rightarrow> given_flags \<Rightarrow> string \<Rightarrow> bool" where
  "boolVar flags given n = (case flagVar flags given n of Some (FlagBool b) \<Rightarrow> b | _ \<Rightarrow> False)"

definition accepted :: "cli_flag list \<Rightarrow> string list \<Rightarrow> given_flags \<Rightarrow> bool" where
  "accepted flags required given \<longleftrightarrow>
     fst ` set given \<subseteq> cf_name ` set flags \<and> set required \<subseteq> fst ` set given"

subsection \<open>azwi (pkg/cmd/root.go)\<close>

definition rootFlags :: "cli_flag list" where
  "rootFlags = [cliFlag ''debug'' (FlagBool False)]"

definition rootPreRun :: "(log_level \<Rightarrow> 'w \<Rightarrow> go_error option \<times> 'w) \<Rightarrow> bool \<Rightarrow> 'w \<Rightarrow> go_error option \<times> 'w" where
  "rootPreRun validateAndSetLogLevel debug w =
     validateAndSetLogLevel (if debug then LevelAll else LevelInfo) w"

text \<open>\<open>cmd/azwi/main.go\<close>: the exit status of the process.\<close>

definition azwiMain :: "('w \<Rightarrow> go_error option \<times> 'w) \<Rightarrow> 'w \<Rightarrow> int \<times> 'w" where
  "azwiMain execute w = (case execute w of (Some e, w1) \<Rightarrow> (1, w1) | (None, w1) \<Rightarrow> (0, w1))"

subsection \<open>azwi serviceaccount (root.go, auth/provider.go)\<close>

definition authFlags :: "cli_flag list" where
  "authFlags =
     [cliFlag ''azure-env'' (FlagString ''AzurePublicCloud''),
      cliFlagP ''subscription-id'' ''s'' (FlagString []),
      cliFlag ''auth-method'' (FlagString cliAuthMethod),
      cliFlag ''client-id'' (FlagString []),
      cliFlag ''client-secret'' (FlagString []),
      cliFlag ''certificate-path'' (FlagString []),
      cliFlag ''private-key-path'' (FlagString [])]"

definition authArgsOf :: "given_flags \<Rightarrow> 'cred auth_args" where
  "authArgsOf given = \<lparr>
     aa_rawAzureEnvironment = stringVar authFlags given ''azure-env'',
     aa_rawSubscriptionID = stringVar authFlags given ''subscription-id'',
     aa_subscriptionID = nilUUID,
     aa_authMethod = stringVar authFlags given ''auth-method'',
     aa_rawClientID = stringVar authFlags given ''client-id'',
     aa_tenantID = [],
     aa_clientID = nilUUID,
     aa_clientSecret = stringVar authFlags given ''client-secret'',
     aa_certificatePath = stringVar authFlags given ''certificate-path'',
     aa_privateKeyPath = stringVar authFlags given ''private-key-path'',
     aa_azureClient = None \<rparr>"

definition serviceAccountPreRun ::
  "(log_level \<Rightarrow> 'w \<Rightarrow> go_error option \<times> 'w) \<Rightarrow> 'w auth_env \<Rightarrow> ('w, 'cert, 'key, 'cred) client_sdk \<Rightarrow>
   bool \<Rightarrow> 'cred auth_args \<Rightarrow> 'w \<Rightarrow> (go_error option \<times> 'cred auth_args) \<times> 'w" where
  "serviceAccountPreRun setLevel env sdk debug args w =
     (case rootPreRun setLevel debug w of
        (Some e, w1) \<Rightarrow> ((Some e, args), w1)
      | (None, w1) \<Rightarrow> Validate env sdk args w1)"

subsection \<open>The flags of create and delete\<close>

definition skipPhasesFlag :: cli_flag where
  "skipPhasesFlag = cliFlag ''skip-phases'' (FlagSlice [])"

definition createFlagSet :: "cli_flag list" where
  "createFlagSet =
     [cliFlag flagServiceAccountName (FlagString []),
      cliFlag flagServiceAccountNamespace (FlagString ''default''),
      cliFlag flagServiceAccountIssuerURL (FlagString []),
      cliFlag flagServiceAccountTokenExpiration (FlagDuration (DefaultServiceAccountTokenExpiration * second)),
      cliFlag flagAADApplicationName (FlagString []),
      cliFlag flagAADApplicationClientID (FlagString []),
      cliFlag flagAADApplicationObjectID (FlagString []),
      cliFlag flagServicePrincipalName (FlagString []),
      cliFlag flagServicePrincipalObjectID (FlagString []),
      cliFlag flagAzureScope (FlagString []),
      cliFlag flagAzureRole (FlagString [])]"

definition deleteFlagSet :: "cli_flag list" where
  "deleteFlagSet =
     [cliFlag flagServiceAccountName (FlagString []),
      cliFlag flagServiceAccountNamespace (FlagString ''default''),
      cliFlag flagServiceAccountIssuerURL (FlagString []),
      cliFlag flagAADApplicationName (FlagString []),
      cliFlag flagAADApplicationObjectID (FlagString []),
      cliFlag flagRoleAssignmentID (FlagString [])]"

text \<open>\<open>StringVar\<close> and its kin bind the flags to the fields of \<open>createData\<close> and \<open>deleteData\<close>.\<close>

definition createDataOf :: "given_flags \<Rightarrow> create_data" where
  "createDataOf given = \<lparr>
     cd_serviceAccountName = stringVar createFlagSet given flagServiceAccountName,
     cd_serviceAccountNamespace = stringVar createFlagSet given flagServiceAccountNamespace,
     cd_serviceAccountIssuerURL = stringVar createFlagSet given flagServiceAccountIssuerURL,
     cd_serviceAccountTokenExpiration = durationVar createFlagSet given flagServiceAccountTokenExpiration,
     cd_aadApplication = None,
     cd_aadApplicationName = stringVar createFlagSet given flagAADApplicationName,
     cd_aadApplicationClientID = stringVar createFlagSet given flagAADApplicationClientID,
     cd_aadApplicationObjectID = stringVar createFlagSet given flagAADApplicationObjectID,
     cd_servicePrincipal = None,
     cd_servicePrincipalObjectID = stringVar createFlagSet given flagServicePrincipalObjectID,
     cd_servicePrincipalName = stringVar createFlagSet given flagServicePrincipalName,
     cd_azureRole = stringVar createFlagSet given flagAzureRole,
     cd_azureScope = stringVar createFlagSet given flagAzureScope \<rparr>"

definition deleteDataOf :: "given_flags \<Rightarrow> delete_data" where
  "deleteDataOf given = \<lparr>
     dd_serviceAccountName = stringVar deleteFlagSet given flagServiceAccountName,
     dd_serviceAccountNamespace = stringVar deleteFlagSet given flagServiceAccountNamespace,
     dd_serviceAccountIssuerURL = stringVar deleteFlagSet given flagServiceAccountIssuerURL,
     dd_aadApplication = None,
     dd_aadApplicationName = stringVar deleteFlagSet given flagAADApplicationName,
     dd_aadApplicationObjectID = stringVar deleteFlagSet given flagAADApplicationObjectID,
     dd_roleAssignmentID = stringVar deleteFlagSet given flagRoleAssignmentID \<rparr>"

definition createStateOf :: "given_flags \<Rightarrow> 'w \<Rightarrow> 'w create_state" where
  "createStateOf given w = \<lparr> cst_data = createDataOf given, cst_kube = None, cst_world = w \<rparr>"

definition deleteStateOf :: "given_flags \<Rightarrow> 'w \<Rightarrow> 'w delete_state" where
  "deleteStateOf given w = \<lparr> dst_data = deleteDataOf given, dst_kube = None, dst_world = w \<rparr>"

text \<open>
  The flags of the subcommand of a phase: \<open>BindToCommand\<close> lets it inherit those of the command
  which the phase lists.
\<close>

definition phaseFlagNames :: "cli_flag list \<Rightarrow> 'w phase \<Rightarrow> string list" where
  "phaseFlagNames flags p = inheritsFlags (map cf_name flags) (ph_flags p)"

text \<open>
  The commands on an accepted command line, once the authentication options were validated;
  \<open>None\<close> is a command line that the library refuses.
\<close>

definition createMain :: "'w cli_env \<Rightarrow> given_flags \<Rightarrow> 'w \<Rightarrow> (go_error option \<times> 'w create_state) option" where
  "createMain env given w =
     (if accepted (skipPhasesFlag # createFlagSet) [] given
      then Some (createCommand env (sliceVar [skipPhasesFlag] given ''skip-phases'') (createStateOf given w))
      else None)"

definition createPhaseMain ::
  "'w cli_env \<Rightarrow> 'w create_state phase \<Rightarrow> given_flags \<Rightarrow> 'w \<Rightarrow> (go_error option \<times> 'w create_state) option" where
  "createPhaseMain env p given w =
     (if fst ` set given \<subseteq> set (phaseFlagNames createFlagSet p)
      then Some (createPhaseCommand env p (createStateOf given w)) else None)"

definition deleteMain :: "'w cli_env \<Rightarrow> given_flags \<Rightarrow> 'w \<Rightarrow> (go_error option \<times> 'w delete_state) option" where
  "deleteMain env given w =
     (if accepted (skipPhasesFlag # deleteFlagSet) [] given
      then Some (deleteCommand env (sliceVar [skipPhasesFlag] given ''skip-phases'') (deleteStateOf given w))
      else None)"

definition deletePhaseMain ::
  "'w cli_env \<Rightarrow> 'w delete_state phase \<Rightarrow> given_flags \<Rightarrow> 'w \<Rightarrow> (go_error option \<times> 'w delete_state) option" where
  "deletePhaseMain env p given w =
     (if fst ` set given \<subseteq> set (phaseFlagNames deleteFlagSet p)
      then Some (deletePhaseCommand env p (deleteStateOf given w)) else None)"

subsection \<open>azwi podidentity detect and azwi jwks\<close>

definition detectFlagSet :: "cli_flag list" where
  "detectFlagSet =
     [cliFlag ''namespace'' (FlagString ''default''),
      cliFlagP ''output-dir'' ''o'' (FlagString []),
      cliFlagP ''proxy-port'' ''p'' (FlagInt32 8000),
      cliFlag flagServiceAccountTokenExpiration (FlagDuration (DefaultServiceAccountTokenExpiration * second)),
      cliFlag ''tenant-id'' (FlagString [])]"

definition podIdentityPreRun :: "(log_level \<Rightarrow> 'w \<Rightarrow> go_error option \<times> 'w) \<Rightarrow> bool \<Rightarrow> 'w \<Rightarrow> go_error option \<times> 'w" where
  "podIdentityPreRun setLevel debug w =
     (case rootPreRun setLevel debug w of (Some e, w1) \<Rightarrow> (Some e, w1) | (None, w1) \<Rightarrow> (None, w1))"

text \<open>\<open>dc0\<close> holds the file operations; its client is replaced by the check.\<close>

definition detectCmdOf :: "'w detect_cmd \<Rightarrow> given_flags \<Rightarrow> 'w detect_cmd" where
  "detectCmdOf dc0 given = dc0 \<lparr>
     dc_namespace := stringVar detectFlagSet given ''namespace'',
     dc_outputDir := stringVar detectFlagSet given ''output-dir'',
     dc_proxyPort := int32Var detectFlagSet given ''proxy-port'',
     dc_tokenExpiration := durationVar detectFlagSet given flagServiceAccountTokenExpiration,
     dc_tenantID := stringVar detectFlagSet given ''tenant-id'' \<rparr>"

text \<open>Whether the library accepts the command line: the output directory must be given.\<close>

definition detectAccepted :: "given_flags \<Rightarrow> bool" where
  "detectAccepted given = accepted detectFlagSet [''output-dir''] given"

definition detectMain ::
  "('w, 'w kube_client) io \<Rightarrow> (string \<Rightarrow> 'w \<Rightarrow> bool) \<Rightarrow> (string \<Rightarrow> ('w, unit) io) \<Rightarrow>
   detect_order \<Rightarrow> 'w detect_cmd \<Rightarrow> given_flags \<Rightarrow> 'w \<Rightarrow> (go_error option \<times> 'w) option" where
  "detectMain getKubeClient notExist mkdirAll ord dc0 given w =
     (case detectPrerun getKubeClient notExist mkdirAll (detectCmdOf dc0 given) w of
        (Some e, dc, w1) \<Rightarrow> Some (Some e, w1)
      | (None, dc, w1) \<Rightarrow> detectRun dc ord w1)"

definition jwksFlagSet :: "cli_flag list" where
  "jwksFlagSet = [cliFlag ''public-keys'' (FlagSlice []), cliFlag ''output-file'' (FlagString [])]"

definition jwksAccepted :: "given_flags \<Rightarrow> bool" where
  "jwksAccepted given = accepted jwksFlagSet [''public-keys''] given"

definition jwksMain :: "'w jwks_env \<Rightarrow> given_flags \<Rightarrow> 'w \<Rightarrow> go_error option \<times> 'w" where
  "jwksMain env given w =
     (let keys = sliceVar jwksFlagSet given ''public-keys'' in
      case jwksValidate keys of
        Some e \<Rightarrow> (Some e, w)
      | None \<Rightarrow> jwksRun env keys (stringVar jwksFlagSet given ''output-file'') w)"

subsection \<open>What a command line reaches\<close>

lemma stringVar_given: "map_of given f = Some (FlagString s) \<Longrightarrow> stringVar flags given f = s"
  by (simp add: stringVar_def flagVar_def)

lemma durationVar_given: "map_of given f = Some (FlagDuration d) \<Longrightarrow> durationVar flags given f = d"
  by (simp add: durationVar_def flagVar_def)

lemma sliceVar_default: "map_of given n = None \<Longrightarrow> sliceVar [cliFlag n (FlagSlice l)] given n = l"
  by (simp add: sliceVar_def flagVar_def cliFlag_def)

lemmas flag_defs = flagServiceAccountName_def flagServiceAccountNamespace_def flagServiceAccountIssuerURL_def
  flagServiceAccountTokenExpiration_def flagAADApplicationName_def flagAADApplicationClientID_def
  flagAADApplicationObjectID_def flagServicePrincipalName_def flagServicePrincipalObjectID_def
  flagAzureScope_def flagAzureRole_def flagRoleAssignmentID_def

lemma phaseFlagNames_set: "set (phaseFlagNames flags p) = cf_name ` set flags \<inter> set (ph_flags p)"
  by (auto simp: phaseFlagNames_def inheritsFlags_def)

lemma createExpiration_default:
  "map_of given flagServiceAccountTokenExpiration = None \<Longrightarrow>
   durationVar createFlagSet given flagServiceAccountTokenExpiration = DefaultServiceAccountTokenExpiration * second"
  by (simp add: durationVar_def flagVar_def createFlagSet_def cliFlag_def flag_defs)

lemma createNamespace_default:
  "map_of given flagServiceAccountNamespace = None \<Longrightarrow>
   stringVar createFlagSet given flagServiceAccountNamespace = ''default''"
  by (simp add: stringVar_def flagVar_def createFlagSet_def cliFlag_def flag_defs)

lemma expiration_range_default:
  "MinServiceAccountTokenExpiration \<le> DefaultServiceAccountTokenExpiration"
  "DefaultServiceAccountTokenExpiration \<le> MaxServiceAccountTokenExpiration"
  by (simp_all add: MinServiceAccountTokenExpiration_def MaxServiceAccountTokenExpiration_def
      DefaultServiceAccountTokenExpiration_def)

text \<open>A value that a flag of a command accepts: a text that is not empty, or a duration in range.\<close>

definition validValue :: "string \<Rightarrow> flag_value \<Rightarrow> bool" where
  "validValue f v =
     (if f = flagServiceAccountTokenExpiration then
        (case v of FlagDuration d \<Rightarrow>
           MinServiceAccountTokenExpiration * second \<le> d \<and> d \<le> MaxServiceAccountTokenExpiration * second
         | _ \<Rightarrow> False)
      else (case v of FlagString s \<Rightarrow> s \<noteq> [] | _ \<Rightarrow> False))"

lemma validString:
  assumes "map_of given f = Some v" "validValue f v" "f \<noteq> flagServiceAccountTokenExpiration"
  shows "stringVar flags given f \<noteq> []"
  using assms by (auto simp: validValue_def stringVar_given split: flag_value.splits)

lemma validExpiration:
  assumes "\<And>v. map_of given flagServiceAccountTokenExpiration = Some v \<Longrightarrow> validValue flagServiceAccountTokenExpiration v"
  shows "MinServiceAccountTokenExpiration * second \<le> durationVar createFlagSet given flagServiceAccountTokenExpiration"
    and "durationVar createFlagSet given flagServiceAccountTokenExpiration \<le> MaxServiceAccountTokenExpiration * second"
proof -
  have "MinServiceAccountTokenExpiration * second \<le> durationVar createFlagSet given flagServiceAccountTokenExpiration \<and>
    durationVar createFlagSet given flagServiceAccountTokenExpiration \<le> MaxServiceAccountTokenExpiration * second"
  proof (cases "map_of given flagServiceAccountTokenExpiration")
    case None
    then show ?thesis
      using expiration_range_default by (simp add: createExpiration_default second_def)
  next
    case (Some v)
    then show ?thesis
      using assms [OF Some] by (auto simp: validValue_def durationVar_given split: flag_value.splits)
  qed
  then show "MinServiceAccountTokenExpiration * second \<le> durationVar createFlagSet given flagServiceAccountTokenExpiration"
    and "durationVar createFlagSet given flagServiceAccountTokenExpiration \<le> MaxServiceAccountTokenExpiration * second"
    by simp_all
qed

text \<open>The check of each phase, when every flag that the phase lists has a value it accepts.\<close>

lemma createPrerun_satisfied:
  assumes p: "p \<in> set (createPhases env)"
    and given: "\<And>f. f \<in> set (ph_flags p) \<Longrightarrow> \<exists>v. map_of given f = Some v \<and> validValue f v"
    and kube: "ce_getKubeClient env w = (Inr kc, w1)"
  shows "\<exists>s. ph_preRun p (createStateOf given w) = (None, s) \<and> cst_data s = createDataOf given"
proof -
  have str: "stringVar createFlagSet given f \<noteq> []"
    if "f \<in> set (ph_flags p)" "f \<noteq> flagServiceAccountTokenExpiration" for f
    using given [OF that(1)] validString that(2) by blast
  consider "p = createAadPhase env" | "p = createSaPhase env" | "p = createFicPhase env" | "p = createRaPhase env"
    using p by (auto simp: createPhases_def)
  then show ?thesis
  proof cases
    case 1
    then show ?thesis
      using str [of flagAADApplicationName]
      by (simp add: createAadPhase_def createAadPrerun_def createStateOf_def createDataOf_def
          createAADApplicationName_def flag_defs)
  next
    case 2
    have "\<And>v. map_of given flagServiceAccountTokenExpiration = Some v \<Longrightarrow> validValue flagServiceAccountTokenExpiration v"
      using given [of flagServiceAccountTokenExpiration] 2 by (auto simp: createSaPhase_def)
    note range = validExpiration [OF this]
    show ?thesis
      using 2 str [of flagServiceAccountName] str [of flagServiceAccountNamespace] range kube
      by (simp add: createSaPhase_def createSaPrerun_def createStateOf_def createDataOf_def not_less Let_def flag_defs)
  next
    case 3
    then show ?thesis
      using str [of flagServiceAccountName] str [of flagServiceAccountNamespace] str [of flagServiceAccountIssuerURL]
      by (simp add: createFicPhase_def createFicPrerun_def createStateOf_def createDataOf_def Let_def flag_defs)
  next
    case 4
    then show ?thesis
      using str [of flagAzureScope] str [of flagAzureRole] str [of flagServicePrincipalName]
      by (simp add: createRaPhase_def createRaPrerun_def createStateOf_def createDataOf_def
          createServicePrincipalName_def Let_def flag_defs)
  qed
qed

lemma createPhase_flags_defined:
  "p \<in> set (createPhases env) \<Longrightarrow> set (ph_flags p) \<subseteq> cf_name ` set createFlagSet"
  by (auto simp: create_phase_defs createFlagSet_def cliFlag_def)

lemma runPhaseCommand_ready:
  assumes "rn_skipPhases r = []" and "ph_preRun p s = (None, s1)"
  shows "runPhaseCommand r p s =
    (case ph_run p s1 of
       (Some e, s2) \<Rightarrow> (Some (WrapError (''failed to run phase '' @ ph_name p) e), s2)
     | (None, s2) \<Rightarrow> (None, s2))"
  using assms
  by (simp add: runPhaseCommand_def Run_def computeSkipPhases_def activePhases_def Let_def split: prod.split option.split)

text \<open>
  The subcommand of a phase can be used with the flags it inherits.  Every flag that a
  phase of create lists is a flag of the command, and when a command line gives each of them
  (and no other) a value that its check accepts, the library accepts the command line, the
  check passes, and the action of this phase and of no other runs on the data that was
  given; its error is the error of the command.
\<close>

theorem phase_subcommand:
  assumes p: "p \<in> set (createPhases env)"
    and given: "\<And>f. f \<in> set (ph_flags p) \<Longrightarrow> \<exists>v. map_of given f = Some v \<and> validValue f v"
    and only: "fst ` set given \<subseteq> set (ph_flags p)"
    and kube: "ce_getKubeClient env w = (Inr kc, w1)"
  shows "\<exists>s. cst_data s = createDataOf given \<and>
    createPhaseMain env p given w =
      Some (case ph_run p s of
              (Some e, s2) \<Rightarrow> (Some (WrapError (''failed to run phase '' @ ph_name p) e), s2)
            | (None, s2) \<Rightarrow> (None, s2))"
proof -
  obtain s where pre: "ph_preRun p (createStateOf given w) = (None, s)" and data: "cst_data s = createDataOf given"
    using createPrerun_satisfied [OF p given kube] by blast
  have "fst ` set given \<subseteq> set (phaseFlagNames createFlagSet p)"
    using only createPhase_flags_defined [OF p] by (auto simp: phaseFlagNames_set)
  then show ?thesis
    using data runPhaseCommand_ready [OF _ pre]
    by (auto simp: createPhaseMain_def createPhaseCommand_def createRunner_def)
qed

theorem phase_subcommand_witness:
  "\<exists>s. cst_data s = createDataOf [(''aad-application-name'', FlagString ''app'')] \<and>
    createPhaseMain demoCliEnv (createAadPhase demoCliEnv) [(''aad-application-name'', FlagString ''app'')] (False, False) =
      Some (case ph_run (createAadPhase demoCliEnv) s of
              (Some e, s2) \<Rightarrow> (Some (WrapError (''failed to run phase '' @ ph_name (createAadPhase demoCliEnv)) e), s2)
            | (None, s2) \<Rightarrow> (None, s2))"
proof (rule phase_subcommand)
  show "createAadPhase demoCliEnv \<in> set (createPhases demoCliEnv)" by (simp add: createPhases_def)
  show "\<exists>v. map_of [(''aad-application-name'', FlagString ''app'')] f = Some v \<and> validValue f v"
    if "f \<in> set (ph_flags (createAadPhase demoCliEnv))" for f
    using that by (simp add: createAadPhase_def validValue_def flag_defs)
  show "fst ` set [(''aad-application-name'', FlagString ''app'')] \<subseteq> set (ph_flags (createAadPhase demoCliEnv))"
    by (simp add: createAadPhase_def flag_defs)
  show "ce_getKubeClient demoCliEnv (False, False) = (Inr demoKube, (False, False))"
    by (simp add: demoCliEnv_def)
qed

text \<open>The command line of create with the flags that have no default.\<close>

definition minimalCreate :: "string \<Rightarrow> string \<Rightarrow> string \<Rightarrow> string \<Rightarrow> given_flags" where
  "minimalCreate n issuerURL scope role =
     [(flagServiceAccountName, FlagString n), (flagServiceAccountIssuerURL, FlagString issuerURL),
      (flagAzureScope, FlagString scope), (flagAzureRole, FlagString role)]"

lemma minimalCreate_data:
  "cd_serviceAccountName (createDataOf (minimalCreate n i sc r)) = n"
  "cd_serviceAccountNamespace (createDataOf (minimalCreate n i sc r)) = ''default''"
  "cd_serviceAccountIssuerURL (createDataOf (minimalCreate n i sc r)) = i"
  "cd_serviceAccountTokenExpiration (createDataOf (minimalCreate n i sc r)) = DefaultServiceAccountTokenExpiration * second"
  "cd_azureScope (createDataOf (minimalCreate n i sc r)) = sc"
  "cd_azureRole (createDataOf (minimalCreate n i sc r)) = r"
  "cd_aadApplicationName (createDataOf (minimalCreate n i sc r)) = []"
  "cd_servicePrincipalName (createDataOf (minimalCreate n i sc r)) = []"
  by (simp_all add: createDataOf_def minimalCreate_def stringVar_def durationVar_def flagVar_def
      createFlagSet_def cliFlag_def flag_defs)

text \<open>
  What the create command needs.  With a name, an issuer, a scope and a role (and a
  reachable cluster configuration) every check of the four phases passes, and the command
  is the run of the four actions in order; the account is in the namespace default, and the
  application and its service principal have the name derived from the account and the
  issuer.
\<close>

theorem create_minimal:
  assumes "n \<noteq> []" "issuerURL \<noteq> []" "scope \<noteq> []" "role \<noteq> []"
    and kube: "ce_getKubeClient env w = (Inr kc, w1)"
  shows "\<exists>s. createMain env (minimalCreate n issuerURL scope role) w = Some (runAll (createPhases env) s) \<and>
    cst_data s = createDataOf (minimalCreate n issuerURL scope role) \<and> cst_kube s = Some kc \<and> cst_world s = w1 \<and>
    cd_serviceAccountNamespace (cst_data s) = ''default'' \<and>
    createAADApplicationName (cst_data s) = ''default-'' @ n @ ''-'' @ GetIssuerHash issuerURL \<and>
    createServicePrincipalName (cst_data s) = ''default-'' @ n @ ''-'' @ GetIssuerHash issuerURL"
proof -
  define d where "d = createDataOf (minimalCreate n issuerURL scope role)"
  define s where "s = \<lparr> cst_data = d, cst_kube = Some kc, cst_world = w1 \<rparr>"
  have app: "createAADApplicationName d = ''default-'' @ n @ ''-'' @ GetIssuerHash issuerURL"
    and sp: "createServicePrincipalName d = ''default-'' @ n @ ''-'' @ GetIssuerHash issuerURL"
    using assms by (simp_all add: d_def createServicePrincipalName_def createAADApplicationName_def minimalCreate_data)
  have pre: "preRunAll (createPhases env) (createStateOf (minimalCreate n issuerURL scope role) w) = (None, s)"
    using assms app sp expiration_range_default
    by (simp add: createPhases_def createAadPhase_def createSaPhase_def createFicPhase_def createRaPhase_def
        createAadPrerun_def createSaPrerun_def createFicPrerun_def createRaPrerun_def createStateOf_def Let_def
        flip: d_def, simp add: d_def minimalCreate_data second_def s_def)
  have skips: "sliceVar [skipPhasesFlag] (minimalCreate n issuerURL scope role) ''skip-phases'' = []"
    by (simp add: sliceVar_default minimalCreate_def flag_defs skipPhasesFlag_def)
  have acc: "accepted (skipPhasesFlag # createFlagSet) [] (minimalCreate n issuerURL scope role)"
    by (simp add: accepted_def minimalCreate_def createFlagSet_def cliFlag_def)
  have "createMain env (minimalCreate n issuerURL scope role) w = Some (runAll (createPhases env) s)"
    using acc skips pre
    by (simp add: createMain_def createCommand_def createRunner_def Run_def computeSkipPhases_def activePhases_def
        bindSkipFlag_def AppendPhases_def NewPhaseRunner_def Let_def)
  then show ?thesis
    using app sp by (intro exI [of _ s]) (simp add: s_def d_def minimalCreate_data)
qed

theorem create_minimal_witness:
  "\<exists>s. createMain demoCliEnv (minimalCreate ''sa'' ''https://issuer'' ''/'' ''Reader'') (False, False) =
      Some (runAll (createPhases demoCliEnv) s) \<and> cst_kube s = Some demoKube"
  using create_minimal [of "''sa''" "''https://issuer''" "''/''" "''Reader''" demoCliEnv "(False, False)" demoKube "(False, False)"]
  by (auto simp: demoCliEnv_def)

end
