(* ===== verification/Command_Tree.thy ===== *)
theory Command_Tree
  imports Sa_Commands Process_Info
begin

section \<open>The tree of azwi's commands (pkg/cmd, pkg/cmd/serviceaccount, pkg/cmd/podidentity, ...)\<close>

text \<open>
  The commands as their constructors build them: names, aliases, help, the flags of the
  command itself and those that its subcommands inherit, and the subcommands in the order in
  which they are added.  What a command does is in \<open>Sa_Commands\<close>.  The flag library panics
  on a flag that a command defines twice, and a name or a shorthand that a command and one
  above it define would hide one of them; so the tree has to be free of both.
\<close>

text \<open>What running a command does: its action, the usage text (\<open>cmd.Usage\<close>), or nothing that it defines.\<close>

datatype command_run = RunsAction | ShowsUsage | NoRun

datatype azwi_command = AzwiCommand (cmdUse: string) (cmdAliases: "string list") (cmdShort: string)
  (cmdLong: string) (cmdRun: command_run) (cmdFlags: "cli_flag list") (cmdPersistent: "cli_flag list")
  (cmdSubcommands: "azwi_command list")

subsection \<open>The constructors\<close>

definition NewVersionCmd :: azwi_command where
  "NewVersionCmd =
     AzwiCommand ''version'' [] ''Print the version of azwi'' ''Print the version of azwi'' RunsAction [] [] []"

definition NewJWKSCmd :: azwi_command where
  "NewJWKSCmd =
     AzwiCommand ''jwks'' [] ''JSON Web Key Sets for the service account issuer keys''
       ''This command provides the ability to generate a JSON Web Key Sets (JWKS) for the service account issuer keys''
       RunsAction jwksFlagSet [] []"

definition newDetectCmd :: azwi_command where
  "newDetectCmd =
     AzwiCommand ''detect'' [] ''Detect the existing aad-pod-identity configuration''
       ''This command will detect the existing aad-pod-identity configuration and generate a sample configuration file for migration to workload identity''
       RunsAction detectFlagSet [] []"

definition NewPodIdentityCmd :: azwi_command where
  "NewPodIdentityCmd =
     AzwiCommand ''podidentity'' [''pi''] ''Configuration created for aad-pod-identity''
       ''Configuration created for aad-pod-identity'' ShowsUsage [] [] [newDetectCmd]"

text \<open>
  What \<open>BindToCommand\<close> adds to a command that runs phases: the flag, the help, and the command
  \<open>phase\<close> with a subcommand for each of them, which inherits its flags.
\<close>

definition flagsNamed :: "cli_flag list \<Rightarrow> string list \<Rightarrow> cli_flag list" where
  "flagsNamed flags names = filter (\<lambda>f. cf_name f \<in> set names) flags"

definition bindPhases :: "string \<Rightarrow> cli_flag list \<Rightarrow> 'w phase list \<Rightarrow> azwi_command" where
  "bindPhases use flags phases =
     (let allFlags = flags @ [skipPhasesFlag];
          (r, cmd, subs) = BindToCommand (AppendPhases NewPhaseRunner phases)
            \<lparr> cc_use = use, cc_aliases = [], cc_short = [], cc_long = [], cc_flags = map cf_name flags \<rparr>
      in AzwiCommand (cc_use cmd) (cc_aliases cmd) (cc_short cmd) (cc_long cmd) RunsAction allFlags []
           [AzwiCommand ''phase'' []
              (''The '' @ [CHR 0x22] @ ''phase'' @ [CHR 0x22] @ '' command invokes a single phase of the '' @ use @ '' workflow'')
              [] NoRun [] []
              (map (\<lambda>c. AzwiCommand (cc_use c) (cc_aliases c) (cc_short c) (cc_long c) RunsAction
                 (flagsNamed allFlags (cc_flags c)) [] []) subs)])"

definition newCreateCmd :: "'w cli_env \<Rightarrow> azwi_command" where
  "newCreateCmd env = bindPhases ''create'' createFlagSet (createPhases env)"

definition newDeleteCmd :: "'w cli_env \<Rightarrow> azwi_command" where
  "newDeleteCmd env = bindPhases ''delete'' deleteFlagSet (deletePhases env)"

definition NewServiceAccountCmd :: "'w cli_env \<Rightarrow> azwi_command" where
  "NewServiceAccountCmd env =
     AzwiCommand ''serviceaccount'' [''sa''] ''Manage the workload identity'' ''Manage the workload identity''
       ShowsUsage [] authFlags [newCreateCmd env, newDeleteCmd env]"

definition rootName :: string where "rootName = ''azwi''"

definition rootShortDescription :: string where
  "rootShortDescription = ''azwi helps to manage workload identity''"

definition rootLongDescription :: string where
  "rootLongDescription = rootShortDescription @ '' in Azure.''"

definition NewRootCmd :: "'w cli_env \<Rightarrow> azwi_command" where
  "NewRootCmd env =
     AzwiCommand rootName [] rootShortDescription rootLongDescription ShowsUsage [] rootFlags
       [NewVersionCmd, NewServiceAccountCmd env, NewJWKSCmd, NewPodIdentityCmd]"

subsection \<open>Every command can be named, and every flag means one thing\<close>

definition commandNames :: "azwi_command \<Rightarrow> string list" where
  "commandNames c = cmdUse c # cmdAliases c"

definition shorthands :: "cli_flag list \<Rightarrow> string list" where
  "shorthands flags = filter (\<lambda>s. s \<noteq> []) (map cf_shorthand flags)"

text \<open>
  A tree under flags that are inherited: no two commands of a level share a name or an alias,
  the flags that a command sees, its own and the inherited, differ in names and in
  shorthands, and a command without an action has subcommands.
\<close>

fun wellNamed :: "cli_flag list \<Rightarrow> azwi_command \<Rightarrow> bool" where
  "wellNamed inherited (AzwiCommand use aliases short long run flags persistent subs) \<longleftrightarrow>
     use \<noteq> [] \<and> distinct (concat (map commandNames subs)) \<and>
     distinct (map cf_name (inherited @ persistent @ flags)) \<and>
     distinct (shorthands (inherited @ persistent @ flags)) \<and>
     (run = RunsAction \<or> subs \<noteq> []) \<and>
     (\<forall>c \<in> set subs. wellNamed (inherited @ persistent) c)"

lemma bindPhases_eq:
  "bindPhases use flags phases =
     AzwiCommand use [] (use @ '' a workload identity'') (bindLong use [] phases) RunsAction (flags @ [skipPhasesFlag]) []
       [AzwiCommand ''phase'' []
          (''The '' @ [CHR 0x22] @ ''phase'' @ [CHR 0x22] @ '' command invokes a single phase of the '' @ use @ '' workflow'')
          [] NoRun [] []
          (map (\<lambda>p. AzwiCommand (ph_name p) (ph_aliases p) (ph_description p) [] RunsAction
             (flagsNamed (flags @ [skipPhasesFlag])
                (inheritsFlags (map cf_name flags @ [''skip-phases'']) (ph_flags p))) [] []) phases)]"
  by (simp add: bindPhases_def BindToCommand_def AppendPhases_def NewPhaseRunner_def phaseSubcommand_def Let_def)

lemma flagsNamed_distinct:
  assumes "distinct (map cf_name (xs @ flags))" and "distinct (shorthands (xs @ flags))"
  shows "distinct (map cf_name (xs @ flagsNamed flags names)) \<and> distinct (shorthands (xs @ flagsNamed flags names))"
proof -
  have "distinct (map cf_name (flagsNamed flags names))" "distinct (shorthands (flagsNamed flags names))"
    using assms by (auto simp: flagsNamed_def shorthands_def filter_map distinct_map intro: inj_on_subset)
  then show ?thesis using assms by (auto simp: flagsNamed_def shorthands_def)
qed

lemma wellNamed_bindPhases:
  assumes "use \<noteq> []" "phases \<noteq> []" "distinct (concat (map (\<lambda>p. ph_name p # ph_aliases p) phases))" "[] \<notin> ph_name ` set phases"
    and "distinct (map cf_name (inherited @ flags @ [skipPhasesFlag]))" "distinct (shorthands (inherited @ flags @ [skipPhasesFlag]))"
  shows "wellNamed inherited (bindPhases use flags phases)"
proof -
  have "concat (map (commandNames \<circ> (\<lambda>p. AzwiCommand (ph_name p) (ph_aliases p) (s p) [] RunsAction (f p) [] [])) phases)
      = concat (map (\<lambda>p. ph_name p # ph_aliases p) phases)" for s f
    by (simp add: commandNames_def comp_def)
  moreover have "distinct (map cf_name inherited)" "distinct (shorthands inherited)"
    using assms(5,6) by (auto simp: shorthands_def)
  moreover have "ph_name p \<noteq> []" if "p \<in> set phases" for p using assms(4) that by force
  ultimately show ?thesis
    unfolding bindPhases_eq
    using assms flagsNamed_distinct [OF assms(5,6)]
    by (auto simp: commandNames_def)
qed

lemmas flag_set_defs = rootFlags_def authFlags_def createFlagSet_def deleteFlagSet_def detectFlagSet_def jwksFlagSet_def
  skipPhasesFlag_def cliFlag_def cliFlagP_def flag_defs shorthands_def

text \<open>
  The commands of azwi are well named: at every level of the tree no two commands share a name
  or an alias, and no flag of a command has the name or the shorthand of another of its flags
  or of one that it inherits from the commands above it.  A command without an action of its
  own leads to others.
\<close>

theorem commands_well_named: "wellNamed [] (NewRootCmd env)"
proof -
  have version: "wellNamed rootFlags NewVersionCmd" and jwks: "wellNamed rootFlags NewJWKSCmd"
    and pi: "wellNamed rootFlags NewPodIdentityCmd"
    by (simp_all add: NewVersionCmd_def NewJWKSCmd_def NewPodIdentityCmd_def newDetectCmd_def commandNames_def flag_set_defs)
  have create: "wellNamed (rootFlags @ authFlags) (newCreateCmd env)"
    unfolding newCreateCmd_def
    by (rule wellNamed_bindPhases) (simp_all add: create_phase_defs phase_names flag_set_defs)
  have delete: "wellNamed (rootFlags @ authFlags) (newDeleteCmd env)"
    unfolding newDeleteCmd_def
    by (rule wellNamed_bindPhases) (simp_all add: delete_phase_defs phase_names flag_set_defs)
  have names: "commandNames (newCreateCmd env) = [''create'']" "commandNames (newDeleteCmd env) = [''delete'']"
    by (simp_all add: newCreateCmd_def newDeleteCmd_def bindPhases_eq commandNames_def)
  have sa: "wellNamed rootFlags (NewServiceAccountCmd env)"
    using create delete by (simp add: NewServiceAccountCmd_def names) (simp add: flag_set_defs)
  show ?thesis
    using version jwks pi sa
    by (simp add: NewRootCmd_def rootName_def commandNames_def NewVersionCmd_def NewJWKSCmd_def NewPodIdentityCmd_def
        NewServiceAccountCmd_def flag_set_defs)
qed

end
