(* ===== verification/Run_Data.thy ===== *)
theory Run_Data
  imports Sa_Delete_Correct
begin

section \<open>The data that the runner passes to the phases (phases/create/data.go, phases/delete/data.go)\<close>

text \<open>
  The runner takes its data as a value of any type (\<open>RunData\<close>), and every phase asserts that
  it has the interface of its command: the check returns an error for other data, the action
  panics.  The theories of the two commands have the phases over the data of the command;
  here the assertions are added, and the runs of the two are the same.
\<close>

subsection \<open>Interfaces and the types that implement them\<close>

text \<open>The methods of an interface and of a type, by name, in the order of their declarations.\<close>

definition CreateData_methods :: "string list" where
  "CreateData_methods =
     [''ServiceAccountName'', ''ServiceAccountNamespace'', ''ServiceAccountIssuerURL'',
      ''ServiceAccountTokenExpiration'', ''AADApplication'', ''AADApplicationName'', ''AADApplicationClientID'',
      ''AADApplicationObjectID'', ''ServicePrincipal'', ''ServicePrincipalName'', ''ServicePrincipalObjectID'',
      ''AzureRole'', ''AzureScope'', ''AzureTenantID'', ''AzureClient'', ''KubeClient'']"

definition DeleteData_methods :: "string list" where
  "DeleteData_methods =
     [''ServiceAccountName'', ''ServiceAccountNamespace'', ''ServiceAccountIssuerURL'', ''AADApplication'',
      ''AADApplicationName'', ''AADApplicationObjectID'', ''RoleAssignmentID'', ''AzureClient'', ''KubeClient'']"

definition createData_methods :: "string list" where
  "createData_methods =
     [''ServiceAccountName'', ''ServiceAccountNamespace'', ''ServiceAccountIssuerURL'',
      ''ServiceAccountTokenExpiration'', ''AADApplication'', ''AADApplicationName'', ''AADApplicationClientID'',
      ''AADApplicationObjectID'', ''ServicePrincipal'', ''ServicePrincipalName'', ''ServicePrincipalObjectID'',
      ''AzureRole'', ''AzureScope'', ''AzureTenantID'', ''AzureClient'', ''KubeClient'']"

definition deleteData_methods :: "string list" where
  "deleteData_methods =
     [''ServiceAccountName'', ''ServiceAccountNamespace'', ''ServiceAccountIssuerURL'', ''AADApplication'',
      ''AADApplicationName'', ''AADApplicationObjectID'', ''RoleAssignmentID'', ''AzureClient'', ''KubeClient'']"

text \<open>The values that are passed: the state of one of the two commands, or anything else, with its type.\<close>

datatype 'w run_data =
    CreateRun "'w create_state"
  | DeleteRun "'w delete_state"
  | OtherRun (otherType: string) (otherMethods: "string list")

fun typeName :: "'w run_data \<Rightarrow> string" where
  "typeName (CreateRun s) = ''*serviceaccount.createData''"
| "typeName (DeleteRun s) = ''*serviceaccount.deleteData''"
| "typeName (OtherRun t ms) = t"

fun methodsOf :: "'w run_data \<Rightarrow> string list" where
  "methodsOf (CreateRun s) = createData_methods"
| "methodsOf (DeleteRun s) = deleteData_methods"
| "methodsOf (OtherRun t ms) = ms"

text \<open>Whether \<open>data.(I)\<close> holds for an interface of the given methods.\<close>

definition implements :: "string list \<Rightarrow> 'w run_data \<Rightarrow> bool" where
  "implements methods d \<longleftrightarrow> set methods \<subseteq> set (methodsOf d)"

definition errInvalidDataType :: "'w run_data \<Rightarrow> go_error" where
  "errInvalidDataType d = GoError (''invalid data type '' @ typeName d)"

definition typeAssertionPanic :: go_error where
  "typeAssertionPanic = GoPanic ''interface conversion: missing method''"

subsection \<open>A phase over any data\<close>

text \<open>
  \<open>get\<close> and \<open>put\<close> take the state of the command out of the data that passes the assertion and
  put it back.
\<close>

definition overRunData ::
  "string list \<Rightarrow> ('w run_data \<Rightarrow> 's) \<Rightarrow> ('s \<Rightarrow> 'w run_data) \<Rightarrow> 's phase \<Rightarrow> 'w run_data phase" where
  "overRunData iface get put p = \<lparr>
     ph_name = ph_name p,
     ph_aliases = ph_aliases p,
     ph_description = ph_description p,
     ph_preRun = (\<lambda>d.
       if \<not> implements iface d then (Some (errInvalidDataType d), d)
       else case ph_preRun p (get d) of (r, s) \<Rightarrow> (r, put s)),
     ph_run = (\<lambda>d.
       if \<not> implements iface d then (Some typeAssertionPanic, d)
       else case ph_run p (get d) of (r, s) \<Rightarrow> (r, put s)),
     ph_flags = ph_flags p \<rparr>"

fun createState :: "'w run_data \<Rightarrow> 'w create_state" where
  "createState (CreateRun s) = s"
| "createState d = undefined"

fun deleteState :: "'w run_data \<Rightarrow> 'w delete_state" where
  "deleteState (DeleteRun s) = s"
| "deleteState d = undefined"

definition createOverRunData :: "'w create_state phase \<Rightarrow> 'w run_data phase" where
  "createOverRunData = overRunData CreateData_methods createState CreateRun"

definition deleteOverRunData :: "'w delete_state phase \<Rightarrow> 'w run_data phase" where
  "deleteOverRunData = overRunData DeleteData_methods deleteState DeleteRun"

subsection \<open>The assertions hold in the runs of the commands\<close>

text \<open>The contract: the data that a command passes has the interface of its phases.\<close>

locale run_data_view =
  fixes iface :: "string list"
    and get :: "'w run_data \<Rightarrow> 's"
    and put :: "'s \<Rightarrow> 'w run_data"
  assumes put_implements: "implements iface (put s)"
    and get_put: "get (put s) = s"
begin

lemma preRun_over: "ph_preRun (overRunData iface get put p) (put s) = map_prod id put (ph_preRun p s)"
  by (simp add: overRunData_def put_implements get_put map_prod_def)

lemma run_over: "ph_run (overRunData iface get put p) (put s) = map_prod id put (ph_run p s)"
  by (simp add: overRunData_def put_implements get_put map_prod_def)

lemma name_over: "ph_name (overRunData iface get put p) = ph_name p"
  by (simp add: overRunData_def)

lemma preRunAll_over:
  "preRunAll (map (overRunData iface get put) ps) (put s) = map_prod id put (preRunAll ps s)"
  by (induction ps arbitrary: s) (auto simp: preRun_over name_over split: prod.splits option.splits)

lemma runAll_over:
  "runAll (map (overRunData iface get put) ps) (put s) = map_prod id put (runAll ps s)"
  by (induction ps arbitrary: s) (auto simp: run_over name_over split: prod.splits option.splits)

lemma Run_over:
  "Run \<lparr> rn_skipPhases = skips, rn_phases = map (overRunData iface get put) ps \<rparr> (put s) =
   map_prod id put (Run \<lparr> rn_skipPhases = skips, rn_phases = ps \<rparr> s)"
proof -
  have names: "map ph_name (map (overRunData iface get put) ps) = map ph_name ps" by (simp add: name_over)
  have active: "activePhases skip (map (overRunData iface get put) ps) = map (overRunData iface get put) (activePhases skip ps)"
    for skip by (simp add: activePhases_def filter_map comp_def name_over)
  show ?thesis
    unfolding Run_def computeSkipPhases_def runner.select_convs names active
    by (auto simp: preRunAll_over runAll_over Let_def split: sum.split prod.splits option.splits)
qed

text \<open>Data without the interface is refused by the check of the first phase that is to run.\<close>

lemma Run_refuses:
  assumes "\<not> implements iface d" and "computeSkipLoop (map ph_name ps) skips {} = Inr skip" and "activePhases skip ps = p # qs"
  shows "Run \<lparr> rn_skipPhases = skips, rn_phases = map (overRunData iface get put) ps \<rparr> d =
    (Some (WrapError (''failed to run pre-run for phase '' @ ph_name p) (errInvalidDataType d)), d)"
proof -
  have names: "map ph_name (map (overRunData iface get put) ps) = map ph_name ps" by (simp add: name_over)
  have active: "activePhases skip (map (overRunData iface get put) ps) =
      overRunData iface get put p # map (overRunData iface get put) qs"
    using assms(3) by (simp add: activePhases_def filter_map comp_def name_over)
  have "ph_preRun (overRunData iface get put p) d = (Some (errInvalidDataType d), d)"
    using assms(1) by (simp add: overRunData_def)
  then have "preRunAll (overRunData iface get put p # map (overRunData iface get put) qs) d =
      (Some (WrapError (''failed to run pre-run for phase '' @ ph_name p) (errInvalidDataType d)), d)"
    by (simp add: name_over)
  then show ?thesis
    unfolding Run_def computeSkipPhases_def runner.select_convs names assms(2) sum.case Let_def active by simp
qed

end

interpretation create_view: run_data_view CreateData_methods createState CreateRun
  by unfold_locales (simp_all add: implements_def createData_methods_def CreateData_methods_def)

interpretation delete_view: run_data_view DeleteData_methods deleteState DeleteRun
  by unfold_locales (simp_all add: implements_def deleteData_methods_def DeleteData_methods_def)

lemma interfaces_differ: "\<not> implements CreateData_methods (DeleteRun d)" "\<not> implements DeleteData_methods (CreateRun s)"
  by (simp_all add: implements_def createData_methods_def CreateData_methods_def deleteData_methods_def DeleteData_methods_def)

lemma createRunner_eq: "createRunner env skips = \<lparr> rn_skipPhases = skips, rn_phases = createPhases env \<rparr>"
  by (simp add: createRunner_def bindSkipFlag_def AppendPhases_def NewPhaseRunner_def)

text \<open>
  The assertions of the phases never fail in a run of the create command: over the data of
  any type, the runner with the data of the command does what it does over the state of the
  command.  Given the data of the other command, it changes nothing and reports the type, in
  the check of the first phase.
\<close>

theorem create_data_type:
  "Run \<lparr> rn_skipPhases = skips, rn_phases = map createOverRunData (createPhases env) \<rparr> (CreateRun s) =
     map_prod id CreateRun (createCommand env skips s) \<and>
   Run \<lparr> rn_skipPhases = [], rn_phases = map createOverRunData (createPhases env) \<rparr> (DeleteRun d) =
     (Some (WrapError (''failed to run pre-run for phase '' @ aadApplicationPhaseName)
        (GoError ''invalid data type *serviceaccount.deleteData'')), DeleteRun d)"
proof
  show "Run \<lparr> rn_skipPhases = skips, rn_phases = map createOverRunData (createPhases env) \<rparr> (CreateRun s) =
     map_prod id CreateRun (createCommand env skips s)"
    unfolding createOverRunData_def create_view.Run_over createCommand_def createRunner_eq ..
  have "activePhases {} (createPhases env) = createAadPhase env # [createSaPhase env, createFicPhase env, createRaPhase env]"
    by (simp add: activePhases_def createPhases_def)
  from create_view.Run_refuses [OF interfaces_differ(1) _ this]
  show "Run \<lparr> rn_skipPhases = [], rn_phases = map createOverRunData (createPhases env) \<rparr> (DeleteRun d) =
     (Some (WrapError (''failed to run pre-run for phase '' @ aadApplicationPhaseName)
        (GoError ''invalid data type *serviceaccount.deleteData'')), DeleteRun d)"
    by (simp add: createOverRunData_def createAadPhase_def errInvalidDataType_def)
qed

lemma delete_over_run_data:
  "Run \<lparr> rn_skipPhases = skips, rn_phases = map deleteOverRunData ps \<rparr> (DeleteRun s) =
     map_prod id DeleteRun (Run \<lparr> rn_skipPhases = skips, rn_phases = ps \<rparr> s)"
  unfolding deleteOverRunData_def by (rule delete_view.Run_over)

end
