(* ===== verification/Azwi.thy ===== *)
theory Azwi
  imports Command_Tree Run_Data Directory_Correct
begin

section \<open>azwi serviceaccount create, from the command line to the exchanged token\<close>

text \<open>
  The process: the flags, the check of the authentication options, which makes the provider's
  client and finds the tenant, and the create command over that client.  \<open>sdkOf\<close> are the calls
  of the SDK that a client was built for.
\<close>

subsection \<open>The provider and the command\<close>

definition GetAzureClient :: "'cred auth_args \<Rightarrow> 'cred built_client option" where
  "GetAzureClient args = aa_azureClient args"

definition GetAzureTenantID :: "'cred auth_args \<Rightarrow> string" where
  "GetAzureTenantID args = aa_tenantID args"

record ('w, 'cred) azwi_process =
  zp_setLevel :: "log_level \<Rightarrow> 'w \<Rightarrow> go_error option \<times> 'w"
  zp_authEnv :: "'w auth_env"
  zp_sdkOf :: "'cred built_client \<Rightarrow> 'w azure_sdk"
  zp_getKubeClient :: "('w, 'w kube_client) io"
  zp_errText :: "go_error \<Rightarrow> string"
  zp_build :: build_info

text \<open>\<open>AzureClient\<close>, \<open>AzureTenantID\<close> and \<open>KubeClient\<close> of the data, for a provider with a client.\<close>

definition providerEnv :: "('w, 'cred) azwi_process \<Rightarrow> 'cred built_client \<Rightarrow> 'cred auth_args \<Rightarrow> 'w cli_env" where
  "providerEnv z client args = \<lparr> ce_azure = AzureClient (zp_sdkOf z client), ce_tenantID = GetAzureTenantID args,
     ce_getKubeClient = zp_getKubeClient z, ce_errText = zp_errText z,
     ce_buildVersion = bi_buildVersion (zp_build z), ce_vcs = bi_vcs (zp_build z) \<rparr>"

definition createProcessFlags :: "cli_flag list" where
  "createProcessFlags = rootFlags @ authFlags @ skipPhasesFlag # createFlagSet"

text \<open>
  What \<open>Execute\<close> runs for \<open>serviceaccount create\<close>: the check, then the action; \<open>None\<close> is a
  command line that the library refuses.  An action without a client would dereference nil.
\<close>

definition createExecute ::
  "('w, 'cred) azwi_process \<Rightarrow> ('w, 'cert, 'key, 'cred) client_sdk \<Rightarrow> given_flags \<Rightarrow> 'w \<Rightarrow> (go_error option \<times> 'w) option" where
  "createExecute z csdk given w =
     (if \<not> accepted createProcessFlags [] given then None
      else case serviceAccountPreRun (zp_setLevel z) (zp_authEnv z) csdk (boolVar rootFlags given ''debug'')
                  (authArgsOf given) w of
             ((Some e, args), w1) \<Rightarrow> Some (Some e, w1)
           | ((None, args), w1) \<Rightarrow>
               (case GetAzureClient args of
                  None \<Rightarrow> Some (Some nilClient, w1)
                | Some client \<Rightarrow>
                    (case createCommand (providerEnv z client args) (sliceVar [skipPhasesFlag] given ''skip-phases'')
                            (createStateOf given w1) of
                       (r, s) \<Rightarrow> Some (r, cst_world s))))"

definition createProcess ::
  "('w, 'cred) azwi_process \<Rightarrow> ('w, 'cert, 'key, 'cred) client_sdk \<Rightarrow> given_flags \<Rightarrow> 'w \<Rightarrow> (int \<times> 'w) option" where
  "createProcess z csdk given w =
     (case createExecute z csdk given w of
        None \<Rightarrow> None
      | Some (r, w1) \<Rightarrow> Some (azwiMain (\<lambda>_. (r, w1)) w1))"

subsection \<open>What the exit status zero means\<close>

text \<open>
  The subscription that the process works in: the UUID of the flag, or, when the flag has none, the one
  that is selected in the Azure CLI; with the state after looking it up.
\<close>

definition subscriptionOf :: "'w auth_env \<Rightarrow> string \<Rightarrow> 'w \<Rightarrow> string \<times> 'w" where
  "subscriptionOf env raw w =
     (let u = fst (ae_uuidParse env raw) in
      if u \<noteq> nilUUID then (u, w)
      else case getSubFromAzDir env (filepathJoin [getHomeDir env, ''.azure'']) w of
             (Inr s, w1) \<Rightarrow> (s, w1)
           | (Inl e, w1) \<Rightarrow> (u, w1))"

lemma validateMethod_raw: "validateMethod env a0 = (r, a) \<Longrightarrow> aa_rawSubscriptionID a = aa_rawSubscriptionID a0"
  by (auto simp: validateMethod_def Let_def split: if_splits prod.splits option.splits)

lemma validateSubscription_found:
  assumes "validateSubscription env a w = ((None, a1), w1)"
  shows "subscriptionOf env (aa_rawSubscriptionID a) w = (aa_subscriptionID a1, w1) \<and> aa_subscriptionID a1 \<noteq> nilUUID"
  using assms by (auto simp: validateSubscription_def subscriptionOf_def Let_def split: if_splits prod.splits sum.splits)

lemma Validate_found:
  assumes "Validate env sdk a0 w = ((None, a), w1)"
  shows "\<exists>client sub w2 w3. aa_azureClient a = Some client \<and> bc_subscriptionID client = sub \<and>
    subscriptionOf env (aa_rawSubscriptionID a0) w = (sub, w2) \<and> sub \<noteq> nilUUID \<and>
    ae_getTenantID env sub w2 = (Inr (aa_tenantID a), w3)"
proof -
  obtain b b1 w2 e tenant w3 client w4 where b: "validateMethod env a0 = (None, b)"
    and b1: "validateSubscription env b w = ((None, b1), w2)"
    and t: "ae_getTenantID env (aa_subscriptionID b1) w2 = (Inr tenant, w3)"
    and c: "newClientOf sdk e (b1 \<lparr> aa_tenantID := tenant \<rparr>) w3 = (Inr client, w4)"
    and a: "a = b1 \<lparr> aa_tenantID := tenant, aa_azureClient := Some client \<rparr>"
    using assms by (auto simp: Validate_def Let_def split: prod.splits option.splits sum.splits)
  show ?thesis
    using newClientOf_built [OF c] t validateSubscription_found [OF b1] by (auto simp: a validateMethod_raw [OF b])
qed

lemma createExecute_ok:
  assumes "createExecute z csdk given w = Some (None, w')"
  shows "\<exists>args w1 client t. serviceAccountPreRun (zp_setLevel z) (zp_authEnv z) csdk (boolVar rootFlags given ''debug'')
      (authArgsOf given) w = ((None, args), w1) \<and> GetAzureClient args = Some client \<and>
    createCommand (providerEnv z client args) (sliceVar [skipPhasesFlag] given ''skip-phases'') (createStateOf given w1)
      = (None, t) \<and> w' = cst_world t"
  using assms by (auto simp: createExecute_def split: if_splits prod.splits option.splits)

text \<open>
  C4: The exit status of create.  When \<open>azwi serviceaccount create\<close> exits with zero, without
  skipping a phase and with derived names, then the account that the flags name is federated,
  over every directory and cluster that obey their laws: the account is in the cluster with
  the client id of the one application of the name, and the directory exchanges the account's
  tokens for that client.  The tenant of the account is the one that was found for the
  subscription of the process, that of the flag \<open>subscription-id\<close> or else the one selected in the
  Azure CLI, which is not nil; and the client that the check of the options built and handed to the command
  is a client for this same subscription.
\<close>

theorem create_process_federates:
  fixes z :: "('w, 'cred) azwi_process"
  assumes exit: "createProcess z csdk given w = Some (0, w')"
    and pre: "\<And>d a v. view (snd (serviceAccountPreRun (zp_setLevel z) (zp_authEnv z) csdk d a v)) = view v"
    and law: "\<And>client args. lawfulEnv eq (zp_sdkOf z client) view (providerEnv z client args)"
      "\<And>client. lookupsAnswered (zp_sdkOf z client)"
    and n: "CHR 0x27 \<notin> set n" "derivesIDs n (createDataOf given)" and all: "map_of given ''skip-phases'' = None"
    and d: "unambiguous eq n (view w)" "clashesServe eq n (createDataOf given) (view w)"
  shows "let c = createDataOf given; debug = boolVar rootFlags given ''debug'';
        (sub, v) = subscriptionOf (zp_authEnv z) (aa_rawSubscriptionID (authArgsOf given :: 'cred auth_args))
          (snd (rootPreRun (zp_setLevel z) debug w)) in
    (\<exists>a st. appsNamed eq n (view w') = {a} \<and>
      dir_accounts (view w') (createKey c) = Some st \<and> getClientID st = app_appId a \<and>
      sub \<noteq> nilUUID \<and> fst (ae_getTenantID (zp_authEnv z) sub v) = Inr (getTenantID st cfg) \<and>
      exchanges (view w') (app_appId a) (cd_serviceAccountIssuerURL c)
        (GetFederatedCredentialSubject (cd_serviceAccountNamespace c) (cd_serviceAccountName c)) DefaultAudience) \<and>
    (\<exists>args w1 client. serviceAccountPreRun (zp_setLevel z) (zp_authEnv z) csdk debug (authArgsOf given) w
        = ((None, args), w1) \<and> GetAzureClient args = Some client \<and> bc_subscriptionID client = sub)"
proof -
  let ?c = "createDataOf given"
  have "createExecute z csdk given w = Some (None, w')"
    using exit by (auto simp: createProcess_def azwiMain_def split: option.splits prod.splits)
  from createExecute_ok [OF this] obtain args w1 client t where run: "serviceAccountPreRun (zp_setLevel z) (zp_authEnv z) csdk
      (boolVar rootFlags given ''debug'') (authArgsOf given) w = ((None, args), w1)"
    and client: "GetAzureClient args = Some client"
    and create: "createCommand (providerEnv z client args) (sliceVar [skipPhasesFlag] given ''skip-phases'')
      (createStateOf given w1) = (None, t)" and w': "w' = cst_world t"
    by (elim exE conjE)
  have v1: "view w1 = view w" using pre [of "boolVar rootFlags given ''debug''" "authArgsOf given" w] run by simp
  have skips: "sliceVar [skipPhasesFlag] given ''skip-phases'' = []"
    using sliceVar_default [OF all] by (simp add: skipPhasesFlag_def)
  have s: "cst_data (createStateOf given w1) = ?c" "cst_world (createStateOf given w1) = w1"
    by (simp_all add: createStateOf_def)
  obtain a st where a: "appsNamed eq n (view w') = {a}" "dir_accounts (view w') (createKey ?c) = Some st"
    "sa_annotations st = sa_annotations (wantedAccount (providerEnv z client args) a ?c)"
    and x: "exchanges (view w') (app_appId a) (cd_serviceAccountIssuerURL ?c)
      (GetFederatedCredentialSubject (cd_serviceAccountNamespace ?c) (cd_serviceAccountName ?c)) DefaultAudience"
    using create_federates_app [OF law n(1), of "createStateOf given w1", unfolded s, OF n(2) _ _ create [unfolded skips]] d
    unfolding Let_def v1 w' by blast
  have st: "getClientID st = app_appId a" "getTenantID st cfg = aa_tenantID args"
    using a(3) newServiceAccount_reads
    by (simp_all add: getClientID_def getTenantID_def wantedAccount_def providerEnv_def GetAzureTenantID_def)
  obtain r v where root: "rootPreRun (zp_setLevel z) (boolVar rootFlags given ''debug'') w = (r, v)" by fastforce
  then have "Validate (zp_authEnv z) csdk (authArgsOf given) v = ((None, args), w1)"
    using run by (cases r) (simp_all add: serviceAccountPreRun_def)
  from Validate_found [OF this] client obtain w2 w3 where found:
    "subscriptionOf (zp_authEnv z) (aa_rawSubscriptionID (authArgsOf given :: 'cred auth_args)) v = (bc_subscriptionID client, w2)"
    "bc_subscriptionID client \<noteq> nilUUID"
    "ae_getTenantID (zp_authEnv z) (bc_subscriptionID client) w2 = (Inr (aa_tenantID args), w3)"
    by (auto simp: GetAzureClient_def)
  have tenant: "fst (ae_getTenantID (zp_authEnv z) (bc_subscriptionID client) w2) = Inr (getTenantID st cfg)"
    using found(3) st(2) by simp
  show ?thesis
    unfolding Let_def root snd_conv found(1) prod.case
    by (intro conjI exI [of _ a] exI [of _ st] a(1,2) st(1) found(2) tenant x)
      (intro exI conjI, rule run, rule client, rule refl)
qed

text \<open>A process on the concrete directory, with the secret of a client.\<close>

definition listProcess :: "(directory_lists, string) azwi_process" where
  "listProcess = \<lparr> zp_setLevel = (\<lambda>l w. (None, w)),
     zp_authEnv = \<lparr> ae_uuidParse = (\<lambda>s. (s, None)), ae_iniLoad = (\<lambda>f w. (Inl (GoError ''no file''), w)),
       ae_noSection = GoError, ae_noKey = GoError, ae_getenv = (\<lambda>v. ''/root''), ae_windows = False,
       ae_environmentFromName = (\<lambda>n. Inr PublicCloud), ae_getTenantID = (\<lambda>s w. (Inr ''tenant'', w)) \<rparr>,
     zp_sdkOf = (\<lambda>client. listSdk), zp_getKubeClient = (\<lambda>w. (Inr listKube, w)), zp_errText = (\<lambda>e. []),
     zp_build = \<lparr> bi_vcs = ''abc'', bi_buildTime = [], bi_buildVersion = ''v1'', bi_goVersion = [], bi_goos = [], bi_goarch = [] \<rparr> \<rparr>"

definition listClientSdk :: "(directory_lists, string, string, string) client_sdk" where
  "listClientSdk = \<lparr> sk_cliCredential = (\<lambda>w. (Inr ''cli'', w)),
     sk_secretCredential = (\<lambda>t c s w. (Inr ''secret'', w)), sk_certificateCredential = (\<lambda>t c x k w. (Inr ''certificate'', w)),
     sk_readFile = (\<lambda>f w. (Inr f, w)), sk_pemDecode = Some, sk_parseCertificate = Inr,
     sk_parsePKCS1PrivateKey = Inr, sk_parsePKCS8PrivateKey = (\<lambda>b. Inr (Some b)),
     sk_authProvider = (\<lambda>c s. Inr ()), sk_requestAdapter = (\<lambda>c. Inr ()),
     sk_roleAssignmentsClient = (\<lambda>s c. Inr ()), sk_roleDefinitionsClient = (\<lambda>c. Inr ()),
     sk_errText = (\<lambda>e. []) \<rparr>"

definition listGiven :: given_flags where
  "listGiven = [(''subscription-id'', FlagString ''sub''), (flagServiceAccountName, FlagString ''sa''),
     (flagServiceAccountNamespace, FlagString ''ns''), (flagServiceAccountIssuerURL, FlagString ''https://issuer''),
     (flagServiceAccountTokenExpiration, FlagDuration (7200 * second)), (flagAADApplicationName, FlagString ''app''),
     (flagAzureRole, FlagString ''Reader''), (flagAzureScope, FlagString ''/'')]"

lemma listGiven_data: "createDataOf listGiven = demoCreateData"
  by (simp add: createDataOf_def demoCreateData_def listGiven_def stringVar_def durationVar_def flagVar_def
      createFlagSet_def cliFlag_def flag_defs)

lemma list_env: "providerEnv listProcess client args = listEnv \<lparr> ce_tenantID := aa_tenantID args \<rparr>"
  by (simp add: providerEnv_def listProcess_def listEnv_def GetAzureTenantID_def)

lemma list_prerun:
  "\<exists>args client. serviceAccountPreRun (zp_setLevel listProcess) (zp_authEnv listProcess) listClientSdk
     (boolVar rootFlags listGiven ''debug'') (authArgsOf listGiven) w = ((None, args), w) \<and>
     GetAzureClient args = Some client \<and> aa_tenantID args = ''tenant''"
  by (simp add: serviceAccountPreRun_def rootPreRun_def Validate_def validateMethod_def validateSubscription_def Let_def
      newClientOf_def NewAzureClientWithCLI_def clientFrom_def getClient_def wrapResult_def listProcess_def
      listClientSdk_def authArgsOf_def stringVar_def flagVar_def listGiven_def authFlags_def cliFlag_def cliFlagP_def
      flag_defs cliAuthMethod_def clientSecretAuthMethod_def clientCertificateAuthMethod_def nilUUID_def GetAzureClient_def)

lemma list_process_exits: "createProcess listProcess listClientSdk listGiven emptyLists = Some (0, createdLists)"
proof -
  obtain args client where run: "serviceAccountPreRun (zp_setLevel listProcess) (zp_authEnv listProcess) listClientSdk
     (boolVar rootFlags listGiven ''debug'') (authArgsOf listGiven) emptyLists = ((None, args), emptyLists)"
    and args: "GetAzureClient args = Some client" "aa_tenantID args = ''tenant''"
    using list_prerun by blast
  have env: "providerEnv listProcess client args = listEnv" unfolding list_env args(2) by (simp add: listEnv_def)
  obtain t where t: "createCommand listEnv [] (listCreateState emptyLists) = (None, t)" "cst_world t = createdLists"
    using list_create_runs by blast
  have state: "createStateOf listGiven emptyLists = listCreateState emptyLists"
    by (simp add: createStateOf_def listCreateState_def listGiven_data)
  have skips: "sliceVar [skipPhasesFlag] listGiven ''skip-phases'' = []"
    by (simp add: sliceVar_def flagVar_def listGiven_def flag_defs skipPhasesFlag_def cliFlag_def)
  have "accepted createProcessFlags [] listGiven"
    by (simp add: accepted_def createProcessFlags_def listGiven_def flag_set_defs)
  then show ?thesis
    by (simp add: createProcess_def createExecute_def run args(1) env state skips t azwiMain_def)
qed

lemma list_prerun_keeps:
  "snd (serviceAccountPreRun (zp_setLevel listProcess) (zp_authEnv listProcess) listClientSdk d a v) = v"
  by (auto simp: serviceAccountPreRun_def rootPreRun_def Validate_def validateSubscription_def Let_def
      newClientOf_def NewAzureClientWithCLI_def NewAzureClientWithClientSecret_def
      NewAzureClientWithClientCertificateFile_def NewAzureClientWithClientCertificate_def parseRsaPrivateKey_def
      clientFrom_def getClient_def wrapResult_def getSubFromAzDir_def listProcess_def listClientSdk_def
      split: prod.splits option.splits sum.splits)

theorem create_process_federates_witness:
  "\<exists>a st. appsNamed (=) ''app'' (shows_lists createdLists) = {a} \<and>
     dir_accounts (shows_lists createdLists) (createKey demoCreateData) = Some st \<and> getTenantID st demoConfig = ''tenant'' \<and>
     exchanges (shows_lists createdLists) (app_appId a) ''https://issuer''
       (GetFederatedCredentialSubject ''ns'' ''sa'') DefaultAudience"
proof -
  have law: "lawfulEnv (=) (zp_sdkOf listProcess client) shows_lists (providerEnv listProcess client args)"
    "lookupsAnswered (zp_sdkOf listProcess client)" for client args
    using list_services_lawful list_lookups_answered
    by (simp_all add: list_env lawfulEnv_def) (simp_all add: listProcess_def)
  have ids: "derivesIDs ''app'' (createDataOf listGiven)"
    using list_create_premises(4) by (simp add: listGiven_data listCreateState_def)
  have all: "map_of listGiven ''skip-phases'' = None" by (simp add: listGiven_def flag_defs)
  have data: "cd_serviceAccountIssuerURL demoCreateData = ''https://issuer''"
    "cd_serviceAccountNamespace demoCreateData = ''ns''" "cd_serviceAccountName demoCreateData = ''sa''"
    by (simp_all add: demoCreateData_def)
  have pre: "shows_lists (snd (serviceAccountPreRun (zp_setLevel listProcess) (zp_authEnv listProcess) listClientSdk d a v)) =
      shows_lists v" for d a v
    by (simp only: list_prerun_keeps)
  have tenant: "fst (ae_getTenantID (zp_authEnv listProcess) sub v) = Inr ''tenant''" for sub v
    by (simp add: listProcess_def)
  show ?thesis
    using create_process_federates [OF list_process_exits pre law list_create_premises(3) ids all
        list_create_premises(5,6), of demoConfig]
    unfolding Let_def listGiven_data data by (auto simp: tenant split: prod.splits)
qed

end
