(* ===== verification/Detect_Correct.thy ===== *)
theory Detect_Correct
  imports Detect
begin

section \<open>What detect guarantees\<close>

text \<open>
  Which identity a selector is mapped to, what the written workload and service account
  contain and what the webhook makes of them, and when the search for the top owner of a
  pod returns.
\<close>

subsection \<open>A concrete command\<close>

text \<open>
  A cluster with a deployment \<open>web\<close> that owns a replica set \<open>web-1\<close>, or, in the second
  cluster, a replica set that is its own controller.
\<close>

definition demoTemplate :: template_spec where
  "demoTemplate = \<lparr> ts_template = \<lparr> pt_spec = \<lparr> ps_serviceAccountName = ''default'', ps_hostNetwork = False,
     ps_initContainers = [], ps_containers = [emptyContainer \<lparr> ct_name := ''app'', ct_image := ''nginx'' \<rparr>],
     ps_volumes = [], ps_rest = None \<rparr>, pt_rest = None \<rparr>, ts_rest = None \<rparr>"

definition demoOwnerRef :: "string \<Rightarrow> string \<Rightarrow> owner_reference" where
  "demoOwnerRef k n = \<lparr> or_kind = k, or_name = n, or_controller = Some True, or_rest = [] \<rparr>"

definition demoWorkload :: "string \<Rightarrow> owner_reference list \<Rightarrow> workload" where
  "demoWorkload n owners = \<lparr> wl_meta = emptyMeta \<lparr> om_name := n, om_uid := ''uid'', om_ownerReferences := owners \<rparr>,
     wl_gvk = ([], [], []), wl_spec = demoTemplate, wl_status = Some ''status'' \<rparr>"

definition demoObjects :: "owner_reference list \<Rightarrow> 'w kube_client" where
  "demoObjects rsOwners = \<lparr>
     kc_getServiceAccount = (\<lambda>ns n w. (Inl (StatusError ''NotFound'' n), w)),
     kc_create = (\<lambda>sa w. (Inr (), w)), kc_update = (\<lambda>sa w. (Inr (), w)), kc_delete = (\<lambda>sa w. (Inr (), w)),
     kc_listPods = (\<lambda>ns l w. (Inr [], w)), kc_listAzureIdentity = (\<lambda>ns w. (Inr [], w)),
     kc_listAzureIdentityBinding = (\<lambda>ns w. (Inr [], w)),
     kc_getObject = (\<lambda>k ns n w.
       (if k = KReplicaSet then Inr (ReplicaSetObject (demoWorkload n rsOwners))
        else Inr (DeploymentObject (demoWorkload n [])), w)) \<rparr>"

definition demoDetect :: "owner_reference list \<Rightarrow> unit detect_cmd" where
  "demoDetect rsOwners = \<lparr> dc_namespace = ''ns'', dc_outputDir = ''out'', dc_proxyPort = 8000,
     dc_tokenExpiration = 7200 * second, dc_tenantID = ''tenant'', dc_kubeClient = demoObjects rsOwners,
     dc_osCreate = (\<lambda>f w. (Inr (), w)), dc_encode = (\<lambda>m f w. (Inr (), w)) \<rparr>"

subsection \<open>Bindings\<close>

text \<open>The bindings that can decide a selector, given the identities of the namespace.\<close>

definition usable :: "(string \<times> azure_identity) list \<Rightarrow> string \<Rightarrow> azure_identity_binding \<Rightarrow> bool" where
  "usable identities sel b \<longleftrightarrow>
     sel \<noteq> [] \<and> ab_selector b = sel \<and> ab_azureIdentity b \<noteq> [] \<and> map_of identities (ab_azureIdentity b) \<noteq> None"

lemma filterLoop_lookup:
  "map_of (filterLoop bs identities labels) sel =
     (case map_of labels sel of
        Some i \<Rightarrow> Some i
      | None \<Rightarrow> (case find (usable identities sel) bs of
                   Some b \<Rightarrow> map_of identities (ab_azureIdentity b) | None \<Rightarrow> None))"
proof (induction bs identities labels rule: filterLoop.induct)
  case (2 b bs identities labels)
  let ?labels = "if ab_selector b = [] \<or> ab_azureIdentity b = [] then labels
     else if map_of labels (ab_selector b) \<noteq> None then labels
     else case map_of identities (ab_azureIdentity b) of
            Some i \<Rightarrow> AList.update (ab_selector b) i labels | None \<Rightarrow> labels"
  have step: "map_of ?labels sel =
      (case map_of labels sel of
         Some i \<Rightarrow> Some i
       | None \<Rightarrow> if usable identities sel b then map_of identities (ab_azureIdentity b) else None)"
    by (cases "map_of identities (ab_azureIdentity b)"; cases "ab_selector b = sel")
      (auto simp: usable_def update_conv' split: option.split)
  show ?case
  proof (cases "usable identities sel b")
    case True
    then obtain i where "map_of identities (ab_azureIdentity b) = Some i" by (auto simp: usable_def)
    with True show ?thesis unfolding filterLoop.simps(2) 2 step by (simp split: option.split)
  next
    case False
    then show ?thesis unfolding filterLoop.simps(2) 2 step by (simp split: option.split)
  qed
qed (simp split: option.split)

lemma identityMapLoop_types:
  assumes "\<forall>k i. map_of m k = Some i \<longrightarrow> ai_type i = UserAssignedMSI \<and> ai_name i = k"
  shows "\<forall>k i. map_of (identityMapLoop identities m) k = Some i \<longrightarrow> ai_type i = UserAssignedMSI \<and> ai_name i = k"
  using assms
proof (induction identities m rule: identityMapLoop.induct)
  case (2 i rest m)
  have "\<forall>k j. map_of (if ai_type i = UserAssignedMSI then AList.update (ai_name i) i m else m) k = Some j \<longrightarrow>
      ai_type j = UserAssignedMSI \<and> ai_name j = k"
  proof (intro allI impI)
    fix k j
    assume "map_of (if ai_type i = UserAssignedMSI then AList.update (ai_name i) i m else m) k = Some j"
    then have "(ai_type i = UserAssignedMSI \<and> k = ai_name i \<and> j = i) \<or> map_of m k = Some j"
      by (auto simp: update_conv' split: if_splits)
    then show "ai_type j = UserAssignedMSI \<and> ai_name j = k" using 2(2) by blast
  qed
  from 2(1) [OF this] show ?case unfolding identityMapLoop.simps .
qed (simp only: identityMapLoop.simps)

lemma find_sorted_least:
  assumes "find P (sort_key f xs) = Some x"
  shows "x \<in> set xs \<and> P x \<and> list_all (\<lambda>y. f x \<le> f y) (filter P xs)"
proof -
  obtain as bs where split: "sort_key f xs = as @ x # bs" "P x" "\<forall>y \<in> set as. \<not> P y"
  proof -
    obtain i where i: "i < length (sort_key f xs)" "P (sort_key f xs ! i)" "x = sort_key f xs ! i"
      "\<forall>j < i. \<not> P (sort_key f xs ! j)"
      using assms by (auto simp: find_Some_iff)
    show ?thesis
    proof (rule that [of "take i (sort_key f xs)" "drop (Suc i) (sort_key f xs)"])
      show "sort_key f xs = take i (sort_key f xs) @ x # drop (Suc i) (sort_key f xs)"
        using i(1,3) by (simp add: id_take_nth_drop)
      show "\<forall>y \<in> set (take i (sort_key f xs)). \<not> P y"
        using i(1,4) by (auto simp: in_set_conv_nth)
    qed (use i in simp)
  qed
  have "sorted (map f (as @ x # bs))" by (metis sorted_sort_key split(1))
  then have "\<forall>y \<in> set bs. f x \<le> f y" by (simp add: sorted_append)
  moreover have members: "set xs = set as \<union> {x} \<union> set bs"
    using arg_cong [OF split(1), of set] by simp
  ultimately show ?thesis using split(2,3) by (auto simp: list_all_iff)
qed

text \<open>
  The identity of a selector.  Of the bindings of the namespace that name the selector and
  an identity that exists and is a user-assigned managed identity, the one that is first
  by namespace and name decides; a selector without such a binding has no identity.
\<close>

theorem selector_identity:
  "let ids = identityMapLoop identities [];
       decided = filter (usable ids sel) bindings
   in case map_of (filterAzureIdentities (sort_key bindingKey bindings) ids) sel of
        None \<Rightarrow> decided = []
      | Some i \<Rightarrow> ai_type i = UserAssignedMSI \<and>
          (\<exists>b. b \<in> set bindings \<and> usable ids sel b \<and> ab_azureIdentity b = ai_name i \<and>
             list_all (\<lambda>b'. bindingKey b \<le> bindingKey b') decided)"
proof -
  define ids where "ids = identityMapLoop identities []"
  have ids: "ai_type i = UserAssignedMSI \<and> ai_name i = k" if "map_of ids k = Some i" for k i
    using identityMapLoop_types [of "[]" identities] that unfolding ids_def by (metis map_of.simps(1) option.distinct(1))
  have lookup: "map_of (filterAzureIdentities (sort_key bindingKey bindings) ids) sel =
      (case find (usable ids sel) (sort_key bindingKey bindings) of
         Some b \<Rightarrow> map_of ids (ab_azureIdentity b) | None \<Rightarrow> None)"
    by (simp add: filterAzureIdentities_def filterLoop_lookup)
  show ?thesis
  proof (cases "find (usable ids sel) (sort_key bindingKey bindings)")
    case None
    then have "filter (usable ids sel) bindings = []" by (simp add: find_None_iff filter_empty_conv)
    with None show ?thesis by (simp add: Let_def ids_def [symmetric] lookup)
  next
    case (Some b)
    note b = find_sorted_least [OF Some]
    then obtain i where i: "map_of ids (ab_azureIdentity b) = Some i" by (auto simp: usable_def)
    then show ?thesis
      using Some b ids [OF i] by (auto simp: Let_def ids_def [symmetric] lookup)
  qed
qed

subsection \<open>The workload file\<close>

definition migratedSpec :: "'w detect_cmd \<Rightarrow> service_account \<Rightarrow> pod_spec \<Rightarrow> pod_spec" where
  "migratedSpec dc sa s = s \<lparr>
     ps_initContainers := addProxyInitContainer dc (ps_initContainers s),
     ps_containers := addProxyContainer dc (ps_containers s),
     ps_serviceAccountName := om_name (sa_meta sa) \<rparr>"

definition cleanMeta :: "object_meta \<Rightarrow> object_meta" where
  "cleanMeta m = m \<lparr> om_managedFields := [], om_resourceVersion := [], om_uid := [],
     om_creationTimestamp := None, om_selfLink := [], om_generation := 0 \<rparr>"

lemma migratedObject_eq:
  "migratedObject dc sa obj = objects.cleaned (cleanMeta (metaOf obj)) (objects.edit (migratedSpec dc sa) obj)"
proof -
  have "(metaOf x) \<lparr> om_managedFields := [], om_resourceVersion := [], om_uid := [],
      om_creationTimestamp := None, om_selfLink := [], om_generation := 0 \<rparr> = cleanMeta (metaOf x)" for x
    by (simp add: cleanMeta_def)
  then show ?thesis
    by (simp add: migratedObject_def Let_def accessors_edit objects.edit_edit objects.cleaned_def
        GetContainers_def GetInitContainers_def)
       (simp add: objects.edit_def migratedSpec_def comp_def)
qed

lemma addProxyInitContainer_idem [simp]:
  "addProxyInitContainer dc (addProxyInitContainer dc cs) = addProxyInitContainer dc cs"
  by (simp add: addProxyInitContainer_def detectProxyInitContainer_def detectProxyInitImage_def)

lemma addProxyContainer_idem [simp]:
  "addProxyContainer dc (addProxyContainer dc cs) = addProxyContainer dc cs"
  by (simp add: addProxyContainer_def detectProxyContainer_def detectProxyImage_def)

lemma migratedSpec_idem: "migratedSpec dc sa (migratedSpec dc sa s) = migratedSpec dc sa s"
  by (simp add: migratedSpec_def)

lemma cleanMeta_idem: "cleanMeta (cleanMeta m) = cleanMeta m"
  by (simp add: cleanMeta_def)

lemma cleaned_twice: "objects.cleaned m (objects.cleaned n x) = objects.cleaned m x"
  by (cases x) (simp_all add: objects.cleaned_def podSetGVK_def podResetStatus_def deploymentSetGVK_def
      deploymentResetStatus_def statefulSetSetGVK_def statefulSetResetStatus_def daemonSetSetGVK_def
      daemonSetResetStatus_def replicaSetSetGVK_def replicaSetResetStatus_def replicationControllerSetGVK_def
      replicationControllerResetStatus_def cronJobSetGVK_def cronJobResetStatus_def jobSetGVK_def
      jobResetStatus_def)

lemma addProxy_extends:
  "\<exists>xs. addProxyInitContainer dc cs = cs @ xs" "\<exists>xs. addProxyContainer dc cs = cs @ xs"
  by (simp_all add: addProxyInitContainer_def addProxyContainer_def)

text \<open>
  The workload file.  For every kind of workload, the written object differs from the
  one in the cluster only in the service account name, in the two proxy containers after
  the user's own, and in the reset metadata, status and kind; writing it again from the
  written object gives the same object.
\<close>

theorem migrated_workload:
  "specOf (migratedObject dc sa obj) = migratedSpec dc sa (specOf obj) \<and>
   metaOf (migratedObject dc sa obj) = cleanMeta (metaOf obj) \<and>
   (\<exists>xs ys. GetContainers (migratedObject dc sa obj) = GetContainers obj @ xs \<and>
     GetInitContainers (migratedObject dc sa obj) = GetInitContainers obj @ ys) \<and>
   migratedObject dc sa (migratedObject dc sa obj) = migratedObject dc sa obj"
proof -
  have spec: "specOf (migratedObject dc sa obj) = migratedSpec dc sa (specOf obj)"
    and meta: "metaOf (migratedObject dc sa obj) = cleanMeta (metaOf obj)"
    by (simp_all add: migratedObject_eq)
  have "\<exists>xs ys. GetContainers (migratedObject dc sa obj) = GetContainers obj @ xs \<and>
      GetInitContainers (migratedObject dc sa obj) = GetInitContainers obj @ ys"
    using addProxy_extends [of dc "ps_containers (specOf obj)"]
      addProxy_extends [of dc "ps_initContainers (specOf obj)"]
    by (simp add: GetContainers_def GetInitContainers_def spec migratedSpec_def)
  moreover have "migratedObject dc sa (migratedObject dc sa obj) = migratedObject dc sa obj"
    by (simp add: migratedObject_eq objects.cleaned_edit [symmetric] cleaned_twice cleanMeta_idem
        objects.edit_edit comp_def migratedSpec_idem)
  ultimately show ?thesis using spec meta by simp
qed

text \<open>
  The containers of the written workload, when no container of the workload runs an image of
  the proxy yet, and the names of the two that are added, which are those of the webhook.
\<close>

lemma migrated_containers:
  assumes "list_all (\<lambda>c. \<not> prefix (imageRepository @ ''/'' @ proxyImageName) (ct_image c))
      (GetInitContainers obj @ GetContainers obj)"
  shows "ps_initContainers (specOf (migratedObject dc sa obj)) = GetInitContainers obj @ [detectProxyInitContainer dc]"
    and "ps_containers (specOf (migratedObject dc sa obj)) = GetContainers obj @ [detectProxyContainer dc]"
proof -
  have "prefix (imageRepository @ ''/'' @ proxyImageName) i" if "prefix (imageRepository @ ''/'' @ proxyInitImageName) i" for i
    using that by (auto simp: prefix_def proxyImageName_def proxyInitImageName_def)
  then have "\<not> list_ex (\<lambda>c. prefix (imageRepository @ ''/'' @ proxyInitImageName) (ct_image c)) (ps_initContainers (specOf obj))"
    and "\<not> list_ex (\<lambda>c. prefix (imageRepository @ ''/'' @ proxyImageName) (ct_image c)) (ps_containers (specOf obj))"
    using assms by (auto simp: list_ex_iff list_all_iff GetContainers_def GetInitContainers_def)
  then show "ps_initContainers (specOf (migratedObject dc sa obj)) = GetInitContainers obj @ [detectProxyInitContainer dc]"
    and "ps_containers (specOf (migratedObject dc sa obj)) = GetContainers obj @ [detectProxyContainer dc]"
    by (simp_all add: GetContainers_def GetInitContainers_def migratedObject_eq migratedSpec_def
        addProxyContainer_def addProxyInitContainer_def)
qed

lemma detect_names:
  "ct_name (detectProxyContainer dc) = ProxySidecarContainerName"
  "ct_name (detectProxyInitContainer dc) = ProxyInitContainerName"
  by (simp_all add: detectProxyContainer_def detectProxyInitContainer_def proxyContainerName_def
      proxyInitContainerName_def ProxySidecarContainerName_def ProxyInitContainerName_def)

subsection \<open>The service account file\<close>

text \<open>
  The service account file.  When \<open>createServiceAccountFile\<close> succeeds with an
  expiration that the command accepts, the webhook reads from the written account the
  client id of the identity and the expiration rounded to a second, and the tenant if one
  was given; an account found in the cluster keeps its name and its other annotations.
\<close>

theorem detected_account:
  assumes "fst (detectPrerun getKubeClient notExist mkdirAll dc w0) = None"
    and "createServiceAccountFile dc n ownerName clientID w = (Inr sa, w1)"
    and "smap_get (pod_annotations p) ServiceAccountTokenExpiryAnnotation = []"
  shows "\<exists>sa0 e. (if n = [] \<or> n = ''default'' then om_name (sa_meta sa) = ownerName
        else fst (GetServiceAccount (dc_kubeClient dc) (dc_namespace dc) n w) = Inr sa0 \<and>
          om_name (sa_meta sa) = om_name (sa_meta sa0) \<and>
          list_all (\<lambda>k. smap_get (sa_annotations sa) k = smap_get (sa_annotations sa0) k)
            (filter (\<lambda>k. k \<notin> {ClientIDAnnotation, TenantIDAnnotation, ServiceAccountTokenExpiryAnnotation})
              (map fst (sa_annotations sa0)))) \<and>
      getClientID sa = clientID \<and>
      (dc_tenantID dc = [] \<or> getTenantID sa c = dc_tenantID dc) \<and>
      getServiceAccountTokenExpiration p sa = Inr e \<and> roundSecond (dc_tokenExpiration dc) = e * second"
proof -
  have bounds: "MinServiceAccountTokenExpiration * second \<le> dc_tokenExpiration dc"
    "dc_tokenExpiration dc \<le> MaxServiceAccountTokenExpiration * second"
    using assms(1) by (auto simp: detectPrerun_def Let_def split: if_splits)
  obtain e where e: "roundSecond (dc_tokenExpiration dc) = e * second" "3600 \<le> e" "e \<le> 86400"
    "showSeconds (roundSecond (dc_tokenExpiration dc)) = formatInt e" "parseInt (formatInt e) 64 = Inr e" "formatInt e \<noteq> []"
    using rendered_expiration [OF bounds] by blast
  have read: "getClientID (annotatedServiceAccount dc clientID sa0) = clientID"
    "dc_tenantID dc = [] \<or> getTenantID (annotatedServiceAccount dc clientID sa0) c = dc_tenantID dc"
    "getServiceAccountTokenExpiration p (annotatedServiceAccount dc clientID sa0) = Inr e"
    "om_name (sa_meta (annotatedServiceAccount dc clientID sa0)) = om_name (sa_meta sa0)"
    "k \<notin> {ClientIDAnnotation, TenantIDAnnotation, ServiceAccountTokenExpiryAnnotation} \<Longrightarrow>
      smap_get (sa_annotations (annotatedServiceAccount dc clientID sa0)) k = smap_get (sa_annotations sa0) k"
    for sa0 k
    using e assms(3)
    by (auto simp: annotatedServiceAccount_def Let_def getClientID_def getTenantID_def annotation_keys_distinct
        getServiceAccountTokenExpiration_def validExpiry_iff smap_set_def smap_get_def update_conv')
  obtain sa0 where sa: "sa = annotatedServiceAccount dc clientID sa0"
    and found: "if n = [] \<or> n = ''default'' then om_name (sa_meta sa0) = ownerName
      else fst (GetServiceAccount (dc_kubeClient dc) (dc_namespace dc) n w) = Inr sa0"
    using assms(2)
    by (auto simp: createServiceAccountFile_def Let_def split: if_splits prod.splits sum.splits)
  show ?thesis
    using found e(1) read
    by (intro exI [of _ sa0] exI [of _ e]) (auto simp: sa list_all_iff)
qed

theorem detected_account_witness:
  "getClientID (annotatedServiceAccount (demoDetect []) ''client''
     (emptyServiceAccount \<lparr> sa_meta := emptyMeta \<lparr> om_name := ''web'', om_namespace := ''ns'' \<rparr> \<rparr>)) = ''client''"
proof -
  let ?sa = "annotatedServiceAccount (demoDetect []) ''client''
     (emptyServiceAccount \<lparr> sa_meta := emptyMeta \<lparr> om_name := ''web'', om_namespace := ''ns'' \<rparr> \<rparr>)"
  let ?p = "\<lparr> pod_meta = emptyMeta, pod_spec = pt_spec (ts_template demoTemplate), pod_status = None \<rparr>"
  have pre: "fst (detectPrerun (\<lambda>w. (Inr (demoObjects []), w)) (\<lambda>d w. False) (\<lambda>d w. (Inr (), w)) (demoDetect []) ()) = None"
    by (simp add: detectPrerun_def Let_def demoDetect_def second_def expiration_bounds)
  have written: "createServiceAccountFile (demoDetect []) [] ''web'' ''client'' () = (Inr ?sa, ())"
    by (simp add: createServiceAccountFile_def Let_def) (simp add: demoDetect_def)
  have plain: "smap_get (pod_annotations ?p) ServiceAccountTokenExpiryAnnotation = []"
    by (simp add: emptyMeta_def)
  show ?thesis using detected_account [OF pre written plain] by blast
qed

subsection \<open>Owners\<close>

text \<open>
  C35: The owner of a pod.  If no chain of controllers in the cluster is circular, the search
  for the top owner returns: with the error of a look-up, or with an object that no
  controller owns.
\<close>

theorem getOwner_returns:
  assumes "\<And>ref w obj w' parent. getOwnerObject dc ref w = (Inr obj, w') \<Longrightarrow>
      controllerOf (om_ownerReferences (metaOf obj)) = Some parent \<Longrightarrow> rank parent < (rank ref :: nat)"
  shows "\<exists>r w'. getOwner dc ref w = Some (r, w') \<and>
    (case r of Inl e \<Rightarrow> True | Inr obj \<Rightarrow> controllerOf (om_ownerReferences (metaOf obj)) = None)"
proof (induction "rank ref" arbitrary: ref w rule: less_induct)
  case less
  obtain x w1 where x: "getOwnerObject dc ref w = (x, w1)" by fastforce
  show ?case
  proof (cases x)
    case (Inl e)
    then show ?thesis using x by (simp add: getOwner.simps)
  next
    case (Inr obj)
    show ?thesis
    proof (cases "controllerOf (om_ownerReferences (metaOf obj))")
      case None
      then show ?thesis using x Inr by (simp add: getOwner.simps)
    next
      case (Some parent)
      have "rank parent < rank ref" using assms x Inr Some by blast
      from less [OF this, of w1] show ?thesis using x Inr Some by (subst getOwner.simps) simp
    qed
  qed
qed

theorem getOwner_returns_witness:
  "\<exists>r w'. getOwner (demoDetect [demoOwnerRef ''Deployment'' ''web'']) (demoOwnerRef ''ReplicaSet'' ''web-1'') () = Some (r, w') \<and>
    (case r of Inl e \<Rightarrow> True | Inr obj \<Rightarrow> controllerOf (om_ownerReferences (metaOf obj)) = None)"
proof (rule getOwner_returns [where rank = "\<lambda>ref. if or_kind ref = ''ReplicaSet'' then 1 else 0"])
  fix ref :: owner_reference and w w' :: unit and obj parent
  assume "getOwnerObject (demoDetect [demoOwnerRef ''Deployment'' ''web'']) ref w = (Inr obj, w')"
    and "controllerOf (om_ownerReferences (metaOf obj)) = Some parent"
  then show "(if or_kind parent = ''ReplicaSet'' then 1 else 0) < (if or_kind ref = ''ReplicaSet'' then 1 else 0 :: nat)"
    by (auto simp: getOwnerObject_def GetObject_def ownerKind_def demoDetect_def demoObjects_def demoWorkload_def
        demoOwnerRef_def controllerOf_def emptyMeta_def split: if_splits)
qed

text \<open>
  A circular chain.  If the controller of an owner is found to be owned by itself at every
  look-up, the search does not return.
\<close>

theorem getOwner_cycle:
  assumes "\<And>w. \<exists>obj. getOwnerObject dc ref w = (Inr obj, w) \<and>
      controllerOf (om_ownerReferences (metaOf obj)) = Some ref"
  shows "getOwner dc ref w = None"
proof -
  have never: "dc' = dc \<longrightarrow> r \<noteq> ref" if "getOwner dc' r w = Some x" for dc' r w x
  proof (rule getOwner.raw_induct [where P = "\<lambda>dc' r w x. dc' = dc \<longrightarrow> r \<noteq> ref", OF _ that])
    fix rec dc' r w x
    assume rec: "\<And>dc' r w x. rec dc' r w = Some x \<Longrightarrow> dc' = dc \<longrightarrow> r \<noteq> ref"
      and body: "(case getOwnerObject dc' r w of
          (Inl e, w1) \<Rightarrow> Some (Inl e, w1)
        | (Inr obj, w1) \<Rightarrow>
            (case controllerOf (om_ownerReferences (metaOf obj)) of
               Some parent \<Rightarrow> rec dc' parent w1 | None \<Rightarrow> Some (Inr obj, w1))) = Some x"
    show "dc' = dc \<longrightarrow> r \<noteq> ref"
    proof (intro impI notI)
      assume eq: "dc' = dc" "r = ref"
      obtain obj where "getOwnerObject dc ref w = (Inr obj, w)"
        "controllerOf (om_ownerReferences (metaOf obj)) = Some ref"
        using assms [of w] by blast
      with body eq have "rec dc ref w = Some x" by simp
      with rec show False by blast
    qed
  qed
  show ?thesis
  proof (rule ccontr)
    assume "getOwner dc ref w \<noteq> None"
    then obtain x where "getOwner dc ref w = Some x" by blast
    from never [OF this] show False by simp
  qed
qed

theorem getOwner_cycle_witness:
  "getOwner (demoDetect [demoOwnerRef ''ReplicaSet'' ''web-1'']) (demoOwnerRef ''ReplicaSet'' ''web-1'') () = None"
proof (rule getOwner_cycle)
  fix w :: unit
  let ?rs = "ReplicaSetObject (demoWorkload ''web-1'' [demoOwnerRef ''ReplicaSet'' ''web-1''])"
  have "getOwnerObject (demoDetect [demoOwnerRef ''ReplicaSet'' ''web-1'']) (demoOwnerRef ''ReplicaSet'' ''web-1'') w = (Inr ?rs, w)"
    by (simp add: getOwnerObject_def GetObject_def ownerKind_def demoDetect_def demoObjects_def demoOwnerRef_def)
  moreover have "controllerOf (om_ownerReferences (metaOf ?rs)) = Some (demoOwnerRef ''ReplicaSet'' ''web-1'')"
    by (simp add: controllerOf_def demoWorkload_def demoOwnerRef_def)
  ultimately show "\<exists>obj. getOwnerObject (demoDetect [demoOwnerRef ''ReplicaSet'' ''web-1'']) (demoOwnerRef ''ReplicaSet'' ''web-1'') w = (Inr obj, w) \<and>
      controllerOf (om_ownerReferences (metaOf obj)) = Some (demoOwnerRef ''ReplicaSet'' ''web-1'')" by blast
qed

end
