(* ===== verification/Detect_Run.thy ===== *)
theory Detect_Run
  imports Detect_Correct
begin

section \<open>A whole run of detect over a cluster\<close>

text \<open>
  \<open>Detect_Correct\<close> proves the parts of the command for any client.  Here the client reads a
  cluster that does not change during the run, and the file operations keep the sequence of
  files written, so that the run as a whole can be compared with what it promises: two
  files for the workload of every pod that uses an identity.
\<close>

subsection \<open>The cluster and the files\<close>

record cluster =
  cl_bindings :: "azure_identity_binding list"
  cl_identities :: "azure_identity list"
  cl_pods :: "strmap \<Rightarrow> pod_object list"
  cl_objects :: "object_kind \<Rightarrow> string \<Rightarrow> client_object result"
  cl_accounts :: "string \<Rightarrow> service_account result"

type_synonym file_writes = "(string \<times> manifest) list"

definition readOnly :: go_error where "readOnly = GoError ''read only''"

text \<open>The client of the cluster has all of this in one namespace, and nothing in any other.\<close>

definition clusterClient :: "string \<Rightarrow> cluster \<Rightarrow> file_writes kube_client" where
  "clusterClient own c = \<lparr>
     kc_getServiceAccount = (\<lambda>ns n w. (if ns = own then cl_accounts c n else Inl (StatusError ''NotFound'' n), w)),
     kc_create = (\<lambda>sa w. (Inl readOnly, w)),
     kc_update = (\<lambda>sa w. (Inl readOnly, w)),
     kc_delete = (\<lambda>sa w. (Inl readOnly, w)),
     kc_listPods = (\<lambda>ns labels w. (Inr (if ns = own then cl_pods c labels else []), w)),
     kc_listAzureIdentity = (\<lambda>ns w. (Inr (if ns = own then cl_identities c else []), w)),
     kc_listAzureIdentityBinding = (\<lambda>ns w. (Inr (if ns = own then cl_bindings c else []), w)),
     kc_getObject = (\<lambda>k ns n w. (if ns = own then cl_objects c k n else Inl (StatusError ''NotFound'' n), w)) \<rparr>"

definition onCluster :: "cluster \<Rightarrow> file_writes detect_cmd \<Rightarrow> file_writes detect_cmd" where
  "onCluster c dc = dc \<lparr> dc_kubeClient := clusterClient (dc_namespace dc) c,
     dc_osCreate := (\<lambda>f w. (Inr (), w)), dc_encode := (\<lambda>m f w. (Inr (), w @ [(f, m)])) \<rparr>"

subsection \<open>What a run promises\<close>

definition ownerLookup :: "cluster \<Rightarrow> owner_reference \<Rightarrow> client_object result" where
  "ownerLookup c ref =
     (case ownerKind (or_kind ref) of
        Some k \<Rightarrow> cl_objects c k (or_name ref)
      | None \<Rightarrow> Inl (errUnsupportedKind (or_kind ref)))"

text \<open>The object at the end of the chain of controllers that starts at a reference.\<close>

inductive top_owner :: "cluster \<Rightarrow> owner_reference \<Rightarrow> client_object \<Rightarrow> bool" for c where
  top: "ownerLookup c ref = Inr obj \<Longrightarrow> controllerOf (om_ownerReferences (metaOf obj)) = None \<Longrightarrow>
    top_owner c ref obj"
| up: "ownerLookup c ref = Inr obj \<Longrightarrow> controllerOf (om_ownerReferences (metaOf obj)) = Some parent \<Longrightarrow>
    top_owner c parent t \<Longrightarrow> top_owner c ref t"

inductive_cases top_ownerE: "top_owner c ref obj"

definition workloadOf :: "cluster \<Rightarrow> pod_object \<Rightarrow> client_object \<Rightarrow> bool" where
  "workloadOf c p obj =
     (case controllerOf (om_ownerReferences (po_meta p)) of
        None \<Rightarrow> obj = PodObject p
      | Some ref \<Rightarrow> top_owner c ref obj)"

definition accountOf :: "cluster \<Rightarrow> 'w detect_cmd \<Rightarrow> client_object \<Rightarrow> service_account result" where
  "accountOf c dc obj =
     (if GetServiceAccountName obj = [] \<or> GetServiceAccountName obj = ''default''
      then Inr (emptyServiceAccount \<lparr> sa_meta := emptyMeta \<lparr> om_name := om_name (metaOf obj), om_namespace := dc_namespace dc \<rparr> \<rparr>)
      else cl_accounts c (GetServiceAccountName obj))"

text \<open>The two files of a workload and the client id of its identity.\<close>

definition writesOf :: "cluster \<Rightarrow> 'w detect_cmd \<Rightarrow> client_object \<times> string \<Rightarrow> file_writes" where
  "writesOf c dc r =
     (case accountOf c dc (fst r) of
        Inl e \<Rightarrow> []
      | Inr sa \<Rightarrow>
          (let sa' = annotatedServiceAccount dc (snd r) sa; obj = migratedObject dc sa' (fst r) in
           [(filepathJoin [getServiceAccountFileName dc (om_name (metaOf (fst r)))], SaManifest sa'),
            (getResourceFileName dc obj, ObjectManifest obj)]))"

definition selectedIdentities :: "cluster \<Rightarrow> (string \<times> azure_identity) list" where
  "selectedIdentities c =
     filterAzureIdentities (sort_key bindingKey (cl_bindings c)) (identityMapLoop (cl_identities c) [])"

definition podsOf :: "cluster \<Rightarrow> string \<Rightarrow> (string \<times> pod_object) list" where
  "podsOf c selector = podMapLoop (cl_pods c [(CRDLabelKey, selector)]) []"

text \<open>A Go map is traversed in some order: each entry once.\<close>

definition someOrder :: "detect_order \<Rightarrow> bool" where
  "someOrder ord \<longleftrightarrow> (\<forall>xs. mset (ord_labels ord xs) = mset xs) \<and> (\<forall>xs. mset (ord_pods ord xs) = mset xs) \<and>
     (\<forall>xs. mset (ord_owners ord xs) = mset xs) \<and> (\<forall>xs. mset (ord_results ord xs) = mset xs)"

subsection \<open>The loops over a cluster\<close>

lemma onCluster_fields [simp]:
  "dc_kubeClient (onCluster c dc) = clusterClient (dc_namespace dc) c" "dc_namespace (onCluster c dc) = dc_namespace dc"
  "dc_osCreate (onCluster c dc) f w = (Inr (), w)" "dc_encode (onCluster c dc) m f w = (Inr (), w @ [(f, m)])"
  by (simp_all add: onCluster_def)

lemma onCluster_proxy:
  "addProxyInitContainer (onCluster c dc) cs = addProxyInitContainer dc cs"
  "addProxyContainer (onCluster c dc) cs = addProxyContainer dc cs"
  by (simp_all add: onCluster_def addProxyInitContainer_def detectProxyInitContainer_def addProxyContainer_def
      detectProxyContainer_def)

lemma onCluster_files [simp]:
  "getServiceAccountFileName (onCluster c dc) n = getServiceAccountFileName dc n"
  "getResourceFileName (onCluster c dc) obj = getResourceFileName dc obj"
  "annotatedServiceAccount (onCluster c dc) cid sa = annotatedServiceAccount dc cid sa"
  "migratedObject (onCluster c dc) sa obj = migratedObject dc sa obj"
  by (simp_all only: migratedObject_def onCluster_proxy)
    (simp_all add: onCluster_def getServiceAccountFileName_def getResourceFileName_def annotatedServiceAccount_def Let_def)

lemma onCluster_owner: "getOwnerObject (onCluster c dc) ref w = (ownerLookup c ref, w)"
  by (simp add: getOwnerObject_def ownerLookup_def GetObject_def clusterClient_def split: option.split)

lemma top_owner_found: "top_owner c ref t \<Longrightarrow> getOwner (onCluster c dc) ref w = Some (Inr t, w)"
  by (induction rule: top_owner.induct) (subst getOwner.simps, simp add: onCluster_owner)+

lemma top_owner_unique: "top_owner c ref t \<Longrightarrow> top_owner c ref u \<Longrightarrow> u = t"
  using top_owner_found [of c ref t undefined "[]"] top_owner_found [of c ref u undefined "[]"] by simp

lemma podLoop_found:
  "podLoop cid ps (owners, results) = (owners', results') \<Longrightarrow>
   set owners' = set owners \<union> {(ref, cid) | ref n p. (n, p) \<in> set ps \<and> controllerOf (om_ownerReferences (po_meta p)) = Some ref} \<and>
   set results' = set results \<union> {(PodObject p, cid) | n p. (n, p) \<in> set ps \<and> controllerOf (om_ownerReferences (po_meta p)) = None} \<and>
   length owners' + length results' = length owners + length results + length ps"
proof (induction ps arbitrary: owners results)
  case (Cons np ps)
  obtain n p where np: "np = (n, p)" by fastforce
  show ?case
  proof (cases "controllerOf (om_ownerReferences (po_meta p))")
    case None
    then have "podLoop cid ps (owners, results @ [(PodObject p, cid)]) = (owners', results')"
      using Cons.prems np by simp
    from Cons.IH [OF this] None np show ?thesis by auto
  next
    case (Some ref)
    then have "podLoop cid ps (owners @ [(ref, cid)], results) = (owners', results')"
      using Cons.prems np by simp
    from Cons.IH [OF this] Some np show ?thesis by auto
  qed
qed simp

lemma onCluster_pods: "ListPods (clusterClient ns c) ns [(CRDLabelKey, sel)] w = (Inr (podsOf c sel), w)"
  by (simp add: ListPods_def clusterClient_def podsOf_def)

text \<open>The entries that the loop over the selectors collects.\<close>

definition ownedPods :: "cluster \<Rightarrow> (string \<times> azure_identity) list \<Rightarrow> (owner_reference \<times> string) set" where
  "ownedPods c ls = (\<Union>(sel, i) \<in> set ls.
     {(ref, ai_clientID i) | ref n p. (n, p) \<in> set (podsOf c sel) \<and>
        controllerOf (om_ownerReferences (po_meta p)) = Some ref})"

definition barePods :: "cluster \<Rightarrow> (string \<times> azure_identity) list \<Rightarrow> (client_object \<times> string) set" where
  "barePods c ls = (\<Union>(sel, i) \<in> set ls.
     {(PodObject p, ai_clientID i) | n p. (n, p) \<in> set (podsOf c sel) \<and>
        controllerOf (om_ownerReferences (po_meta p)) = None})"

lemma ownedPods_iff:
  "(ref, cid) \<in> ownedPods c ls \<longleftrightarrow>
   (\<exists>sel i n p. (sel, i) \<in> set ls \<and> (n, p) \<in> set (podsOf c sel) \<and>
      controllerOf (om_ownerReferences (po_meta p)) = Some ref \<and> cid = ai_clientID i)"
  unfolding ownedPods_def by (simp add: Bex_def split_paired_Ex) blast

lemma barePods_iff:
  "(obj, cid) \<in> barePods c ls \<longleftrightarrow>
   (\<exists>sel i n p. (sel, i) \<in> set ls \<and> (n, p) \<in> set (podsOf c sel) \<and>
      controllerOf (om_ownerReferences (po_meta p)) = None \<and> obj = PodObject p \<and> cid = ai_clientID i)"
  unfolding barePods_def by (simp add: Bex_def split_paired_Ex) blast

lemma workloadOf_iff:
  "workloadOf c p obj \<longleftrightarrow>
   controllerOf (om_ownerReferences (po_meta p)) = None \<and> obj = PodObject p \<or>
   (\<exists>ref. controllerOf (om_ownerReferences (po_meta p)) = Some ref \<and> top_owner c ref obj)"
  by (auto simp: workloadOf_def split: option.split)

definition podCount :: "cluster \<Rightarrow> (string \<times> azure_identity) list \<Rightarrow> nat" where
  "podCount c ls = sum_list (map (\<lambda>(sel, i). length (podsOf c sel)) ls)"

lemma selectorLoop_found:
  assumes ord: "\<And>xs. mset (ord_pods ord xs) = mset xs"
  shows "\<exists>owners' results'. selectorLoop (onCluster c dc) ord ls (owners, results) w = (Inr (owners', results'), w) \<and>
     set owners' = set owners \<union> ownedPods c ls \<and> set results' = set results \<union> barePods c ls \<and>
     length owners' + length results' = length owners + length results + podCount c ls"
proof (induction ls arbitrary: owners results)
  case Nil
  then show ?case by (simp add: ownedPods_def barePods_def podCount_def)
next
  case (Cons l ls)
  obtain sel i where l: "l = (sel, i)" by fastforce
  have same: "set (ord_pods ord xs) = set xs" "length (ord_pods ord xs) = length xs" for xs
    using ord [of xs] by (metis mset_eq_setD, metis mset_eq_length)
  obtain os rs where pods: "podLoop (ai_clientID i) (ord_pods ord (podsOf c sel)) (owners, results) = (os, rs)"
    by fastforce
  note found = podLoop_found [OF pods, unfolded same]
  obtain os' rs' where rest: "selectorLoop (onCluster c dc) ord ls (os, rs) w = (Inr (os', rs'), w)"
    and sets: "set os' = set os \<union> ownedPods c ls" "set rs' = set rs \<union> barePods c ls"
    and len: "length os' + length rs' = length os + length rs + podCount c ls"
    using Cons.IH [of os rs] by auto
  have "selectorLoop (onCluster c dc) ord (l # ls) (owners, results) w = (Inr (os', rs'), w)"
    using pods rest l by (simp add: onCluster_pods)
  moreover have "set os' = set owners \<union> ownedPods c (l # ls)" "set rs' = set results \<union> barePods c (l # ls)"
    using found sets l unfolding ownedPods_def barePods_def by auto
  moreover have "length os' + length rs' = length owners + length results + podCount c (l # ls)"
    using found len l by (simp add: podCount_def)
  ultimately show ?case by blast
qed

lemma ownerLoop_found:
  assumes "\<And>ref cid. (ref, cid) \<in> set owners \<Longrightarrow> \<exists>t. top_owner c ref t"
  shows "\<exists>all. ownerLoop (onCluster c dc) owners results w = Some (Inr all, w) \<and>
     set all = set results \<union> {(t, cid) | t ref cid. (ref, cid) \<in> set owners \<and> top_owner c ref t} \<and>
     length all = length owners + length results"
  using assms
proof (induction owners arbitrary: results)
  case (Cons o1 owners)
  obtain ref cid where o1: "o1 = (ref, cid)" by fastforce
  obtain t where t: "top_owner c ref t" using Cons.prems o1 by auto
  have iff: "top_owner c ref u \<longleftrightarrow> u = t" for u using t top_owner_unique [OF t] by blast
  obtain all where rest: "ownerLoop (onCluster c dc) owners (results @ [(t, cid)]) w = Some (Inr all, w)"
    and all: "set all = set (results @ [(t, cid)]) \<union> {(t, cid) | t ref cid. (ref, cid) \<in> set owners \<and> top_owner c ref t}"
      "length all = length owners + length (results @ [(t, cid)])"
    using Cons.IH [of "results @ [(t, cid)]"] Cons.prems by auto
  have "ownerLoop (onCluster c dc) (o1 # owners) results w = Some (Inr all, w)"
    using rest by (simp add: o1 top_owner_found [OF t])
  moreover have "set all = set results \<union> {(t, cid) | t ref cid. (ref, cid) \<in> set (o1 # owners) \<and> top_owner c ref t}"
    unfolding all(1) by (auto simp: o1 iff) (rule exI [of _ ref], simp add: iff)
  ultimately show ?case using all(2) by auto
qed simp

lemma fileLoop_writes:
  "(\<And>obj cid. (obj, cid) \<in> set rs \<Longrightarrow> \<exists>sa. accountOf c dc obj = Inr sa) \<Longrightarrow>
   fileLoop (onCluster c dc) rs w = (None, w @ concat (map (writesOf c dc) rs))"
proof (induction rs arbitrary: w)
  case (Cons r rs)
  obtain obj cid where r: "r = (obj, cid)" by fastforce
  obtain sa where sa: "accountOf c dc obj = Inr sa" using Cons.prems r by auto
  have get: "(if GetServiceAccountName obj = [] \<or> GetServiceAccountName obj = ''default''
       then (Inr (emptyServiceAccount \<lparr> sa_meta := emptyMeta \<lparr> om_name := om_name (metaOf obj), om_namespace := dc_namespace dc \<rparr> \<rparr>), w)
       else GetServiceAccount (clusterClient (dc_namespace dc) c) (dc_namespace dc) (GetServiceAccountName obj) w) = (Inr sa, w)"
    using sa by (auto simp: accountOf_def GetServiceAccount_def clusterClient_def split: if_splits)
  let ?sa = "annotatedServiceAccount dc cid sa"
  have "createServiceAccountFile (onCluster c dc) (GetServiceAccountName obj) (om_name (metaOf obj)) cid w =
      (Inr ?sa, w @ [(filepathJoin [getServiceAccountFileName dc (om_name (metaOf obj))], SaManifest ?sa)])"
    unfolding createServiceAccountFile_def onCluster_fields get by (simp add: Let_def)
  moreover have "fileLoop (onCluster c dc) rs v = (None, v @ concat (map (writesOf c dc) rs))" for v
    using Cons.prems by (intro Cons.IH) auto
  moreover have "writesOf c dc (obj, cid) =
      [(filepathJoin [getServiceAccountFileName dc (om_name (metaOf obj))], SaManifest ?sa),
       (getResourceFileName dc (migratedObject dc ?sa obj), ObjectManifest (migratedObject dc ?sa obj))]"
    by (simp add: writesOf_def sa Let_def)
  ultimately show ?case by (simp add: r createResourceFile_def Let_def)
qed simp

lemma someOrder_sets:
  assumes "someOrder ord"
  shows "set (ord_labels ord xs) = set xs" "set (ord_owners ord ys) = set ys" "set (ord_results ord zs) = set zs"
    "length (ord_owners ord ys) = length ys" "length (ord_results ord zs) = length zs"
  using assms unfolding someOrder_def by (metis mset_eq_setD mset_eq_length)+

lemma pods_found:
  assumes ord: "someOrder ord"
  shows "\<exists>os rs. selectorLoop (onCluster c dc) ord (ord_labels ord (selectedIdentities c)) ([], []) w = (Inr (os, rs), w) \<and>
    set os = ownedPods c (selectedIdentities c) \<and> set rs = barePods c (selectedIdentities c) \<and>
    length os + length rs = podCount c (selectedIdentities c)"
proof -
  let ?ls = "selectedIdentities c"
  have "mset (map f (ord_labels ord ?ls)) = mset (map f ?ls)" for f :: "_ \<Rightarrow> nat"
    using ord by (simp add: someOrder_def)
  then have count: "podCount c (ord_labels ord ?ls) = podCount c ?ls"
    unfolding podCount_def by (simp only: flip: sum_mset_sum_list)
  have sets: "ownedPods c (ord_labels ord ?ls) = ownedPods c ?ls" "barePods c (ord_labels ord ?ls) = barePods c ?ls"
    by (simp_all add: ownedPods_def barePods_def someOrder_sets [OF ord])
  have "\<And>xs. mset (ord_pods ord xs) = mset xs" using ord by (simp add: someOrder_def)
  from selectorLoop_found [OF this, of c dc "ord_labels ord ?ls" "[]" "[]" w]
  show ?thesis by (auto simp: count sets)
qed

text \<open>The workloads of the selected pods, each with the client id of its identity.\<close>

definition selectedWorkloads :: "cluster \<Rightarrow> (client_object \<times> string) set" where
  "selectedWorkloads c = {(obj, ai_clientID i) | obj sel i n p. (sel, i) \<in> set (selectedIdentities c) \<and>
     (n, p) \<in> set (podsOf c sel) \<and> workloadOf c p obj}"

lemma workloads_of_found:
  assumes "set os = ownedPods c (selectedIdentities c)" and "set rs = barePods c (selectedIdentities c)"
    and "set all = set rs \<union> {(t, cid) | t ref cid. (ref, cid) \<in> set os \<and> top_owner c ref t}"
  shows "set all = selectedWorkloads c"
proof (intro set_eqI)
  fix x :: "client_object \<times> string"
  obtain obj cid where x: "x = (obj, cid)" by fastforce
  show "x \<in> set all \<longleftrightarrow> x \<in> selectedWorkloads c"
    unfolding selectedWorkloads_def assms x by (simp add: ownedPods_iff barePods_iff workloadOf_iff) blast
qed

lemma detectRun_writes:
  assumes ord: "someOrder ord"
    and ready: "\<And>sel i n p. (sel, i) \<in> set (selectedIdentities c) \<Longrightarrow> (n, p) \<in> set (podsOf c sel) \<Longrightarrow>
      \<exists>obj sa. workloadOf c p obj \<and> accountOf c dc obj = Inr sa"
  shows "\<exists>results. detectRun (onCluster c dc) ord w = Some (None, w @ concat (map (writesOf c dc) results)) \<and>
     set results = {(obj, ai_clientID i) | obj sel i n p. (sel, i) \<in> set (selectedIdentities c) \<and>
       (n, p) \<in> set (podsOf c sel) \<and> workloadOf c p obj} \<and>
     length results = podCount c (selectedIdentities c)"
proof -
  note same = someOrder_sets [OF ord]
  let ?ls = "selectedIdentities c"
  obtain os rs where sel: "selectorLoop (onCluster c dc) ord (ord_labels ord ?ls) ([], []) w = (Inr (os, rs), w)"
    and os: "set os = ownedPods c ?ls" and rs: "set rs = barePods c ?ls"
    and len: "length os + length rs = podCount c ?ls"
    using pods_found [OF ord, of c dc w] by blast
  have chains: "\<exists>t. top_owner c ref t" if "(ref, cid) \<in> set (ord_owners ord os)" for ref cid
    using that ready unfolding same os ownedPods_iff workloadOf_iff by fastforce
  obtain all where own: "ownerLoop (onCluster c dc) (ord_owners ord os) rs w = Some (Inr all, w)"
    and all: "set all = set rs \<union> {(t, cid) | t ref cid. (ref, cid) \<in> set os \<and> top_owner c ref t}"
    and alen: "length all = length os + length rs"
    using ownerLoop_found [of "ord_owners ord os" c dc rs w] chains unfolding same by blast
  note want = workloads_of_found [OF os rs all, unfolded selectedWorkloads_def]
  have accounts: "\<exists>sa. accountOf c dc obj = Inr sa" if mem: "(obj, cid) \<in> set (ord_results ord all)" for obj cid
  proof -
    obtain sel i n p where p: "(sel, i) \<in> set ?ls" "(n, p) \<in> set (podsOf c sel)" "workloadOf c p obj"
      using mem unfolding same want by blast
    obtain obj' sa where "workloadOf c p obj'" "accountOf c dc obj' = Inr sa" using ready [OF p(1,2)] by blast
    moreover have "obj' = obj"
      using p(3) \<open>workloadOf c p obj'\<close> top_owner_unique by (auto simp: workloadOf_def split: option.splits)
    ultimately show ?thesis by blast
  qed
  have "detectRun (onCluster c dc) ord w = Some (fileLoop (onCluster c dc) (ord_results ord all) w)"
    using sel own
    by (simp add: detectRun_def ListAzureIdentityBinding_def ListAzureIdentity_def clusterClient_def selectedIdentities_def Let_def)
  then show ?thesis
    using fileLoop_writes [of "ord_results ord all" c dc w] accounts want len alen
    by (intro exI [of _ "ord_results ord all"]) (simp add: same)
qed

text \<open>
  C25: A run of detect.  If in the cluster the chain of controllers of every pod that uses a
  selected identity ends at an object, and the service account which that object names can
  be read, then the command returns without an error, whatever the order in which the maps
  are traversed, and the files it wrote are those of a list of workloads and client ids,
  one entry for each such pod: the workload is the top owner of the pod or the pod itself,
  and the client id is that of the identity which its selector was mapped to.
\<close>

theorem detect_writes:
  assumes "someOrder ord"
    and "\<And>sel i n p. (sel, i) \<in> set (selectedIdentities c) \<Longrightarrow> (n, p) \<in> set (podsOf c sel) \<Longrightarrow>
      \<exists>obj sa. workloadOf c p obj \<and> accountOf c dc obj = Inr sa"
  shows "\<exists>results. detectRun (onCluster c dc) ord w = Some (None, w @ concat (map (writesOf c dc) results)) \<and>
     set results = {(obj, ai_clientID i) | obj sel i n p. (sel, i) \<in> set (selectedIdentities c) \<and>
       (n, p) \<in> set (podsOf c sel) \<and> workloadOf c p obj} \<and>
     length results = podCount c (selectedIdentities c)"
  by (rule detectRun_writes [OF assms(1)]) (rule assms(2))

text \<open>
  A cluster in which a deployment and a stateful set are both named \<open>web\<close>, each with a pod
  that uses the same identity.
\<close>

definition demoOwnedPod :: "string \<Rightarrow> owner_reference \<Rightarrow> pod_object" where
  "demoOwnedPod n ref = \<lparr> po_meta = emptyMeta \<lparr> om_name := n, om_ownerReferences := [ref] \<rparr>, po_gvk = ([], [], []),
     po_spec = pt_spec (ts_template demoTemplate), po_status = None \<rparr>"

definition demoCluster :: cluster where
  "demoCluster = \<lparr>
     cl_bindings = [\<lparr> ab_namespace = ''ns'', ab_name = ''b'', ab_azureIdentity = ''id'', ab_selector = ''sel'' \<rparr>],
     cl_identities = [\<lparr> ai_name = ''id'', ai_type = UserAssignedMSI, ai_clientID = ''client'' \<rparr>],
     cl_pods = (\<lambda>l. [demoOwnedPod ''p'' (demoOwnerRef ''ReplicaSet'' ''web-1''), demoOwnedPod ''q'' (demoOwnerRef ''StatefulSet'' ''web'')]),
     cl_objects = (\<lambda>k n.
       if k = KReplicaSet then Inr (ReplicaSetObject (demoWorkload n [demoOwnerRef ''Deployment'' ''web'']))
       else if k = KStatefulSet then Inr (StatefulSetObject (demoWorkload n []))
       else Inr (DeploymentObject (demoWorkload n []))),
     cl_accounts = (\<lambda>n. Inl (StatusError ''NotFound'' n)) \<rparr>"

definition demoOrder :: detect_order where
  "demoOrder = \<lparr> ord_labels = rev, ord_pods = rev, ord_owners = rev, ord_results = rev \<rparr>"

definition demoRun :: "file_writes detect_cmd" where
  "demoRun = \<lparr> dc_namespace = ''ns'', dc_outputDir = ''out'', dc_proxyPort = 8000, dc_tokenExpiration = 7200 * second,
     dc_tenantID = [], dc_kubeClient = clusterClient ''ns'' demoCluster, dc_osCreate = (\<lambda>f w. (Inr (), w)),
     dc_encode = (\<lambda>m f w. (Inr (), w)) \<rparr>"

lemma demo_selected:
  "selectedIdentities demoCluster = [(''sel'', \<lparr> ai_name = ''id'', ai_type = UserAssignedMSI, ai_clientID = ''client'' \<rparr>)]"
  by (simp add: selectedIdentities_def demoCluster_def filterAzureIdentities_def)

lemma demo_pods:
  "podsOf demoCluster sel = [(''p'', demoOwnedPod ''p'' (demoOwnerRef ''ReplicaSet'' ''web-1'')),
     (''q'', demoOwnedPod ''q'' (demoOwnerRef ''StatefulSet'' ''web''))]"
  by (simp add: podsOf_def demoCluster_def demoOwnedPod_def)

lemma demo_owners:
  "workloadOf demoCluster (demoOwnedPod ''p'' (demoOwnerRef ''ReplicaSet'' ''web-1'')) (DeploymentObject (demoWorkload ''web'' []))"
  "workloadOf demoCluster (demoOwnedPod ''q'' (demoOwnerRef ''StatefulSet'' ''web'')) (StatefulSetObject (demoWorkload ''web'' []))"
proof -
  have d: "top_owner demoCluster (demoOwnerRef ''Deployment'' ''web'') (DeploymentObject (demoWorkload ''web'' []))"
    by (rule top_owner.top) (simp_all add: ownerLookup_def ownerKind_def demoCluster_def demoOwnerRef_def demoWorkload_def controllerOf_def)
  have r: "top_owner demoCluster (demoOwnerRef ''ReplicaSet'' ''web-1'') (DeploymentObject (demoWorkload ''web'' []))"
    by (rule top_owner.up [OF _ _ d, where obj = "ReplicaSetObject (demoWorkload ''web-1'' [demoOwnerRef ''Deployment'' ''web''])"])
      (simp_all add: ownerLookup_def ownerKind_def demoCluster_def demoOwnerRef_def demoWorkload_def controllerOf_def)
  show "workloadOf demoCluster (demoOwnedPod ''p'' (demoOwnerRef ''ReplicaSet'' ''web-1'')) (DeploymentObject (demoWorkload ''web'' []))"
    using r by (simp add: workloadOf_def demoOwnedPod_def controllerOf_def demoOwnerRef_def)
  have "top_owner demoCluster (demoOwnerRef ''StatefulSet'' ''web'') (StatefulSetObject (demoWorkload ''web'' []))"
    by (rule top_owner.top) (simp_all add: ownerLookup_def ownerKind_def demoCluster_def demoOwnerRef_def demoWorkload_def controllerOf_def)
  then show "workloadOf demoCluster (demoOwnedPod ''q'' (demoOwnerRef ''StatefulSet'' ''web'')) (StatefulSetObject (demoWorkload ''web'' []))"
    by (simp add: workloadOf_def demoOwnedPod_def controllerOf_def demoOwnerRef_def)
qed

lemma demo_account:
  "accountOf demoCluster dc (DeploymentObject (demoWorkload ''web'' [])) =
     Inr (emptyServiceAccount \<lparr> sa_meta := emptyMeta \<lparr> om_name := ''web'', om_namespace := dc_namespace dc \<rparr> \<rparr>)"
  "accountOf demoCluster dc (StatefulSetObject (demoWorkload ''web'' [])) =
     Inr (emptyServiceAccount \<lparr> sa_meta := emptyMeta \<lparr> om_name := ''web'', om_namespace := dc_namespace dc \<rparr> \<rparr>)"
  by (simp_all add: accountOf_def GetServiceAccountName_def demoWorkload_def demoTemplate_def
      deploymentSpecGet_def statefulSetSpecGet_def)

theorem detect_writes_witness:
  "\<exists>results. detectRun (onCluster demoCluster demoRun) demoOrder [] =
      Some (None, concat (map (writesOf demoCluster demoRun) results)) \<and> length results = 2"
proof -
  have ord: "someOrder demoOrder" by (simp add: someOrder_def demoOrder_def)
  have ready: "\<exists>obj sa. workloadOf demoCluster p obj \<and> accountOf demoCluster demoRun obj = Inr sa"
    if "(sel, i) \<in> set (selectedIdentities demoCluster)" and "(n, p) \<in> set (podsOf demoCluster sel)" for sel i n p
    using that(2) demo_owners demo_account [of demoRun] by (auto simp: demo_pods)
  have "podCount demoCluster (selectedIdentities demoCluster) = 2"
    by (simp add: podCount_def demo_selected demo_pods)
  then show ?thesis using detect_writes [of demoOrder demoCluster demoRun "[]"] ord ready by auto
qed

subsection \<open>Files of the same name\<close>

text \<open>The content of the files after a sequence of writes: of each file, the last one.\<close>

definition contents :: "file_writes \<Rightarrow> string \<Rightarrow> manifest option" where
  "contents w = map_of (rev w)"

lemma contents_append: "contents (v @ w) = contents v ++ contents w"
  by (simp add: contents_def)

lemma contents_dom: "dom (contents w) = fst ` set w"
  by (simp add: contents_def dom_map_of_conv_image_fst)

lemma metaOf_migrated: "om_name (metaOf (migratedObject dc sa obj)) = om_name (metaOf obj)"
  by (simp add: migratedObject_eq cleanMeta_def)

text \<open>
  The names of the files are made of the name of the workload alone, so of two workloads
  with the same name, of different kinds, only the files of the later one are left.
\<close>

theorem same_name_overwritten:
  assumes name: "om_name (metaOf obj1) = om_name (metaOf obj2)"
    and found: "accountOf c dc obj1 = Inr sa1" "accountOf c dc obj2 = Inr sa2"
  shows "contents (w @ writesOf c dc (obj1, cid1) @ writesOf c dc (obj2, cid2)) =
    contents (w @ writesOf c dc (obj2, cid2))"
proof -
  have "fst ` set (writesOf c dc (obj1, cid1)) = fst ` set (writesOf c dc (obj2, cid2))"
    using name by (simp add: writesOf_def found Let_def getResourceFileName_def metaOf_migrated)
  then have "dom (contents (writesOf c dc (obj1, cid1))) \<subseteq> dom (contents (writesOf c dc (obj2, cid2)))"
    by (simp add: contents_dom)
  then have "contents (writesOf c dc (obj1, cid1)) ++ contents (writesOf c dc (obj2, cid2)) = contents (writesOf c dc (obj2, cid2))"
    by (auto simp: map_add_def fun_eq_iff dom_def split: option.split)
  then show ?thesis by (simp add: contents_append del: map_add_assoc)
qed

end
