(* ===== verification/Detect_Frame.thy ===== *)
theory Detect_Frame
  imports Detect_Run
begin

section \<open>Runs of detect that fail, and what a run leaves alone\<close>

text \<open>
  The command reads the bindings, the identities, the pods and the owners first, but not the
  service accounts: each is read in the loop that writes the files, after the files of the
  workloads before it.  This theory says what a run leaves behind that stops on the way,
  because an owner or an account cannot be read or a file cannot be written, and which
  calls of the client a run does not make: it changes nothing but files.
\<close>

subsection \<open>What a run leaves alone\<close>

text \<open>A view of the outside that the calls for reading keep, and one that the file operations keep.\<close>

definition readsKeep :: "('w \<Rightarrow> 'v) \<Rightarrow> 'w kube_client \<Rightarrow> bool" where
  "readsKeep view kc \<longleftrightarrow>
     (\<forall>ns n w. view (snd (kc_getServiceAccount kc ns n w)) = view w) \<and>
     (\<forall>ns l w. view (snd (kc_listPods kc ns l w)) = view w) \<and>
     (\<forall>ns w. view (snd (kc_listAzureIdentity kc ns w)) = view w) \<and>
     (\<forall>ns w. view (snd (kc_listAzureIdentityBinding kc ns w)) = view w) \<and>
     (\<forall>k ns n w. view (snd (kc_getObject kc k ns n w)) = view w)"

definition filesKeep :: "('w \<Rightarrow> 'v) \<Rightarrow> 'w detect_cmd \<Rightarrow> bool" where
  "filesKeep view dc \<longleftrightarrow>
     (\<forall>f w. view (snd (dc_osCreate dc f w)) = view w) \<and> (\<forall>m f w. view (snd (dc_encode dc m f w)) = view w)"

lemma snd_eqD: "view (snd (f w)) = view w \<Longrightarrow> f w = (r, w') \<Longrightarrow> view w' = view w"
  by simp

lemma readsKeepD:
  assumes "readsKeep view kc"
  shows "kc_getServiceAccount kc ns n w = (a, w') \<Longrightarrow> view w' = view w"
    and "kc_listPods kc ns l w = (b, w') \<Longrightarrow> view w' = view w"
    and "kc_listAzureIdentity kc ns w = (c, w') \<Longrightarrow> view w' = view w"
    and "kc_listAzureIdentityBinding kc ns w = (d, w') \<Longrightarrow> view w' = view w"
    and "kc_getObject kc k ns n w = (e, w') \<Longrightarrow> view w' = view w"
  using assms unfolding readsKeep_def by (metis snd_conv)+

lemma filesKeepD:
  assumes "filesKeep view dc"
  shows "dc_osCreate dc f w = (a, w') \<Longrightarrow> view w' = view w" and "dc_encode dc m f w = (b, w') \<Longrightarrow> view w' = view w"
  using assms unfolding filesKeep_def by (metis snd_conv)+

lemma getOwnerObject_keeps:
  "readsKeep view (dc_kubeClient dc) \<Longrightarrow> getOwnerObject dc ref w = (r, w') \<Longrightarrow> view w' = view w"
  by (auto simp: getOwnerObject_def GetObject_def split: option.splits dest: readsKeepD(5))

lemma getOwner_keeps:
  assumes "getOwner dc ref w = Some x" and "readsKeep view (dc_kubeClient dc)"
  shows "view (snd x) = view w"
proof -
  have "readsKeep view (dc_kubeClient dc) \<longrightarrow> view (snd x) = view w"
  proof (rule getOwner.raw_induct [where P = "\<lambda>dc ref w x. readsKeep view (dc_kubeClient dc) \<longrightarrow> view (snd x) = view w",
        OF _ assms(1)])
    fix rec dc' r w x
    assume rec: "\<And>dc' r w x. rec dc' r w = Some x \<Longrightarrow> readsKeep view (dc_kubeClient dc') \<longrightarrow> view (snd x) = view w"
      and body: "(case getOwnerObject dc' r w of
          (Inl e, w1) \<Rightarrow> Some (Inl e, w1)
        | (Inr obj, w1) \<Rightarrow>
            (case controllerOf (om_ownerReferences (metaOf obj)) of
               Some parent \<Rightarrow> rec dc' parent w1 | None \<Rightarrow> Some (Inr obj, w1))) = Some x"
    show "readsKeep view (dc_kubeClient dc') \<longrightarrow> view (snd x) = view w"
    proof
      assume keep: "readsKeep view (dc_kubeClient dc')"
      obtain y w1 where y: "getOwnerObject dc' r w = (y, w1)" by fastforce
      have "view w1 = view w" by (rule getOwnerObject_keeps [OF keep y])
      moreover have "view (snd x) = view w1"
        using body rec keep unfolding y by (auto split: sum.splits option.splits)
      ultimately show "view (snd x) = view w" by simp
    qed
  qed
  with assms(2) show ?thesis by simp
qed

lemma selectorLoop_keeps:
  "readsKeep view (dc_kubeClient dc) \<Longrightarrow> selectorLoop dc ord labels acc w = (r, w') \<Longrightarrow> view w' = view w"
proof (induction labels arbitrary: acc w)
  case (Cons x labels)
  obtain selector i where x: "x = (selector, i)" by fastforce
  obtain y w1 where y: "kc_listPods (dc_kubeClient dc) (dc_namespace dc) [(CRDLabelKey, selector)] w = (y, w1)" by fastforce
  have "view w1 = view w" by (rule readsKeepD(2) [OF Cons.prems(1) y])
  then show ?case
    using Cons.prems(2) Cons.IH [OF Cons.prems(1)] x y by (auto simp: ListPods_def split: sum.splits)
qed simp

lemma ownerLoop_keeps:
  "readsKeep view (dc_kubeClient dc) \<Longrightarrow> ownerLoop dc owners results w = Some (r, w') \<Longrightarrow> view w' = view w"
proof (induction owners arbitrary: results w)
  case (Cons x owners)
  obtain ref cid where x: "x = (ref, cid)" by fastforce
  obtain y w1 where y: "getOwner dc ref w = Some (y, w1)"
    using Cons.prems(2) x by (auto split: option.splits)
  have "view w1 = view w" using getOwner_keeps [OF y Cons.prems(1)] by simp
  then show ?case using Cons.prems(2) Cons.IH [OF Cons.prems(1)] x y by (auto split: sum.splits)
qed simp

lemma fileLoop_keeps:
  assumes keep: "readsKeep view (dc_kubeClient dc)" "filesKeep view dc"
  shows "fileLoop dc all w = (r, w') \<Longrightarrow> view w' = view w"
proof (induction all arbitrary: w)
  case (Cons x all)
  obtain obj cid where x: "x = (obj, cid)" by fastforce
  obtain y w1 where y: "createServiceAccountFile dc (GetServiceAccountName obj) (om_name (metaOf obj)) cid w = (y, w1)"
    by fastforce
  have v1: "view w1 = view w"
    using y by (auto simp: createServiceAccountFile_def GetServiceAccount_def Let_def
        split: if_splits prod.splits sum.splits dest!: readsKeepD(1) [OF keep(1)] filesKeepD [OF keep(2)])
  show ?case
  proof (cases y)
    case (Inl e)
    then show ?thesis using Cons.prems x y v1 by simp
  next
    case (Inr sa)
    obtain z w2 where z: "createResourceFile dc obj sa w1 = (z, w2)" by fastforce
    have "view w2 = view w1"
      using z by (auto simp: createResourceFile_def Let_def split: prod.splits sum.splits dest!: filesKeepD [OF keep(2)])
    then show ?thesis using Cons.prems Cons.IH x y z Inr v1 by (auto split: option.splits)
  qed
qed simp

lemma detectRun_keeps:
  assumes keep: "readsKeep view (dc_kubeClient dc)"
  shows "case detectRun dc ord w of
      None \<Rightarrow> True
    | Some (r, w') \<Rightarrow> r \<noteq> None \<and> view w' = view w \<or> (\<exists>all w1. view w1 = view w \<and> fileLoop dc all w1 = (r, w'))"
proof -
  obtain b w1 where b: "kc_listAzureIdentityBinding (dc_kubeClient dc) (dc_namespace dc) w = (b, w1)" by fastforce
  have v1: "view w1 = view w" by (rule readsKeepD(4) [OF keep b])
  obtain i w2 where i: "kc_listAzureIdentity (dc_kubeClient dc) (dc_namespace dc) w1 = (i, w2)" by fastforce
  have v2: "view w2 = view w" using readsKeepD(3) [OF keep i] v1 by simp
  show ?thesis
  proof (cases "\<exists>bs is. b = Inr bs \<and> i = Inr is")
    case False
    then show ?thesis
      using b i v1 v2 by (cases b; cases i) (auto simp: detectRun_def ListAzureIdentityBinding_def ListAzureIdentity_def)
  next
    case True
    then obtain bs "is" where "is": "b = Inr bs" "i = Inr is" by blast
    define labels where "labels = filterAzureIdentities (sort_key bindingKey bs) (identityMapLoop is [])"
    obtain l w3 where l: "selectorLoop dc ord (ord_labels ord labels) ([], []) w2 = (l, w3)" by fastforce
    have v3: "view w3 = view w" using selectorLoop_keeps [OF keep l] v2 by simp
    have run: "detectRun dc ord w =
        (case l of Inl e \<Rightarrow> Some (Some e, w3)
         | Inr (owners, results) \<Rightarrow>
             (case ownerLoop dc (ord_owners ord owners) results w3 of
                None \<Rightarrow> None
              | Some (Inl e, w4) \<Rightarrow> Some (Some e, w4)
              | Some (Inr all, w4) \<Rightarrow> Some (fileLoop dc (ord_results ord all) w4)))"
      using b i "is" l by (simp add: detectRun_def ListAzureIdentityBinding_def ListAzureIdentity_def labels_def)
    show ?thesis
    proof (cases l)
      case (Inl e)
      then show ?thesis using run v3 by simp
    next
      case (Inr fs)
      obtain owners results where fs: "fs = (owners, results)" by fastforce
      show ?thesis
      proof (cases "ownerLoop dc (ord_owners ord owners) results w3")
        case None
        then show ?thesis using run Inr fs by simp
      next
        case (Some x)
        obtain y w4 where x: "x = (y, w4)" by fastforce
        have v4: "view w4 = view w" using ownerLoop_keeps [OF keep Some [unfolded x]] v3 by simp
        show ?thesis
          using run Inr fs Some x v4 by (cases y) (auto split: prod.splits)
      qed
    qed
  qed
qed

text \<open>
  A view that reading and writing files keep, such as the cluster, is kept to the end: detect
  changes nothing but files.
\<close>

theorem detect_changes_only_files:
  assumes "readsKeep view (dc_kubeClient dc)" and "filesKeep view dc" and "detectRun dc ord w = Some (r, w')"
  shows "view w' = view w"
  using detectRun_keeps [where ord = ord and w = w, OF assms(1)] fileLoop_keeps [OF assms(1,2)] assms(3)
  by (auto; metis)

subsection \<open>A disk that fails\<close>

text \<open>
  Creating a file or encoding a manifest into it may fail, depending on the name and the
  manifest.  The sequence of writes has the files that were written completely.
\<close>

record disk =
  dk_create :: "string \<Rightarrow> go_error option"
  dk_write :: "string \<Rightarrow> manifest \<Rightarrow> go_error option"

definition onDisk :: "cluster \<Rightarrow> disk \<Rightarrow> file_writes detect_cmd \<Rightarrow> file_writes detect_cmd" where
  "onDisk c d dc = (onCluster c dc) \<lparr>
     dc_osCreate := (\<lambda>f w. (case dk_create d f of Some e \<Rightarrow> Inl e | None \<Rightarrow> Inr (), w)),
     dc_encode := (\<lambda>m f w. case dk_write d f m of Some e \<Rightarrow> (Inl e, w) | None \<Rightarrow> (Inr (), w @ [(f, m)])) \<rparr>"

fun fileError :: "disk \<Rightarrow> string \<times> manifest \<Rightarrow> go_error option" where
  "fileError d (f, m) = (case dk_create d f of Some e \<Rightarrow> Some e | None \<Rightarrow> dk_write d f m)"

text \<open>
  The files of a workload that are left when the disk refuses one of them, and the error that
  stops the command at this workload, if any: its account cannot be read, or a file of it
  cannot be written.
\<close>

definition leftOf :: "cluster \<Rightarrow> disk \<Rightarrow> 'w detect_cmd \<Rightarrow> client_object \<times> string \<Rightarrow> file_writes" where
  "leftOf c d dc r = takeWhile (\<lambda>x. fileError d x = None) (writesOf c dc r)"

definition errorOf :: "cluster \<Rightarrow> disk \<Rightarrow> 'w detect_cmd \<Rightarrow> client_object \<times> string \<Rightarrow> go_error option" where
  "errorOf c d dc r =
     (case accountOf c dc (fst r) of
        Inl e \<Rightarrow> Some e
      | Inr sa \<Rightarrow>
          (case dropWhile (\<lambda>x. fileError d x = None) (writesOf c dc r) of
             [] \<Rightarrow> None
           | x # _ \<Rightarrow> fileError d x))"

text \<open>A chain of controllers that ends at an owner which cannot be read.\<close>

inductive owner_error :: "cluster \<Rightarrow> owner_reference \<Rightarrow> go_error \<Rightarrow> bool" for c where
  here: "ownerLookup c ref = Inl e \<Longrightarrow> owner_error c ref e"
| above: "ownerLookup c ref = Inr obj \<Longrightarrow> controllerOf (om_ownerReferences (metaOf obj)) = Some parent \<Longrightarrow>
    owner_error c parent e \<Longrightarrow> owner_error c ref e"

definition ownerFails :: "cluster \<Rightarrow> pod_object \<Rightarrow> go_error \<Rightarrow> bool" where
  "ownerFails c p e \<longleftrightarrow>
     (\<exists>ref. controllerOf (om_ownerReferences (po_meta p)) = Some ref \<and> owner_error c ref e)"

lemma onDisk_fields [simp]:
  "dc_kubeClient (onDisk c d dc) = clusterClient (dc_namespace dc) c" "dc_namespace (onDisk c d dc) = dc_namespace dc"
  "dc_osCreate (onDisk c d dc) f w = (case dk_create d f of Some e \<Rightarrow> Inl e | None \<Rightarrow> Inr (), w)"
  "dc_encode (onDisk c d dc) m f w = (case dk_write d f m of Some e \<Rightarrow> (Inl e, w) | None \<Rightarrow> (Inr (), w @ [(f, m)]))"
  by (simp_all add: onDisk_def)

lemma onDisk_files [simp]:
  "getServiceAccountFileName (onDisk c d dc) n = getServiceAccountFileName dc n"
  "getResourceFileName (onDisk c d dc) obj = getResourceFileName dc obj"
  "annotatedServiceAccount (onDisk c d dc) cid sa = annotatedServiceAccount dc cid sa"
  "migratedObject (onDisk c d dc) sa obj = migratedObject dc sa obj"
proof -
  have proxy: "addProxyInitContainer (onDisk c d dc) = addProxyInitContainer dc"
    "addProxyContainer (onDisk c d dc) = addProxyContainer dc"
    by (simp_all add: fun_eq_iff onDisk_def onCluster_def addProxyInitContainer_def detectProxyInitContainer_def
        addProxyContainer_def detectProxyContainer_def)
  show "migratedObject (onDisk c d dc) sa obj = migratedObject dc sa obj"
    by (simp only: migratedObject_def proxy)
qed (simp_all add: onDisk_def onCluster_def getServiceAccountFileName_def getResourceFileName_def
    annotatedServiceAccount_def Let_def)

lemma onDisk_owner: "getOwnerObject (onDisk c d dc) ref w = (ownerLookup c ref, w)"
  by (simp add: getOwnerObject_def ownerLookup_def GetObject_def clusterClient_def split: option.split)

lemma onDisk_top_owner: "top_owner c ref t \<Longrightarrow> getOwner (onDisk c d dc) ref w = Some (Inr t, w)"
  by (induction rule: top_owner.induct) (subst getOwner.simps, simp add: onDisk_owner)+

lemma onDisk_owner_error: "owner_error c ref e \<Longrightarrow> getOwner (onDisk c d dc) ref w = Some (Inl e, w)"
  by (induction rule: owner_error.induct) (subst getOwner.simps, simp add: onDisk_owner)+

lemma owner_error_not_top: "owner_error c ref e \<Longrightarrow> \<not> top_owner c ref t"
  using onDisk_owner_error [of c ref e undefined undefined "[]"] onDisk_top_owner [of c ref t undefined undefined "[]"]
  by auto

lemma selectorLoop_disk:
  "selectorLoop (onDisk c d dc) ord ls acc w = selectorLoop (onCluster c dc) ord ls acc w"
proof (induction ls arbitrary: acc w)
  case (Cons l ls)
  then show ?case by (cases l) (simp split: prod.split sum.split)
qed simp

lemma ownerLoop_disk:
  "(\<And>ref cid. (ref, cid) \<in> set owners \<Longrightarrow> \<exists>t. top_owner c ref t) \<Longrightarrow>
   ownerLoop (onDisk c d dc) owners results w = ownerLoop (onCluster c dc) owners results w"
proof (induction owners arbitrary: results)
  case (Cons o1 owners)
  obtain ref cid where o1: "o1 = (ref, cid)" by fastforce
  obtain t where t: "top_owner c ref t" using Cons.prems o1 by auto
  have "ownerLoop (onDisk c d dc) owners (results @ [(t, cid)]) w = ownerLoop (onCluster c dc) owners (results @ [(t, cid)]) w"
    using Cons.prems by (intro Cons.IH) (meson list.set_intros(2))
  then show ?case by (simp add: o1 top_owner_found [OF t] onDisk_top_owner [OF t])
qed simp

lemma ownerLoop_error:
  assumes "\<And>ref cid. (ref, cid) \<in> set owners \<Longrightarrow> (\<exists>t. top_owner c ref t) \<or> (\<exists>e. owner_error c ref e)"
    and "\<exists>ref cid e. (ref, cid) \<in> set owners \<and> owner_error c ref e"
  shows "\<exists>ref cid e. (ref, cid) \<in> set owners \<and> owner_error c ref e \<and>
    ownerLoop (onDisk c d dc) owners results w = Some (Inl e, w)"
  using assms
proof (induction owners arbitrary: results)
  case (Cons o1 owners)
  obtain ref cid where o1: "o1 = (ref, cid)" by fastforce
  show ?case
  proof (cases "\<exists>e. owner_error c ref e")
    case True
    then obtain e where e: "owner_error c ref e" by blast
    then have "ownerLoop (onDisk c d dc) (o1 # owners) results w = Some (Inl e, w)"
      by (simp add: o1 onDisk_owner_error)
    with e show ?thesis unfolding o1 by (metis list.set_intros(1))
  next
    case False
    then obtain t where t: "top_owner c ref t" using Cons.prems(1) [of ref cid] o1 by auto
    have "\<exists>ref cid e. (ref, cid) \<in> set owners \<and> owner_error c ref e" using Cons.prems(2) False o1 by auto
    moreover have "(\<exists>t. top_owner c ref t) \<or> (\<exists>e. owner_error c ref e)" if "(ref, cid) \<in> set owners" for ref cid
      using Cons.prems(1) that by (meson list.set_intros(2))
    ultimately obtain r2 c2 e where "(r2, c2) \<in> set owners" "owner_error c r2 e"
      "ownerLoop (onDisk c d dc) owners (results @ [(t, cid)]) w = Some (Inl e, w)"
      using Cons.IH [of "results @ [(t, cid)]"] by blast
    then show ?thesis unfolding o1 by (auto simp: onDisk_top_owner [OF t])
  qed
qed simp

lemma fileLoop_disk:
  "fileLoop (onDisk c d dc) rs w =
     (let done = takeWhile (\<lambda>r. errorOf c d dc r = None) rs in
      case drop (length done) rs of
        [] \<Rightarrow> (None, w @ concat (map (writesOf c dc) rs))
      | r # _ \<Rightarrow> (errorOf c d dc r, w @ concat (map (writesOf c dc) done) @ leftOf c d dc r))"
proof (induction rs arbitrary: w)
  case (Cons r rs)
  obtain obj cid where r: "r = (obj, cid)" by fastforce
  have get: "(if GetServiceAccountName obj = [] \<or> GetServiceAccountName obj = ''default''
       then (Inr (emptyServiceAccount \<lparr> sa_meta := emptyMeta \<lparr> om_name := om_name (metaOf obj), om_namespace := dc_namespace dc \<rparr> \<rparr>), w)
       else GetServiceAccount (clusterClient (dc_namespace dc) c) (dc_namespace dc) (GetServiceAccountName obj) w)
      = (accountOf c dc obj, w)"
    by (simp add: accountOf_def GetServiceAccount_def clusterClient_def)
  show ?case
  proof (cases "accountOf c dc obj")
    case (Inl e)
    then have "createServiceAccountFile (onDisk c d dc) (GetServiceAccountName obj) (om_name (metaOf obj)) cid w = (Inl e, w)"
      unfolding createServiceAccountFile_def onDisk_fields get by simp
    with Inl show ?thesis by (simp add: r errorOf_def leftOf_def writesOf_def)
  next
    case (Inr sa)
    let ?sa = "annotatedServiceAccount dc cid sa"
    let ?f = "(filepathJoin [getServiceAccountFileName dc (om_name (metaOf obj))], SaManifest ?sa)"
    let ?g = "(getResourceFileName dc (migratedObject dc ?sa obj), ObjectManifest (migratedObject dc ?sa obj))"
    have two: "writesOf c dc r = [?f, ?g]" by (simp add: writesOf_def r Inr Let_def)
    have sa: "createServiceAccountFile (onDisk c d dc) (GetServiceAccountName obj) (om_name (metaOf obj)) cid w =
        (case fileError d ?f of Some e \<Rightarrow> (Inl e, w) | None \<Rightarrow> (Inr ?sa, w @ [?f]))"
      unfolding createServiceAccountFile_def onDisk_fields get
      by (simp add: Inr Let_def split: option.split)
    have res: "createResourceFile (onDisk c d dc) obj ?sa v =
        (case fileError d ?g of Some e \<Rightarrow> (Some e, v) | None \<Rightarrow> (None, v @ [?g]))" for v
      by (simp add: createResourceFile_def Let_def split: option.split)
    have err: "errorOf c d dc r = (case fileError d ?f of Some e \<Rightarrow> Some e | None \<Rightarrow> fileError d ?g)"
      unfolding errorOf_def two by (auto simp del: fileError.simps simp: r Inr split: option.split)
    have left: "leftOf c d dc r = (if fileError d ?f = None then if fileError d ?g = None then [?f, ?g] else [?f] else [])"
      by (simp del: fileError.simps add: leftOf_def two)
    show ?thesis
      using Cons.IH [of "w @ [?f, ?g]"] sa res err left two
      by (cases "fileError d ?f"; cases "fileError d ?g")
        (simp_all del: fileError.simps add: r Let_def split: list.splits)
  qed
qed simp

text \<open>
  C26: A run of detect that fails on the way.  Let every chain of controllers of the selected
  pods end, at an object or at an owner that cannot be read, and let the disk refuse any
  files.  If some owner cannot be read, the command returns the error of one and has
  written nothing, whatever it found of the other pods.  Otherwise there is an order of the
  workloads, one entry for each selected pod with the client id of its identity, and the
  command goes through it: the workloads before the first one whose account cannot be read
  or whose files cannot be written have both their files, as this account is read only then;
  of that one the account file may be left but not the workload file, none of the later
  workloads has a file, and the error is its error.  When there is no such workload the
  command succeeds, and all have both files.
\<close>

theorem detect_stops_at_failure:
  assumes ord: "someOrder ord"
    and ends: "\<And>sel i n p. (sel, i) \<in> set (selectedIdentities c) \<Longrightarrow> (n, p) \<in> set (podsOf c sel) \<Longrightarrow>
      (\<exists>obj. workloadOf c p obj) \<or> (\<exists>e. ownerFails c p e)"
  shows "if \<exists>sel i n p e. (sel, i) \<in> set (selectedIdentities c) \<and> (n, p) \<in> set (podsOf c sel) \<and> ownerFails c p e
    then \<exists>sel i n p e. (sel, i) \<in> set (selectedIdentities c) \<and> (n, p) \<in> set (podsOf c sel) \<and> ownerFails c p e \<and>
      detectRun (onDisk c d dc) ord w = Some (Some e, w)
    else \<exists>results done. set results = selectedWorkloads c \<and> length results = podCount c (selectedIdentities c) \<and>
      done = takeWhile (\<lambda>r. errorOf c d dc r = None) results \<and>
      detectRun (onDisk c d dc) ord w =
        (case drop (length done) results of
           [] \<Rightarrow> Some (None, w @ concat (map (writesOf c dc) results))
         | r # _ \<Rightarrow> Some (errorOf c d dc r, w @ concat (map (writesOf c dc) done) @ leftOf c d dc r))"
proof -
  note same = someOrder_sets [OF ord]
  let ?ls = "selectedIdentities c"
  obtain os rs where sel: "selectorLoop (onCluster c dc) ord (ord_labels ord ?ls) ([], []) w = (Inr (os, rs), w)"
    and os: "set os = ownedPods c ?ls" and rs: "set rs = barePods c ?ls"
    and len: "length os + length rs = podCount c ?ls"
    using pods_found [OF ord, of c dc w] by blast
  have run: "detectRun (onDisk c d dc) ord w =
      (case ownerLoop (onDisk c d dc) (ord_owners ord os) rs w of
         None \<Rightarrow> None
       | Some (Inl e, w4) \<Rightarrow> Some (Some e, w4)
       | Some (Inr all, w4) \<Rightarrow> Some (fileLoop (onDisk c d dc) (ord_results ord all) w4))"
    using sel by (simp add: detectRun_def ListAzureIdentityBinding_def ListAzureIdentity_def clusterClient_def
        selectedIdentities_def selectorLoop_disk Let_def)
  have chains: "(\<exists>t. top_owner c ref t) \<or> (\<exists>e. owner_error c ref e)" if "(ref, cid) \<in> set (ord_owners ord os)" for ref cid
    using that ends unfolding same os ownedPods_iff workloadOf_iff ownerFails_def by fastforce
  have fails: "(\<exists>sel i n p. (sel, i) \<in> set ?ls \<and> (n, p) \<in> set (podsOf c sel) \<and> ownerFails c p e) \<longleftrightarrow>
      (\<exists>ref cid. (ref, cid) \<in> set (ord_owners ord os) \<and> owner_error c ref e)" for e
    unfolding same os ownedPods_iff ownerFails_def by blast
  show ?thesis
  proof (cases "\<exists>sel i n p e. (sel, i) \<in> set ?ls \<and> (n, p) \<in> set (podsOf c sel) \<and> ownerFails c p e")
    case True
    then have some_error: "\<exists>ref cid e. (ref, cid) \<in> set (ord_owners ord os) \<and> owner_error c ref e" using fails by blast
    have "\<exists>ref cid e. (ref, cid) \<in> set (ord_owners ord os) \<and> owner_error c ref e \<and>
        ownerLoop (onDisk c d dc) (ord_owners ord os) rs w = Some (Inl e, w)"
      by (rule ownerLoop_error [OF chains some_error])
    then obtain ref cid e where e: "(ref, cid) \<in> set (ord_owners ord os)" "owner_error c ref e"
      and "ownerLoop (onDisk c d dc) (ord_owners ord os) rs w = Some (Inl e, w)" by blast
    then have "detectRun (onDisk c d dc) ord w = Some (Some e, w)" using run by simp
    moreover have "\<exists>sel i n p. (sel, i) \<in> set ?ls \<and> (n, p) \<in> set (podsOf c sel) \<and> ownerFails c p e"
      using fails e by blast
    ultimately show ?thesis using True by (simp only: if_True) blast
  next
    case False
    have tops: "\<exists>t. top_owner c ref t" if mem: "(ref, cid) \<in> set (ord_owners ord os)" for ref cid
      using chains [OF mem] fails mem False by blast
    obtain all where own: "ownerLoop (onCluster c dc) (ord_owners ord os) rs w = Some (Inr all, w)"
      and all: "set all = set rs \<union> {(t, cid) | t ref cid. (ref, cid) \<in> set os \<and> top_owner c ref t}"
      and alen: "length all = length os + length rs"
      using ownerLoop_found [of "ord_owners ord os" c dc rs w] tops unfolding same by blast
    have "ownerLoop (onDisk c d dc) (ord_owners ord os) rs w = Some (Inr all, w)"
      using own by (subst ownerLoop_disk) (auto intro: tops)
    then have "detectRun (onDisk c d dc) ord w = Some (fileLoop (onDisk c d dc) (ord_results ord all) w)"
      using run by simp
    moreover have "set (ord_results ord all) = selectedWorkloads c"
      using workloads_of_found [OF os rs all] by (simp add: same)
    moreover have "length (ord_results ord all) = podCount c ?ls" using alen len by (simp add: same)
    moreover have "Some (fileLoop (onDisk c d dc) rs w) =
        (case drop (length (takeWhile (\<lambda>r. errorOf c d dc r = None) rs)) rs of
           [] \<Rightarrow> Some (None, w @ concat (map (writesOf c dc) rs))
         | r # _ \<Rightarrow> Some (errorOf c d dc r,
             w @ concat (map (writesOf c dc) (takeWhile (\<lambda>r. errorOf c d dc r = None) rs)) @ leftOf c d dc r))" for rs
      by (cases "drop (length (takeWhile (\<lambda>r. errorOf c d dc r = None) rs)) rs") (simp_all add: fileLoop_disk Let_def)
    ultimately show ?thesis
      unfolding if_not_P [OF False]
      by (intro exI [of _ "ord_results ord all"] exI conjI refl) simp_all
  qed
qed

text \<open>
  A disk with room for the small files of the accounts only, and a cluster that does not let
  its owners be read.
\<close>

definition diskFull :: go_error where "diskFull = GoError ''no space left on device''"

definition fullDisk :: disk where
  "fullDisk = \<lparr> dk_create = (\<lambda>f. None),
     dk_write = (\<lambda>f m. case m of SaManifest sa \<Rightarrow> None | ObjectManifest obj \<Rightarrow> Some diskFull) \<rparr>"

definition closedCluster :: cluster where
  "closedCluster = demoCluster \<lparr> cl_objects := (\<lambda>k n. Inl (StatusError ''Forbidden'' n)) \<rparr>"

lemma closed_selected:
  "selectedIdentities closedCluster = selectedIdentities demoCluster" "podsOf closedCluster = podsOf demoCluster"
  by (simp_all add: closedCluster_def selectedIdentities_def podsOf_def fun_eq_iff)

lemma closed_owner:
  "(n, p) \<in> set (podsOf demoCluster sel) \<Longrightarrow> \<exists>e. ownerFails closedCluster p e"
  "ownerFails closedCluster p e \<Longrightarrow> (n, p) \<in> set (podsOf demoCluster sel) \<Longrightarrow> statusReason e = ''Forbidden''"
proof -
  have lookup: "ownerLookup closedCluster (demoOwnerRef ''ReplicaSet'' m) = Inl (StatusError ''Forbidden'' m)"
      "ownerLookup closedCluster (demoOwnerRef ''StatefulSet'' m) = Inl (StatusError ''Forbidden'' m)" for m
    by (simp_all add: ownerLookup_def ownerKind_def closedCluster_def demoOwnerRef_def)
  have errs: "\<exists>e. owner_error closedCluster (demoOwnerRef ''ReplicaSet'' m) e"
      "\<exists>e. owner_error closedCluster (demoOwnerRef ''StatefulSet'' m) e" for m
    using lookup by (blast intro: owner_error.here)+
  have ctl: "controllerOf (om_ownerReferences (po_meta (demoOwnedPod m (demoOwnerRef k o')))) = Some (demoOwnerRef k o')" for m k o'
    by (simp add: demoOwnedPod_def controllerOf_def demoOwnerRef_def)
  have only1: "statusReason e = ''Forbidden''" if "owner_error closedCluster (demoOwnerRef ''ReplicaSet'' m) e" for m e
    using that by cases (auto simp: lookup)
  have only2: "statusReason e = ''Forbidden''" if "owner_error closedCluster (demoOwnerRef ''StatefulSet'' m) e" for m e
    using that by cases (auto simp: lookup)
  show "\<exists>e. ownerFails closedCluster p e" if "(n, p) \<in> set (podsOf demoCluster sel)"
    using that by (auto simp: demo_pods ownerFails_def ctl errs)
  show "statusReason e = ''Forbidden''" if "ownerFails closedCluster p e" and "(n, p) \<in> set (podsOf demoCluster sel)"
    using that only1 only2 by (auto simp: demo_pods ownerFails_def ctl)
qed

lemma workloadOf_unique: "workloadOf c p obj \<Longrightarrow> workloadOf c p obj' \<Longrightarrow> obj' = obj"
  using top_owner_unique by (auto simp: workloadOf_def split: option.splits)

lemma demo_writes:
  assumes "obj = DeploymentObject (demoWorkload ''web'' []) \<or> obj = StatefulSetObject (demoWorkload ''web'' [])"
  shows "errorOf demoCluster fullDisk demoRun (obj, ''client'') = Some diskFull"
    and "leftOf demoCluster fullDisk demoRun (obj, ''client'') = [(''out/web-serviceaccount.yaml'',
      SaManifest (annotatedServiceAccount demoRun ''client'' (emptyServiceAccount \<lparr> sa_meta :=
        emptyMeta \<lparr> om_name := ''web'', om_namespace := ''ns'' \<rparr> \<rparr>)))]"
proof -
  let ?base = "emptyServiceAccount \<lparr> sa_meta := emptyMeta \<lparr> om_name := ''web'', om_namespace := ''ns'' \<rparr> \<rparr>"
  let ?sa = "annotatedServiceAccount demoRun ''client'' ?base"
  have ns: "dc_namespace demoRun = ''ns''" by (simp add: demoRun_def)
  have dir: "dc_outputDir demoRun = ''out''" by (simp add: demoRun_def)
  have acc: "accountOf demoCluster demoRun obj = Inr ?base"
    using assms ns by (auto simp: demo_account)
  have "om_name (metaOf obj) = ''web''" using assms by (auto simp: demoWorkload_def)
  moreover have "filepathJoin [filepathJoin [''out'', ''web-serviceaccount.yaml'']] = ''out/web-serviceaccount.yaml''"
    by code_simp
  ultimately have w: "writesOf demoCluster demoRun (obj, ''client'') = [(''out/web-serviceaccount.yaml'', SaManifest ?sa),
      (getResourceFileName demoRun (migratedObject demoRun ?sa obj), ObjectManifest (migratedObject demoRun ?sa obj))]"
    using dir by (simp add: writesOf_def acc Let_def getServiceAccountFileName_def)
  show "errorOf demoCluster fullDisk demoRun (obj, ''client'') = Some diskFull"
    "leftOf demoCluster fullDisk demoRun (obj, ''client'') = [(''out/web-serviceaccount.yaml'', SaManifest ?sa)]"
    by (simp_all add: errorOf_def leftOf_def acc w fullDisk_def)
qed

lemma demo_selectedWorkloads:
  "r \<in> selectedWorkloads demoCluster \<Longrightarrow>
     r = (DeploymentObject (demoWorkload ''web'' []), ''client'') \<or> r = (StatefulSetObject (demoWorkload ''web'' []), ''client'')"
  using workloadOf_unique [OF demo_owners(1)] workloadOf_unique [OF demo_owners(2)]
  by (auto simp: selectedWorkloads_def demo_selected demo_pods)

theorem detect_stops_at_failure_witness:
  "(\<exists>sa. detectRun (onDisk demoCluster fullDisk demoRun) demoOrder [] =
      Some (Some diskFull, [(''out/web-serviceaccount.yaml'', SaManifest sa)])) \<and>
   (\<exists>e. detectRun (onDisk closedCluster fullDisk demoRun) demoOrder [] = Some (Some e, []) \<and> statusReason e = ''Forbidden'')"
proof
  have ord: "someOrder demoOrder" by (simp add: someOrder_def demoOrder_def)
  have ends: "\<exists>obj. workloadOf demoCluster p obj" if "(n, p) \<in> set (podsOf demoCluster sel)" for sel n p
    using that demo_owners by (auto simp: demo_pods)
  have fine: "\<not> ownerFails demoCluster p e" if "(n, p) \<in> set (podsOf demoCluster sel)" for sel n p e
    using ends [OF that] owner_error_not_top by (auto simp: ownerFails_def workloadOf_iff)
  have none: "\<not> (\<exists>sel i n p e. (sel, i) \<in> set (selectedIdentities demoCluster) \<and>
      (n, p) \<in> set (podsOf demoCluster sel) \<and> ownerFails demoCluster p e)"
    using fine by blast
  have ends': "(\<exists>obj. workloadOf demoCluster p obj) \<or> (\<exists>e. ownerFails demoCluster p e)"
    if "(sel, i) \<in> set (selectedIdentities demoCluster)" and "(n, p) \<in> set (podsOf demoCluster sel)" for sel i n p
    using ends [OF that(2)] by blast
  obtain results dn where results: "set results = selectedWorkloads demoCluster"
      "length results = podCount demoCluster (selectedIdentities demoCluster)"
    and dn: "dn = takeWhile (\<lambda>r. errorOf demoCluster fullDisk demoRun r = None) results"
    and run: "detectRun (onDisk demoCluster fullDisk demoRun) demoOrder [] =
      (case drop (length dn) results of
         [] \<Rightarrow> Some (None, [] @ concat (map (writesOf demoCluster demoRun) results))
       | r # _ \<Rightarrow> Some (errorOf demoCluster fullDisk demoRun r,
           [] @ concat (map (writesOf demoCluster demoRun) dn) @ leftOf demoCluster fullDisk demoRun r))"
    using detect_stops_at_failure [where ord = demoOrder and c = demoCluster and d = fullDisk and dc = demoRun and w = "[]",
        unfolded if_not_P [OF none]] ord ends' by blast
  obtain r rs where r: "results = r # rs" using results(2) by (cases results) (auto simp: podCount_def demo_selected demo_pods)
  then have "r \<in> selectedWorkloads demoCluster" using results(1) by auto
  from demo_selectedWorkloads [OF this] obtain obj where obj: "r = (obj, ''client'')"
    "obj = DeploymentObject (demoWorkload ''web'' []) \<or> obj = StatefulSetObject (demoWorkload ''web'' [])" by blast
  show "\<exists>sa. detectRun (onDisk demoCluster fullDisk demoRun) demoOrder [] =
      Some (Some diskFull, [(''out/web-serviceaccount.yaml'', SaManifest sa)])"
    unfolding run dn r obj(1) by (simp add: demo_writes [OF obj(2)])
next
  have ord: "someOrder demoOrder" by (simp add: someOrder_def demoOrder_def)
  have "\<exists>sel i n p e. (sel, i) \<in> set (selectedIdentities closedCluster) \<and> (n, p) \<in> set (podsOf closedCluster sel) \<and>
      ownerFails closedCluster p e"
  proof -
    have pod: "(''p'', demoOwnedPod ''p'' (demoOwnerRef ''ReplicaSet'' ''web-1'')) \<in> set (podsOf demoCluster ''sel'')"
      by (simp add: demo_pods)
    have sel: "\<exists>i. (''sel'', i) \<in> set (selectedIdentities demoCluster)" by (simp add: demo_selected)
    show ?thesis using pod sel closed_owner(1) [OF pod] unfolding closed_selected by metis
  qed
  note failing = this
  have "\<exists>sel i n p e. (sel, i) \<in> set (selectedIdentities closedCluster) \<and> (n, p) \<in> set (podsOf closedCluster sel) \<and>
      ownerFails closedCluster p e \<and> detectRun (onDisk closedCluster fullDisk demoRun) demoOrder [] = Some (Some e, [])"
  proof (rule detect_stops_at_failure [where ord = demoOrder and c = closedCluster and d = fullDisk and dc = demoRun
        and w = "[]", OF ord, unfolded if_P [OF failing]])
    show "(\<exists>obj. workloadOf closedCluster p obj) \<or> (\<exists>e. ownerFails closedCluster p e)"
      if "(n, p) \<in> set (podsOf closedCluster sel)" for sel n p
      using closed_owner(1) that by (simp add: closed_selected)
  qed
  then obtain sel i n p e where "(n, p) \<in> set (podsOf closedCluster sel)" "ownerFails closedCluster p e"
    and run: "detectRun (onDisk closedCluster fullDisk demoRun) demoOrder [] = Some (Some e, [])"
    by (elim exE conjE) (rule that)
  then have "statusReason e = ''Forbidden''" using closed_owner(2) by (simp add: closed_selected)
  with run show "\<exists>e. detectRun (onDisk closedCluster fullDisk demoRun) demoOrder [] = Some (Some e, []) \<and>
      statusReason e = ''Forbidden''" by blast
qed

end
