(* ===== verification/Local_Wrapper.thy ===== *)
theory Local_Wrapper
  imports Detect "HOL-Library.Monad_Syntax"
begin

section \<open>The wrapped objects of detect (pkg/cmd/podidentity/k8s)\<close>

text \<open>
  \<open>Local_Object\<close> dispatches on the kind of an object at every call.  The code does it once:
  \<open>NewLocalObject\<close> puts the object into the wrapper of its type, and every method of a wrapper
  asserts that type again, which panics on another one.  Here the wrapper is its methods and the
  object, \<open>None\<close> is the panic, and the edits of \<open>createResourceFile\<close> are the calls of the code
  one after the other.
\<close>

subsection \<open>Type assertions\<close>

text \<open>A \<open>client.Object\<close>: one of the eight kinds, or of another type, with its metadata.\<close>

datatype k8s_object = Workload client_object | OtherObject string object_meta

fun objectMeta :: "k8s_object \<Rightarrow> object_meta" where
  "objectMeta (Workload x) = metaOf x"
| "objectMeta (OtherObject t m) = m"

fun putObjectMeta :: "object_meta \<Rightarrow> k8s_object \<Rightarrow> k8s_object" where
  "putObjectMeta m (Workload x) = Workload (putMeta m x)"
| "putObjectMeta m (OtherObject t m') = OtherObject t m"

definition asPod :: "k8s_object \<Rightarrow> pod_object option" where
  "asPod obj = (case obj of Workload (PodObject x) \<Rightarrow> Some x | _ \<Rightarrow> None)"

definition asDeployment :: "k8s_object \<Rightarrow> workload option" where
  "asDeployment obj = (case obj of Workload (DeploymentObject x) \<Rightarrow> Some x | _ \<Rightarrow> None)"

definition asStatefulSet :: "k8s_object \<Rightarrow> workload option" where
  "asStatefulSet obj = (case obj of Workload (StatefulSetObject x) \<Rightarrow> Some x | _ \<Rightarrow> None)"

definition asDaemonSet :: "k8s_object \<Rightarrow> workload option" where
  "asDaemonSet obj = (case obj of Workload (DaemonSetObject x) \<Rightarrow> Some x | _ \<Rightarrow> None)"

definition asReplicaSet :: "k8s_object \<Rightarrow> workload option" where
  "asReplicaSet obj = (case obj of Workload (ReplicaSetObject x) \<Rightarrow> Some x | _ \<Rightarrow> None)"

definition asReplicationController :: "k8s_object \<Rightarrow> workload option" where
  "asReplicationController obj = (case obj of Workload (ReplicationControllerObject x) \<Rightarrow> Some x | _ \<Rightarrow> None)"

definition asCronJob :: "k8s_object \<Rightarrow> cron_job option" where
  "asCronJob obj = (case obj of Workload (CronJobObject x) \<Rightarrow> Some x | _ \<Rightarrow> None)"

definition asJob :: "k8s_object \<Rightarrow> workload option" where
  "asJob obj = (case obj of Workload (JobObject x) \<Rightarrow> Some x | _ \<Rightarrow> None)"

subsection \<open>The wrappers\<close>

text \<open>
  The methods: \<open>lm_spec\<close> and \<open>lm_putSpec\<close> are what the getters and setters of the pod
  specification select and assign.
\<close>

record local_methods =
  lm_spec :: "k8s_object \<Rightarrow> pod_spec option"
  lm_putSpec :: "pod_spec \<Rightarrow> k8s_object \<Rightarrow> k8s_object option"
  lm_setGVK :: "k8s_object \<Rightarrow> k8s_object option"
  lm_resetStatus :: "k8s_object \<Rightarrow> k8s_object option"
  lm_getObject :: "k8s_object \<Rightarrow> k8s_object"

record localObject =
  lo_methods :: local_methods
  lo_object :: k8s_object

definition methodsOver ::
  "(k8s_object \<Rightarrow> 'x option) \<Rightarrow> ('x \<Rightarrow> client_object) \<Rightarrow> ('x \<Rightarrow> pod_spec) \<Rightarrow> (pod_spec \<Rightarrow> 'x \<Rightarrow> 'x) \<Rightarrow>
     ('x \<Rightarrow> 'x) \<Rightarrow> ('x \<Rightarrow> 'x) \<Rightarrow> local_methods" where
  "methodsOver assertType con get put setGVK resetStatus =
     \<lparr> lm_spec = (\<lambda>obj. map_option get (assertType obj)),
       lm_putSpec = (\<lambda>s obj. map_option (\<lambda>x. Workload (con (put s x))) (assertType obj)),
       lm_setGVK = (\<lambda>obj. map_option (\<lambda>x. Workload (con (setGVK x))) (assertType obj)),
       lm_resetStatus = (\<lambda>obj. map_option (\<lambda>x. Workload (con (resetStatus x))) (assertType obj)),
       lm_getObject = (\<lambda>obj. obj) \<rparr>"

definition podMethods :: local_methods where
  "podMethods = methodsOver asPod PodObject podSpecGet podSpecPut podSetGVK podResetStatus"

definition newPodLocalObject :: "k8s_object \<Rightarrow> localObject" where
  "newPodLocalObject obj = \<lparr> lo_methods = podMethods, lo_object = obj \<rparr>"

definition deploymentMethods :: local_methods where
  "deploymentMethods = methodsOver asDeployment DeploymentObject deploymentSpecGet deploymentSpecPut deploymentSetGVK deploymentResetStatus"

definition newDeploymentLocalObject :: "k8s_object \<Rightarrow> localObject" where
  "newDeploymentLocalObject obj = \<lparr> lo_methods = deploymentMethods, lo_object = obj \<rparr>"

definition statefulSetMethods :: local_methods where
  "statefulSetMethods = methodsOver asStatefulSet StatefulSetObject statefulSetSpecGet statefulSetSpecPut statefulSetSetGVK statefulSetResetStatus"

definition newStatefulSetLocalObject :: "k8s_object \<Rightarrow> localObject" where
  "newStatefulSetLocalObject obj = \<lparr> lo_methods = statefulSetMethods, lo_object = obj \<rparr>"

definition daemonSetMethods :: local_methods where
  "daemonSetMethods = methodsOver asDaemonSet DaemonSetObject daemonSetSpecGet daemonSetSpecPut daemonSetSetGVK daemonSetResetStatus"

definition newDaemonSetLocalObject :: "k8s_object \<Rightarrow> localObject" where
  "newDaemonSetLocalObject obj = \<lparr> lo_methods = daemonSetMethods, lo_object = obj \<rparr>"

definition replicaSetMethods :: local_methods where
  "replicaSetMethods = methodsOver asReplicaSet ReplicaSetObject replicaSetSpecGet replicaSetSpecPut replicaSetSetGVK replicaSetResetStatus"

definition newReplicaSetLocalObject :: "k8s_object \<Rightarrow> localObject" where
  "newReplicaSetLocalObject obj = \<lparr> lo_methods = replicaSetMethods, lo_object = obj \<rparr>"

definition replicationControllerMethods :: local_methods where
  "replicationControllerMethods = methodsOver asReplicationController ReplicationControllerObject replicationControllerSpecGet replicationControllerSpecPut replicationControllerSetGVK replicationControllerResetStatus"

definition newReplicationControllerLocalObject :: "k8s_object \<Rightarrow> localObject" where
  "newReplicationControllerLocalObject obj = \<lparr> lo_methods = replicationControllerMethods, lo_object = obj \<rparr>"

definition cronJobMethods :: local_methods where
  "cronJobMethods = methodsOver asCronJob CronJobObject cronJobSpecGet cronJobSpecPut cronJobSetGVK cronJobResetStatus"

definition newCronJobLocalObject :: "k8s_object \<Rightarrow> localObject" where
  "newCronJobLocalObject obj = \<lparr> lo_methods = cronJobMethods, lo_object = obj \<rparr>"

definition jobMethods :: local_methods where
  "jobMethods = methodsOver asJob JobObject jobSpecGet jobSpecPut jobSetGVK jobResetStatus"

definition newJobLocalObject :: "k8s_object \<Rightarrow> localObject" where
  "newJobLocalObject obj = \<lparr> lo_methods = jobMethods, lo_object = obj \<rparr>"

text \<open>The switch on the type; \<open>None\<close> is the nil interface of its default.\<close>

definition NewLocalObject :: "k8s_object \<Rightarrow> localObject option" where
  "NewLocalObject obj =
     (case obj of
        Workload (PodObject _) \<Rightarrow> Some (newPodLocalObject obj)
      | Workload (DeploymentObject _) \<Rightarrow> Some (newDeploymentLocalObject obj)
      | Workload (StatefulSetObject _) \<Rightarrow> Some (newStatefulSetLocalObject obj)
      | Workload (DaemonSetObject _) \<Rightarrow> Some (newDaemonSetLocalObject obj)
      | Workload (ReplicaSetObject _) \<Rightarrow> Some (newReplicaSetLocalObject obj)
      | Workload (ReplicationControllerObject _) \<Rightarrow> Some (newReplicationControllerLocalObject obj)
      | Workload (CronJobObject _) \<Rightarrow> Some (newCronJobLocalObject obj)
      | Workload (JobObject _) \<Rightarrow> Some (newJobLocalObject obj)
      | OtherObject _ _ \<Rightarrow> None)"

subsection \<open>The calls of createResourceFile\<close>

definition localSpec :: "localObject \<Rightarrow> pod_spec option" where
  "localSpec l = lm_spec (lo_methods l) (lo_object l)"

definition localPutSpec :: "pod_spec \<Rightarrow> localObject \<Rightarrow> localObject option" where
  "localPutSpec s l = map_option (\<lambda>obj. l \<lparr> lo_object := obj \<rparr>) (lm_putSpec (lo_methods l) s (lo_object l))"

definition localGetServiceAccountName :: "localObject \<Rightarrow> string option" where
  "localGetServiceAccountName l = map_option ps_serviceAccountName (localSpec l)"

definition localSetServiceAccountName :: "string \<Rightarrow> localObject \<Rightarrow> localObject option" where
  "localSetServiceAccountName n l =
     do { s \<leftarrow> localSpec l; localPutSpec (s \<lparr> ps_serviceAccountName := n \<rparr>) l }"

definition localGetContainers :: "localObject \<Rightarrow> container list option" where
  "localGetContainers l = map_option ps_containers (localSpec l)"

definition localSetContainers :: "container list \<Rightarrow> localObject \<Rightarrow> localObject option" where
  "localSetContainers cs l = do { s \<leftarrow> localSpec l; localPutSpec (s \<lparr> ps_containers := cs \<rparr>) l }"

definition localGetInitContainers :: "localObject \<Rightarrow> container list option" where
  "localGetInitContainers l = map_option ps_initContainers (localSpec l)"

definition localSetInitContainers :: "container list \<Rightarrow> localObject \<Rightarrow> localObject option" where
  "localSetInitContainers cs l = do { s \<leftarrow> localSpec l; localPutSpec (s \<lparr> ps_initContainers := cs \<rparr>) l }"

definition localSetGVK :: "localObject \<Rightarrow> localObject option" where
  "localSetGVK l = map_option (\<lambda>obj. l \<lparr> lo_object := obj \<rparr>) (lm_setGVK (lo_methods l) (lo_object l))"

definition localResetStatus :: "localObject \<Rightarrow> localObject option" where
  "localResetStatus l = map_option (\<lambda>obj. l \<lparr> lo_object := obj \<rparr>) (lm_resetStatus (lo_methods l) (lo_object l))"

definition localGetObject :: "localObject \<Rightarrow> k8s_object" where
  "localGetObject l = lm_getObject (lo_methods l) (lo_object l)"

text \<open>The setters of the embedded object, which need no assertion.\<close>

definition localEditMeta :: "(object_meta \<Rightarrow> object_meta) \<Rightarrow> localObject \<Rightarrow> localObject" where
  "localEditMeta f l = l \<lparr> lo_object := putObjectMeta (f (objectMeta (lo_object l))) (lo_object l) \<rparr>"

definition migrateLocal :: "'w detect_cmd \<Rightarrow> service_account \<Rightarrow> localObject \<Rightarrow> localObject option" where
  "migrateLocal dc sa l =
     do {
       initContainers \<leftarrow> localGetInitContainers l;
       l \<leftarrow> localSetInitContainers (addProxyInitContainer dc initContainers) l;
       containers \<leftarrow> localGetContainers l;
       l \<leftarrow> localSetContainers (addProxyContainer dc containers) l;
       l \<leftarrow> localSetServiceAccountName (om_name (sa_meta sa)) l;
       let l = localEditMeta (\<lambda>m. m \<lparr> om_managedFields := [] \<rparr>) l;
       let l = localEditMeta (\<lambda>m. m \<lparr> om_resourceVersion := [] \<rparr>) l;
       let l = localEditMeta (\<lambda>m. m \<lparr> om_uid := [] \<rparr>) l;
       let l = localEditMeta (\<lambda>m. m \<lparr> om_creationTimestamp := None \<rparr>) l;
       let l = localEditMeta (\<lambda>m. m \<lparr> om_selfLink := [] \<rparr>) l;
       let l = localEditMeta (\<lambda>m. m \<lparr> om_generation := 0 \<rparr>) l;
       l \<leftarrow> localResetStatus l;
       localSetGVK l
     }"

subsection \<open>The wrapper of an object is the right one\<close>

text \<open>The methods that an object of a kind is wrapped with.\<close>

definition methodsFor :: "client_object \<Rightarrow> local_methods" where
  "methodsFor x = (case x of
        PodObject _ \<Rightarrow> podMethods
      | DeploymentObject _ \<Rightarrow> deploymentMethods
      | StatefulSetObject _ \<Rightarrow> statefulSetMethods
      | DaemonSetObject _ \<Rightarrow> daemonSetMethods
      | ReplicaSetObject _ \<Rightarrow> replicaSetMethods
      | ReplicationControllerObject _ \<Rightarrow> replicationControllerMethods
      | CronJobObject _ \<Rightarrow> cronJobMethods
      | JobObject _ \<Rightarrow> jobMethods)"

lemmas assertion_defs = asPod_def asDeployment_def asStatefulSet_def asDaemonSet_def asReplicaSet_def asReplicationController_def asCronJob_def asJob_def
lemmas methods_defs = methodsOver_def podMethods_def deploymentMethods_def statefulSetMethods_def daemonSetMethods_def replicaSetMethods_def replicationControllerMethods_def cronJobMethods_def jobMethods_def
lemmas wrapper_defs = newPodLocalObject_def newDeploymentLocalObject_def newStatefulSetLocalObject_def newDaemonSetLocalObject_def newReplicaSetLocalObject_def newReplicationControllerLocalObject_def newCronJobLocalObject_def newJobLocalObject_def

lemma methodsFor_kind [simp]:
  "methodsFor (putSpec s x) = methodsFor x" "methodsFor (putMeta m x) = methodsFor x"
  "methodsFor (SetGVK x) = methodsFor x" "methodsFor (ResetStatus x) = methodsFor x"
  by (cases x, simp_all add: methodsFor_def)+

lemma NewLocalObject_workload [simp]:
  "NewLocalObject (Workload x) = Some \<lparr> lo_methods = methodsFor x, lo_object = Workload x \<rparr>"
  by (cases x) (simp_all add: NewLocalObject_def methodsFor_def wrapper_defs)

lemma methodsFor_own [simp]:
  "lm_spec (methodsFor x) (Workload x) = Some (specOf x)"
  "lm_putSpec (methodsFor x) s (Workload x) = Some (Workload (putSpec s x))"
  "lm_setGVK (methodsFor x) (Workload x) = Some (Workload (SetGVK x))"
  "lm_resetStatus (methodsFor x) (Workload x) = Some (Workload (ResetStatus x))"
  "lm_getObject (methodsFor x) obj = obj"
  by (cases x, simp_all add: methodsFor_def methods_defs assertion_defs)+

text \<open>A wrapped object of one of the kinds, and its calls.\<close>

definition wrapped :: "client_object \<Rightarrow> localObject" where
  "wrapped x = \<lparr> lo_methods = methodsFor x, lo_object = Workload x \<rparr>"

lemma wrapped_calls:
  "localGetServiceAccountName (wrapped x) = Some (GetServiceAccountName x)"
  "localSetServiceAccountName n (wrapped x) = Some (wrapped (SetServiceAccountName n x))"
  "localGetContainers (wrapped x) = Some (GetContainers x)"
  "localSetContainers cs (wrapped x) = Some (wrapped (SetContainers cs x))"
  "localGetInitContainers (wrapped x) = Some (GetInitContainers x)"
  "localSetInitContainers cs (wrapped x) = Some (wrapped (SetInitContainers cs x))"
  "localSetGVK (wrapped x) = Some (wrapped (SetGVK x))"
  "localResetStatus (wrapped x) = Some (wrapped (ResetStatus x))"
  "localEditMeta f (wrapped x) = wrapped (putMeta (f (metaOf x)) x)"
  "localGetObject (wrapped x) = Workload x"
  by (simp_all add: wrapped_def localGetServiceAccountName_def localSetServiceAccountName_def localGetContainers_def
      localSetContainers_def localGetInitContainers_def localSetInitContainers_def localSetGVK_def localResetStatus_def
      localEditMeta_def localGetObject_def localSpec_def localPutSpec_def GetServiceAccountName_def SetServiceAccountName_def
      GetContainers_def SetContainers_def GetInitContainers_def SetInitContainers_def)

lemma migrateLocal_wrapped: "migrateLocal dc sa (wrapped x) = Some (wrapped (migratedObject dc sa x))"
  by (simp add: migrateLocal_def migratedObject_def wrapped_calls Let_def)

text \<open>
  The type assertions of detect.  Every object of the eight kinds is put into the wrapper of
  its own type, so no assertion of a method panics, neither when the service account is read nor
  in the edits before the file is written, and the object written is the one of the dispatch on
  the kind.  Every other object is given no wrapper.
\<close>

theorem wrapper_refines_dispatch:
  "(case NewLocalObject (Workload x) of
      None \<Rightarrow> False
    | Some l \<Rightarrow> localGetServiceAccountName l = Some (GetServiceAccountName x) \<and>
        map_option localGetObject (migrateLocal dc sa l) = Some (Workload (migratedObject dc sa x))) \<and>
   NewLocalObject (OtherObject t m) = None"
  using migrateLocal_wrapped [of dc sa x] wrapped_calls(1,10)
  by (simp add: wrapped_def) (simp add: NewLocalObject_def)

end
