(* ===== verification/Proxy_Live.thy ===== *)
theory Proxy_Live
  imports Proxy_Concurrent
begin

section \<open>Every concurrent request is answered (getOrCreateCred in pkg/proxy/proxy.go)\<close>

text \<open>
  No request waits for ever: a waiter waits for a request that leads a call, so a system of
  \<open>n\<close> requests of which one has no answer is never stuck, and a measure bounds the number of
  steps that its requests can make.
\<close>

subsection \<open>The steps that a request has left\<close>

fun stepsLeft :: "'c progress \<Rightarrow> nat" where
  "stepsLeft Start = 6"
| "stepsLeft Missed = 5"
| "stepsLeft Leading = 4"
| "stepsLeft Creating = 3"
| "stepsLeft (Adding c) = 2"
| "stepsLeft (Finishing r) = 1"
| "stepsLeft (Waiting l) = 1"
| "stepsLeft (Done r) = 0"

definition workLeft :: "nat \<Rightarrow> 'c cred_sys \<Rightarrow> nat" where
  "workLeft n s = (\<Sum>t<n. stepsLeft (cs_pc s t))"

text \<open>The requests from \<open>n\<close> on have not arrived.\<close>

definition onlyFirst :: "nat \<Rightarrow> 'c cred_sys \<Rightarrow> bool" where
  "onlyFirst n s \<longleftrightarrow> (\<forall>t \<ge> n. cs_pc s t = Start)"

lemma workLeft_done: "(\<forall>t<n. \<exists>r. cs_pc s t = Done r) \<longleftrightarrow> workLeft n s = 0"
proof -
  have "(\<exists>r. x = Done r) \<longleftrightarrow> stepsLeft x = 0" for x :: "'c progress" by (cases x) simp_all
  then show ?thesis by (auto simp: workLeft_def)
qed

text \<open>A step moves no request back, and one of them on unless the cache loses an entry.\<close>

lemma step_stepsLeft:
  "cred_step key s s' \<Longrightarrow> cs_pc s' u = cs_pc s u \<or> stepsLeft (cs_pc s' u) < stepsLeft (cs_pc s u)"
  by (erule cred_step.cases) (simp_all add: deliver_def)

lemma step_workLeft:
  assumes "cred_step key s s'" and "onlyFirst n s" "onlyFirst n s'"
  shows "workLeft n s' \<le> workLeft n s" and "cs_pc s' \<noteq> cs_pc s \<Longrightarrow> workLeft n s' < workLeft n s"
proof -
  show "workLeft n s' \<le> workLeft n s"
    unfolding workLeft_def using step_stepsLeft [OF assms(1)] by (intro sum_mono) (metis le_eq_less_or_eq order_refl)
  assume "cs_pc s' \<noteq> cs_pc s"
  then obtain u where u: "cs_pc s' u \<noteq> cs_pc s u" by blast
  then have "u < n" using assms(2,3) unfolding onlyFirst_def by (metis not_less)
  then show "workLeft n s' < workLeft n s"
    unfolding workLeft_def
    using step_stepsLeft [OF assms(1)] u by (intro sum_strict_mono_ex1) (auto, metis le_eq_less_or_eq order_refl)
qed

subsection \<open>Nobody waits for nobody\<close>

definition waitLive :: "'c cred_sys \<Rightarrow> bool" where
  "waitLive s \<longleftrightarrow> (\<forall>t l. cs_pc s t = Waiting l \<longrightarrow> leads (cs_pc s l))"

lemma step_waitLive:
  assumes "cred_step key s s'" and "leadInv key s" "waitInv key s" "waitLive s"
  shows "waitLive s'"
  using assms(1)
proof cases
  case (wait t l)
  have "leads (cs_pc s l)"
    using wait(3) assms(2,3) unfolding leadInv_def waitInv_def by metis
  then show ?thesis using wait assms(4) by (fastforce simp: waitLive_def)
next
  case (finish t r)
  show ?thesis
    unfolding waitLive_def
  proof (intro allI impI)
    fix u l
    assume "cs_pc s' u = Waiting l"
    then have "cs_pc s u = Waiting l" "l \<noteq> t" using finish by (auto simp: deliver_def split: if_splits)
    moreover from this have "leads (cs_pc s l)" using assms(4) by (simp add: waitLive_def)
    ultimately show "leads (cs_pc s' l)" using finish by (auto simp: deliver_def)
  qed
qed (use assms(4) in \<open>fastforce simp: waitLive_def split: if_splits\<close>)+

lemma reachable_waitLive:
  assumes "cred_reachable (requestKey client tenantID) s"
  shows "waitLive s"
  using assms
proof induction
  case init
  show ?case by (simp add: waitLive_def initialSys_def)
next
  case (step s s')
  have "leadInv (requestKey client tenantID) s" "waitInv (requestKey client tenantID) s"
    using requests_credInv [OF step.hyps(1)] by (simp_all add: credInv_def)
  then show ?case using step_waitLive [OF step.hyps(2)] step.IH by blast
qed

text \<open>A request that has no answer and does not wait can make its next step.\<close>

lemma request_can_step:
  assumes "\<And>r. cs_pc s t \<noteq> Done r" and "\<And>l. cs_pc s t \<noteq> Waiting l"
  shows "\<exists>s'. cred_step key s s' \<and> cs_pc s' t \<noteq> cs_pc s t \<and>
    (\<forall>u. cs_pc s u = Start \<longrightarrow> u \<noteq> t \<longrightarrow> cs_pc s' u = Start)"
proof (cases "cs_pc s t")
  case Start
  show ?thesis
  proof (cases "cs_cache s (key t)")
    case None
    from cred_step.look_miss [where key = key, OF Start this] show ?thesis using Start by (intro exI conjI) auto
  next
    case (Some c)
    from cred_step.look_hit [where key = key, OF Start this] show ?thesis using Start by (intro exI conjI) auto
  qed
next
  case Missed
  show ?thesis
  proof (cases "cs_group s (groupKey (key t))")
    case None
    from cred_step.lead [where key = key, OF Missed this] show ?thesis using Missed by (intro exI conjI) auto
  next
    case (Some l)
    from cred_step.wait [where key = key, OF Missed this] show ?thesis using Missed by (intro exI conjI) auto
  qed
next
  case Leading
  show ?thesis
  proof (cases "cs_cache s (key t)")
    case None
    from cred_step.again_miss [where key = key, OF Leading this] show ?thesis using Leading by (intro exI conjI) auto
  next
    case (Some c)
    from cred_step.again_hit [where key = key, OF Leading this] show ?thesis using Leading by (intro exI conjI) auto
  qed
next
  case Creating
  from cred_step.created [where key = key, OF this] show ?thesis using Creating by (intro exI conjI) auto
next
  case (Adding c)
  from cred_step.added [where key = key, OF this] show ?thesis using Adding by (intro exI conjI) auto
next
  case (Finishing r)
  from cred_step.finish [where key = key, OF this] show ?thesis using Finishing by (intro exI conjI) (auto simp: deliver_def)
qed (use assms in auto)

lemma never_stuck:
  assumes "cred_reachable (requestKey client tenantID) s" and "onlyFirst n s" and "t < n" "\<And>r. cs_pc s t \<noteq> Done r"
  shows "\<exists>s'. cred_step (requestKey client tenantID) s s' \<and> onlyFirst n s' \<and> cs_pc s' \<noteq> cs_pc s"
proof -
  obtain u where u: "u < n" "\<And>r. cs_pc s u \<noteq> Done r" "\<And>l. cs_pc s u \<noteq> Waiting l"
  proof (cases "\<exists>l. cs_pc s t = Waiting l")
    case True
    then obtain l where "leads (cs_pc s l)" using reachable_waitLive [OF assms(1)] unfolding waitLive_def by blast
    moreover from this have "l < n" using assms(2) unfolding onlyFirst_def by (metis leads.simps(5) not_less)
    ultimately show ?thesis using that [of l] by fastforce
  qed (use that [of t] assms(3,4) in blast)
  then obtain s' where "cred_step (requestKey client tenantID) s s'" "cs_pc s' u \<noteq> cs_pc s u"
    "\<forall>v. cs_pc s v = Start \<longrightarrow> v \<noteq> u \<longrightarrow> cs_pc s' v = Start"
    using request_can_step [OF u(2,3)] by blast
  moreover from this have "onlyFirst n s'" using assms(2) u(1) by (auto simp: onlyFirst_def)
  ultimately show ?thesis by metis
qed

subsection \<open>Runs\<close>

text \<open>The first \<open>k\<close> steps of a run of \<open>n\<close> requests.\<close>

definition credRun :: "(nat \<Rightarrow> cred_key) \<Rightarrow> nat \<Rightarrow> nat \<Rightarrow> (nat \<Rightarrow> 'c cred_sys) \<Rightarrow> bool" where
  "credRun key n k run \<longleftrightarrow>
     run 0 = initialSys \<and> (\<forall>i<k. cred_step key (run i) (run (Suc i))) \<and> (\<forall>i\<le>k. onlyFirst n (run i))"

text \<open>Those in which a request moves, and not only the cache.\<close>

definition moves :: "nat \<Rightarrow> (nat \<Rightarrow> 'c cred_sys) \<Rightarrow> nat set" where
  "moves k run = {i. i < k \<and> cs_pc (run (Suc i)) \<noteq> cs_pc (run i)}"

lemma moves_Suc:
  "moves (Suc k) run = (if cs_pc (run (Suc k)) \<noteq> cs_pc (run k) then insert k (moves k run) else moves k run)"
  by (auto simp: moves_def less_Suc_eq)

lemma moves_bounded:
  "credRun key n k run \<Longrightarrow> card (moves k run) + workLeft n (run k) \<le> 6 * n"
proof (induction k)
  case 0
  then show ?case by (simp add: moves_def credRun_def workLeft_def initialSys_def)
next
  case (Suc k)
  then have IH: "card (moves k run) + workLeft n (run k) \<le> 6 * n" by (simp add: credRun_def)
  have step: "cred_step key (run k) (run (Suc k))" "onlyFirst n (run k)" "onlyFirst n (run (Suc k))"
    using Suc.prems by (simp_all add: credRun_def)
  have fin: "finite (moves k run)" "k \<notin> moves k run" by (simp_all add: moves_def)
  show ?case using IH step_workLeft [OF step] fin by (auto simp: moves_Suc)
qed

lemma run_reachable: "credRun key n k run \<Longrightarrow> i \<le> k \<Longrightarrow> cred_reachable key (run i)"
proof (induction i)
  case 0
  then show ?case by (simp add: credRun_def cred_reachable.init)
next
  case (Suc i)
  then show ?case by (auto simp: credRun_def intro: cred_reachable.step)
qed

text \<open>
  C20: Every request is answered.  In a run of \<open>n\<close> concurrent requests, however their steps are
  interleaved, whichever creations fail and whatever the cache loses in between, the requests
  make at most \<open>6 * n\<close> steps, and as long as one of them has no answer, some request can make
  its next step; so when none can, all are answered.
\<close>

theorem requests_answered:
  assumes "credRun (requestKey client tenantID) n k run"
  shows "card (moves k run) \<le> 6 * n \<and>
    ((\<forall>t<n. \<exists>r. cs_pc (run k) t = Done r) \<or>
     (\<exists>s'. cred_step (requestKey client tenantID) (run k) s' \<and> onlyFirst n s' \<and> cs_pc s' \<noteq> cs_pc (run k)))"
proof -
  have "onlyFirst n (run k)" "cred_reachable (requestKey client tenantID) (run k)"
    using assms run_reachable [OF assms] by (simp_all add: credRun_def)
  then show ?thesis using never_stuck moves_bounded [OF assms] by (metis add_leD1)
qed

definition demoRunOf :: "nat \<Rightarrow> nat cred_sys" where
  "demoRunOf i = [demoSys None None Start Start [], demoSys None None Missed Start [], demoSys None None Missed Missed [],
     demoSys None (Some 0) Leading Missed [], demoSys None (Some 0) Leading (Waiting 0) []] ! i"

theorem requests_answered_witness:
  "\<exists>s'. cred_step demoKey (demoSys None (Some 0) Leading (Waiting 0) []) s' \<and> onlyFirst 2 s' \<and>
     cs_pc s' \<noteq> cs_pc (demoSys None (Some 0) Leading (Waiting 0) [] :: nat cred_sys)"
proof -
  have first: "demoSys None None Start Start [] = initialSys"
    by (simp add: initialSys_def demoSys_def fun_eq_iff)
  have "cred_step demoKey (demoRunOf i) (demoRunOf (Suc i))" if "i < 4" for i
    using that demo_steps by (auto simp: demoRunOf_def less_Suc_eq numeral_eq_Suc)
  moreover have "onlyFirst 2 (demoRunOf i)" if "i \<le> 4" for i
    using that by (auto simp: demoRunOf_def le_Suc_eq numeral_eq_Suc onlyFirst_def demoSys_def)
  ultimately have "credRun demoKey 2 4 demoRunOf"
    by (simp add: credRun_def) (simp add: demoRunOf_def first)
  note answered = requests_answered [OF this]
  have four: "demoRunOf 4 = demoSys None (Some 0) Leading (Waiting 0) []" by (simp add: demoRunOf_def numeral_eq_Suc)
  have "\<not> (\<forall>t<2. \<exists>r. cs_pc (demoSys None (Some 0) Leading (Waiting 0) [] :: nat cred_sys) t = Done r)"
    by (auto simp: demoSys_def)
  with answered show ?thesis unfolding four by blast
qed

end
