(* ===== verification/Migration.thy ===== *)
theory Migration
  imports Detect_Run End_To_End Webhook_Valid
begin

section \<open>From a pod that uses aad-pod-identity to its migrated workload\<close>

text \<open>
  The chain of a migration: \<open>detect\<close> writes the account and the workload, the webhook mutates a
  pod of that workload for that account, and the proxy container in it answers the requests
  for tokens.  The identity at its end is the one that the pod had at its start.
\<close>

lemma detected_reads:
  "getClientID (annotatedServiceAccount dc cid sa) = cid"
  "dc_tenantID dc \<noteq> [] \<Longrightarrow> getTenantID (annotatedServiceAccount dc cid sa) cfg = dc_tenantID dc"
  by (auto simp: annotatedServiceAccount_def Let_def getClientID_def getTenantID_def annotation_keys_distinct
      smap_set_def smap_get_def update_conv')

lemma migrated_has_proxy:
  assumes "list_all (\<lambda>x. \<not> prefix (imageRepository @ ''/'' @ proxyImageName) (ct_image x)) (GetContainers obj)"
  shows "detectProxyContainer dc \<in> set (ps_containers (specOf (migratedObject dc sa obj)))"
  using assms
  by (auto simp: migratedObject_eq migratedSpec_def addProxyContainer_def list_ex_iff list_all_iff GetContainers_def)

lemma migrated_proxy:
  assumes proxy: "detectProxyContainer dc \<in> set (ps_containers (pod_spec p))" "proxyContainerName \<notin> getSkipContainers p"
    and port: "- (2 ^ 31) \<le> dc_proxyPort dc" "dc_proxyPort dc < 2 ^ 31"
    and mut: "mutatePod m lvl sa p = Inr p'"
    and plain: "plainValue (getClientID sa)" "plainValue (getTenantID sa (pm_config m))"
  shows "\<exists>x \<in> set (ps_containers (pod_spec p')). ct_name x = proxyContainerName \<and>
    (\<forall>pp v v1. runsWith x (pp_getenv pp) \<and> pp_setLogLevel pp ''info'' v = (Inr (), v1) \<longrightarrow>
       proxyMain pp (ct_args x) v =
         (case pp_run pp \<lparr> px_port = dc_proxyPort dc, px_tenantID = getTenantID sa (pm_config m) \<rparr> v1 of
            (Some e, v2) \<Rightarrow> (ExitFatal (WrapError ''setup: failed to run proxy'' e), v2)
          | (None, v2) \<Rightarrow> (ExitSuccess, v2)) \<and>
       (\<forall>r. fst (parseTokenRequest r) = [] \<longrightarrow> effectiveClientID (pp_getenv pp) r = getClientID sa))"
proof -
  let ?p = "detectProxyContainer dc" and ?tid = "getTenantID sa (pm_config m)"
  let ?c = "mutateContainer m (getClientID sa) ?tid (getSkipContainers p) (isUsingCustomTokenEndpoint m p) (volumeOf p) ?p"
  have fields: "ct_name ?p = proxyContainerName" "ct_env ?p = []"
    by (simp_all add: detectProxyContainer_def emptyContainer_def)
  have kept: "ct_name ?c = proxyContainerName" "ct_args ?c = ct_args ?p"
    by (simp_all add: mutateContainer_def frame_simps fields)
  have "parseFlags proxyFlags (ct_args ?c) = Inr (proxyFlagValues (dc_proxyPort dc) False ''info'', [])"
    unfolding kept detect_command by (simp only: proxyFlags_values parse_port [OF port] parse_level) simp
  note started = proxy_started [OF this]
  have vars: "getenv AzureClientIDEnvVar = getClientID sa" "getenv AzureTenantIDEnvVar = ?tid"
    if "runsWith ?c getenv" for getenv
    using that proxy(2) plain
    by (auto intro!: injected_variable [OF that] simp: fields desiredEnvs_def)
  show ?thesis
  proof (intro bexI [OF _ mutated_container [OF mut proxy(1)]] conjI kept(1) allI impI, goal_cases)
    case (1 pp v v1)
    then show ?case
      using started [where pp = pp and w = v] vars(2) plain(2) by (auto simp: plainValue_def)
  next
    case (2 pp v v1 r)
    then show ?case using vars(1) by (simp add: effectiveClientID_def)
  qed
qed

text \<open>
  C12: A migrated workload keeps its identity.  If detect runs over a cluster in which a pod uses
  an identity and belongs to a workload without a proxy, it writes an account and a workload
  such that, in every pod of that workload which the webhook mutates for that account, the
  proxy container runs the proxy on the port and for the tenant of the account, and a request
  for a token that names no client is one for the client id of the pod's identity.
\<close>

theorem migrated_workload_keeps_identity:
  assumes ord: "someOrder ord"
    and ready: "\<And>sel i n p. (sel, i) \<in> set (selectedIdentities c) \<Longrightarrow> (n, p) \<in> set (podsOf c sel) \<Longrightarrow>
      \<exists>obj sa. workloadOf c p obj \<and> accountOf c dc obj = Inr sa"
    and uses: "(sel, i) \<in> set (selectedIdentities c)" "(n, q) \<in> set (podsOf c sel)" "workloadOf c q obj"
    and bare: "list_all (\<lambda>x. \<not> prefix (imageRepository @ ''/'' @ proxyImageName) (ct_image x)) (GetContainers obj)"
    and port: "- (2 ^ 31) \<le> dc_proxyPort dc" "dc_proxyPort dc < 2 ^ 31" and plain: "plainValue (ai_clientID i)"
  shows "\<exists>sa out f g. detectRun (onCluster c dc) ord w = Some (None, w @ out) \<and>
    (f, SaManifest sa) \<in> set out \<and> (g, ObjectManifest (migratedObject dc sa obj)) \<in> set out \<and>
    (dc_tenantID dc = [] \<or> (\<forall>cfg. getTenantID sa cfg = dc_tenantID dc)) \<and>
    (\<forall>m lvl p p'. pod_spec p = specOf (migratedObject dc sa obj) \<and> proxyContainerName \<notin> getSkipContainers p \<and>
       mutatePod m lvl sa p = Inr p' \<and> plainValue (getTenantID sa (pm_config m)) \<longrightarrow>
       (\<exists>x \<in> set (ps_containers (pod_spec p')). ct_name x = proxyContainerName \<and>
          (\<forall>pp v v1. runsWith x (pp_getenv pp) \<and> pp_setLogLevel pp ''info'' v = (Inr (), v1) \<longrightarrow>
             proxyMain pp (ct_args x) v =
               (case pp_run pp \<lparr> px_port = dc_proxyPort dc, px_tenantID = getTenantID sa (pm_config m) \<rparr> v1 of
                  (Some e, v2) \<Rightarrow> (ExitFatal (WrapError ''setup: failed to run proxy'' e), v2)
                | (None, v2) \<Rightarrow> (ExitSuccess, v2)) \<and>
             (\<forall>r. fst (parseTokenRequest r) = [] \<longrightarrow> effectiveClientID (pp_getenv pp) r = ai_clientID i))))"
proof -
  have "\<exists>results. detectRun (onCluster c dc) ord w = Some (None, w @ concat (map (writesOf c dc) results)) \<and>
      set results = {(obj, ai_clientID i) | obj sel i n p. (sel, i) \<in> set (selectedIdentities c) \<and>
        (n, p) \<in> set (podsOf c sel) \<and> workloadOf c p obj} \<and>
      length results = podCount c (selectedIdentities c)"
    by (rule detectRun_writes [OF ord]) (rule ready)
  then obtain results where run: "detectRun (onCluster c dc) ord w = Some (None, w @ concat (map (writesOf c dc) results))"
    and found: "(obj, ai_clientID i) \<in> set results"
    using uses by blast
  obtain obj' sa0 where "workloadOf c q obj'" and sa0: "accountOf c dc obj' = Inr sa0" using ready [OF uses(1,2)] by blast
  then have same: "obj' = obj"
    using uses(3) top_owner_unique by (auto simp: workloadOf_def split: option.splits)
  define sa where "sa = annotatedServiceAccount dc (ai_clientID i) sa0"
  have "writesOf c dc (obj, ai_clientID i) =
      [(filepathJoin [getServiceAccountFileName dc (om_name (metaOf obj))], SaManifest sa),
       (getResourceFileName dc (migratedObject dc sa obj), ObjectManifest (migratedObject dc sa obj))]"
    using sa0 by (simp add: writesOf_def same sa_def Let_def)
  then have files: "(filepathJoin [getServiceAccountFileName dc (om_name (metaOf obj))], SaManifest sa)
        \<in> set (concat (map (writesOf c dc) results))"
      "(getResourceFileName dc (migratedObject dc sa obj), ObjectManifest (migratedObject dc sa obj))
        \<in> set (concat (map (writesOf c dc) results))"
    using found by force+
  have cid: "getClientID sa = ai_clientID i" and tid: "dc_tenantID dc = [] \<or> (\<forall>cfg. getTenantID sa cfg = dc_tenantID dc)"
    by (auto simp: sa_def detected_reads)
  note proxy = migrated_proxy [OF _ _ port, of _ _ _ sa, unfolded cid, OF _ _ _ plain]
  show ?thesis
    by (intro exI conjI, rule run, rule files(1), rule files(2), rule tid, intro allI impI, elim conjE, rule proxy)
      (simp_all add: migrated_has_proxy [OF bare])
qed

definition tenantRun :: "file_writes detect_cmd" where
  "tenantRun = demoRun \<lparr> dc_tenantID := ''tenant'' \<rparr>"

theorem migrated_workload_keeps_identity_witness:
  "\<exists>sa out f. detectRun (onCluster demoCluster tenantRun) demoOrder [] = Some (None, out) \<and> (f, SaManifest sa) \<in> set out \<and>
    (\<forall>p p'. pod_spec p = specOf (migratedObject tenantRun sa (DeploymentObject (demoWorkload ''web'' []))) \<and>
       proxyContainerName \<notin> getSkipContainers p \<and> mutatePod demoMutator [] sa p = Inr p' \<longrightarrow>
       (\<exists>x \<in> set (ps_containers (pod_spec p')). ct_name x = proxyContainerName \<and>
          (\<forall>(pp :: unit proxy_process) v v1 r. runsWith x (pp_getenv pp) \<and> pp_setLogLevel pp ''info'' v = (Inr (), v1) \<longrightarrow>
             fst (parseTokenRequest r) = [] \<longrightarrow> effectiveClientID (pp_getenv pp) r = ''client'')))"
proof -
  let ?i = "\<lparr> ai_name = ''id'', ai_type = UserAssignedMSI, ai_clientID = ''client'' \<rparr>"
  let ?q = "demoOwnedPod ''p'' (demoOwnerRef ''ReplicaSet'' ''web-1'')"
  let ?obj = "DeploymentObject (demoWorkload ''web'' [])"
  have ord: "someOrder demoOrder" by (simp add: someOrder_def demoOrder_def)
  have ready: "\<exists>obj sa. workloadOf demoCluster p obj \<and> accountOf demoCluster tenantRun obj = Inr sa"
    if "(sel, i) \<in> set (selectedIdentities demoCluster)" and "(n, p) \<in> set (podsOf demoCluster sel)" for sel i n p
    using that(2) demo_owners demo_account [of tenantRun] by (auto simp: demo_pods)
  have uses: "(''sel'', ?i) \<in> set (selectedIdentities demoCluster)" "(''p'', ?q) \<in> set (podsOf demoCluster ''sel'')"
    by (simp_all add: demo_selected demo_pods)
  have bare: "list_all (\<lambda>x. \<not> prefix (imageRepository @ ''/'' @ proxyImageName) (ct_image x)) (GetContainers ?obj)"
    by (simp add: GetContainers_def deploymentSpecGet_def demoWorkload_def demoTemplate_def emptyContainer_def
        imageRepository_def)
  have rest: "- (2 ^ 31) \<le> dc_proxyPort tenantRun" "dc_proxyPort tenantRun < 2 ^ 31" "plainValue (ai_clientID ?i)"
    and tid: "dc_tenantID tenantRun = ''tenant''"
    by (simp_all add: tenantRun_def demoRun_def plainValue_def)
  obtain sa out f where run: "detectRun (onCluster demoCluster tenantRun) demoOrder [] = Some (None, [] @ out)"
    and f: "(f, SaManifest sa) \<in> set out" and t: "\<forall>cfg. getTenantID sa cfg = ''tenant''"
    and pods: "\<forall>m lvl p p'. pod_spec p = specOf (migratedObject tenantRun sa ?obj) \<and> proxyContainerName \<notin> getSkipContainers p \<and>
       mutatePod m lvl sa p = Inr p' \<and> plainValue (getTenantID sa (pm_config m)) \<longrightarrow>
       (\<exists>x \<in> set (ps_containers (pod_spec p')). ct_name x = proxyContainerName \<and>
          (\<forall>(pp :: unit proxy_process) v v1. runsWith x (pp_getenv pp) \<and> pp_setLogLevel pp ''info'' v = (Inr (), v1) \<longrightarrow>
             proxyMain pp (ct_args x) v =
               (case pp_run pp \<lparr> px_port = dc_proxyPort tenantRun, px_tenantID = getTenantID sa (pm_config m) \<rparr> v1 of
                  (Some e, v2) \<Rightarrow> (ExitFatal (WrapError ''setup: failed to run proxy'' e), v2)
                | (None, v2) \<Rightarrow> (ExitSuccess, v2)) \<and>
             (\<forall>r. fst (parseTokenRequest r) = [] \<longrightarrow> effectiveClientID (pp_getenv pp) r = ai_clientID ?i)))"
    using migrated_workload_keeps_identity [where 'a = unit and w = "[]", OF ord _ uses demo_owners(1) bare rest] ready
    unfolding tid by blast
  have "plainValue ''tenant''" by (simp add: plainValue_def)
  then show ?thesis using run f t pods by (intro exI [of _ sa] exI [of _ out] exI [of _ f]) fastforce
qed

subsection \<open>Migrated pods that ask for the injection\<close>

text \<open>The containers of a name, and what the mutation of the containers does to them.\<close>

definition named :: "string \<Rightarrow> pod \<Rightarrow> container list" where
  "named n p = filter (\<lambda>c. ct_name c = n) (podContainers p)"

lemma named_finished:
  "named n (finishPod m sa e q) =
     map (mutateContainer m (getClientID sa) (getTenantID sa (pm_config m)) (getSkipContainers q)
       (isUsingCustomTokenEndpoint m q) (volumeOf q)) (named n q)"
  by (simp add: named_def finishPod_containers mutatedContainers_def mutateContainers_def filter_map comp_def)

lemma mutateContainer_keeps:
  "ct_args (mutateContainer m cid tid skip cte vol c) = ct_args c"
  "v \<in> set (ct_env c) \<Longrightarrow> v \<in> set (ct_env (mutateContainer m cid tid skip cte vol c))"
  by (auto simp: mutateContainer_def frame_simps addEnvironmentVariables_env)

lemma not_named: "n \<notin> ct_name ` set cs \<Longrightarrow> filter (\<lambda>c. ct_name c = n) cs = []"
  by (auto simp: filter_empty_conv)

lemma names_free:
  assumes "{a, b} \<inter> ct_name ` set (us @ cs) = {}"
  shows "a \<notin> ct_name ` set us" "a \<notin> ct_name ` set cs" "b \<notin> ct_name ` set us" "b \<notin> ct_name ` set cs"
  using assms by (auto simp: image_Un)

lemma migrated_injected:
  assumes bare: "list_all (\<lambda>c. \<not> prefix (imageRepository @ ''/'' @ proxyImageName) (ct_image c))
      (GetInitContainers obj @ GetContainers obj)"
    and free: "{ProxySidecarContainerName, ProxyInitContainerName} \<inter> ct_name ` set (GetInitContainers obj @ GetContainers obj) = {}"
    and spec: "pod_spec p = specOf (migratedObject dc sa obj)"
    and inj: "injectProxy m lvl p = Inr q" "shouldInjectProxySidecar p"
  shows "named ProxyInitContainerName q = [detectProxyInitContainer dc] \<and>
    (\<exists>port. getProxyPort p = Inr port \<and>
       named ProxySidecarContainerName q =
         (if pm_useNativeSidecar m then [proxySidecarContainer m lvl port (Some ContainerRestartPolicyAlways)] else [])
         @ [detectProxyContainer dc])"
proof -
  have inits: "ps_initContainers (pod_spec p) = GetInitContainers obj @ [detectProxyInitContainer dc]"
    and cs: "ps_containers (pod_spec p) = GetContainers obj @ [detectProxyContainer dc]"
    using migrated_containers [OF bare] by (simp_all add: spec)
  obtain port where port: "getProxyPort p = Inr port"
    using inj by (auto simp: injectProxy_def split: if_splits sum.splits)
  note taken = names_free [OF free]
  have "\<not> list_ex (\<lambda>c. ct_name c = ProxySidecarContainerName) (ps_initContainers (pod_spec p))"
    using taken(1) detect_names(2) [of dc] proxy_names_differ by (auto simp: inits list_ex_iff) (metis image_eqI)
  moreover have "list_ex (\<lambda>c. ct_name c = ProxyInitContainerName) (ps_initContainers (pod_spec p))"
    and "list_ex (\<lambda>c. ct_name c = ProxySidecarContainerName) (ps_containers (pod_spec p))"
    by (simp_all add: inits cs detect_names)
  ultimately have "podContainers q =
      (if pm_useNativeSidecar m then [proxySidecarContainer m lvl port (Some ContainerRestartPolicyAlways)] else [])
      @ podContainers p"
    using inj port
    by (auto simp: injectProxy_def podContainers_def Let_def injectProxyInit_present injectProxySidecar_present
        injectProxySidecarContainer_def split: if_splits)
  moreover have none: "filter (\<lambda>c. ct_name c = ProxySidecarContainerName) (GetInitContainers obj) = []"
      "filter (\<lambda>c. ct_name c = ProxySidecarContainerName) (GetContainers obj) = []"
      "filter (\<lambda>c. ct_name c = ProxyInitContainerName) (GetInitContainers obj) = []"
      "filter (\<lambda>c. ct_name c = ProxyInitContainerName) (GetContainers obj) = []"
    by (intro not_named taken)+
  moreover have "ct_name (proxySidecarContainer m lvl port rp) = ProxySidecarContainerName" for rp
    by (simp add: proxySidecarContainer_def)
  ultimately show ?thesis
    using port proxy_names_differ
    by (simp add: named_def podContainers_def inits cs detect_names)
qed

text \<open>
  C34: The webhook and a migrated workload.  Take a workload without containers of the names or
  images of the proxy, the workload that detect writes for it, and a pod of that which asks
  for the injection of the proxy.  When the webhook admits the pod, it finds the init container
  that detect added and injects no second one: there is one, which redirects to the port of
  detect and not to that of the pod's annotation.  The sidecar is another matter.  Without native
  sidecars the webhook finds the container of detect and injects none: there is one proxy, on
  the port of detect, and the names of the containers are as different as they were.  With native
  sidecars it looks for its name among the init containers only and injects a second one, so that two
  containers of the admitted pod have the same name, which the API server refuses.
\<close>

theorem migrated_injection:
  assumes "list_all (\<lambda>c. \<not> prefix (imageRepository @ ''/'' @ proxyImageName) (ct_image c))
      (GetInitContainers obj @ GetContainers obj)"
    and "{ProxySidecarContainerName, ProxyInitContainerName} \<inter> ct_name ` set (GetInitContainers obj @ GetContainers obj) = {}"
    and "pod_spec p = specOf (migratedObject dc sa obj)" and "shouldInjectProxySidecar p"
    and "mutatePod m lvl sa' p = Inr p'"
  shows "(\<exists>i. named ProxyInitContainerName p' = [i] \<and>
      \<lparr> ev_name = ProxyPortEnvVar, ev_value = formatInt (dc_proxyPort dc), ev_rest = None \<rparr> \<in> set (ct_env i)) \<and>
    (if pm_useNativeSidecar m
     then \<exists>port s c. getProxyPort p = Inr port \<and> named ProxySidecarContainerName p' = [s, c] \<and>
       ct_args s = [''--proxy-port='' @ formatInt port, ''--log-level='' @ lvl] \<and>
       ct_args c = ct_args (detectProxyContainer dc) \<and> \<not> distinct (containerNames p')
     else \<exists>c. named ProxySidecarContainerName p' = [c] \<and> ct_args c = ct_args (detectProxyContainer dc) \<and>
       distinct (containerNames p') = distinct (containerNames p))"
proof -
  obtain q e where q: "injectProxy m lvl p = Inr q" and p': "p' = finishPod m sa' e q"
    using assms(5) by (rule mutatePod_InrE)
  let ?f = "mutateContainer m (getClientID sa') (getTenantID sa' (pm_config m)) (getSkipContainers q)
    (isUsingCustomTokenEndpoint m q) (volumeOf q)"
  obtain port where port: "getProxyPort p = Inr port"
    and init: "named ProxyInitContainerName p' = [?f (detectProxyInitContainer dc)]"
    and side: "named ProxySidecarContainerName p' =
      map ?f ((if pm_useNativeSidecar m then [proxySidecarContainer m lvl port (Some ContainerRestartPolicyAlways)] else [])
        @ [detectProxyContainer dc])"
    using migrated_injected [OF assms(1-3) q assms(4)] by (auto simp: p' named_finished)
  have env: "\<lparr> ev_name = ProxyPortEnvVar, ev_value = formatInt (dc_proxyPort dc), ev_rest = None \<rparr>
      \<in> set (ct_env (detectProxyInitContainer dc))"
    by (simp add: detectProxyInitContainer_def ProxyPortEnvVar_def)
  have args: "ct_args (proxySidecarContainer m lvl port rp) = [''--proxy-port='' @ formatInt port, ''--log-level='' @ lvl]" for rp
    by (simp add: proxySidecarContainer_def)
  note names = mutatePod_distinct [OF assms(5)] and free = names_free [OF assms(2)]
  show ?thesis
  proof (cases "pm_useNativeSidecar m")
    case True
    have "ProxySidecarContainerName \<in> set (map ct_name (ps_containers (pod_spec p)))"
      using migrated_containers(2) [OF assms(1), of dc sa] by (simp add: assms(3) detect_names)
    then have "\<not> proxyNamesFree m p" using True by (simp add: proxyNamesFree_def Let_def)
    then have "\<not> distinct (containerNames p')" using names assms(4) by blast
    then show ?thesis using True init side port env by (simp add: mutateContainer_keeps args)
  next
    case False
    have "ProxyInitContainerName \<notin> set (map ct_name (ps_containers (pod_spec p)))"
      "ProxySidecarContainerName \<notin> set (map ct_name (ps_initContainers (pod_spec p)))"
      using migrated_containers [OF assms(1), of dc sa] free detect_names [of dc] proxy_names_differ by (auto simp: assms(3))
    then have "proxyNamesFree m p" using False by (simp add: proxyNamesFree_def Let_def)
    then show ?thesis using False init side env names by (simp add: mutateContainer_keeps)
  qed
qed

text \<open>A pod of the migrated workload with the annotations of the demonstration pod.\<close>

definition migratedPod :: pod where
  "migratedPod = demoPod \<lparr> pod_spec :=
     specOf (migratedObject demoRun demoSA (DeploymentObject (demoWorkload ''web'' []))) \<rparr>"

lemma migratedPod_mutates: "\<exists>p'. mutatePod m [] demoSA migratedPod = Inr p'"
proof -
  have meta: "pod_meta migratedPod = pod_meta demoPod" by (simp add: migratedPod_def)
  note reads = same_meta_reads [OF meta] demo_reads demo_expiration
  have "\<not> ps_hostNetwork (pod_spec migratedPod)"
    by (simp add: migratedPod_def migratedObject_eq migratedSpec_def demoWorkload_def demoTemplate_def deploymentSpecGet_def)
  then have "\<exists>q. injectProxy m [] migratedPod = Inr q"
    by (cases "pm_useNativeSidecar m") (simp_all add: injectProxy_def reads Let_def)
  then obtain q where q: "injectProxy m [] migratedPod = Inr q" by blast
  then have "getServiceAccountTokenExpiration q demoSA = Inr 7200"
    using same_meta_reads(4) [OF injectProxy_frame(1) [OF q]] by (simp add: reads)
  with q show ?thesis by (simp add: mutatePod_eq)
qed

theorem migrated_injection_witness:
  "\<exists>p' p''. mutatePod demoMutator [] demoSA migratedPod = Inr p' \<and>
     length (named ProxySidecarContainerName p') = 2 \<and> \<not> distinct (containerNames p') \<and>
     mutatePod (demoMutator \<lparr> pm_useNativeSidecar := False \<rparr>) [] demoSA migratedPod = Inr p'' \<and>
     length (named ProxySidecarContainerName p'') = 1"
proof -
  let ?obj = "DeploymentObject (demoWorkload ''web'' [])"
  have bare: "list_all (\<lambda>c. \<not> prefix (imageRepository @ ''/'' @ proxyImageName) (ct_image c))
      (GetInitContainers ?obj @ GetContainers ?obj)"
    and free: "{ProxySidecarContainerName, ProxyInitContainerName} \<inter>
      ct_name ` set (GetInitContainers ?obj @ GetContainers ?obj) = {}"
    by (simp_all add: GetContainers_def GetInitContainers_def deploymentSpecGet_def demoWorkload_def demoTemplate_def
        emptyContainer_def imageRepository_def ProxySidecarContainerName_def ProxyInitContainerName_def)
  have spec: "pod_spec migratedPod = specOf (migratedObject demoRun demoSA ?obj)" by (simp add: migratedPod_def)
  have asks: "shouldInjectProxySidecar migratedPod"
    using same_meta_reads(2) [of migratedPod demoPod] demo_reads(1) by (simp add: migratedPod_def)
  obtain p' p'' where p': "mutatePod demoMutator [] demoSA migratedPod = Inr p'"
    and p'': "mutatePod (demoMutator \<lparr> pm_useNativeSidecar := False \<rparr>) [] demoSA migratedPod = Inr p''"
    using migratedPod_mutates by metis
  note native = migrated_injection [OF bare free spec asks p'] and container = migrated_injection [OF bare free spec asks p'']
  have "pm_useNativeSidecar demoMutator" "\<not> pm_useNativeSidecar (demoMutator \<lparr> pm_useNativeSidecar := False \<rparr>)"
    by (simp_all add: demoMutator_def)
  then show ?thesis using p' p'' native container by auto
qed

end
