(* ===== verification/Sa_Checks.thy ===== *)
theory Sa_Checks
  imports Directory
begin

section \<open>What a create refuses before it does anything\<close>

text \<open>
  The runner checks every phase before it runs the first.  For the create command this comes
  to two lists of demands on the options with the Kubernetes client between them; here the
  command is compared with these lists.
\<close>

text \<open>A demand that is not met: its phase and its error.\<close>

type_synonym complaint = "bool \<times> string \<times> go_error"

definition beforeClient :: "create_data \<Rightarrow> complaint list" where
  "beforeClient c =
     [(createAADApplicationName c = [], aadApplicationPhaseName, FlagIsRequiredError flagAADApplicationName),
      (cd_serviceAccountNamespace c = [], serviceAccountPhaseName, FlagIsRequiredError flagServiceAccountNamespace),
      (cd_serviceAccountName c = [], serviceAccountPhaseName, FlagIsRequiredError flagServiceAccountName),
      (cd_serviceAccountTokenExpiration c < MinServiceAccountTokenExpiration * second, serviceAccountPhaseName, errExpirationTooSmall),
      (MaxServiceAccountTokenExpiration * second < cd_serviceAccountTokenExpiration c, serviceAccountPhaseName, errExpirationTooLarge)]"

definition afterClient :: "create_data \<Rightarrow> complaint list" where
  "afterClient c =
     [(cd_serviceAccountIssuerURL c = [], federatedIdentityPhaseName, FlagIsRequiredError flagServiceAccountIssuerURL),
      (cd_azureScope c = [], roleAssignmentPhaseName, FlagIsRequiredError flagAzureScope),
      (cd_azureRole c = [], roleAssignmentPhaseName, FlagIsRequiredError flagAzureRole)]"

definition refusal :: "string \<Rightarrow> go_error \<Rightarrow> go_error" where
  "refusal phaseName e = WrapError (''failed to run pre-run for phase '' @ phaseName) e"

lemma preRunAll_Cons:
  "ph_preRun p w = (None, w1) \<Longrightarrow> preRunAll (p # ps) w = preRunAll ps w1"
  "ph_preRun p w = (Some e, w1) \<Longrightarrow> preRunAll (p # ps) w = (Some (refusal (ph_name p) e), w1)"
  by (simp_all add: refusal_def)

lemma createAadPrerun_find:
  "createAadPrerun s =
    (case find fst (take 1 (beforeClient (cst_data s))) of Some (u, ph, e) \<Rightarrow> (Some e, s) | None \<Rightarrow> (None, s))"
  by (simp add: createAadPrerun_def beforeClient_def)

lemma createSaPrerun_find:
  "createSaPrerun env s =
    (case find fst (drop 1 (beforeClient (cst_data s))) of
       Some (u, ph, e) \<Rightarrow> (Some e, s)
     | None \<Rightarrow>
         (case ce_getKubeClient env (cst_world s) of
            (Inl e, w) \<Rightarrow> (Some (WrapError ''failed to get kubernetes client'' e), s \<lparr> cst_kube := None, cst_world := w \<rparr>)
          | (Inr kc, w) \<Rightarrow> (None, s \<lparr> cst_kube := Some kc, cst_world := w \<rparr>)))"
  by (simp add: createSaPrerun_def beforeClient_def Let_def)

lemma createLatePrerun_find:
  assumes "find fst (beforeClient (cst_data s)) = None"
  shows "preRunAll [createFicPhase env, createRaPhase env] s =
    (case find fst (afterClient (cst_data s)) of Some (u, ph, e) \<Rightarrow> (Some (refusal ph e), s) | None \<Rightarrow> (None, s))"
proof -
  have "createServicePrincipalName (cst_data s) \<noteq> []" "cd_serviceAccountNamespace (cst_data s) \<noteq> []"
    "cd_serviceAccountName (cst_data s) \<noteq> []"
    using assms by (auto simp: beforeClient_def createServicePrincipalName_def split: if_splits)
  then show ?thesis
    by (simp add: create_phase_defs createFicPrerun_def createRaPrerun_def afterClient_def refusal_def Let_def)
qed

text \<open>
  C29: A create with incomplete options does nothing.  The command reports the first demand that
  the options do not meet, under the phase that makes it, before it contacts anything but the
  cluster's configuration for a client, and before that it contacts nothing; only when all
  demands are met and the client was obtained do the phases run, with this client.
\<close>

theorem create_refuses_incomplete:
  "createCommand env [] s =
    (case find fst (beforeClient (cst_data s)) of
       Some (u, ph, e) \<Rightarrow> (Some (refusal ph e), s)
     | None \<Rightarrow>
         (case ce_getKubeClient env (cst_world s) of
            (Inl e, w) \<Rightarrow>
              (Some (refusal serviceAccountPhaseName (WrapError ''failed to get kubernetes client'' e)),
               s \<lparr> cst_kube := None, cst_world := w \<rparr>)
          | (Inr kc, w) \<Rightarrow>
              (let s1 = s \<lparr> cst_kube := Some kc, cst_world := w \<rparr> in
               case find fst (afterClient (cst_data s)) of
                 Some (u, ph, e) \<Rightarrow> (Some (refusal ph e), s1)
               | None \<Rightarrow> runAll (createPhases env) s1)))"
proof (cases "find fst (take 1 (beforeClient (cst_data s)))")
  case (Some x)
  then have "createAadPrerun s = (Some (FlagIsRequiredError flagAADApplicationName), s)"
    and "find fst (beforeClient (cst_data s)) = Some (True, aadApplicationPhaseName, FlagIsRequiredError flagAADApplicationName)"
    by (simp_all add: beforeClient_def createAadPrerun_def split: if_splits)
  then show ?thesis
    by (simp add: createCommand_unskipped createPhases_def createAadPhase_def refusal_def)
next
  case None
  then have aad: "createAadPrerun s = (None, s)" by (simp add: createAadPrerun_find)
  have early: "find fst (beforeClient (cst_data s)) = find fst (drop 1 (beforeClient (cst_data s)))"
    using None by (simp add: beforeClient_def split: if_splits)
  have sa: "ph_preRun (createSaPhase env) s = createSaPrerun env s" "ph_name (createSaPhase env) = serviceAccountPhaseName"
    by (simp_all add: createSaPhase_def)
  have pre: "preRunAll (createPhases env) s = preRunAll [createSaPhase env, createFicPhase env, createRaPhase env] s"
    unfolding createPhases_def by (rule preRunAll_Cons(1)) (simp add: createAadPhase_def aad)
  show ?thesis
  proof (cases "find fst (drop 1 (beforeClient (cst_data s)))")
    case (Some x)
    obtain u ph e where x: "x = (u, ph, e)" by (cases x)
    have "ph = serviceAccountPhaseName"
      using Some unfolding x by (auto simp: beforeClient_def split: if_splits)
    moreover have "createSaPrerun env s = (Some e, s)" unfolding createSaPrerun_find Some x by simp
    ultimately show ?thesis
      unfolding createCommand_unskipped pre early Some x by (simp add: sa refusal_def)
  next
    case none: None
    obtain r w where kc: "ce_getKubeClient env (cst_world s) = (r, w)" by fastforce
    show ?thesis
    proof (cases r)
      case (Inl e)
      then have "createSaPrerun env s =
          (Some (WrapError ''failed to get kubernetes client'' e), s \<lparr> cst_kube := None, cst_world := w \<rparr>)"
        unfolding createSaPrerun_find none kc Inl by simp
      then show ?thesis unfolding createCommand_unskipped pre early none kc Inl by (simp add: sa refusal_def)
    next
      case (Inr c)
      let ?s1 = "s \<lparr> cst_kube := Some c, cst_world := w \<rparr>"
      have "createSaPrerun env s = (None, ?s1)" unfolding createSaPrerun_find none kc Inr by simp
      then have "preRunAll (createPhases env) s = preRunAll [createFicPhase env, createRaPhase env] ?s1"
        unfolding pre by (intro preRunAll_Cons(1)) (simp add: sa)
      also have "\<dots> = (case find fst (afterClient (cst_data s)) of
          Some (u, ph, e) \<Rightarrow> (Some (refusal ph e), ?s1) | None \<Rightarrow> (None, ?s1))"
        using early none by (subst createLatePrerun_find) simp_all
      finally show ?thesis
        unfolding createCommand_unskipped early none kc Inr Let_def by (simp split: option.split)
    qed
  qed
qed

end
