(* ===== verification/Directory_Restart.thy ===== *)
theory Directory_Restart
  imports Directory_Correct
begin

section \<open>A create that is interrupted, and run again\<close>

text \<open>
  An abstract specification of the create command: the changes it may make to what the
  directory and the cluster keep, one at a time (\<open>createChange\<close>).  Every run of the command,
  with any phases skipped, whether it succeeds or fails at any call and whether or not the
  calls that failed took effect, is a sequence of these changes.  What they keep is what a
  later create needs, so a create that was interrupted is completed by running it again.
\<close>

subsection \<open>The changes of a create\<close>

text \<open>
  A command for the name \<open>n\<close> and the data \<open>c\<close> adds an application where none has the
  name, a principal and the wanted credential of an application of the name, or writes the
  account, with the client id of an application of the name or, after a failed look-up, none.
\<close>

definition accountOf :: "create_data \<Rightarrow> string \<Rightarrow> string \<Rightarrow> service_account" where
  "accountOf c cid tid = newServiceAccount (cd_serviceAccountNamespace c) (cd_serviceAccountName c) cid tid
     (cd_serviceAccountTokenExpiration c)"

inductive createChange ::
  "(string \<Rightarrow> string \<Rightarrow> bool) \<Rightarrow> string \<Rightarrow> create_data \<Rightarrow> directory \<Rightarrow> directory \<Rightarrow> bool"
  for eq :: "string \<Rightarrow> string \<Rightarrow> bool" and n :: string and c :: create_data where
  application: "appsNamed eq n d = {} \<Longrightarrow> addsApp n a d d' \<Longrightarrow> createChange eq n c d d'"
| principal: "a \<in> appsNamed eq n d \<Longrightarrow> sp_appId p = app_appId a \<Longrightarrow> sp_displayName p = app_displayName a \<Longrightarrow>
    d' = d \<lparr> dir_sps := insert p (dir_sps d) \<rparr> \<Longrightarrow> createChange eq n c d d'"
| credential: "a \<in> appsNamed eq n d \<Longrightarrow> addsFic (app_id a) (wantedFic c) d d' \<Longrightarrow> createChange eq n c d d'"
| account: "cid = [] \<or> (\<exists>a \<in> appsNamed eq n d. cid = app_appId a) \<Longrightarrow> stores (accountOf c cid tid) d d' \<Longrightarrow>
    createChange eq n c d d'"

text \<open>The client ids of the applications are distinct, and every application has an object id.\<close>

definition identified :: "directory \<Rightarrow> bool" where
  "identified d \<longleftrightarrow> inj_on app_appId (dir_apps d) \<and> [] \<notin> app_id ` dir_apps d"

lemma accountOf_key: "accountKey (accountOf c cid tid) = createKey c"
  by (simp add: accountKey_def accountOf_def newServiceAccount_def createKey_def Let_def)

lemma change_identified:
  assumes "createChange eq n c d d'" and "identified d"
  shows "identified d'"
  using assms by cases (auto simp: identified_def addsApp_def addsFic_def stores_def freshApp_def)

lemma change_apps: "createChange eq n c d d' \<Longrightarrow> appsNamed eq n d \<subseteq> appsNamed eq n d'"
  by (cases rule: createChange.cases) (auto simp: appsNamed_def addsApp_def addsFic_def stores_def)

lemma changes_identified: "(createChange eq n c)\<^sup>*\<^sup>* d d' \<Longrightarrow> identified d \<Longrightarrow> identified d'"
  by (induction rule: rtranclp_induct) (auto intro: change_identified)

lemma changes_apps: "(createChange eq n c)\<^sup>*\<^sup>* d d' \<Longrightarrow> appsNamed eq n d \<subseteq> appsNamed eq n d'"
  by (induction rule: rtranclp_induct) (auto dest: change_apps)

lemma changes_cong:
  assumes "wantedFic c = wantedFic c'" and "accountOf c = accountOf c'"
  shows "createChange eq n c = createChange eq n c'"
proof -
  have "createChange eq n b d d'" if "createChange eq n a d d'" "wantedFic a = wantedFic b" "accountOf a = accountOf b"
    for a b d d'
    using that(1)
  proof cases
    case (principal x p) then show ?thesis by (rule createChange.principal)
  qed (auto simp: that(2,3) intro: createChange.intros)
  then show ?thesis using assms by (intro ext) metis
qed

text \<open>What a sequence of changes makes of an unambiguous name.\<close>

lemma change_unambiguous:
  assumes "createChange eq n c d d'" and "unambiguous eq n d" and "eq n n"
  shows "unambiguous eq n d'"
  using assms(1)
proof cases
  case (application a)
  then have "appsNamed eq n d' = {a}" using assms(3) by (auto simp: appsNamed_def addsApp_def)
  moreover have "spsNamed eq n d' = {}" using application assms(2) by (auto simp: unambiguous_def addsApp_def spsNamed_def)
  ultimately show ?thesis by (simp add: unambiguous_def)
next
  case (principal a p)
  have same: "appsNamed eq n d' = appsNamed eq n d" using principal(4) by (simp add: appsNamed_def)
  have "spsNamed eq n d' \<subseteq> insert p (spsNamed eq n d)" using principal(4) by (auto simp: spsNamed_def)
  then show ?thesis using assms(2) principal(1,2) unfolding unambiguous_def same by blast
next
  case (credential a)
  then show ?thesis using assms(2) by (auto simp: unambiguous_def appsNamed_def spsNamed_def addsFic_def)
next
  case (account cid tid)
  then show ?thesis using assms(2) by (auto simp: unambiguous_def appsNamed_def spsNamed_def stores_def)
qed

lemma change_serves:
  assumes "createChange eq n c d d'" and "clashesServe eq n c d"
  shows "clashesServe eq n c d'"
  using assms(1)
proof cases
  case (application a)
  have "appsNamed eq n d' \<subseteq> {a}" "dir_fics d' = dir_fics d" "\<And>f. (app_id a, f) \<notin> dir_fics d"
    using application by (force simp: appsNamed_def addsApp_def freshApp_def)+
  then show ?thesis by (auto simp: clashesServe_def)
next
  case (principal a p)
  then show ?thesis using assms(2) by (simp add: clashesServe_def appsNamed_def)
next
  case (credential a)
  then show ?thesis
    using assms(2) by (auto simp: clashesServe_def appsNamed_def addsFic_def wantedFic_fields)
next
  case (account cid tid)
  then show ?thesis using assms(2) by (auto simp: clashesServe_def appsNamed_def stores_def)
qed

text \<open>The directory but for one account is the same.\<close>

definition sameBut :: "string \<times> string \<Rightarrow> directory \<Rightarrow> directory \<Rightarrow> bool" where
  "sameBut k d d' \<longleftrightarrow> dir_apps d' = dir_apps d \<and> dir_sps d' = dir_sps d \<and> dir_fics d' = dir_fics d \<and>
     (\<forall>l. l \<noteq> k \<longrightarrow> dir_accounts d' l = dir_accounts d l)"

definition grown :: "(string \<Rightarrow> string \<Rightarrow> bool) \<Rightarrow> string \<Rightarrow> string \<times> string \<Rightarrow> directory \<Rightarrow> directory \<Rightarrow> bool" where
  "grown eq n k d d' \<longleftrightarrow> unambiguous eq n d' \<and>
     (sameBut k d d' \<or> (\<exists>a. appsNamed eq n d' = {a} \<and> extendsBy a k d d' \<and> (appsNamed eq n d = {a} \<or> freshApp d a)))"

lemma change_grown:
  assumes step: "createChange eq n c d' d''" and g: "grown eq n (createKey c) d d'" and eq: "eq n n"
  shows "grown eq n (createKey c) d d''"
proof -
  let ?k = "createKey c"
  have un: "unambiguous eq n d''" using change_unambiguous [OF step _ eq] g by (simp add: grown_def)
  have later: "extendsBy a ?k d' d''" if "appsNamed eq n d' = {a}" for a
  proof -
    have only: "\<And>b. b \<in> appsNamed eq n d' \<Longrightarrow> b = a" and a: "a \<in> dir_apps d'"
      using that by (auto simp: appsNamed_def)
    show ?thesis
      using step
    proof cases
      case (principal b p)
      then show ?thesis using only extendsBy_upd(2) [OF a] by metis
    next
      case (credential b)
      then show ?thesis using only extendsBy_upd(3) [OF a] unfolding addsFic_def by metis
    next
      case (account cid tid)
      then show ?thesis using extendsBy_upd(4) [OF a accountOf_key] by metis
    qed (simp add: that)
  qed
  show ?thesis
  proof (cases "appsNamed eq n d' = {}")
    case True
    then have same: "sameBut ?k d d'" using g by (auto simp: grown_def)
    show ?thesis
      using step
    proof cases
      case (application a)
      then have "appsNamed eq n d'' = {a}" using eq by (auto simp: appsNamed_def addsApp_def)
      moreover have "extendsBy a ?k d d''" using application(2) same by (auto simp: addsApp_def extendsBy_def sameBut_def)
      moreover have "freshApp d a" using application(2) same by (simp add: addsApp_def freshApp_def sameBut_def)
      ultimately show ?thesis using un by (auto simp: grown_def)
    next
      case (account cid tid)
      then have "sameBut ?k d d''" using same accountOf_key [of c cid tid] by (auto simp: sameBut_def stores_def)
      then show ?thesis using un by (simp add: grown_def)
    qed (use True in auto)
  next
    case False
    then obtain a where a: "appsNamed eq n d' = {a}" using g unfolding grown_def unambiguous_def by blast
    have "appsNamed eq n d'' = {a}" using change_apps [OF step] un a unfolding unambiguous_def by blast
    moreover have "extendsBy a ?k d d' \<and> (appsNamed eq n d = {a} \<or> freshApp d a)"
    proof (cases "sameBut ?k d d'")
      case True
      then have "appsNamed eq n d = {a}" using a by (simp add: sameBut_def appsNamed_def)
      moreover from this have "a \<in> dir_apps d" by (auto simp: appsNamed_def)
      ultimately show ?thesis using True by (auto simp: sameBut_def extendsBy_def)
    next
      case False
      then show ?thesis using g a by (auto simp: grown_def)
    qed
    ultimately show ?thesis using un extendsBy_trans later [OF a] unfolding grown_def by blast
  qed
qed

lemma changes_grown:
  assumes "(createChange eq n c)\<^sup>*\<^sup>* d d'" and "unambiguous eq n d" and "eq n n"
  shows "grown eq n (createKey c) d d'"
  using assms(1)
proof (induction rule: rtranclp_induct)
  case base
  show ?case using assms(2) by (simp add: grown_def sameBut_def)
next
  case (step d' d'')
  then show ?case using change_grown assms(3) by blast
qed

subsection \<open>Every run makes these changes only\<close>

text \<open>
  A look-up of the application that fails is not reported as one that found nothing: the
  command tells the two by the words of the error.
\<close>

definition outagesReported :: "'w azure_sdk \<Rightarrow> 'w cli_env \<Rightarrow> bool" where
  "outagesReported sdk env \<longleftrightarrow>
     (\<forall>f w e. fst (sdk_appsGet sdk f w) = Inl e \<longrightarrow> \<not> IsNotFound (ce_errText env) (maybeExtractGraphError e))"

lemma answered_reported: "lookupsAnswered sdk \<Longrightarrow> outagesReported sdk env"
  unfolding lookupsAnswered_def outagesReported_def by (metis Inr_not_Inl)

definition attemptable ::
  "(string \<Rightarrow> string \<Rightarrow> bool) \<Rightarrow> 'w azure_sdk \<Rightarrow> ('w \<Rightarrow> directory) \<Rightarrow> 'w cli_env \<Rightarrow> string \<Rightarrow> 'w create_state \<Rightarrow> bool" where
  "attemptable eq sdk view env n s \<longleftrightarrow>
     lawfulEnv eq sdk view env \<and> outagesReported sdk env \<and> CHR 0x27 \<notin> set n \<and>
     derivesIDs n (cst_data s) \<and> identified (view (cst_world s)) \<and> cst_kube s = None"

text \<open>What every phase keeps of the run that began in \<open>s0\<close>.\<close>

definition attempted ::
  "(string \<Rightarrow> string \<Rightarrow> bool) \<Rightarrow> ('w \<Rightarrow> directory) \<Rightarrow> string \<Rightarrow> 'w create_state \<Rightarrow> 'w create_state \<Rightarrow> bool" where
  "attempted eq view n s0 s \<longleftrightarrow>
     createKeeps s0 s \<and> (\<forall>kc. cst_kube s = Some kc \<longrightarrow> clientLaws kc view) \<and>
     (\<forall>a. cd_aadApplication (cst_data s) = Some a \<longrightarrow> a \<in> appsNamed eq n (view (cst_world s))) \<and>
     (createChange eq n (cst_data s0))\<^sup>*\<^sup>* (view (cst_world s0)) (view (cst_world s))"

lemma attempted_upd:
  assumes "attempted eq view n s0 s" and "(createChange eq n (cst_data s0))\<^sup>*\<^sup>* (view (cst_world s)) (view w)"
  shows "attempted eq view n s0 (s \<lparr> cst_world := w \<rparr>)"
  using assms changes_apps [OF assms(2)] unfolding attempted_def by auto

lemma attempted_view:
  assumes "attempted eq view n s0 s" and "createKeeps s t" and "cst_kube t = cst_kube s"
    and "view (cst_world t) = view (cst_world s)"
    and "\<And>a. cd_aadApplication (cst_data t) = Some a \<Longrightarrow> a \<in> appsNamed eq n (view (cst_world s))"
  shows "attempted eq view n s0 t"
  using assms createKeeps_trans [of s0 s t] by (auto simp: attempted_def)

lemma attempted_ids:
  assumes "attemptable eq sdk view env n s0" and "attempted eq view n s0 s"
  shows "createAADApplicationName (cst_data s) = n" "cd_aadApplicationClientID (cst_data s) = []"
    "cd_aadApplicationObjectID (cst_data s) = []" "identified (view (cst_world s))"
    "wantedFic (cst_data s) = wantedFic (cst_data s0)" "accountOf (cst_data s) = accountOf (cst_data s0)"
proof -
  have k: "createKeeps s0 s" using assms(2) by (simp add: attempted_def)
  show "createAADApplicationName (cst_data s) = n" "cd_aadApplicationClientID (cst_data s) = []"
    "cd_aadApplicationObjectID (cst_data s) = []"
    using createKeeps_names [OF k] assms(1) by (simp_all add: attemptable_def derivesIDs_def)
  show "identified (view (cst_world s))"
    using changes_identified assms unfolding attemptable_def attempted_def by blast
  show "wantedFic (cst_data s) = wantedFic (cst_data s0)" by (rule wanted_keeps(1) [OF k])
  show "accountOf (cst_data s) = accountOf (cst_data s0)"
    using createKeeps_fields [OF k] by (simp add: accountOf_def [abs_def])
qed

lemma attempted_application:
  assumes s0: "attemptable eq sdk view env n s0" and s: "attempted eq view n s0 s"
    and get: "createAADApplication env s = (x, t)"
  shows "attempted eq view n s0 t" "view (cst_world t) = view (cst_world s)"
    "x = Inr a \<Longrightarrow> a \<in> appsNamed eq n (view (cst_world s))"
    "x = Inl e \<Longrightarrow> IsNotFound (ce_errText env) e \<Longrightarrow> appsNamed eq n (view (cst_world s)) = {}"
proof -
  have law: "lawfulEnv eq sdk view env" "outagesReported sdk env" and n: "CHR 0x27 \<notin> set n"
    using s0 by (simp_all add: attemptable_def)
  let ?named = "appsNamed eq n (view (cst_world s))"
  have "view (cst_world t) = view (cst_world s) \<and> (\<forall>a. x = Inr a \<longrightarrow> a \<in> ?named) \<and>
      (\<forall>a. cd_aadApplication (cst_data t) = Some a \<longrightarrow> a \<in> ?named) \<and>
      (\<forall>e. x = Inl e \<and> IsNotFound (ce_errText env) e \<longrightarrow> ?named = {})"
  proof (cases "cd_aadApplication (cst_data s)")
    case None
    obtain y w where y: "GetApplication sdk n (cst_world s) = (y, w)" by fastforce
    note gets = GetApplication_law [OF lawfulEnvD(1) [OF law(1)] y]
    have none: "?named = {}" if "y = Inl e" "IsNotFound (ce_errText env) e" for e
    proof -
      obtain l v where l: "sdk_appsGet sdk (getDisplayNameFilter n) (cst_world s) = (l, v)" by fastforce
      have "l \<noteq> Inl e'" for e'
        using y l that law(2) unfolding outagesReported_def
        by (auto simp: GetApplication_def extractOnError_def) (metis fst_conv)
      then obtain as where "l = Inr as" by (cases l) auto
      then show ?thesis
        using lookupLawsD(4) [OF lawfulEnvD(1) [OF law(1)] n, of "cst_world s" as] y l that(1)
        by (auto simp: GetApplication_def extractOnError_def split: list.splits)
    qed
    have t: "(x, t) = (case y of Inl e \<Rightarrow> (Inl e, s \<lparr> cst_world := w \<rparr>)
        | Inr a \<Rightarrow> (Inr a, s \<lparr> cst_data := cst_data s \<lparr> cd_aadApplication := Some a \<rparr>, cst_world := w \<rparr>))"
      using get None y attempted_ids(1) [OF s0 s] by (simp add: createAADApplication_def lawfulEnvD(6) [OF law(1)])
    show ?thesis
    proof (cases y)
      case (Inl e)
      then show ?thesis using t gets(1) none None by simp
    next
      case (Inr a)
      then show ?thesis using t gets(1) gets(2) [OF n Inr] by simp
    qed
  next
    case (Some b)
    then show ?thesis using get s by (auto simp: createAADApplication_def attempted_def)
  qed
  then show "view (cst_world t) = view (cst_world s)"
    "x = Inr a \<Longrightarrow> a \<in> appsNamed eq n (view (cst_world s))"
    "x = Inl e \<Longrightarrow> IsNotFound (ce_errText env) e \<Longrightarrow> appsNamed eq n (view (cst_world s)) = {}"
    "attempted eq view n s0 t"
    using attempted_view [OF s] createAADApplication_keeps [OF get] by blast+
qed

lemma servicePrincipal_view:
  assumes "lawfulEnv eq sdk view env"
  shows "view (cst_world (snd (createServicePrincipal env s))) = view (cst_world s)"
    "cd_aadApplication (cst_data (snd (createServicePrincipal env s))) = cd_aadApplication (cst_data s)"
    "view (cst_world (snd (createServicePrincipalObjectID env s))) = view (cst_world s)"
    "cd_aadApplication (cst_data (snd (createServicePrincipalObjectID env s))) = cd_aadApplication (cst_data s)"
proof -
  obtain x w where x: "GetServicePrincipal sdk (createServicePrincipalName (cst_data s)) (cst_world s) = (x, w)"
    by fastforce
  note same = GetServicePrincipal_law(1) [OF lawfulEnvD(1) [OF assms] x]
  show get: "view (cst_world (snd (createServicePrincipal env s))) = view (cst_world s)"
    "cd_aadApplication (cst_data (snd (createServicePrincipal env s))) = cd_aadApplication (cst_data s)"
    using x same by (auto simp: createServicePrincipal_def lawfulEnvD(7) [OF assms] split: option.splits sum.splits)
  then show "view (cst_world (snd (createServicePrincipalObjectID env s))) = view (cst_world s)"
    "cd_aadApplication (cst_data (snd (createServicePrincipalObjectID env s))) = cd_aadApplication (cst_data s)"
    by (auto simp: createServicePrincipalObjectID_def split: prod.splits sum.splits)
qed

lemma attempted_principal:
  assumes law: "lawfulEnv eq sdk view env" and s: "attempted eq view n s0 s"
  shows "attempted eq view n s0 (snd (createServicePrincipal env s))"
    "attempted eq view n s0 (snd (createServicePrincipalObjectID env s))"
proof -
  obtain x u where u: "createServicePrincipal env s = (x, u)" by fastforce
  obtain i v where v: "createServicePrincipalObjectID env s = (i, v)" by fastforce
  have named: "\<And>a. cd_aadApplication (cst_data s) = Some a \<Longrightarrow> a \<in> appsNamed eq n (view (cst_world s))"
    using s by (simp add: attempted_def)
  show "attempted eq view n s0 (snd (createServicePrincipal env s))"
    using servicePrincipal_view(1,2) [OF law, of s] createServicePrincipal_keeps [OF u] u named
    by (intro attempted_view [OF s]) simp_all
  show "attempted eq view n s0 (snd (createServicePrincipalObjectID env s))"
    using servicePrincipal_view(3,4) [OF law, of s] createIDs_keep(3) [OF v] v named
    by (intro attempted_view [OF s]) simp_all
qed

lemma attempted_postPrincipal:
  assumes s0: "attemptable eq sdk view env n s0" and s: "attempted eq view n s0 s"
    and a: "a \<in> appsNamed eq n (view (cst_world s))"
  shows "attempted eq view n s0 (snd (createAadServicePrincipal env a s))"
proof -
  have law: "lawfulEnv eq sdk view env" using s0 by (simp add: attemptable_def)
  obtain x u where u: "createServicePrincipal env s = (x, u)" by fastforce
  have su: "attempted eq view n s0 u" and v: "view (cst_world u) = view (cst_world s)"
    using attempted_principal(1) [OF law s] servicePrincipal_view(1) [OF law, of s] u by simp_all
  let ?tags = "[''azwi version: '' @ ce_buildVersion env @ '', commit: '' @ ce_vcs env]"
  obtain r w where r: "sdk_spsPost sdk (app_appId a) ?tags (cst_world u) = (r, w)" by fastforce
  note laws = creationLawsD(3,4) [OF lawfulEnvD(2) [OF law]]
  have "view w = view (cst_world u) \<or> (\<exists>p. addsPrincipal (app_appId a) p (view (cst_world u)) (view w))"
    using laws r by (cases r) blast+
  moreover have "createChange eq n (cst_data s0) (view (cst_world s)) (view w)"
    if "addsPrincipal (app_appId a) p (view (cst_world u)) (view w)" for p
  proof -
    from that obtain b where b: "b \<in> dir_apps (view (cst_world s))" "app_appId b = app_appId a"
      "sp_appId p = app_appId a" "sp_displayName p = app_displayName b"
      and d: "view w = (view (cst_world s)) \<lparr> dir_sps := insert p (dir_sps (view (cst_world s))) \<rparr>"
      unfolding addsPrincipal_def v by blast
    have "b = a"
      using attempted_ids(4) [OF s0 s] a b(1,2) by (auto simp: identified_def appsNamed_def dest: inj_onD)
    then show ?thesis using createChange.principal [OF a b(3) _ d] b(4) by simp
  qed
  ultimately have "(createChange eq n (cst_data s0))\<^sup>*\<^sup>* (view (cst_world s)) (view w)"
    using v by (metis r_into_rtranclp rtranclp.rtrancl_refl)
  then have "attempted eq view n s0 (u \<lparr> cst_world := w \<rparr>)" using attempted_upd [OF su] v by simp
  with su show ?thesis
    using u r
    by (auto simp: createAadServicePrincipal_def Let_def lawfulEnvD(9) [OF law] CreateServicePrincipal_def
        extractOnError_def split: sum.splits option.splits)
qed

lemma attempted_aad:
  assumes s0: "attemptable eq sdk view env n s0" and s: "attempted eq view n s0 s"
  shows "attempted eq view n s0 (snd (createAadRun env s))"
proof -
  have law: "lawfulEnv eq sdk view env" using s0 by (simp add: attemptable_def)
  obtain x u where u: "createAADApplication env s = (x, u)" by fastforce
  note get = attempted_application [OF s0 s u]
  show ?thesis
  proof (cases x)
    case (Inr a)
    then show ?thesis
      using attempted_postPrincipal [OF s0 get(1)] get(2,3) u by (simp add: createAadRun_def)
  next
    case (Inl e)
    show ?thesis
    proof (cases "IsNotFound (ce_errText env) e")
      case False
      then show ?thesis using Inl u get(1) by (simp add: createAadRun_def)
    next
      case True
      note none = get(4) [OF Inl True]
      obtain r w where r: "sdk_appsPost sdk n (cst_world u) = (r, w)" by fastforce
      note laws = creationLawsD(1,2) [OF lawfulEnvD(2) [OF law]]
      have made: "createChange eq n (cst_data s0) (view (cst_world u)) (view w)"
        if "addsApp n a (view (cst_world u)) (view w)" for a
        using none get(2) that by (intro createChange.application) simp_all
      have "view w = view (cst_world u) \<or> (\<exists>a. addsApp n a (view (cst_world u)) (view w))"
        using laws r by (cases r) blast+
      then have w: "attempted eq view n s0 (u \<lparr> cst_world := w \<rparr>)"
        using made by (intro attempted_upd [OF get(1)]) (metis r_into_rtranclp rtranclp.rtrancl_refl)
      have "a \<in> appsNamed eq n (view w)" if "r = Inr (Some a)" for a
      proof -
        have "addsApp n a (view (cst_world u)) (view w)" using laws(2) r that by blast
        then show ?thesis using lookupLawsD(1) [OF lawfulEnvD(1) [OF law]] by (simp add: addsApp_def appsNamed_def)
      qed
      then have "attempted eq view n s0 (snd (createAadServicePrincipal env a (u \<lparr> cst_world := w \<rparr>)))"
        if "r = Inr (Some a)" for a
        using attempted_postPrincipal [OF s0 w] that by simp
      then show ?thesis
        using w Inl True u r attempted_ids(1) [OF s0 get(1)]
        by (auto simp: createAadRun_def lawfulEnvD(8) [OF law] CreateApplication_def extractOnError_def
            split: sum.splits option.splits)
    qed
  qed
qed

lemma attempted_sa:
  assumes s0: "attemptable eq sdk view env n s0" and s: "attempted eq view n s0 s"
  shows "attempted eq view n s0 (snd (createSaRun env s))"
proof -
  obtain cid u where u: "createAADApplicationClientID env s = (cid, u)" by fastforce
  obtain x v where v: "createAADApplication env s = (x, v)" by fastforce
  note get = attempted_application [OF s0 s v]
  have uv: "u = v" and cid: "cid = (case x of Inl e \<Rightarrow> [] | Inr a \<Rightarrow> app_appId a)"
    using u v attempted_ids(2) [OF s0 s] by (simp_all add: createAADApplicationClientID_def split: sum.splits)
  have named: "cid = [] \<or> (\<exists>a \<in> appsNamed eq n (view (cst_world u)). cid = app_appId a)"
    using get(2,3) cid uv by (cases x) auto
  show ?thesis
  proof (cases "cst_kube u")
    case None
    then show ?thesis using u uv get(1) by (simp add: createSaRun_def)
  next
    case (Some kc)
    let ?c = "cst_data u"
    obtain r w where r: "CreateOrUpdateServiceAccount kc (cd_serviceAccountNamespace ?c) (cd_serviceAccountName ?c)
        cid (ce_tenantID env) (cd_serviceAccountTokenExpiration ?c) (cst_world u) = (r, w)" by fastforce
    have kc: "clientLaws kc view" using get(1) uv Some by (simp add: attempted_def)
    have "view w = view (cst_world u) \<or> stores (accountOf ?c cid (ce_tenantID env)) (view (cst_world u)) (view w)"
      using clientLawsD(1,2) [OF kc] r by (cases r) (auto simp: accountOf_def)
    moreover have "accountOf ?c = accountOf (cst_data s0)" using attempted_ids(6) [OF s0 get(1)] uv by simp
    ultimately have "(createChange eq n (cst_data s0))\<^sup>*\<^sup>* (view (cst_world u)) (view w)"
      using createChange.account [OF named] by (metis r_into_rtranclp rtranclp.rtrancl_refl)
    then have "attempted eq view n s0 (u \<lparr> cst_world := w \<rparr>)" by (rule attempted_upd [OF get(1) [folded uv]])
    then show ?thesis using u Some r by (auto simp: createSaRun_def split: sum.splits)
  qed
qed

lemma attempted_fic:
  assumes s0: "attemptable eq sdk view env n s0" and s: "attempted eq view n s0 s"
  shows "attempted eq view n s0 (snd (createFicRun env s))"
proof -
  have law: "lawfulEnv eq sdk view env" using s0 by (simp add: attemptable_def)
  obtain i u where u: "createAADApplicationObjectID env s = (i, u)" by fastforce
  obtain x v where v: "createAADApplication env s = (x, v)" by fastforce
  note get = attempted_application [OF s0 s v]
  have uv: "u = v" and i: "i = (case x of Inl e \<Rightarrow> [] | Inr a \<Rightarrow> app_id a)"
    using u v attempted_ids(3) [OF s0 s] by (simp_all add: createAADApplicationObjectID_def split: sum.splits)
  have none: "i \<notin> app_id ` dir_apps (view (cst_world u))" if "x = Inl e" for e
    using i that attempted_ids(4) [OF s0 get(1)] uv by (simp add: identified_def)
  let ?f = "newFederatedCredential (cd_serviceAccountNamespace (cst_data u)) (cd_serviceAccountName (cst_data u))
    (cd_serviceAccountIssuerURL (cst_data u))"
  have f: "?f = wantedFic (cst_data s0)" using attempted_ids(5) [OF s0 get(1)] uv by (simp add: wantedFic_def)
  obtain r w where r: "sdk_ficPost sdk i ?f (cst_world u) = (r, w)" by fastforce
  have "createChange eq n (cst_data s0) (view (cst_world u)) (view w)"
    if add: "addsFic i (wantedFic (cst_data s0)) (view (cst_world u)) (view w)"
  proof (cases x)
    case (Inl e)
    then show ?thesis using none add by (simp add: addsFic_def)
  next
    case (Inr a)
    then show ?thesis using createChange.credential [of a] get(2,3) add i uv by simp
  qed
  moreover have "addsFic i ?f (view (cst_world u)) (view w) \<or> view w = view (cst_world u)"
    using creationLawsD(5,6) [OF lawfulEnvD(2) [OF law]] r by (cases r) blast+
  ultimately have "attempted eq view n s0 (u \<lparr> cst_world := w \<rparr>)"
    using attempted_upd get(1) uv f by (metis r_into_rtranclp rtranclp.rtrancl_refl)
  then show ?thesis
    using u r by (auto simp: createFicRun_def Let_def lawfulEnvD(10) [OF law] AddFederatedCredential_def
        extractOnError_def split: sum.splits)
qed

lemma attempted_ra:
  assumes s0: "attemptable eq sdk view env n s0" and s: "attempted eq view n s0 s"
  shows "attempted eq view n s0 (snd (createRaRun env s))"
proof -
  have law: "lawfulEnv eq sdk view env" using s0 by (simp add: attemptable_def)
  let ?id = "\<lambda>t. snd (createServicePrincipalObjectID env t)"
  obtain i u where u: "createServicePrincipalObjectID env s = (i, u)" by fastforce
  have su: "attempted eq view n s0 u" using attempted_principal(2) [OF law s] u by simp
  obtain r w where r: "CreateRoleAssignment sdk (cd_azureScope (cst_data u)) (cd_azureRole (cst_data u)) i (cst_world u) = (r, w)"
    by fastforce
  have "view w = view (cst_world u)"
    using role_operations_apart(1) [OF lawfulEnvD(4) [OF law], of "cd_azureScope (cst_data u)" "cd_azureRole (cst_data u)" i "cst_world u"] r
    by simp
  then have w: "attempted eq view n s0 (u \<lparr> cst_world := w \<rparr>)" using attempted_upd [OF su] by simp
  note later = attempted_principal(2) [OF law w] attempted_principal(2) [OF law attempted_principal(2) [OF law w]]
  show ?thesis
    using u r w later by (auto simp: createRaRun_def lawfulEnvD(11) [OF law] split: sum.splits)
qed

lemma attempted_checks:
  assumes s0: "attemptable eq sdk view env n s0" and s: "attempted eq view n s0 s" and p: "p \<in> set (createPhases env)"
  shows "attempted eq view n s0 (snd (ph_preRun p s))"
proof -
  have law: "lawfulEnv eq sdk view env" using s0 by (simp add: attemptable_def)
  obtain k w where k: "ce_getKubeClient env (cst_world s) = (k, w)" by fastforce
  have v: "view w = view (cst_world s)" and kc: "\<And>kc. k = Inr kc \<Longrightarrow> clientLaws kc view"
    using lawfulEnvD(5) [OF law] k unfolding clusterLaws_def by (metis fst_conv snd_conv)+
  have "attempted eq view n s0 (s \<lparr> cst_kube := kube, cst_world := w \<rparr>)"
    if "\<And>kc. kube = Some kc \<Longrightarrow> k = Inr kc" for kube
    using s v that kc by (auto simp: attempted_def)
  then have "attempted eq view n s0 (snd (createSaPrerun env s))"
    using s k by (auto simp: createSaPrerun_def Let_def split: sum.splits)
  moreover have "attempted eq view n s0 (snd (createAadPrerun s))" "attempted eq view n s0 (snd (createFicPrerun s))"
    using s by (simp_all add: createAadPrerun_def createFicPrerun_def Let_def)
  moreover have "attempted eq view n s0 (snd (createRaPrerun env s))"
    using s attempted_principal(2) [OF law s]
    by (auto simp: createRaPrerun_def Let_def split: prod.splits)
  ultimately show ?thesis using p by (auto simp: create_phase_defs)
qed

text \<open>The runner's contract on what is attempted: it holds at the end of every run.\<close>

interpretation create_attempt: phase_contract "createPhases env"
    "\<lambda>s. attemptable eq sdk view env n s0 \<longrightarrow> attempted eq view n s0 s"
  for eq sdk view env n s0
proof unfold_locales
  fix p s
  assume p: "p \<in> set (createPhases env)" and s: "attemptable eq sdk view env n s0 \<longrightarrow> attempted eq view n s0 s"
  show "attemptable eq sdk view env n s0 \<longrightarrow> attempted eq view n s0 (snd (ph_preRun p s))"
    using s attempted_checks [OF _ _ p] by blast
  have "attempted eq view n s0 (snd (ph_run p s))" if "attemptable eq sdk view env n s0" "attempted eq view n s0 s"
    using p attempted_aad [OF that] attempted_sa [OF that] attempted_fic [OF that] attempted_ra [OF that]
    by (auto simp: create_phase_defs)
  then show "attemptable eq sdk view env n s0 \<longrightarrow> attempted eq view n s0 (snd (ph_run p s))" using s by blast
qed

lemma attemptable_attempted: "attemptable eq sdk view env n s \<Longrightarrow> attempted eq view n s s"
  by (simp add: attemptable_def attempted_def derivesIDs_def)

lemma createCommand_attempted:
  assumes "attemptable eq sdk view env n s"
  shows "attempted eq view n s (snd (createCommand env skips s))"
  using create_attempt.Run_inv [of "createRunner env skips" env eq sdk view n s s]
    assms attemptable_attempted [OF assms]
  by (simp add: createCommand_def)

text \<open>
  C7: A create makes no other changes.  Over any directory and cluster that obey their laws,
  every run of the create command, whatever phases it skips and wherever it fails, and every
  run of one of its phases alone, is a sequence of the changes of the specification: an
  application where none has the name, a principal and the wanted credential of an application
  of the name, and the account.  Calls that fail may have taken effect or not.
\<close>

theorem create_changes:
  assumes "attemptable eq sdk view env n s"
    and "createCommand env skips s = (r, t) \<or>
      (\<exists>p \<in> set (createPhases env). createPhaseCommand env p s = (r, t))"
  shows "(createChange eq n (cst_data s))\<^sup>*\<^sup>* (view (cst_world s)) (view (cst_world t))"
proof -
  have "attempted eq view n s (snd (createPhaseCommand env p s))" if "p \<in> set (createPhases env)" for p
    using create_attempt.runPhaseCommand_inv [OF that, of eq sdk view n s s] assms(1) attemptable_attempted [OF assms(1)]
    by (simp add: createPhaseCommand_def)
  then have "attempted eq view n s t"
    using assms(2) createCommand_attempted [OF assms(1), of skips] by (metis snd_conv)
  then show ?thesis by (simp add: attempted_def)
qed

text \<open>The directory whose replies are lost: every request takes effect and fails.\<close>

definition lostReply :: "('w, 'a) io \<Rightarrow> ('w, 'a) io" where
  "lostReply call w = (Inl (GoError ''connection reset by peer''), snd (call w))"

definition lostSdk :: "directory_lists azure_sdk" where
  "lostSdk = listSdk \<lparr> sdk_appsPost := \<lambda>n. lostReply (sdk_appsPost listSdk n),
     sdk_spsPost := \<lambda>i tags. lostReply (sdk_spsPost listSdk i tags),
     sdk_ficPost := \<lambda>i fic. lostReply (sdk_ficPost listSdk i fic) \<rparr>"

definition lostEnv :: "directory_lists cli_env" where
  "lostEnv = listEnv \<lparr> ce_azure := AzureClient lostSdk \<rparr>"

lemma lost_services_lawful: "lawfulEnv (=) lostSdk shows_lists lostEnv"
proof -
  have law: "lookupLaws (=) listSdk shows_lists" "creationLaws listSdk shows_lists" "deletionLaws listSdk shows_lists"
    "roleLaws listSdk shows_lists" "clusterLaws (ce_getKubeClient listEnv) shows_lists"
    using list_services_lawful unfolding lawfulEnv_def by blast+
  have "creationLaws lostSdk shows_lists"
    unfolding creationLaws_def
  proof (intro conjI allI impI)
    fix n w r w'
    assume "sdk_appsPost lostSdk n w = (r, w')"
    moreover obtain x v where "sdk_appsPost listSdk n w = (x, v)" by fastforce
    ultimately show "case r of Inl e \<Rightarrow> shows_lists w' = shows_lists w \<or> (\<exists>a. addsApp n a (shows_lists w) (shows_lists w'))
        | Inr x \<Rightarrow> \<exists>a. x = Some a \<and> addsApp n a (shows_lists w) (shows_lists w')"
      using creationLawsD(1,2) [OF law(2), of n w] by (cases x) (auto simp: lostSdk_def lostReply_def)
  next
    fix i tags w r w'
    assume "sdk_spsPost lostSdk i tags w = (r, w')"
    moreover obtain x v where "sdk_spsPost listSdk i tags w = (x, v)" by fastforce
    ultimately show "case r of Inl e \<Rightarrow> shows_lists w' = shows_lists w \<or> (\<exists>p. addsPrincipal i p (shows_lists w) (shows_lists w'))
        | Inr x \<Rightarrow> \<exists>p. x = Some p \<and> addsPrincipal i p (shows_lists w) (shows_lists w')"
      using creationLawsD(3,4) [OF law(2), of i tags w] by (cases x) (auto simp: lostSdk_def lostReply_def)
  next
    fix i fic w r w'
    assume "sdk_ficPost lostSdk i fic w = (r, w')"
    moreover obtain x v where "sdk_ficPost listSdk i fic w = (x, v)" by fastforce
    ultimately show "case r of
        Inl e \<Rightarrow> addsFic i fic (shows_lists w) (shows_lists w') \<or> shows_lists w' = shows_lists w \<and>
          (IsFederatedCredentialAlreadyExists (maybeExtractGraphError e) \<longrightarrow> clashing (shows_lists w) i fic)
        | Inr _ \<Rightarrow> addsFic i fic (shows_lists w) (shows_lists w')"
      using creationLawsD(5,6) [OF law(2), of i fic w]
      by (cases x) (auto simp: lostSdk_def lostReply_def IsFederatedCredentialAlreadyExists_def maybeExtractGraphError_def)
  qed
  moreover have "lookupLaws (=) lostSdk shows_lists" using law(1) by (simp add: lookupLaws_def lostSdk_def)
  moreover have "deletionLaws lostSdk shows_lists" using law(3) by (simp add: deletionLaws_def lostSdk_def)
  moreover have "roleLaws lostSdk shows_lists" using law(4) by (simp add: roleLaws_def lostSdk_def)
  moreover have "clusterLaws (ce_getKubeClient lostEnv) shows_lists" using law(5) by (simp add: lostEnv_def)
  ultimately show ?thesis unfolding lawfulEnv_def by (simp add: lostEnv_def)
qed

lemma lost_lookups_answered: "lookupsAnswered lostSdk"
  using list_lookups_answered by (simp add: lookupsAnswered_def lostSdk_def)

text \<open>The first create, whose request for the application takes effect and is answered with an error.\<close>

definition lostLists :: directory_lists where
  "lostLists = emptyLists \<lparr> l_apps := [listApp] \<rparr>"

lemma lost_create_runs:
  "\<exists>e t. createCommand lostEnv [] (listCreateState emptyLists) = (Some e, t) \<and> cst_world t = lostLists"
proof -
  let ?s = "(listCreateState emptyLists) \<lparr> cst_kube := Some listKube \<rparr>"
  have pre: "preRunAll (createPhases lostEnv) (listCreateState emptyLists) = (None, ?s)"
    by (rule list_checks) (simp add: lostEnv_def listEnv_def)
  have "createAadRun lostEnv ?s = (Some (WrapError ''failed to create AAD application'' (GoError ''connection reset by peer'')),
      ?s \<lparr> cst_world := lostLists \<rparr>)"
    by (simp add: createAadRun_def createAADApplication_def lostEnv_def lostSdk_def lostReply_def lostLists_def
        list_run_simps list_state_simps emptyLists_def listApp_def maybeExtractGraphError_def)
  then have "runAll (createPhases lostEnv) ?s = (Some (WrapError (''failed to run phase '' @ aadApplicationPhaseName)
      (WrapError ''failed to create AAD application'' (GoError ''connection reset by peer''))), ?s \<lparr> cst_world := lostLists \<rparr>)"
    by (simp add: create_phase_defs)
  then show ?thesis unfolding createCommand_unskipped pre by simp
qed

lemma list_attemptable:
  "attemptable (=) lostSdk shows_lists lostEnv ''app'' (listCreateState emptyLists)"
  using list_create_premises(3,4) answered_reported [OF lost_lookups_answered]
  by (simp add: attemptable_def lost_services_lawful)
    (simp add: listCreateState_def identified_def shows_lists_def emptyLists_def)

theorem create_changes_witness:
  "\<exists>e t. createCommand lostEnv [] (listCreateState emptyLists) = (Some e, t) \<and>
     shows_lists (cst_world t) \<noteq> shows_lists emptyLists \<and>
     (createChange (=) ''app'' demoCreateData)\<^sup>*\<^sup>* (shows_lists emptyLists) (shows_lists (cst_world t))"
proof -
  obtain e t where t: "createCommand lostEnv [] (listCreateState emptyLists) = (Some e, t)" "cst_world t = lostLists"
    using lost_create_runs by blast
  have "shows_lists lostLists \<noteq> shows_lists emptyLists"
    by (simp add: shows_lists_def lostLists_def emptyLists_def)
  moreover have s: "cst_data (listCreateState emptyLists) = demoCreateData" "cst_world (listCreateState emptyLists) = emptyLists"
    by (simp_all add: listCreateState_def)
  ultimately show ?thesis
    using create_changes [OF list_attemptable disjI1 [OF t(1)]] t unfolding s by auto
qed

subsection \<open>A create that is run again\<close>

text \<open>
  A run of the command, on any services that keep the same directory and cluster, with any
  phases skipped and any outcome.
\<close>

definition attempt ::
  "(string \<Rightarrow> string \<Rightarrow> bool) \<Rightarrow> ('w \<Rightarrow> directory) \<Rightarrow> string \<Rightarrow> create_data \<Rightarrow> 'w \<Rightarrow> 'w \<Rightarrow> bool" where
  "attempt eq view n c w w' \<longleftrightarrow>
     (\<exists>sdk env skips. lawfulEnv eq sdk view env \<and> outagesReported sdk env \<and>
        w' = cst_world (snd (createCommand env skips \<lparr> cst_data = c, cst_kube = None, cst_world = w \<rparr>)))"

lemma attempt_changes:
  assumes "CHR 0x27 \<notin> set n" "derivesIDs n c" "identified (view w)" and "attempt eq view n c w w'"
  shows "(createChange eq n c)\<^sup>*\<^sup>* (view w) (view w')"
proof -
  let ?s = "\<lparr> cst_data = c, cst_kube = None, cst_world = w \<rparr>"
  obtain sdk env skips where run: "lawfulEnv eq sdk view env" "outagesReported sdk env"
    "w' = cst_world (snd (createCommand env skips ?s))"
    using assms(4) unfolding attempt_def by blast
  then have "attemptable eq sdk view env n ?s" using assms(1-3) by (simp add: attemptable_def)
  from createCommand_attempted [OF this, of skips] show ?thesis using run(3) by (simp add: attempted_def)
qed

lemma attempts_changes:
  assumes "CHR 0x27 \<notin> set n" "derivesIDs n c" "identified (view w)" and "(attempt eq view n c)\<^sup>*\<^sup>* w w'"
  shows "(createChange eq n c)\<^sup>*\<^sup>* (view w) (view w')"
  using assms(4)
proof (induction rule: rtranclp_induct)
  case (step v v')
  then show ?case
    using attempt_changes [OF assms(1,2) changes_identified [OF step.IH assms(3)] step.hyps(2)] by simp
qed simp

lemma extendsBy_same: "sameBut k d d' \<Longrightarrow> extendsBy a k d' d'' \<Longrightarrow> extendsBy a k d d''"
  by (auto simp: sameBut_def extendsBy_def)

lemma changes_then_extends:
  assumes changes: "(createChange eq n c)\<^sup>*\<^sup>* d d'" and un: "unambiguous eq n d" and eq: "eq n n"
    and last: "appsNamed eq n d'' = {a}" "extendsBy a (createKey c) d' d''" "appsNamed eq n d' = {a} \<or> freshApp d' a"
  shows "extendsBy a (createKey c) d d'' \<and> (appsNamed eq n d = {a} \<or> freshApp d a)"
proof -
  have g: "grown eq n (createKey c) d d'" by (rule changes_grown [OF changes un eq])
  show ?thesis
  proof (cases "sameBut (createKey c) d d'")
    case True
    then have "appsNamed eq n d = appsNamed eq n d'" "freshApp d = freshApp d'"
      by (auto simp: sameBut_def appsNamed_def freshApp_def [abs_def])
    then show ?thesis using extendsBy_same [OF True last(2)] last(3) by simp
  next
    case False
    then obtain b where b: "appsNamed eq n d' = {b}" "extendsBy b (createKey c) d d'" "appsNamed eq n d = {b} \<or> freshApp d b"
      using g unfolding grown_def by blast
    have "appsNamed eq n d' \<subseteq> appsNamed eq n d''" using last(2) by (auto simp: extendsBy_def appsNamed_def)
    then have "b = a" using b(1) last(1) by simp
    then show ?thesis using extendsBy_trans [OF b(2)] last(2) b(3) by blast
  qed
qed

lemma changes_keep:
  assumes "(createChange eq n c)\<^sup>*\<^sup>* d d'" and "eq n n"
  shows "unambiguous eq n d \<Longrightarrow> unambiguous eq n d'" "clashesServe eq n c d \<Longrightarrow> clashesServe eq n c d'"
  using assms(1)
proof (induction rule: rtranclp_induct)
  case (step y z)
  {
    case 1
    then show ?case using change_unambiguous [OF step(2)] step(3) assms(2) by blast
  next
    case 2
    then show ?case using change_serves [OF step(2)] step(4) by blast
  }
qed

text \<open>
  C6: A create that was interrupted is completed by running it again.  After any number of
  runs of the create command that failed or succeeded at any call, with calls that failed and
  may have taken effect, with look-ups that failed and any phases skipped, a create with the
  same options that succeeds leaves the account federated as if it had been the first: with
  the one application of the name, and with nothing else changed since before the first of
  these runs.
\<close>

theorem create_restarts:
  assumes "CHR 0x27 \<notin> set n" "derivesIDs n (cst_data s)"
    and first: "identified (view w)" "unambiguous eq n (view w)" "clashesServe eq n (cst_data s) (view w)"
    and attempts: "(attempt eq view n (cst_data s))\<^sup>*\<^sup>* w (cst_world s)"
    and last: "lawfulEnv eq sdk view env" "lookupsAnswered sdk" "createCommand env [] s = (None, t)"
  shows "let c = cst_data s; d' = view (cst_world t) in
    \<exists>a st. appsNamed eq n d' = {a} \<and> extendsBy a (createKey c) (view w) d' \<and>
      (appsNamed eq n (view w) = {a} \<or> freshApp (view w) a) \<and>
      exchanges d' (app_appId a) (cd_serviceAccountIssuerURL c)
        (GetFederatedCredentialSubject (cd_serviceAccountNamespace c) (cd_serviceAccountName c)) DefaultAudience \<and>
      dir_accounts d' (createKey c) = Some st \<and> getClientID st = app_appId a \<and> getTenantID st cfg = ce_tenantID env"
proof -
  have changes: "(createChange eq n (cst_data s))\<^sup>*\<^sup>* (view w) (view (cst_world s))"
    by (rule attempts_changes [OF assms(1,2) first(1) attempts])
  have eq: "eq n n" by (rule lookupLawsD(1) [OF lawfulEnvD(1) [OF last(1)]])
  note kept = changes_keep [OF changes eq]
  obtain a st where a: "appsNamed eq n (view (cst_world t)) = {a}"
      "extendsBy a (createKey (cst_data s)) (view (cst_world s)) (view (cst_world t))"
      "appsNamed eq n (view (cst_world s)) = {a} \<or> freshApp (view (cst_world s)) a"
    and ex: "exchanges (view (cst_world t)) (app_appId a) (cd_serviceAccountIssuerURL (cst_data s))
        (GetFederatedCredentialSubject (cd_serviceAccountNamespace (cst_data s)) (cd_serviceAccountName (cst_data s)))
        DefaultAudience"
    and st: "dir_accounts (view (cst_world t)) (createKey (cst_data s)) = Some st"
      "sa_annotations st = sa_annotations (wantedAccount env a (cst_data s))"
    using create_federates_app [OF last(1,2) assms(1,2) kept(1) [OF first(2)] kept(2) [OF first(3)] last(3)]
    unfolding Let_def by blast
  have "getClientID st = app_appId a" "getTenantID st cfg = ce_tenantID env"
    using st(2) newServiceAccount_reads by (simp_all add: getClientID_def getTenantID_def wantedAccount_def)
  then show ?thesis
    using changes_then_extends [OF changes first(2) eq a] a(1) ex st(1) unfolding Let_def by blast
qed

text \<open>The second create, on services that answer: it finds the application and makes the rest.\<close>

lemma list_create_completes:
  "\<exists>t. createCommand listEnv [] (listCreateState lostLists) = (None, t) \<and> cst_world t = createdLists"
proof -
  let ?s = "(listCreateState lostLists) \<lparr> cst_kube := Some listKube \<rparr>"
  let ?s1 = "listRestState (Some listApp)"
  have names: "app_displayName listApp = ''app''" by (simp add: listApp_def newApp_def)
  have pre: "preRunAll (createPhases listEnv) (listCreateState lostLists) = (None, ?s)"
    by (rule list_checks) (simp add: listEnv_def)
  have aad: "createAadRun listEnv ?s = (None, ?s1)"
    by (simp add: createAadRun_def createAADApplication_def createAadServicePrincipal_def createServicePrincipal_def
        list_run_simps list_state_simps listRestState_def emptyLists_def lostLists_def createdLists_def names)
  obtain t where "runAll [createSaPhase listEnv, createFicPhase listEnv, createRaPhase listEnv] ?s1 = (None, t)"
    and t: "cst_world t = createdLists"
    using list_rest_runs by blast
  then have "runAll (createPhases listEnv) ?s = (None, t)"
    using aad by (simp add: createPhases_def createAadPhase_def)
  then show ?thesis using t by (simp add: createCommand_unskipped pre)
qed

lemma lost_attempt: "attempt (=) shows_lists ''app'' demoCreateData emptyLists lostLists"
proof -
  obtain e t where "createCommand lostEnv [] (listCreateState emptyLists) = (Some e, t)" "cst_world t = lostLists"
    using lost_create_runs by blast
  then show ?thesis
    using lost_services_lawful answered_reported [OF lost_lookups_answered, of lostEnv]
    unfolding attempt_def listCreateState_def by (metis snd_conv)
qed

lemma empty_identified: "identified (shows_lists emptyLists)"
  by (simp add: identified_def shows_lists_def emptyLists_def)

theorem create_restarts_witness:
  "\<exists>e u t a. createCommand lostEnv [] (listCreateState emptyLists) = (Some e, u) \<and>
     createCommand listEnv [] (listCreateState (cst_world u)) = (None, t) \<and>
     appsNamed (=) ''app'' (shows_lists (cst_world t)) = {a} \<and>
     exchanges (shows_lists (cst_world t)) (app_appId a) ''https://issuer''
       (GetFederatedCredentialSubject ''ns'' ''sa'') DefaultAudience"
proof -
  obtain e u where u: "createCommand lostEnv [] (listCreateState emptyLists) = (Some e, u)" "cst_world u = lostLists"
    using lost_create_runs by blast
  obtain t where t: "createCommand listEnv [] (listCreateState lostLists) = (None, t)"
    using list_create_completes by blast
  have s: "cst_world (listCreateState lostLists) = lostLists" "cst_data (listCreateState lostLists) = demoCreateData"
    by (simp_all add: listCreateState_def)
  have data: "cd_serviceAccountIssuerURL demoCreateData = ''https://issuer''"
    "cd_serviceAccountNamespace demoCreateData = ''ns''" "cd_serviceAccountName demoCreateData = ''sa''"
    by (simp_all add: demoCreateData_def)
  have attempts: "(attempt (=) shows_lists ''app'' demoCreateData)\<^sup>*\<^sup>* emptyLists lostLists"
    using lost_attempt by blast
  obtain a where "appsNamed (=) ''app'' (shows_lists (cst_world t)) = {a}"
    "exchanges (shows_lists (cst_world t)) (app_appId a) ''https://issuer''
       (GetFederatedCredentialSubject ''ns'' ''sa'') DefaultAudience"
    using create_restarts [OF list_create_premises(3,4) empty_identified list_create_premises(5,6) _
        list_create_premises(1,2) t] attempts
    unfolding Let_def s data by blast
  then show ?thesis
    by (intro exI [of _ e] exI [of _ u] exI [of _ t] exI [of _ a]) (simp add: u t)
qed

end
