(* ===== verification/Directory_Again.thy ===== *)
theory Directory_Again
  imports Directory_Restart Directory_Delete
begin

section \<open>A create that is repeated, and a delete after creates that were interrupted\<close>

text \<open>
  Two consequences of the changes of \<open>Directory_Restart\<close>.  A create that is repeated after
  it succeeded finds everything in its place and makes no second object.  And a delete takes
  back what any number of creates left, also of those that failed.
\<close>

subsection \<open>What a successful create leaves for the next one\<close>

definition principalsAnswered :: "'w azure_sdk \<Rightarrow> bool" where
  "principalsAnswered sdk \<longleftrightarrow> (\<forall>f w. \<exists>ps. fst (sdk_spsGet sdk f w) = Inr ps)"

lemma postPrincipal_named:
  assumes s0: "attemptable eq sdk view env n s0" and s: "attempted eq view n s0 s"
    and a: "a \<in> appsNamed eq n (view (cst_world s))"
    and data: "createServicePrincipalName (cst_data s) = n" "cd_servicePrincipal (cst_data s) = None"
    and run: "createAadServicePrincipal env a s = (None, t)"
  shows "spsNamed eq n (view (cst_world t)) \<noteq> {}"
proof -
  have law: "lawfulEnv eq sdk view env" and n: "CHR 0x27 \<notin> set n" using s0 by (simp_all add: attemptable_def)
  obtain x w where x: "GetServicePrincipal sdk n (cst_world s) = (x, w)" by fastforce
  note sps = GetServicePrincipal_law [OF lawfulEnvD(1) [OF law] x]
  have get: "createServicePrincipal env s =
      (case x of Inl e \<Rightarrow> (Inl e, s \<lparr> cst_world := w \<rparr>)
       | Inr p \<Rightarrow> (Inr p, s \<lparr> cst_data := cst_data s \<lparr> cd_servicePrincipal := Some p \<rparr>, cst_world := w \<rparr>))"
    using x data by (simp add: createServicePrincipal_def lawfulEnvD(7) [OF law])
  show ?thesis
  proof (cases x)
    case (Inr p)
    then show ?thesis using run get sps(1) sps(2) [OF n Inr] by (auto simp: createAadServicePrincipal_def)
  next
    case (Inl e)
    obtain tags y w' where y: "CreateServicePrincipal sdk (app_appId a) tags w = (Inr y, w')"
      and t: "t = s \<lparr> cst_world := w' \<rparr>"
      using run get Inl
      by (auto simp: createAadServicePrincipal_def Let_def lawfulEnvD(9) [OF law]
          split: if_splits prod.splits sum.splits option.splits)
    have "sdk_spsPost sdk (app_appId a) tags w = (Inr y, w')"
      using y by (auto simp: CreateServicePrincipal_def extractOnError_def split: prod.splits sum.splits)
    then obtain p where "addsPrincipal (app_appId a) p (view (cst_world s)) (view w')"
      using creationLawsD(4) [OF lawfulEnvD(2) [OF law]] sps(1) by metis
    then obtain b where b: "b \<in> dir_apps (view (cst_world s))" "app_appId b = app_appId a" "sp_displayName p = app_displayName b"
      and p: "p \<in> dir_sps (view w')" unfolding addsPrincipal_def by auto
    have "b = a"
      using attempted_ids(4) [OF s0 s] a b(1,2) by (auto simp: identified_def appsNamed_def dest: inj_onD)
    then have "p \<in> spsNamed eq n (view w')" using a b(3) p by (simp add: spsNamed_def appsNamed_def)
    then show ?thesis using t by auto
  qed
qed

lemma aadRun_named:
  assumes s0: "attemptable eq sdk view env n s0" and s: "attempted eq view n s0 s" and d: "cst_data s = cst_data s0"
    and run: "createAadRun env s = (None, t)"
  shows "spsNamed eq n (view (cst_world t)) \<noteq> {}"
proof -
  have law: "lawfulEnv eq sdk view env" using s0 by (simp add: attemptable_def)
  have data: "derivesIDs n (cst_data s)" using s0 d by (simp add: attemptable_def)
  obtain x u where u: "createAADApplication env s = (x, u)" by fastforce
  note get = attempted_application [OF s0 s u]
  have du: "createServicePrincipalName (cst_data u) = n" "cd_servicePrincipal (cst_data u) = None"
    using u data createKeeps_names [of s u] createAADApplication_keeps [OF u]
    by (auto simp: createAADApplication_def derivesIDs_def split: prod.splits sum.splits option.splits)
  show ?thesis
  proof (cases x)
    case (Inr a)
    then have "createAadServicePrincipal env a u = (None, t)" using run u by (simp add: createAadRun_def)
    then show ?thesis using postPrincipal_named [OF s0 get(1) _ du] get(2,3) Inr by metis
  next
    case (Inl e)
    obtain r w where r: "sdk_appsPost sdk n (cst_world u) = (r, w)" by fastforce
    note laws = creationLawsD(1,2) [OF lawfulEnvD(2) [OF law]]
    have none: "appsNamed eq n (view (cst_world u)) = {}"
      using get(2) get(4) [OF Inl] run u Inl by (auto simp: createAadRun_def split: if_splits)
    have step: "IsNotFound (ce_errText env) e \<and> (case r of Inl e2 \<Rightarrow> False | Inr None \<Rightarrow> False
        | Inr (Some a) \<Rightarrow> createAadServicePrincipal env a (u \<lparr> cst_world := w \<rparr>) = (None, t))"
      using run u Inl r attempted_ids(1) [OF s0 get(1)] laws(2) [of n "cst_world u" _ w]
      by (auto simp: createAadRun_def lawfulEnvD(8) [OF law] CreateApplication_def extractOnError_def
          split: if_splits sum.splits option.splits)
    then obtain a where a: "r = Inr (Some a)" "createAadServicePrincipal env a (u \<lparr> cst_world := w \<rparr>) = (None, t)"
      by (auto split: sum.splits option.splits)
    have add: "addsApp n a (view (cst_world u)) (view w)" using laws(2) r a(1) by blast
    then have "createChange eq n (cst_data s0) (view (cst_world u)) (view w)" using none createChange.application by blast
    then have w: "attempted eq view n s0 (u \<lparr> cst_world := w \<rparr>)" using attempted_upd [OF get(1)] by blast
    have "a \<in> appsNamed eq n (view w)"
      using add lookupLawsD(1) [OF lawfulEnvD(1) [OF law]] by (simp add: addsApp_def appsNamed_def)
    then show ?thesis using postPrincipal_named [OF s0 w _ _ _ a(2)] du by simp
  qed
qed

text \<open>Everything that a create makes is there.\<close>

definition complete :: "(string \<Rightarrow> string \<Rightarrow> bool) \<Rightarrow> string \<Rightarrow> create_data \<Rightarrow> directory \<Rightarrow> bool" where
  "complete eq n c d \<longleftrightarrow> unambiguous eq n d \<and> spsNamed eq n d \<noteq> {} \<and>
     (\<exists>a. appsNamed eq n d = {a} \<and> clashing d (app_id a) (wantedFic c))"

lemma created_complete:
  assumes s0: "attemptable eq sdk view env n s" and ans: "lookupsAnswered sdk"
    and un: "unambiguous eq n (view (cst_world s))" and run: "createCommand env [] s = (None, t)"
  shows "complete eq n (cst_data s) (view (cst_world t))"
proof -
  have law: "lawfulEnv eq sdk view env" and n: "CHR 0x27 \<notin> set n" "derivesIDs n (cst_data s)"
    using s0 by (simp_all add: attemptable_def)
  obtain s0' s1 s2 s3 where pre: "preRunAll (createPhases env) s = (None, s0')"
    and r1: "createAadRun env s0' = (None, s1)" and r2: "createSaRun env s1 = (None, s2)"
    and r3: "createFicRun env s2 = (None, s3)" and r4: "createRaRun env s3 = (None, t)"
    by (rule createCommand_steps [OF run])
  have "createServicePrincipalName (cst_data s) = createAADApplicationName (cst_data s)"
    using n(2) by (simp add: derivesIDs_def)
  then obtain kc where kc: "clientLaws kc view" "cst_kube s0' = Some kc" and d0: "cst_data s0' = cst_data s"
    and v0: "view (cst_world s0') = view (cst_world s)"
    by (rule createChecks [OF law pre])
  have "attempted eq view n s s0'"
    using create_attempt.preRunAll_inv [of "createPhases env" env eq sdk view n s s] s0 attemptable_attempted [OF s0] pre
    by simp
  then have named: "spsNamed eq n (view (cst_world s1)) \<noteq> {}" using aadRun_named [OF s0 _ d0 r1] by simp
  obtain a where s1: "settled eq n a view s1"
    using createAadRun_law [OF law ans n(1) _ _ r1, unfolded d0 v0, OF n(2) un] by blast
  have k1: "createKeeps s s1" "cst_kube s1 = Some kc"
    using createAadRun_keeps [of s0' env] r1 kc(2) d0 by (simp_all add: createKeeps_def)
  have s2: "settled eq n a view s2" "createKeeps s1 s2"
    and st: "stores (wantedAccount env a (cst_data s1)) (view (cst_world s1)) (view (cst_world s2))"
    using createSaRun_law [OF law ans n(1) s1 k1(2) kc(1) r2] by simp_all
  have s3: "settled eq n a view s3" "dir_sps (view (cst_world s3)) = dir_sps (view (cst_world s2))"
    "ficOutcome a (cst_data s2) (view (cst_world s2)) (view (cst_world s3))"
    using createFicRun_law [OF law ans n(1) s2(1) r3] by simp_all
  have vt: "view (cst_world t) = view (cst_world s3)" using createRaRun_law [OF law, of s3] r4 by simp
  have "wantedFic (cst_data s2) = wantedFic (cst_data s)" using wanted_keeps(1) [OF createKeeps_trans [OF k1(1) s2(2)]] .
  then have "clashing (view (cst_world s3)) (app_id a) (wantedFic (cst_data s))"
    using s3(3) by (auto simp: ficOutcome_def clashing_def clashes_def split: if_splits)
  moreover have "spsNamed eq n (view (cst_world s3)) \<noteq> {}"
    using named st s3(2) by (auto simp: spsNamed_def stores_def)
  moreover have "unambiguous eq n (view (cst_world t))"
  proof -
    have "(createChange eq n (cst_data s))\<^sup>*\<^sup>* (view (cst_world s)) (view (cst_world t))"
      using createCommand_attempted [OF s0, of "[]"] run by (simp add: attempted_def)
    then show ?thesis using changes_keep(1) un lookupLawsD(1) [OF lawfulEnvD(1) [OF law]] by blast
  qed
  ultimately show ?thesis using s3(1) vt by (auto simp: complete_def settled_def)
qed

lemma complete_aadRun:
  assumes law: "lawfulEnv eq sdk view env" "lookupsAnswered sdk" "principalsAnswered sdk" and n: "CHR 0x27 \<notin> set n"
    and c: "derivesIDs n (cst_data s)" and d: "complete eq n c' (view (cst_world s))"
    and run: "createAadRun env s = (None, t)"
  shows "view (cst_world t) = view (cst_world s)"
proof -
  obtain a where a: "appsNamed eq n (view (cst_world s)) = {a}" using d by (auto simp: complete_def)
  obtain x w where x: "GetApplication sdk n (cst_world s) = (x, w)" by fastforce
  note apps = GetApplication_law [OF lawfulEnvD(1) [OF law(1)] x]
  obtain b where b: "x = Inr b" using apps(3) [OF n _ law(2)] a by (cases x) auto
  obtain y v where y: "GetServicePrincipal sdk n w = (y, v)" by fastforce
  note sps = GetServicePrincipal_law [OF lawfulEnvD(1) [OF law(1)] y]
  have "\<exists>p. y = Inr p"
  proof -
    obtain l u where l: "sdk_spsGet sdk (getDisplayNameFilter n) w = (l, u)" by fastforce
    then obtain ps where ps: "l = Inr ps" using law(3) unfolding principalsAnswered_def by (metis fst_conv)
    then have "set ps \<noteq> {}"
      using lookupLawsD(5) [OF lawfulEnvD(1) [OF law(1)] n, of w ps] l apps(1) d by (simp add: complete_def)
    then show ?thesis using y l ps by (auto simp: GetServicePrincipal_def extractOnError_def split: list.splits)
  qed
  then obtain p where p: "y = Inr p" by blast
  let ?u = "s \<lparr> cst_data := cst_data s \<lparr> cd_aadApplication := Some b \<rparr>, cst_world := w \<rparr>"
  have u: "createAADApplication env s = (Inr b, ?u)"
    using x b c by (simp add: createAADApplication_def derivesIDs_def lawfulEnvD(6) [OF law(1)])
  have "createServicePrincipalName (cst_data ?u) = n" "cd_servicePrincipal (cst_data ?u) = None"
    using c createKeeps_names [of s ?u] createAADApplication_keeps [OF u] by (simp_all add: derivesIDs_def)
  then have "createServicePrincipal env ?u = (Inr p, ?u \<lparr> cst_data := cst_data ?u \<lparr> cd_servicePrincipal := Some p \<rparr>, cst_world := v \<rparr>)"
    using y p by (simp add: createServicePrincipal_def lawfulEnvD(7) [OF law(1)])
  then have "cst_world t = v" using run u by (auto simp: createAadRun_def createAadServicePrincipal_def)
  then show ?thesis using apps(1) sps(1) by simp
qed

lemma complete_create:
  assumes law: "lawfulEnv eq sdk view env" "lookupsAnswered sdk" "principalsAnswered sdk" and n: "CHR 0x27 \<notin> set n"
    and c: "derivesIDs n (cst_data s)" and d: "complete eq n (cst_data s) (view (cst_world s))"
    and run: "createCommand env [] s = (None, t)"
  shows "\<exists>a. appsNamed eq n (view (cst_world s)) = {a} \<and>
    stores (wantedAccount env a (cst_data s)) (view (cst_world s)) (view (cst_world t))"
proof -
  have un: "unambiguous eq n (view (cst_world s))" using d by (simp add: complete_def)
  obtain s0 s1 s2 s3 where pre: "preRunAll (createPhases env) s = (None, s0)"
    and r1: "createAadRun env s0 = (None, s1)" and r2: "createSaRun env s1 = (None, s2)"
    and r3: "createFicRun env s2 = (None, s3)" and r4: "createRaRun env s3 = (None, t)"
    by (rule createCommand_steps [OF run])
  have "createServicePrincipalName (cst_data s) = createAADApplicationName (cst_data s)"
    using c by (simp add: derivesIDs_def)
  then obtain kc where kc: "clientLaws kc view" "cst_kube s0 = Some kc" and d0: "cst_data s0 = cst_data s"
    and v0: "view (cst_world s0) = view (cst_world s)"
    by (rule createChecks [OF law(1) pre])
  have v1: "view (cst_world s1) = view (cst_world s)"
    using complete_aadRun [OF law n _ _ r1] c d d0 v0 by simp
  obtain a where s1: "settled eq n a view s1"
    using createAadRun_law [OF law(1,2) n _ _ r1, unfolded d0 v0, OF c un] by blast
  have k1: "createKeeps s s1" "cst_kube s1 = Some kc"
    using createAadRun_keeps [of s0 env] r1 kc(2) d0 by (simp_all add: createKeeps_def)
  have s2: "settled eq n a view s2" "createKeeps s1 s2"
    and st: "stores (wantedAccount env a (cst_data s)) (view (cst_world s)) (view (cst_world s2))"
    using createSaRun_law [OF law(1,2) n s1 k1(2) kc(1) r2] wanted_keeps(2) [OF k1(1), of env a] v1 by simp_all
  have named: "appsNamed eq n (view (cst_world s)) = {a}" using s1 v1 by (simp add: settled_def)
  have fic: "wantedFic (cst_data s2) = wantedFic (cst_data s)" by (rule wanted_keeps(1) [OF createKeeps_trans [OF k1(1) s2(2)]])
  have "clashing (view (cst_world s2)) (app_id a) (wantedFic (cst_data s2))"
    using d named st fic by (auto simp: complete_def clashing_def stores_def)
  then have "view (cst_world s3) = view (cst_world s2)"
    using createFicRun_clash [OF law(1,2) n s2(1) r3] by blast
  then show ?thesis using createRaRun_law [OF law(1), of s3] r4 st named by simp
qed

text \<open>
  C8: A create that is repeated makes nothing twice.  After a create that succeeded, a create
  with the same options that succeeds leaves the applications, the principals and the
  credentials as the first left them, and every other account; the account itself has the
  same annotations.
\<close>

theorem create_idempotent:
  assumes "attemptable eq sdk view env n s" "lookupsAnswered sdk" "principalsAnswered sdk"
    and "unambiguous eq n (view (cst_world s))" and "createCommand env [] s = (None, t)"
    and "cst_data s' = cst_data s" "cst_world s' = cst_world t" and "createCommand env [] s' = (None, t')"
  shows "\<exists>st st'. dir_accounts (view (cst_world t)) (createKey (cst_data s)) = Some st \<and>
    sa_annotations st' = sa_annotations st \<and>
    view (cst_world t') = (view (cst_world t)) \<lparr> dir_accounts :=
      (dir_accounts (view (cst_world t)))(createKey (cst_data s) \<mapsto> st') \<rparr>"
proof -
  have law: "lawfulEnv eq sdk view env" and n: "CHR 0x27 \<notin> set n" "derivesIDs n (cst_data s)"
    using assms(1) by (simp_all add: attemptable_def)
  obtain a where a: "appsNamed eq n (view (cst_world t)) = {a}"
    "stores (wantedAccount env a (cst_data s)) (view (cst_world t)) (view (cst_world t'))"
    using complete_create [OF law assms(2,3) n(1) _ _ assms(8), unfolded assms(6,7), OF n(2)
        created_complete [OF assms(1,2,4,5)]] by blast
  obtain b st where b: "appsNamed eq n (view (cst_world t)) = {b}"
    and st: "dir_accounts (view (cst_world t)) (createKey (cst_data s)) = Some st"
      "sa_annotations st = sa_annotations (wantedAccount env b (cst_data s))"
    by (rule createCommand_law [OF law assms(2) n assms(4,5)])
  have "b = a" using a(1) b by simp
  then show ?thesis using a(2) st wantedAccount_key [of env a "cst_data s"] unfolding stores_def by metis
qed

text \<open>The concrete command, repeated.\<close>

lemma list_attemptable_answered: "attemptable (=) listSdk shows_lists listEnv ''app'' (listCreateState emptyLists)"
  using list_create_premises(1,3,4) answered_reported [OF list_lookups_answered] empty_identified
  by (simp add: attemptable_def) (simp add: listCreateState_def)

lemma list_principals_answered: "principalsAnswered listSdk"
  by (simp add: principalsAnswered_def listSdk_def)

lemma list_create_repeats: "\<exists>t. createCommand listEnv [] (listCreateState createdLists) = (None, t)"
proof -
  let ?s = "(listCreateState createdLists) \<lparr> cst_kube := Some listKube \<rparr>"
  let ?sp = "\<lparr> sp_displayName = ''app'', sp_appId = app_appId listApp, sp_id = newID (CHR ''s'') [] \<rparr>"
  let ?c = "demoCreateData \<lparr> cd_aadApplication := Some listApp, cd_servicePrincipal := Some ?sp \<rparr>"
  let ?sa = "wantedAccount listEnv listApp demoCreateData"
  let ?w = "createdLists \<lparr> l_accounts := ?sa # l_accounts createdLists \<rparr>"
  have names: "app_displayName listApp = ''app''" by (simp add: listApp_def newApp_def)
  have key: "accountKey ?sa = (''ns'', ''sa'')" by (simp add: wantedAccount_key createKey_def demoCreateData_def)
  have fields: "cd_serviceAccountNamespace ?c = ''ns''" "cd_serviceAccountName ?c = ''sa''"
    "cd_serviceAccountTokenExpiration ?c = 7200 * second" "cd_aadApplicationClientID ?c = []"
    "cd_aadApplicationObjectID ?c = []" "cd_serviceAccountIssuerURL ?c = ''https://issuer''"
    "cd_servicePrincipalObjectID ?c = []" "cd_aadApplication ?c = Some listApp" "cd_servicePrincipal ?c = Some ?sp"
    by (simp_all add: demoCreateData_def)
  have pre: "preRunAll (createPhases listEnv) (listCreateState createdLists) = (None, ?s)"
    by (rule list_checks) (simp add: listEnv_def)
  have aad: "createAadRun listEnv ?s = (None, ?s \<lparr> cst_data := ?c \<rparr>)"
    by (simp add: createAadRun_def createAADApplication_def createAadServicePrincipal_def createServicePrincipal_def
        list_run_simps list_state_simps createdLists_def names)
  have account: "newServiceAccount ''ns'' ''sa'' (app_appId listApp) ''tenant'' (7200 * second) = ?sa"
    by (simp add: wantedAccount_def demoCreateData_def listEnv_def)
  have stored: "CreateOrUpdateServiceAccount listKube ''ns'' ''sa'' (app_appId listApp) ''tenant'' (7200 * second) createdLists =
      (Inr (), ?w)"
    unfolding CreateOrUpdateServiceAccount_def account
    by (simp add: Let_def listKube_def key createdLists_def apiIsAlreadyExists_def)
  have sa: "createSaRun listEnv (?s \<lparr> cst_data := ?c \<rparr>) = (None, ?s \<lparr> cst_data := ?c, cst_world := ?w \<rparr>)"
    using stored
    by (simp add: createSaRun_def createAADApplicationClientID_def createAADApplication_def fields)
      (simp add: listEnv_def listCreateState_def)
  have post: "AddFederatedCredential listSdk (app_id listApp) (wantedFic demoCreateData) ?w =
      (Inl (GraphError GraphErrorCodeMultipleObjectsWithSameKeyValue []), ?w)"
    by (simp add: AddFederatedCredential_def extractOnError_def listSdk_def createdLists_def clashes_def
        maybeExtractGraphError_def)
  then have fic: "createFicRun listEnv (?s \<lparr> cst_data := ?c, cst_world := ?w \<rparr>) = (None, ?s \<lparr> cst_data := ?c, cst_world := ?w \<rparr>)"
    by (simp add: createFicRun_def createAADApplicationObjectID_def createAADApplication_def fields Let_def
        listEnv_def AzureClient_def IsFederatedCredentialAlreadyExists_def wantedFic_def demoCreateData_def)
  obtain t where ra: "createRaRun listEnv (?s \<lparr> cst_data := ?c, cst_world := ?w \<rparr>) = (None, t)"
    by (simp add: createRaRun_def createServicePrincipalObjectID_def createServicePrincipal_def fields
        list_run_simps CreateRoleAssignment_def GetRoleDefinitionIDByName_def
        roleAssignmentCreateRetryCount_def eval_nat_numeral)
  have "runAll (createPhases listEnv) ?s = (None, t)"
    using aad sa fic ra by (simp add: create_phase_defs)
  then show ?thesis unfolding createCommand_unskipped pre by simp
qed

theorem create_idempotent_witness:
  "\<exists>t t' st'. createCommand listEnv [] (listCreateState emptyLists) = (None, t) \<and>
     createCommand listEnv [] (listCreateState (cst_world t)) = (None, t') \<and>
     shows_lists (cst_world t') = (shows_lists (cst_world t)) \<lparr> dir_accounts :=
       (dir_accounts (shows_lists (cst_world t)))(createKey demoCreateData \<mapsto> st') \<rparr>"
proof -
  obtain t where t: "createCommand listEnv [] (listCreateState emptyLists) = (None, t)" "cst_world t = createdLists"
    using list_create_runs by blast
  obtain t' where t': "createCommand listEnv [] (listCreateState createdLists) = (None, t')"
    using list_create_repeats by blast
  have un: "unambiguous (=) ''app'' (shows_lists (cst_world (listCreateState emptyLists)))"
    using list_create_premises(5) by (simp add: listCreateState_def)
  have s: "cst_data (listCreateState w) = demoCreateData" "cst_world (listCreateState w) = w" for w
    by (simp_all add: listCreateState_def)
  obtain st' where "shows_lists (cst_world t') = (shows_lists (cst_world t)) \<lparr> dir_accounts :=
      (dir_accounts (shows_lists (cst_world t)))(createKey demoCreateData \<mapsto> st') \<rparr>"
    using create_idempotent [OF list_attemptable_answered list_lookups_answered list_principals_answered un t(1) _ _ t']
    unfolding s t(2) by blast
  then show ?thesis
    by (intro exI [of _ t] exI [of _ t'] exI [of _ st']) (simp add: t t')
qed

subsection \<open>A delete after creates that were interrupted\<close>

text \<open>
  C10: A delete takes back what interrupted creates left.  Where no application and no principal
  has the name, any number of creates that failed or succeeded, with the application there in
  the end, and then a delete that succeeds for the same account and name, leave the
  applications, the principals, the credentials and every other account as they were before
  the first of the creates; the account is gone.
\<close>

theorem interrupted_create_deleted:
  assumes "CHR 0x27 \<notin> set n" "derivesIDs n c" "identified (view w)"
    and "appsNamed eq n (view w) = {}" "spsNamed eq n (view w) = {}"
    and "(attempt eq view n c)\<^sup>*\<^sup>* w (dst_world x)" "appsNamed eq n (view (dst_world x)) \<noteq> {}"
    and "lawfulEnv eq sdk view env" "lookupsAnswered sdk"
    and "looksUpApp n (dst_data x)" "deleteKey (dst_data x) = createKey c" "deleteCommand env [] x = (None, u)"
  shows "view (dst_world u) = (view w) \<lparr> dir_accounts := (dir_accounts (view w))(createKey c := None) \<rparr>"
proof -
  have "unambiguous eq n (view w)" using assms(4,5) by (simp add: unambiguous_def)
  then have "grown eq n (createKey c) (view w) (view (dst_world x))"
    using changes_grown [OF attempts_changes [OF assms(1-3,6)]] lookupLawsD(1) [OF lawfulEnvD(1) [OF assms(8)]] by blast
  moreover have "\<not> sameBut (createKey c) (view w) (view (dst_world x))"
    using assms(4,7) by (auto simp: sameBut_def appsNamed_def)
  ultimately obtain a where a: "appsNamed eq n (view (dst_world x)) = {a}"
    "extendsBy a (createKey c) (view w) (view (dst_world x))" "freshApp (view w) a"
    using assms(4) unfolding grown_def by blast
  show ?thesis
    using deleteCommand_law [OF assms(8,9,1,10) a(1) assms(12)] removeApp_extends [OF a(2,3)] assms(11) by simp
qed

lemma list_delete_lost: "\<exists>u. deleteCommand listEnv [] (listDeleteState lostLists) = (None, u)"
proof -
  let ?s = "(listDeleteState lostLists) \<lparr> dst_kube := Some listKube \<rparr>"
  have names: "app_displayName listApp = ''app''" by (simp add: listApp_def newApp_def)
  have pre: "preRunAll [deleteRaPhase listEnv, deleteSaPhase listEnv, deleteAadPhase listEnv] (listDeleteState lostLists)
      = (None, ?s)"
    by (simp add: delete_phase_defs deleteRaPrerun_def deleteSaPrerun_def deleteAadPrerun_def Let_def
        listDeleteState_def deleteAADApplicationName_def listEnv_def)
  have ra: "deleteRaRun listEnv ?s = (None, ?s)"
    by (simp add: deleteRaRun_def DeleteRoleAssignment_def list_run_simps listDeleteState_def)
  have sa: "deleteSaRun ?s = (None, ?s)"
    by (simp add: deleteSaRun_def DeleteServiceAccount_def listDeleteState_def listKube_def lostLists_def emptyLists_def
        apiIsNotFound_def)
  obtain t where aad: "deleteAadRun listEnv ?s = (None, t)"
    by (simp add: deleteAadRun_def deleteAADApplicationObjectID_def deleteAADApplication_def deleteAADApplicationName_def
        DeleteApplication_def list_run_simps listDeleteState_def lostLists_def emptyLists_def names)
  have "runAll [deleteRaPhase listEnv, deleteSaPhase listEnv, deleteAadPhase listEnv] ?s = (None, t)"
    using ra sa aad by (simp add: delete_phase_defs)
  then show ?thesis unfolding deleteCommand_unskipped Let_def pre by simp
qed

theorem interrupted_create_deleted_witness:
  "\<exists>e t u. createCommand lostEnv [] (listCreateState emptyLists) = (Some e, t) \<and>
     deleteCommand listEnv [] (listDeleteState (cst_world t)) = (None, u) \<and>
     shows_lists (dst_world u) = (shows_lists emptyLists) \<lparr> dir_accounts :=
       (dir_accounts (shows_lists emptyLists))(createKey demoCreateData := None) \<rparr>"
proof -
  obtain e t where t: "createCommand lostEnv [] (listCreateState emptyLists) = (Some e, t)" "cst_world t = lostLists"
    using lost_create_runs by blast
  obtain u where u: "deleteCommand listEnv [] (listDeleteState lostLists) = (None, u)"
    using list_delete_lost by blast
  have world: "dst_world (listDeleteState lostLists) = lostLists" by (simp add: listDeleteState_def)
  have "looksUpApp ''app'' (dst_data (listDeleteState lostLists))"
    by (simp add: looksUpApp_def listDeleteState_def deleteAADApplicationName_def)
  moreover have "appsNamed (=) ''app'' (shows_lists emptyLists) = {}" "spsNamed (=) ''app'' (shows_lists emptyLists) = {}"
    by (simp_all add: appsNamed_def spsNamed_def shows_lists_def emptyLists_def)
  moreover have "appsNamed (=) ''app'' (shows_lists lostLists) \<noteq> {}"
    by (auto simp: appsNamed_def shows_lists_def lostLists_def listApp_def newApp_def)
  moreover have "deleteKey (dst_data (listDeleteState lostLists)) = createKey demoCreateData"
    by (simp add: deleteKey_def createKey_def listDeleteState_def demoCreateData_def)
  moreover have "derivesIDs ''app'' demoCreateData"
    using list_create_premises(4) by (simp add: listCreateState_def)
  ultimately have "shows_lists (dst_world u) = (shows_lists emptyLists) \<lparr> dir_accounts :=
      (dir_accounts (shows_lists emptyLists))(createKey demoCreateData := None) \<rparr>"
    using interrupted_create_deleted [of "''app''" demoCreateData shows_lists emptyLists "(=)" "listDeleteState lostLists"
        listSdk listEnv u] list_create_premises(1-3) empty_identified lost_attempt u
    unfolding world by (meson r_into_rtranclp)
  then show ?thesis
    by (intro exI [of _ e] exI [of _ t] exI [of _ u]) (simp add: t u)
qed

end
