(* ===== verification/Directory_Proxy.thy ===== *)
theory Directory_Proxy
  imports Directory_Correct
begin

section \<open>A workload that gets its tokens through the proxy\<close>

text \<open>
  The chain for a workload that asks the instance metadata service for its tokens: the create
  command federates its account, the webhook injects the proxy into its pod, and the proxy
  asks for tokens of a client that the directory exchanges the account's token for.
\<close>

subsection \<open>The credential library\<close>

text \<open>
  What the proxy's credentials do for the clients that are accepted: a cached credential is
  one of its key, a credential can be made for every client, and one of an accepted client
  gets a token for it.  No other request is under way (\<open>ce_do\<close> runs the function).
\<close>

definition servesClients ::
  "(string \<Rightarrow> bool) \<Rightarrow> ('c \<Rightarrow> string \<Rightarrow> string \<Rightarrow> bool) \<Rightarrow> (string \<Rightarrow> string \<Rightarrow> string \<Rightarrow> string \<Rightarrow> bool) \<Rightarrow>
     ('w, 'c) cred_env \<Rightarrow> ('c \<Rightarrow> string \<Rightarrow> ('w, string \<times> int) io) \<Rightarrow> bool" where
  "servesClients accepted credOf issued cenv getToken \<longleftrightarrow>
     (\<forall>k f w. ce_do cenv k f w = f w) \<and>
     (\<forall>cid tid w c. fst (ce_get cenv (cid, tid) w) = Some c \<longrightarrow> credOf c cid tid) \<and>
     (\<forall>cid tid w. \<exists>c. fst (ce_new cenv cid tid w) = Inr c \<and> credOf c cid tid) \<and>
     (\<forall>c cid tid scope w. credOf c cid tid \<and> accepted cid \<longrightarrow>
        (\<exists>tok expiry. fst (getToken c scope w) = Inr (tok, expiry) \<and> issued tok cid tid scope))"

lemma serves_credential:
  assumes "servesClients accepted credOf issued cenv getToken"
  shows "\<exists>c w'. getOrCreateCred cenv cid tid w = (Inr c, w') \<and> credOf c cid tid"
proof -
  have laws: "\<And>k f w. ce_do cenv k f w = f w" "\<And>w c. fst (ce_get cenv (cid, tid) w) = Some c \<Longrightarrow> credOf c cid tid"
    "\<And>w. \<exists>c. fst (ce_new cenv cid tid w) = Inr c \<and> credOf c cid tid"
    using assms by (simp_all add: servesClients_def)
  have "\<exists>c w'. createCred cenv cid tid w = (Inr c, w') \<and> credOf c cid tid" for w
  proof -
    obtain g w1 where g: "ce_get cenv (cid, tid) w = (g, w1)" by fastforce
    obtain c w2 where "ce_new cenv cid tid w1 = (Inr c, w2)" "credOf c cid tid"
      using laws(3) [of w1] by (metis prod.collapse)
    then show ?thesis using laws(2) [of w] g by (cases g) (simp_all add: createCred_def)
  qed
  moreover obtain g w1 where "ce_get cenv (cid, tid) w = (g, w1)" by fastforce
  ultimately show ?thesis
    using laws(1,2) by (cases g) (simp_all add: getOrCreateCred_def, metis fst_conv)
qed

lemma proxy_answers:
  assumes serves: "servesClients accepted credOf issued cenv getToken" and cid: "accepted cid" "cid \<noteq> []"
    and req: "effectiveClientID getenv r = cid" "snd (parseTokenRequest r) \<noteq> []" and enc: "\<forall>t. \<exists>b. encode t = Inr b"
  shows "\<exists>t b. issued (tk_accessToken t) cid (px_tenantID p) (getScope (snd (parseTokenRequest r))) \<and> encode t = Inr b \<and>
    fst (msiHandler p ua getenv cenv getToken now encode errMsg r rw w) =
      writeBody b (rw \<lparr> rw_header := headerSet (headerSet (rw_header rw) ''Server'' ua) contentType ''application/json'' \<rparr>)"
proof -
  obtain q res where r: "parseTokenRequest r = (q, res)" by fastforce
  have eff: "(if q = [] then getenv AzureClientIDEnvVar else q) = cid" and res: "res \<noteq> []"
    using req r by (auto simp: effectiveClientID_def)
  obtain c w1 where c: "getOrCreateCred cenv cid (px_tenantID p) w = (Inr c, w1)" "credOf c cid (px_tenantID p)"
    using serves_credential [OF serves] by blast
  then have "\<exists>tok expiry. fst (getToken c (getScope res) w1) = Inr (tok, expiry) \<and> issued tok cid (px_tenantID p) (getScope res)"
    using serves cid(1) unfolding servesClients_def by blast
  then obtain tok expiry w2 where tok: "getToken c (getScope res) w1 = (Inr (tok, expiry), w2)"
    "issued tok cid (px_tenantID p) (getScope res)"
    by (metis prod.collapse)
  then obtain t where t: "doTokenRequest getToken now res c w1 = (Inr t, w2)" "tk_accessToken t = tok"
    by (simp add: doTokenRequest_def)
  obtain b where b: "encode t = Inr b" using enc by blast
  have "fst (msiHandler p ua getenv cenv getToken now encode errMsg r rw w) =
      writeBody b (rw \<lparr> rw_header := headerSet (headerSet (rw_header rw) ''Server'' ua) contentType ''application/json'' \<rparr>)"
    using eff res cid(2) c(1) t(1) b by (simp add: msiHandler_def r Let_def)
  then show ?thesis using tok(2) t(2) b r by auto
qed

subsection \<open>The chain\<close>

text \<open>
  C11: A workload behind the proxy gets tokens of its client.  After a successful create, a pod of
  the account that asks for the proxy, once mutated, has a sidecar whose process runs the proxy
  on the port of the pod for the tenant of the account.  If the credential library gets tokens
  for the clients for which the directory exchanges the account's token with the audience of
  the projected volume, a token request that names a resource and no client is answered with
  status 200 and a token for the client of the account and for the scope of the resource.
\<close>

theorem proxied_workload:
  assumes "lawfulEnv eq sdk view env" "lookupsAnswered sdk" "CHR 0x27 \<notin> set n"
    and "derivesIDs n (cst_data s)" "unambiguous eq n (view (cst_world s))"
    and "clashesServe eq n (cst_data s) (view (cst_world s))" "createCommand env [] s = (None, t)"
    and st: "dir_accounts (view (cst_world t)) (createKey (cst_data s)) = Some st"
      "plainValue (getClientID st)" "plainValue (ce_tenantID env)"
    and mut: "mutatePod m lvl st p = Inr p'" "pm_audience m = DefaultAudience" "\<not> isUsingCustomTokenEndpoint m p"
    and inj: "shouldInjectProxySidecar p"
      "ProxySidecarContainerName \<notin> ct_name ` (set (ps_initContainers (pod_spec p)) \<union> set (ps_containers (pod_spec p)))"
      "ProxySidecarContainerName \<notin> getSkipContainers p"
  shows "\<exists>port c e audience cas. getProxyPort p = Inr port \<and> ct_name c = ProxySidecarContainerName \<and>
    c \<in> set (if pm_useNativeSidecar m then ps_initContainers (pod_spec p') else ps_containers (pod_spec p')) \<and>
    find (\<lambda>v. vol_name v = volumeOf p) (ps_volumes (pod_spec p')) =
      Some \<lparr> vol_name = volumeOf p, vol_source = Projected (ServiceAccountTokenProjection TokenFilePath e audience # cas) \<rparr> \<and>
    (\<forall>(pp :: 'p proxy_process) w w1. runsWith c (pp_getenv pp) \<and> pp_setLogLevel pp lvl w = (Inr (), w1) \<longrightarrow>
       proxyMain pp (ct_args c) w =
         (case pp_run pp \<lparr> px_port = port, px_tenantID = ce_tenantID env \<rparr> w1 of
            (Some x, w2) \<Rightarrow> (ExitFatal (WrapError ''setup: failed to run proxy'' x), w2)
          | (None, w2) \<Rightarrow> (ExitSuccess, w2))) \<and>
    (\<forall>getenv r credOf issued (cenv :: ('v, 'c) cred_env) getToken now encode errMsg ua v.
       runsWith c getenv \<and> fst (parseTokenRequest r) = [] \<and> snd (parseTokenRequest r) \<noteq> [] \<and>
       servesClients (\<lambda>cid. exchanges (view (cst_world t)) cid (cd_serviceAccountIssuerURL (cst_data s))
         (GetFederatedCredentialSubject (cd_serviceAccountNamespace (cst_data s)) (cd_serviceAccountName (cst_data s)))
         audience) credOf issued cenv getToken \<and> (\<forall>x. \<exists>b. encode x = Inr b) \<longrightarrow>
       (\<exists>x b. issued (tk_accessToken x) (getClientID st) (ce_tenantID env) (getScope (snd (parseTokenRequest r))) \<and>
          encode x = Inr b \<and>
          (let rw = fst (msiHandler \<lparr> px_port = port, px_tenantID = ce_tenantID env \<rparr> ua getenv cenv getToken now encode
              errMsg r freshWriter v) in statusOf rw = Some 200 \<and> rw_body rw = b)))"
proof -
  note fed = federated_account [OF assms(1-7) st(1)]
  have tid: "getTenantID st (pm_config m) = ce_tenantID env" by (rule fed(2))
  let ?ok = "\<lambda>cid. exchanges (view (cst_world t)) cid (cd_serviceAccountIssuerURL (cst_data s))
      (GetFederatedCredentialSubject (cd_serviceAccountNamespace (cst_data s)) (cd_serviceAccountName (cst_data s)))
      DefaultAudience"
  obtain e cas where vol: "find (\<lambda>v. vol_name v = volumeOf p) (ps_volumes (pod_spec p')) =
      Some \<lparr> vol_name = volumeOf p, vol_source = Projected
        (ServiceAccountTokenProjection TokenFilePath e DefaultAudience # cas) \<rparr>"
    using mutated_volume [OF mut(1)] mut(2,3) by auto
  have cid: "getClientID st \<noteq> []" using st(2) by (simp add: plainValue_def)
  have answers: "\<exists>x b. issued (tk_accessToken x) (getClientID st) (ce_tenantID env) (getScope (snd (parseTokenRequest r))) \<and>
      encode x = Inr b \<and>
      (let rw = fst (msiHandler \<lparr> px_port = port, px_tenantID = ce_tenantID env \<rparr> ua getenv cenv getToken now encode
          errMsg r freshWriter v) in statusOf rw = Some 200 \<and> rw_body rw = b)"
    if var: "getenv AzureClientIDEnvVar = getClientID st" and r: "fst (parseTokenRequest r) = []" "snd (parseTokenRequest r) \<noteq> []"
      and serves: "servesClients ?ok credOf issued cenv getToken" and enc: "\<forall>x. \<exists>b. encode x = Inr b"
    for getenv r credOf issued and cenv :: "('v, 'c) cred_env" and getToken now encode errMsg ua v port
  proof -
    have "effectiveClientID getenv r = getClientID st" using var r(1) by (simp add: effectiveClientID_def)
    from proxy_answers [OF serves fed(1) cid this r(2) enc,
        of "\<lparr> px_port = port, px_tenantID = ce_tenantID env \<rparr>" ua now errMsg freshWriter v]
    show ?thesis by (elim exE conjE) (intro exI conjI; (assumption | simp add: Let_def statusOf_def freshWriter_def writeBody_def writeHeader_def))
  qed
  show ?thesis
    using injected_proxy [where 'a = 'p, OF mut(1) inj, unfolded tid, OF st(3)]
    apply (elim exE conjE)
    subgoal premises prems for port c
      using prems(5) st(2)
      by (intro exI [of _ port] exI [of _ c] exI [of _ e] exI [of _ DefaultAudience] exI [of _ cas] conjI prems(1-4) vol allI impI,
          elim conjE) (rule answers, simp_all)
    done
qed

text \<open>A credential library over the concrete directory: it issues tokens for the clients that are there.\<close>

definition listCreds :: "((string \<times> string) list, string \<times> string) cred_env" where
  "listCreds = \<lparr> ce_get = (\<lambda>k w. (if k \<in> set w then Some k else None, w)), ce_add = (\<lambda>k c w. k # w),
     ce_new = (\<lambda>cid tid w. (Inr (cid, tid), w)), ce_do = (\<lambda>k f. f) \<rparr>"

definition listToken :: "directory_lists \<Rightarrow> string \<times> string \<Rightarrow> string \<Rightarrow> ((string \<times> string) list, string \<times> int) io" where
  "listToken l c scope w =
     (if list_ex (\<lambda>a. app_appId a = fst c) (l_apps l) then (Inr (fst c @ '':'' @ scope, 3600 * second), w)
      else (Inl (GoError ''AADSTS700016''), w))"

lemma list_serves:
  "servesClients (\<lambda>cid. exchanges (shows_lists l) cid issuer subject audience) (\<lambda>c cid tid. c = (cid, tid))
     (\<lambda>tok cid tid scope. tok = cid @ '':'' @ scope) listCreds (listToken l)"
  by (auto simp: servesClients_def listCreds_def listToken_def exchanges_def shows_lists_def list_ex_iff)

theorem proxied_workload_witness:
  "\<exists>p' c. mutatePod demoMutator [] (wantedAccount listEnv listApp demoCreateData) azurePod = Inr p' \<and>
    c \<in> set (ps_initContainers (pod_spec p')) \<and> ct_name c = ProxySidecarContainerName \<and>
    (\<forall>getenv r. runsWith c getenv \<and> fst (parseTokenRequest r) = [] \<and> snd (parseTokenRequest r) \<noteq> [] \<longrightarrow>
       (let rw = fst (msiHandler \<lparr> px_port = 8080, px_tenantID = ''tenant'' \<rparr> [] getenv listCreds (listToken createdLists)
          0 (\<lambda>t. Inr (tk_accessToken t)) (\<lambda>e. []) r freshWriter [])
        in statusOf rw = Some 200 \<and> rw_body rw = app_appId listApp @ '':'' @ getScope (snd (parseTokenRequest r))))"
proof -
  let ?sa = "wantedAccount listEnv listApp demoCreateData"
  obtain t where t: "createCommand listEnv [] (listCreateState emptyLists) = (None, t)" "cst_world t = createdLists"
    using list_create_runs by blast
  have s: "cst_world (listCreateState emptyLists) = emptyLists" "cst_data (listCreateState emptyLists) = demoCreateData"
    by (simp_all add: listCreateState_def)
  have reads: "ce_tenantID listEnv = ''tenant''" "getClientID ?sa = app_appId listApp"
    by (simp add: listEnv_def) (simp add: wantedAccount_def newServiceAccount_reads)
  have port: "getProxyPort azurePod = Inr 8080"
    using same_meta_reads(3) [of azurePod demoPod] demo_reads(2) by (simp add: azurePod_def)
  obtain p' where p': "mutatePod demoMutator [] ?sa azurePod = Inr p'" using list_pod_mutates by blast
  have st: "dir_accounts (shows_lists (cst_world t)) (createKey (cst_data (listCreateState emptyLists))) = Some ?sa"
    using list_account(3) by (simp add: t(2) s)
  have names: "unambiguous (=) ''app'' (shows_lists (cst_world (listCreateState emptyLists)))"
    "clashesServe (=) ''app'' (cst_data (listCreateState emptyLists)) (shows_lists (cst_world (listCreateState emptyLists)))"
    "plainValue (ce_tenantID listEnv)" "pm_useNativeSidecar demoMutator"
    using list_create_premises(5,6) by (simp_all add: s listEnv_def plainValue_def demoMutator_def)
  note chain = proxied_workload [where 'p = unit and 'c = "string \<times> string" and 'v = "(string \<times> string) list",
      OF list_create_premises(1-4) names(1,2) t(1) st list_account(2) names(3) p' list_pod(4,5,7,8,6)]
  show ?thesis
    using chain [unfolded s t(2) reads]
    apply (elim exE conjE)
    subgoal premises prems for port' c e audience cas
    proof (rule exI [of _ p'], rule exI [of _ c], intro conjI p' prems(2) prems(3) [unfolded if_P [OF names(4)]] allI impI)
      fix getenv r
      assume r: "runsWith c getenv \<and> fst (parseTokenRequest r) = [] \<and> snd (parseTokenRequest r) \<noteq> []"
      have "port' = 8080" using prems(1) port by simp
      then show "let rw = fst (msiHandler \<lparr> px_port = 8080, px_tenantID = ''tenant'' \<rparr> [] getenv listCreds (listToken createdLists)
            0 (\<lambda>t. Inr (tk_accessToken t)) (\<lambda>e. []) r freshWriter [])
          in statusOf rw = Some 200 \<and> rw_body rw = app_appId listApp @ '':'' @ getScope (snd (parseTokenRequest r))"
        using prems(6) [rule_format, of getenv r "\<lambda>c cid tid. c = (cid, tid)" "\<lambda>tok cid tid scope. tok = cid @ '':'' @ scope"
            listCreds "listToken createdLists" "\<lambda>t. Inr (tk_accessToken t)" "[]" 0 "\<lambda>e. []" "[]"] r list_serves
        by auto
    qed
    done
qed

end
