(* ===== verification/Directory_Webhook.thy ===== *)
theory Directory_Webhook
  imports Directory_Correct Webhook_Main
begin

section \<open>Federation through the deployed webhook\<close>

text \<open>
  The whole chain with the process of the webhook: started with the command line of its
  deployment, it serves a mutator whose pods have tokens of the audience that the create
  command federates.
\<close>

lemma served_mutator:
  assumes "setup_reachable env fs s" and "hookServes s m"
    and "stringFlag fs ''audience'' = []" "stringFlag fs ''custom-token-endpoint-annotation-suffix'' = []"
      "stringFlag fs ''custom-token-endpoint-audience'' = []"
  shows "pm_audience m = DefaultAudience" "\<not> isUsingCustomTokenEndpoint m p"
proof -
  have "buildMutator env fs = Inr m"
    using setup_invariant [OF assms(1)] assms(2) by (auto simp: hookServes_def)
  then have new: "NewPodMutator env [] [] [] = Inr m" using assms(3-5) by (simp add: buildMutator_def)
  then show "pm_audience m = DefaultAudience" by (rule NewPodMutator_InrE) simp
  have "pm_customTokenEndpoint m = disabledCTE"
    using new by (rule NewPodMutator_InrE) (simp add: newCustomTokenEndpoint_def)
  then show "\<not> isUsingCustomTokenEndpoint m p" by (simp add: isUsingCustomTokenEndpoint_def disabledCTE_def)
qed

text \<open>
  What a mutator makes of every pod of an account: its containers find a client id and a
  projected token with an audience for which the directory exchanges the account's token.
\<close>

definition podsFederated :: "directory \<Rightarrow> service_account \<Rightarrow> string \<Rightarrow> string \<Rightarrow> podMutator \<Rightarrow> bool" where
  "podsFederated d st issuer subject m \<longleftrightarrow>
     (\<forall>lvl p p'. \<forall>c \<in> set (ps_containers (pod_spec p)). mutatePod m lvl st p = Inr p' \<longrightarrow>
        ct_name c \<notin> getSkipContainers p \<longrightarrow> injectedNames \<inter> ev_name ` set (ct_env c) = {} \<longrightarrow>
        (\<exists>e audience cas. \<exists>c' \<in> set (ps_containers (pod_spec p')).
           find (\<lambda>v. vol_name v = volumeOf p) (ps_volumes (pod_spec p')) = Some \<lparr> vol_name = volumeOf p,
             vol_source = Projected (ServiceAccountTokenProjection TokenFilePath e audience # cas) \<rparr> \<and>
           ct_name c' = ct_name c \<and>
           (\<forall>getenv. runsWith c' getenv \<longrightarrow> exchanges d (getenv ''AZURE_CLIENT_ID'') issuer subject audience)))"

text \<open>
  C5: The deployed webhook serves federated workloads.  The arguments of the deployment parse
  with nothing left, so the process sets up the manager with their flags; and after a
  successful create, whatever mutator its webhook comes to serve makes of a pod of the account
  one whose containers find a client id and a projected token with an audience for which the
  directory exchanges the account's token.
\<close>

theorem deployed_webhook_federates:
  assumes "lawfulEnv eq sdk view env" "lookupsAnswered sdk" "CHR 0x27 \<notin> set n"
    and "derivesIDs n (cst_data s)" "unambiguous eq n (view (cst_world s))"
    and "clashesServe eq n (cst_data s) (view (cst_world s))" "createCommand env [] s = (None, t)"
    and st: "dir_accounts (view (cst_world t)) (createKey (cst_data s)) = Some st" "plainValue (getClientID st)"
  shows "\<exists>fs. parseFlags webhookFlags (chartArgs level metricsAddr backend) = Inr (fs, []) \<and>
    fst (webhookMain wc (chartArgs level metricsAddr backend) w) =
      (case fst (webhookMainErr wc fs w) of MainReturned (Some e) \<Rightarrow> Inr (MainDied e) | r \<Rightarrow> Inr r) \<and>
    (\<forall>(menv :: 'v mutator_env) u m. setup_reachable menv fs u \<and> hookServes u m \<longrightarrow>
       podsFederated (view (cst_world t)) st (cd_serviceAccountIssuerURL (cst_data s))
         (GetFederatedCredentialSubject (cd_serviceAccountNamespace (cst_data s)) (cd_serviceAccountName (cst_data s))) m)"
proof (intro exI [of _ "chartFlags level metricsAddr backend"] conjI allI impI, goal_cases)
  case 1
  show ?case by (rule chart_parses)
next
  case 2
  show ?case
    by (simp add: webhookMain_def chart_parses split: prod.split main_outcome.split option.split)
next
  case (3 menv u m)
  then have "setup_reachable menv (chartFlags level metricsAddr backend) u" "hookServes u m" by simp_all
  note m = served_mutator [OF this chartFlags_read(1-3)]
  show ?case
    unfolding podsFederated_def
    by (intro allI ballI impI) (rule federated_pod [OF federated_account(1) [OF assms(1-8)] st(2) _ m])
qed

text \<open>The webhook of the chart, whose certificates get ready and whose mutator is registered.\<close>

lemma chart_serves: "\<exists>u m. setup_reachable demoEnv (chartFlags level metricsAddr backend) u \<and> hookServes u m"
proof -
  let ?fs = "chartFlags level metricsAddr backend"
  have "\<exists>m. NewPodMutator demoEnv [] [] [] = Inr m"
    by (rule demo_builds_with) (simp add: newCustomTokenEndpoint_def)
  then obtain m where m: "buildMutator demoEnv ?fs = Inr m" using chartFlags_read(1-3) by (auto simp: buildMutator_def)
  let ?s0 = "initialSetup ?fs"
  let ?s1 = "?s0 \<lparr> ss_ready := True \<rparr>"
  let ?s2 = "?s1 \<lparr> ss_hook := HookBuilding \<rparr>"
  let ?s3 = "?s2 \<lparr> ss_hook := HookRegistered m \<rparr>"
  have "setup_step demoEnv ?fs ?s0 ?s1" by (rule setup_step.rotated) (simp_all add: initialSetup_def chartFlags_read)
  moreover have "setup_step demoEnv ?fs ?s1 ?s2" by (rule setup_step.unblock) (simp_all add: initialSetup_def)
  moreover have "setup_step demoEnv ?fs ?s2 ?s3" by (rule setup_step.register) (simp_all add: m)
  ultimately have "setup_reachable demoEnv ?fs ?s3" using setup_reachable.intros by blast
  then show ?thesis by (intro exI [of _ ?s3] exI [of _ m]) (simp add: hookServes_def)
qed

theorem deployed_webhook_federates_witness:
  "\<exists>fs u m p' c'. parseFlags webhookFlags (chartArgs ''info'' '':8095'' ''prometheus'') = Inr (fs, []) \<and>
    setup_reachable demoEnv fs u \<and> hookServes u m \<and>
    mutatePod m [] (wantedAccount listEnv listApp demoCreateData) azurePod = Inr p' \<and>
    c' \<in> set (ps_containers (pod_spec p')) \<and>
    (\<forall>getenv. runsWith c' getenv \<longrightarrow>
       (\<exists>audience. exchanges (shows_lists createdLists) (getenv ''AZURE_CLIENT_ID'') ''https://issuer''
          (GetFederatedCredentialSubject ''ns'' ''sa'') audience))"
proof -
  let ?sa = "wantedAccount listEnv listApp demoCreateData"
  let ?args = "chartArgs ''info'' '':8095'' ''prometheus''" and ?fs = "chartFlags ''info'' '':8095'' ''prometheus''"
  obtain t where t: "createCommand listEnv [] (listCreateState emptyLists) = (None, t)" "cst_world t = createdLists"
    using list_create_runs by blast
  have s: "cst_world (listCreateState emptyLists) = emptyLists" "cst_data (listCreateState emptyLists) = demoCreateData"
    by (simp_all add: listCreateState_def)
  have data: "cd_serviceAccountIssuerURL demoCreateData = ''https://issuer''"
    "cd_serviceAccountNamespace demoCreateData = ''ns''" "cd_serviceAccountName demoCreateData = ''sa''"
    by (simp_all add: demoCreateData_def)
  obtain u m where u: "setup_reachable demoEnv ?fs u" "hookServes u m" using chart_serves by blast
  obtain p' where p': "mutatePod m [] ?sa azurePod = Inr p'" using list_pod_mutates by blast
  have st: "dir_accounts (shows_lists (cst_world t)) (createKey (cst_data (listCreateState emptyLists))) = Some ?sa"
    using list_account(3) by (simp add: t(2) s)
  have names: "unambiguous (=) ''app'' (shows_lists (cst_world (listCreateState emptyLists)))"
    "clashesServe (=) ''app'' (cst_data (listCreateState emptyLists)) (shows_lists (cst_world (listCreateState emptyLists)))"
    using list_create_premises(5,6) by (simp_all add: s)
  obtain fs where fs: "parseFlags webhookFlags ?args = Inr (fs, [])"
    and served: "\<forall>(menv :: unit mutator_env) u m. setup_reachable menv fs u \<and> hookServes u m \<longrightarrow>
       podsFederated (shows_lists createdLists) ?sa ''https://issuer'' (GetFederatedCredentialSubject ''ns'' ''sa'') m"
    using deployed_webhook_federates [where 'v = unit and level = "''info''" and metricsAddr = "'':8095''" and
        backend = "''prometheus''" and w = "[]" and wc = "loggedCalls (\<lambda>_. None) [] \<lparr> bi_vcs = [], bi_buildTime = [],
          bi_buildVersion = [], bi_goVersion = [], bi_goos = [], bi_goarch = [] \<rparr>", OF list_create_premises(1-4) names t(1) st list_account(2)]
    unfolding s t(2) data by blast
  have "fs = ?fs" using fs by (simp add: chart_parses)
  with served u have pods: "podsFederated (shows_lists createdLists) ?sa ''https://issuer''
      (GetFederatedCredentialSubject ''ns'' ''sa'') m"
    by blast
  obtain c' where c': "c' \<in> set (ps_containers (pod_spec p'))" "\<forall>getenv. runsWith c' getenv \<longrightarrow>
       (\<exists>audience. exchanges (shows_lists createdLists) (getenv ''AZURE_CLIENT_ID'') ''https://issuer''
          (GetFederatedCredentialSubject ''ns'' ''sa'') audience)"
    using pods [unfolded podsFederated_def, rule_format, OF list_pod(1) p' list_pod(2,3)] by blast
  show ?thesis
    by (rule exI [of _ fs], rule exI [of _ u], rule exI [of _ m], rule exI [of _ p'], rule exI [of _ c'])
      (intro conjI fs u [folded \<open>fs = ?fs\<close>] p' c')
qed

end
